(* ===== verification/Prelude.thy ===== *)
theory Prelude
  imports Main "HOL-Library.Word" "HOL-Library.Monad_Syntax"
begin

text \<open>
  Shared vocabulary of the development: the C integer types of the firmware as machine
  words, the AVR bit macros, the little-endian layout of 16- and 32-bit objects, the
  memory-mapped I/O space as a parameter, and the generic lemmas the components use.
\<close>

unbundle bit_operations_syntax

section \<open>C integer types\<close>

type_synonym u8 = "8 word"
type_synonym u16 = "16 word"
type_synonym u32 = "32 word"

text \<open>The AVR macro \<open>_BV(n)\<close>, that is \<open>(1 << n)\<close>.\<close>

definition BV :: "nat \<Rightarrow> 'a::len word" where
  "BV n = push_bit n 1"

text \<open>Collections: bit tests, I/O steps, codec laws and buffer laws.\<close>

named_theorems bv_simps
named_theorems codec_simps
named_theorems ring_simps

lemma bit_BV [bv_simps]: "bit (BV n :: 'a::len word) i \<longleftrightarrow> i = n \<and> n < LENGTH('a)"
  by (auto simp: BV_def bit_simps)

lemma unat_bounds:
  "unat (a :: u8) < 256" "unat (b :: u16) < 65536" "unat (c :: u32) < 4294967296"
  using unsigned_less [of a] unsigned_less [of b] unsigned_less [of c] by simp_all

lemma bit_u8_ge: "8 \<le> n \<Longrightarrow> \<not> bit (a :: u8) n"
  using bit_imp_le_length [of a n] by auto

section \<open>Little-endian layout\<close>

text \<open>AVR and the host of the driver both store integers least significant byte first.\<close>

definition bytes_of_u16 :: "u16 \<Rightarrow> u8 list" where
  "bytes_of_u16 w = [ucast w, ucast (drop_bit 8 w)]"

definition bytes_of_u32 :: "u32 \<Rightarrow> u8 list" where
  "bytes_of_u32 w = [ucast w, ucast (drop_bit 8 w), ucast (drop_bit 16 w), ucast (drop_bit 24 w)]"

definition u16_of_bytes :: "u8 list \<Rightarrow> u16" where
  "u16_of_bytes bs = ucast (bs ! 0) OR push_bit 8 (ucast (bs ! 1))"

definition u32_of_bytes :: "u8 list \<Rightarrow> u32" where
  "u32_of_bytes bs = ucast (bs ! 0) OR push_bit 8 (ucast (bs ! 1))
     OR push_bit 16 (ucast (bs ! 2)) OR push_bit 24 (ucast (bs ! 3))"

lemma length_bytes_of [simp]:
  "length (bytes_of_u16 h) = 2" "length (bytes_of_u32 w) = 4"
  by (simp_all add: bytes_of_u16_def bytes_of_u32_def)

lemma u16_bytes_roundtrip [codec_simps]: "u16_of_bytes (bytes_of_u16 w) = w"
  by (rule bit_word_eqI) (auto simp: u16_of_bytes_def bytes_of_u16_def bit_simps)

lemma u32_bytes_roundtrip [codec_simps]: "u32_of_bytes (bytes_of_u32 w) = w"
proof (rule bit_word_eqI)
  fix n assume "n < LENGTH(32)"
  then consider "n < 8" | "8 \<le> n" "n < 16" | "16 \<le> n" "n < 24" | "24 \<le> n" "n < 32"
    by fastforce
  then show "bit (u32_of_bytes (bytes_of_u32 w)) n = bit w n"
    by cases (auto simp: u32_of_bytes_def bytes_of_u32_def bit_simps)
qed

lemma u32_of_bytes_take [codec_simps]:
  "4 \<le> length bs \<Longrightarrow> u32_of_bytes (take 4 bs) = u32_of_bytes bs"
  by (simp add: u32_of_bytes_def)

lemma length_four_conv: "length bs = 4 \<longleftrightarrow> (\<exists>a b c d. bs = [a, b, c, d])"
  by (auto simp: numeral_eq_Suc length_Suc_conv)

lemma bytes_u32_roundtrip [codec_simps]:
  "length bs = 4 \<Longrightarrow> bytes_of_u32 (u32_of_bytes bs) = bs"
  by (auto simp: length_four_conv u32_of_bytes_def bytes_of_u32_def bit_simps
      bit_u8_ge intro!: bit_word_eqI)

section \<open>Byte loops\<close>

text \<open>
  The two loop shapes of the firmware: \<open>for (i = 0; i < n; i++) put(data[i])\<close> and
  \<open>for (i = 0; i < n; i++) data[i] = get()\<close>, over any state.
\<close>

primrec put_bytes :: "('q \<Rightarrow> u8 \<Rightarrow> 'q) \<Rightarrow> u8 list \<Rightarrow> 'q \<Rightarrow> 'q" where
  "put_bytes put [] q = q"
| "put_bytes put (x # xs) q = put_bytes put xs (put q x)"

primrec get_bytes :: "('q \<Rightarrow> u8 \<times> 'q) \<Rightarrow> nat \<Rightarrow> 'q \<Rightarrow> u8 list \<times> 'q" where
  "get_bytes get 0 q = ([], q)"
| "get_bytes get (Suc n) q = (let (x, q) = get q; (xs, q) = get_bytes get n q in (x # xs, q))"

lemma put_bytes_append: "put_bytes put (xs @ ys) q = put_bytes put ys (put_bytes put xs q)"
  by (induction xs arbitrary: q) simp_all

lemma length_get_bytes [simp]: "length (fst (get_bytes get n q)) = n"
  by (induction n arbitrary: q) (simp_all add: Let_def split_beta)

section \<open>Loops that may not end\<close>

text \<open>
  A C loop whose exit depends on hardware. \<open>body\<close> is one turn: \<open>Inl r\<close> leaves the loop with
  \<open>r\<close>, \<open>Inr s\<close> goes round again, \<open>None\<close> is a turn that never ends because an inner loop
  does not. \<open>loop body s = None\<close> means that the loop runs forever.
\<close>

partial_function (option) loop :: "('s \<Rightarrow> ('r + 's) option) \<Rightarrow> 's \<Rightarrow> 'r option" where
  "loop body s = (case body s of None \<Rightarrow> None | Some x \<Rightarrow>
     (case x of Inl r \<Rightarrow> Some r | Inr s' \<Rightarrow> loop body s'))"

lemma loop_turn:
  "body s = Some (Inl r) \<Longrightarrow> loop body s = Some r"
  "body s = Some (Inr s') \<Longrightarrow> loop body s = loop body s'"
  "body s = None \<Longrightarrow> loop body s = None"
  by (subst loop.simps, simp)+

lemma loop_returns:
  fixes m :: "'s \<Rightarrow> nat"
  assumes "I s"
    and "\<And>s. I s \<Longrightarrow> (\<exists>r. body s = Some (Inl r)) \<or> (\<exists>s'. body s = Some (Inr s') \<and> I s' \<and> m s' < m s)"
  shows "\<exists>r. loop body s = Some r"
  using assms(1)
proof (induction "m s" arbitrary: s rule: less_induct)
  case less
  from assms(2) [OF less.prems] show ?case
    by (auto simp: loop_turn intro: less.hyps)
qed

lemma loop_invariant:
  assumes "loop body s = Some r" "I s"
    and step: "\<And>s s'. I s \<Longrightarrow> body s = Some (Inr s') \<Longrightarrow> I s'"
    and exit: "\<And>s r. I s \<Longrightarrow> body s = Some (Inl r) \<Longrightarrow> Q r"
  shows "Q r"
proof -
  have "I s \<longrightarrow> Q r"
    by (rule loop.raw_induct [OF _ assms(1), where P = "\<lambda>b s r. b = body \<longrightarrow> I s \<longrightarrow> Q r", THEN mp])
      (auto split: option.splits sum.splits intro: exit, blast dest: step)
  with assms(2) show ?thesis by blast
qed

lemma loop_forever:
  assumes "I s" and "\<And>s. I s \<Longrightarrow> \<exists>s'. body s = Some (Inr s') \<and> I s'"
  shows "loop body s = None"
proof (rule ccontr)
  assume "loop body s \<noteq> None"
  then obtain r where "loop body s = Some r" by blast
  then show False
    by (rule loop_invariant [where I = I]) (use assms in fastforce)+
qed

lemma loop_returns_wf:
  assumes "wf R" "I s"
    and "\<And>s. I s \<Longrightarrow> (\<exists>r. body s = Some (Inl r)) \<or> (\<exists>s'. body s = Some (Inr s') \<and> I s' \<and> (s', s) \<in> R)"
  shows "\<exists>r. loop body s = Some r"
  using assms(1,2)
proof (induction s rule: wf_induct_rule)
  case (less s)
  from assms(3) [OF less.prems] show ?case
    by (auto simp: loop_turn intro: less.IH)
qed

lemma unat_ucast_u16: "unat (ucast (a :: u8) :: u16) = unat a"
  using unat_bounds(1) [of a] by (simp add: unsigned_ucast_eq take_bit_nat_eq_self)

lemma ucast_u16_inj: "(ucast (a :: u8) :: u16) = ucast b \<longleftrightarrow> a = b"
  using word_unat_eq_iff [of "ucast a :: u16" "ucast b"] word_unat_eq_iff [of a b] by (simp only: unat_ucast_u16)

end
