(* ===== verification/Avr_Registers.thy ===== *)
theory Avr_Registers
  imports Prelude
begin

text \<open>
  The part of the C library header \<open>avr/io.h\<close> the firmware uses: the bit numbers of the
  ATmega32U2 registers (the MCU of \<open>Projects/AvalonBTC/makefile\<close>), and the memory-mapped
  registers that hardware, not the program, gives their value (those of the host controller, which
  only larger AVR8 devices have, included): reading or writing one of these
  is an access to the parameter \<open>D :: 'h io\<close>, whose state type \<open>'h\<close> stands for the
  peripherals. Registers that only hold what the program stored (port latches, data direction,
  timer configuration) are fields of the records that own them.
\<close>

abbreviation (input) "OCIE0A \<equiv> 1 :: nat"
abbreviation (input) "WGM01 \<equiv> 1 :: nat"
abbreviation (input) "COM1B0 \<equiv> 4 :: nat"
abbreviation (input) "WGM12 \<equiv> 3 :: nat"
abbreviation (input) "CS10 \<equiv> 0 :: nat"
abbreviation (input) "WDRF \<equiv> 3 :: nat"
abbreviation (input) "SPIE \<equiv> 7 :: nat"
abbreviation (input) "SPE \<equiv> 6 :: nat"
abbreviation (input) "DORD \<equiv> 5 :: nat"
abbreviation (input) "MSTR \<equiv> 4 :: nat"
abbreviation (input) "CPHA \<equiv> 2 :: nat"
abbreviation (input) "SPIF \<equiv> 7 :: nat"
abbreviation (input) "SPI2X \<equiv> 0 :: nat"
abbreviation (input) "TXINI \<equiv> 0 :: nat"
abbreviation (input) "RXOUTI \<equiv> 2 :: nat"
abbreviation (input) "RXSTPI \<equiv> 3 :: nat"
abbreviation (input) "RWAL \<equiv> 5 :: nat"
abbreviation (input) "FIFOCON \<equiv> 7 :: nat"
abbreviation (input) "EPEN \<equiv> 0 :: nat"
abbreviation (input) "RSTDT \<equiv> 3 :: nat"
abbreviation (input) "STALLRQC \<equiv> 4 :: nat"
abbreviation (input) "STALLRQ \<equiv> 5 :: nat"
abbreviation (input) "EPDIR \<equiv> 0 :: nat"
abbreviation (input) "EPTYPE0 \<equiv> 6 :: nat"
abbreviation (input) "ALLOC \<equiv> 1 :: nat"
abbreviation (input) "EPBK0 \<equiv> 2 :: nat"
abbreviation (input) "EPSIZE0 \<equiv> 4 :: nat"
abbreviation (input) "NBUSYBK0 \<equiv> 0 :: nat"
abbreviation (input) "CFGOK \<equiv> 7 :: nat"
abbreviation (input) "RXSTPE \<equiv> 3 :: nat"
abbreviation (input) "ADDEN \<equiv> 7 :: nat"
abbreviation (input) "DETACH \<equiv> 0 :: nat"
abbreviation (input) "RMWKUP \<equiv> 1 :: nat"
abbreviation (input) "SUSPI \<equiv> 0 :: nat"
abbreviation (input) "SOFI \<equiv> 2 :: nat"
abbreviation (input) "EORSTI \<equiv> 3 :: nat"
abbreviation (input) "WAKEUPI \<equiv> 4 :: nat"
abbreviation (input) "SUSPE \<equiv> 0 :: nat"
abbreviation (input) "SOFE \<equiv> 2 :: nat"
abbreviation (input) "EORSTE \<equiv> 3 :: nat"
abbreviation (input) "WAKEUPE \<equiv> 4 :: nat"
abbreviation (input) "FRZCLK \<equiv> 5 :: nat"
abbreviation (input) "USBE \<equiv> 7 :: nat"
abbreviation (input) "PLOCK \<equiv> 0 :: nat"
abbreviation (input) "PLLE \<equiv> 1 :: nat"
abbreviation (input) "PLLP0 \<equiv> 2 :: nat"
abbreviation (input) "REGDIS \<equiv> 0 :: nat"
abbreviation (input) "SPR0 \<equiv> 0 :: nat"
abbreviation (input) "RXC1 \<equiv> 7 :: nat"
abbreviation (input) "UDRE1 \<equiv> 5 :: nat"
abbreviation (input) "U2X1 \<equiv> 1 :: nat"
abbreviation (input) "RXCIE1 \<equiv> 7 :: nat"
abbreviation (input) "RXEN1 \<equiv> 4 :: nat"
abbreviation (input) "TXEN1 \<equiv> 3 :: nat"
abbreviation (input) "UPM11 \<equiv> 5 :: nat"
abbreviation (input) "UPM10 \<equiv> 4 :: nat"
abbreviation (input) "USBS1 \<equiv> 3 :: nat"
abbreviation (input) "UCSZ11 \<equiv> 2 :: nat"
abbreviation (input) "UCSZ10 \<equiv> 1 :: nat"

text \<open>Bit numbers of the host controller of the AT90USB1287, for the host mode of the USB stack.\<close>

abbreviation (input) "PEN \<equiv> 0 :: nat"
abbreviation (input) "INMODE \<equiv> 5 :: nat"
abbreviation (input) "PFREEZE \<equiv> 6 :: nat"
abbreviation (input) "PTOKEN0 \<equiv> 4 :: nat"
abbreviation (input) "PEPNUM0 \<equiv> 0 :: nat"
abbreviation (input) "PEPNUM1 \<equiv> 1 :: nat"
abbreviation (input) "RXINI \<equiv> 0 :: nat"
abbreviation (input) "RXSTALLI \<equiv> 1 :: nat"
abbreviation (input) "TXOUTI \<equiv> 2 :: nat"
abbreviation (input) "TXSTPI \<equiv> 3 :: nat"
abbreviation (input) "PERRI \<equiv> 4 :: nat"
abbreviation (input) "NAKEDI \<equiv> 6 :: nat"
abbreviation (input) "SOFEN \<equiv> 0 :: nat"
abbreviation (input) "RESET \<equiv> 1 :: nat"
abbreviation (input) "RESUME \<equiv> 2 :: nat"
abbreviation (input) "DCONNI \<equiv> 0 :: nat"
abbreviation (input) "DDISCI \<equiv> 1 :: nat"
abbreviation (input) "RSTI \<equiv> 2 :: nat"
abbreviation (input) "RXRSMI \<equiv> 4 :: nat"
abbreviation (input) "HSOFI \<equiv> 5 :: nat"
abbreviation (input) "SRPI \<equiv> 0 :: nat"
abbreviation (input) "VBERRI \<equiv> 1 :: nat"
abbreviation (input) "BCERRI \<equiv> 2 :: nat"
abbreviation (input) "VBUSRQC \<equiv> 0 :: nat"
abbreviation (input) "VBUSREQ \<equiv> 1 :: nat"
abbreviation (input) "VBUSHWC \<equiv> 2 :: nat"
abbreviation (input) "UVREGE \<equiv> 0 :: nat"
abbreviation (input) "UVCONE \<equiv> 4 :: nat"
abbreviation (input) "UIMOD \<equiv> 7 :: nat"
abbreviation (input) "SPEED \<equiv> 3 :: nat"
abbreviation (input) "HOST \<equiv> 6 :: nat"
abbreviation (input) "OTGPADE \<equiv> 4 :: nat"
abbreviation (input) "VBUSTE \<equiv> 0 :: nat"
abbreviation (input) "IDTE \<equiv> 1 :: nat"

section \<open>Registers with a life of their own\<close>

datatype ioreg =
    SPDR | SPSR | PINB | PIND
  | UENUM | UERST | UECONX | UECFG0X | UECFG1X | UEIENX | UEINTX | UEINT | UEBCLX | UEDATX | UESTA0X
  | UDADDR | UDCON | UDINT | UDIEN | UDFNUML | UDFNUMH | USBCON | PLLCSR | REGCR
  | UDR1 | UCSR1A | GPIOR0
  | UPNUM | UPRST | UPCONX | UPCFG0X | UPCFG1X | UPCFG2X | UPIENX | UPINTX | UPINT | UPBCLX | UPBCHX
  | UPDATX | UPSTAX | UPERRX | UPINRQX | UHCON | UHINT | UHIEN | UHADDR | UHFNUML | UHFNUMH
  | OTGCON | OTGINT | OTGIEN | UHWCON | USBSTA | USBINT | DDRE | PORTE

text \<open>
  A read may change the peripheral (reading \<open>UEDATX\<close> or \<open>SPDR\<close> advances it, and time passes),
  so it returns the next peripheral state as well. \<open>io_sig\<close> is the factory-programmed
  signature row that \<open>boot_signature_byte_get\<close> reads.
\<close>

record 'h io =
  io_rd :: "ioreg \<Rightarrow> 'h \<Rightarrow> u8 \<times> 'h"
  io_wr :: "ioreg \<Rightarrow> u8 \<Rightarrow> 'h \<Rightarrow> 'h"
  io_sig :: "u8 \<Rightarrow> u8"

text \<open>\<open>R |= m\<close> and \<open>R &= m\<close>: one read, one write.\<close>

definition io_or :: "'h io \<Rightarrow> ioreg \<Rightarrow> u8 \<Rightarrow> 'h \<Rightarrow> 'h" where
  "io_or D r m h = (let (v, h) = io_rd D r h in io_wr D r (v OR m) h)"

definition io_and :: "'h io \<Rightarrow> ioreg \<Rightarrow> u8 \<Rightarrow> 'h \<Rightarrow> 'h" where
  "io_and D r m h = (let (v, h) = io_rd D r h in io_wr D r (v AND m) h)"

text \<open>\<open>R & (1 << n)\<close> as a truth value.\<close>

definition io_test :: "'h io \<Rightarrow> ioreg \<Rightarrow> nat \<Rightarrow> 'h \<Rightarrow> bool \<times> 'h" where
  "io_test D r n h = (let (v, h) = io_rd D r h in (v AND BV n \<noteq> 0, h))"

text \<open>\<open>while (!(R & (1 << n)));\<close>\<close>

definition io_wait :: "'h io \<Rightarrow> ioreg \<Rightarrow> nat \<Rightarrow> 'h \<Rightarrow> 'h option" where
  "io_wait D r n h = loop (\<lambda>h. let (b, h) = io_test D r n h in
     if b then Some (Inl h) else Some (Inr h)) h"

text \<open>System registers a program sets up once: reset flags, watchdog, prescaler, timer 1.\<close>

record mcu =
  MCUSR :: u8
  watchdog :: bool
  clock_div :: nat
  TCCR1A :: u8
  TCCR1B :: u8
  OCR1B :: u8

lemma and_BV_eq_0: "(v :: 'a::len word) AND BV n = 0 \<longleftrightarrow> \<not> bit v n"
proof -
  have "v AND BV n = 0 \<longleftrightarrow> (\<forall>i. \<not> (bit v i \<and> bit (BV n :: 'a word) i))"
    using bit_imp_le_length [of v] by (auto simp: bit_eq_iff bit_and_iff)
  also have "\<dots> \<longleftrightarrow> \<not> bit v n"
    using bit_imp_le_length [of v n] by (auto simp: bit_BV)
  finally show ?thesis .
qed

lemma io_test_bit: "io_test D r n h = (bit (fst (io_rd D r h)) n, snd (io_rd D r h))"
  by (simp add: io_test_def split_beta Let_def and_BV_eq_0)

end
