(* ===== verification/Ports.thy ===== *)
theory Ports
  imports Avr_Registers
begin

text \<open>
  The I/O port latches and the peripheral configuration registers the programs store into, the
  waveform they put on the pins (\<open>pins\<close>: every value given to \<open>PORTB\<close>, \<open>PORTD\<close>,
  \<open>DDRD\<close> and every busy-wait, in order), and the LED drivers of the two boards
  (\<open>LUFA/Drivers/Board/AVR8/AvalonBTC/LEDs.h\<close> on \<open>PORTD\<close>,
  \<open>LUFA/Drivers/Board/AVR8/XilinxFpgaBoard/LEDs.h\<close> on \<open>PORTB\<close>).
\<close>

datatype pin_event = Out_B u8 | Out_D u8 | Dir_D u8 | Delay_us nat

record ports =
  PORTB :: u8
  DDRB :: u8
  PORTC :: u8
  DDRC :: u8
  PORTD :: u8
  DDRD :: u8
  SPCR :: u8
  pins :: "pin_event list"

definition set_PORTB :: "u8 \<Rightarrow> 'a ports_scheme \<Rightarrow> 'a ports_scheme" where
  "set_PORTB v s = s\<lparr>PORTB := v, pins := pins s @ [Out_B v]\<rparr>"

definition set_PORTD :: "u8 \<Rightarrow> 'a ports_scheme \<Rightarrow> 'a ports_scheme" where
  "set_PORTD v s = s\<lparr>PORTD := v, pins := pins s @ [Out_D v]\<rparr>"

definition set_DDRD :: "u8 \<Rightarrow> 'a ports_scheme \<Rightarrow> 'a ports_scheme" where
  "set_DDRD v s = s\<lparr>DDRD := v, pins := pins s @ [Dir_D v]\<rparr>"

definition delay_us :: "nat \<Rightarrow> 'a ports_scheme \<Rightarrow> 'a ports_scheme" where
  "delay_us n s = s\<lparr>pins := pins s @ [Delay_us n]\<rparr>"

lemmas port_defs = set_PORTB_def set_PORTD_def set_DDRD_def delay_us_def

section \<open>LEDs of the AvalonBTC board\<close>

definition LEDS_LED1 :: u8 where "LEDS_LED1 = BV 0"
definition LEDS_LED2 :: u8 where "LEDS_LED2 = BV 1"

text \<open>\<open>LUFA/Drivers/Board/LEDs.h\<close> gives a LED the board does not have the empty mask.\<close>

definition LEDS_LED3 :: u8 where "LEDS_LED3 = 0"

definition LEDS_ALL_LEDS :: u8 where "LEDS_ALL_LEDS = LEDS_LED1 OR LEDS_LED2"

definition LEDs_Init :: "'a ports_scheme \<Rightarrow> 'a ports_scheme" where
  "LEDs_Init s =
     (let s = set_DDRD (DDRD s OR LEDS_ALL_LEDS) s in set_PORTD (PORTD s AND NOT LEDS_ALL_LEDS) s)"

definition LEDs_Disable :: "'a ports_scheme \<Rightarrow> 'a ports_scheme" where
  "LEDs_Disable s =
     (let s = set_DDRD (DDRD s AND NOT LEDS_ALL_LEDS) s in set_PORTD (PORTD s AND NOT LEDS_ALL_LEDS) s)"

definition LEDs_TurnOnLEDs :: "u8 \<Rightarrow> 'a ports_scheme \<Rightarrow> 'a ports_scheme" where
  "LEDs_TurnOnLEDs m s = set_PORTD (PORTD s OR m) s"

definition LEDs_TurnOffLEDs :: "u8 \<Rightarrow> 'a ports_scheme \<Rightarrow> 'a ports_scheme" where
  "LEDs_TurnOffLEDs m s = set_PORTD (PORTD s AND NOT m) s"

definition LEDs_SetAllLEDs :: "u8 \<Rightarrow> 'a ports_scheme \<Rightarrow> 'a ports_scheme" where
  "LEDs_SetAllLEDs m s = set_PORTD ((PORTD s AND NOT LEDS_ALL_LEDS) OR m) s"

definition LEDs_ChangeLEDs :: "u8 \<Rightarrow> u8 \<Rightarrow> 'a ports_scheme \<Rightarrow> 'a ports_scheme" where
  "LEDs_ChangeLEDs m active s = set_PORTD ((PORTD s AND NOT m) OR active) s"

definition LEDs_ToggleLEDs :: "u8 \<Rightarrow> 'a ports_scheme \<Rightarrow> 'a ports_scheme" where
  "LEDs_ToggleLEDs m s = set_PORTD (PORTD s XOR m) s"

definition LEDs_GetLEDs :: "'a ports_scheme \<Rightarrow> u8" where
  "LEDs_GetLEDs s = PORTD s AND LEDS_ALL_LEDS"

lemmas led_mask_defs = LEDS_LED1_def LEDS_LED2_def LEDS_LED3_def LEDS_ALL_LEDS_def

lemmas led_defs = LEDs_Init_def LEDs_Disable_def LEDs_TurnOnLEDs_def LEDs_TurnOffLEDs_def
  LEDs_SetAllLEDs_def LEDs_ChangeLEDs_def LEDs_ToggleLEDs_def LEDs_GetLEDs_def

text \<open>The LED driver only owns PD0 and PD1: the reset line of the ASIC (PD6) is not touched.\<close>

lemma LEDs_keep_reset_line:
  assumes "m = LEDS_LED1 \<or> m = LEDS_LED2 \<or> m = LEDS_LED1 OR LEDS_LED2 \<or> m = LEDS_LED1 OR LEDS_LED3"
  shows "bit (PORTD (LEDs_SetAllLEDs m s)) 6 = bit (PORTD s) 6"
    and "bit (PORTD (LEDs_ToggleLEDs m s)) 6 = bit (PORTD s) 6"
  using assms by (auto simp: led_defs led_mask_defs port_defs bit_simps bit_BV)

lemma LEDs_Set_Get:
  assumes "m AND LEDS_ALL_LEDS = m"
  shows "LEDs_GetLEDs (LEDs_SetAllLEDs m s) = m"
proof -
  have "((PORTD s AND NOT LEDS_ALL_LEDS) OR m) AND LEDS_ALL_LEDS = m AND LEDS_ALL_LEDS"
    by (rule bit_word_eqI) (auto simp: bit_simps)
  with assms show ?thesis by (simp add: led_defs port_defs)
qed

section \<open>LEDs of the XilinxFpgaBoard\<close>

text \<open>
  \<open>LEDS_ALL_LEDS\<close> is the macro text \<open>LEDS_LED1 | LEDS_LED2\<close> without parentheses. The right-hand
  side of \<open>PORTB &= ~LEDS_ALL_LEDS\<close> is \<open>(~LEDS_LED1) | LEDS_LED2\<close>; the operators of
  \<open>PORTB & ~LEDS_ALL_LEDS\<close> group as \<open>(PORTB & ~LEDS_LED1) | LEDS_LED2\<close>, and those of
  \<open>PORTB & LEDS_ALL_LEDS\<close> as \<open>(PORTB & LEDS_LED1) | LEDS_LED2\<close>: the definitions follow the expansion.
\<close>

definition X_LEDS_LED1 :: u8 where "X_LEDS_LED1 = BV 6"
definition X_LEDS_LED2 :: u8 where "X_LEDS_LED2 = BV 7"

definition X_LEDs_Init :: "'a ports_scheme \<Rightarrow> 'a ports_scheme" where
  "X_LEDs_Init s =
     (let s = s\<lparr>DDRB := DDRB s OR (X_LEDS_LED1 OR X_LEDS_LED2)\<rparr>
      in set_PORTB (PORTB s AND (NOT X_LEDS_LED1 OR X_LEDS_LED2)) s)"

definition X_LEDs_Disable :: "'a ports_scheme \<Rightarrow> 'a ports_scheme" where
  "X_LEDs_Disable s =
     (let s = s\<lparr>DDRB := DDRB s AND (NOT X_LEDS_LED1 OR X_LEDS_LED2)\<rparr>
      in set_PORTB (PORTB s AND (NOT X_LEDS_LED1 OR X_LEDS_LED2)) s)"

definition X_LEDs_TurnOnLEDs :: "u8 \<Rightarrow> 'a ports_scheme \<Rightarrow> 'a ports_scheme" where
  "X_LEDs_TurnOnLEDs m s = set_PORTB (PORTB s OR m) s"

definition X_LEDs_TurnOffLEDs :: "u8 \<Rightarrow> 'a ports_scheme \<Rightarrow> 'a ports_scheme" where
  "X_LEDs_TurnOffLEDs m s = set_PORTB (PORTB s AND NOT m) s"

definition X_LEDs_SetAllLEDs :: "u8 \<Rightarrow> 'a ports_scheme \<Rightarrow> 'a ports_scheme" where
  "X_LEDs_SetAllLEDs m s = set_PORTB (((PORTB s AND NOT X_LEDS_LED1) OR X_LEDS_LED2) OR m) s"

definition X_LEDs_ChangeLEDs :: "u8 \<Rightarrow> u8 \<Rightarrow> 'a ports_scheme \<Rightarrow> 'a ports_scheme" where
  "X_LEDs_ChangeLEDs m active s = set_PORTB ((PORTB s AND NOT m) OR active) s"

definition X_LEDs_ToggleLEDs :: "u8 \<Rightarrow> 'a ports_scheme \<Rightarrow> 'a ports_scheme" where
  "X_LEDs_ToggleLEDs m s = set_PORTB (PORTB s XOR m) s"

definition X_LEDs_GetLEDs :: "'a ports_scheme \<Rightarrow> u8" where
  "X_LEDs_GetLEDs s = (PORTB s AND X_LEDS_LED1) OR X_LEDS_LED2"

lemmas x_led_defs = X_LEDs_Init_def X_LEDs_Disable_def X_LEDs_TurnOnLEDs_def X_LEDs_TurnOffLEDs_def
  X_LEDs_SetAllLEDs_def X_LEDs_ChangeLEDs_def X_LEDs_ToggleLEDs_def X_LEDs_GetLEDs_def
  X_LEDS_LED1_def X_LEDS_LED2_def

text \<open>The consequence: setting all LEDs switches the second one on whatever the mask says, and the
  initialisation leaves it as it was.\<close>

lemma X_SetAll_second_LED:
  "bit (PORTB (X_LEDs_SetAllLEDs m s)) 7" "bit (PORTB (X_LEDs_SetAllLEDs m s)) 6 \<longleftrightarrow> bit m 6"
  by (auto simp: x_led_defs port_defs bit_simps bit_BV)

lemma X_Init_second_LED: "bit (PORTB (X_LEDs_Init s)) 7 \<longleftrightarrow> bit (PORTB s) 7"
  by (auto simp: x_led_defs port_defs bit_simps bit_BV Let_def)

section \<open>Properties\<close>

text \<open>On the FPGA board setting all LEDs sets the first one as asked and always switches the second one
  on, and the initialisation leaves the second one as it was, because the mask of all LEDs is a
  macro without parentheses; on the miner board the same
  functions leave exactly the requested LEDs on and never touch the other port pins, among them the
  reset line of the ASIC.\<close>

theorem leds_of_the_boards:
  "bit (PORTB (X_LEDs_SetAllLEDs m x)) 7 \<and> (bit (PORTB (X_LEDs_SetAllLEDs m x)) 6 \<longleftrightarrow> bit m 6)
   \<and> (bit (PORTB (X_LEDs_Init x)) 7 \<longleftrightarrow> bit (PORTB x) 7)
   \<and> LEDs_GetLEDs (LEDs_SetAllLEDs (m AND LEDS_ALL_LEDS) s) = m AND LEDS_ALL_LEDS
   \<and> PORTD (LEDs_SetAllLEDs (m AND LEDS_ALL_LEDS) s) AND NOT LEDS_ALL_LEDS = PORTD s AND NOT LEDS_ALL_LEDS"
proof -
  have "((PORTD s AND NOT LEDS_ALL_LEDS) OR (m AND LEDS_ALL_LEDS)) AND NOT LEDS_ALL_LEDS = PORTD s AND NOT LEDS_ALL_LEDS"
    by (rule bit_word_eqI) (auto simp: bit_simps)
  then have "PORTD (LEDs_SetAllLEDs (m AND LEDS_ALL_LEDS) s) AND NOT LEDS_ALL_LEDS = PORTD s AND NOT LEDS_ALL_LEDS"
    by (simp add: led_defs port_defs)
  then show ?thesis
    using X_SetAll_second_LED [of m x] X_Init_second_LED [of x] LEDs_Set_Get [of "m AND LEDS_ALL_LEDS" s] by simp
qed

end
