(* ===== verification/Avalon.thy ===== *)
theory Avalon
  imports Ports
begin

text \<open>
  The ASIC driver \<open>Projects/AvalonBTC/avalon.c\<close> and \<open>avalon.h\<close>: the two-wire serial
  output that loads a work unit, the SPI receive interrupt that collects a nonce report, the
  reset and SPI-gate lines, and \<open>asicPrecalc\<close>, the first three SHA-256 rounds the ASIC
  expects precomputed. Static variables of the file are the fields below; the port latches come
  with the record \<open>ports\<close> it extends. \<open>SPSR\<close> and \<open>SPDR\<close> are registers of the
  parameter \<open>D\<close>.
\<close>

record asic = ports +
  report :: u32
  report_valid :: u32
  report_count :: u8
  report_timeout :: u16

abbreviation (input) DATA_N :: u8 where "DATA_N \<equiv> BV 4"
abbreviation (input) DATA_P :: u8 where "DATA_P \<equiv> BV 5"
abbreviation (input) RESET_PIN :: u8 where "RESET_PIN \<equiv> BV 6"
abbreviation (input) SPI_GATE :: u8 where "SPI_GATE \<equiv> BV 7"

section \<open>Collecting a report: the SPI interrupt\<close>

text \<open>
  The loop of the interrupt handler. It is total for every behaviour of the SPI unit: each turn
  either brings \<open>report_count\<close> closer to 4 or \<open>report_timeout\<close> closer to 1000.
\<close>

function spi_collect :: "'h io \<Rightarrow> 'h \<Rightarrow> asic \<Rightarrow> 'h \<times> asic" where
  "spi_collect D h s =
     (if report_count s = 4 then (h, s)
      else let (ready, h) = io_test D SPSR SPIF h in
        if ready then
          (let (v, h) = io_rd D SPDR h;
               s = s\<lparr>report := push_bit 8 (report s) OR ucast v,
                     report_count := report_count s + 1, report_timeout := 0\<rparr>
           in spi_collect D h s)
        else
          (let s = s\<lparr>report_timeout := report_timeout s + 1\<rparr> in
           if report_timeout s = 1000 then (h, s) else spi_collect D h s))"
  by pat_completeness auto

lemma count_progress: "c \<noteq> n \<Longrightarrow> unat (n - (c + 1) :: 'a::len word) < unat (n - c)"
  by (metis diff_diff_eq measure_unat right_minus_eq)

lemma timeout_progress: "t + 1 \<noteq> (1000 :: u16) \<Longrightarrow> unat (999 - (t + 1)) < unat (999 - t)"
  by (rule count_progress) auto

termination spi_collect
proof (relation "measures [\<lambda>(D, h, s). unat (4 - report_count s), \<lambda>(D, h, s). unat (999 - report_timeout s)]",
    goal_cases)
  case (2 D h s) then show ?case using count_progress [of "report_count s" 4] by simp
next
  case (3 D h s) then show ?case using timeout_progress [of "report_timeout s"] by simp
qed simp

declare spi_collect.simps [simp del]

definition SPI_STC_vect :: "'h io \<Rightarrow> 'h \<Rightarrow> asic \<Rightarrow> 'h \<times> asic" where
  "SPI_STC_vect D h s =
     (let s = s\<lparr>SPCR := SPCR s AND NOT (BV SPIE)\<rparr>;
          (v, h) = io_rd D SPDR h;
          s = s\<lparr>report := ucast v, report_timeout := 0, report_count := 1\<rparr>;
          (h, s) = spi_collect D h s
      in (h, s\<lparr>report_valid := 1\<rparr>))"

section \<open>Driving the ASIC\<close>

text \<open>
  One bit: both data lines low for a microsecond, then the positive line (a one) or the negative
  line (a zero) high for a microsecond; 32 bits, least significant first.
\<close>

definition send_bit :: "u32 \<Rightarrow> asic \<Rightarrow> asic" where
  "send_bit word s =
     (let b = word AND 1;
          s = delay_us 1 (set_PORTB (PORTB s AND NOT (DATA_N OR DATA_P)) s);
          s = (if b \<noteq> 0 then set_PORTB (PORTB s OR DATA_P) s else set_PORTB (PORTB s OR DATA_N) s)
      in delay_us 1 s)"

primrec send_bits :: "nat \<Rightarrow> u32 \<Rightarrow> asic \<Rightarrow> asic" where
  "send_bits 0 word s = s"
| "send_bits (Suc n) word s = send_bits n (drop_bit 1 word) (send_bit word s)"

definition send32 :: "u32 \<Rightarrow> asic \<Rightarrow> asic" where
  "send32 word s = send_bits 32 word s"

definition asicInit :: "asic \<Rightarrow> asic" where
  "asicInit s =
     (let s = s\<lparr>DDRB := 0x38\<rparr>;
          s = set_PORTB 0x30 s;
          s = set_DDRD (DDRD s OR BV 6) s;
          s = set_PORTD (PORTD s OR BV 6) s
      in s\<lparr>SPCR := BV SPIE OR BV SPE OR BV CPHA OR BV DORD\<rparr>)"

definition asicEnableSpi :: "asic \<Rightarrow> asic" where
  "asicEnableSpi s = set_DDRD (DDRD s OR SPI_GATE) s"

definition asicDisableSpi :: "asic \<Rightarrow> asic" where
  "asicDisableSpi s = set_DDRD (DDRD s AND NOT SPI_GATE) s"

definition asicIdle :: "asic \<Rightarrow> asic" where
  "asicIdle s = set_PORTB (PORTB s OR (DATA_N OR DATA_P)) s"

definition asicResetSpi :: "asic \<Rightarrow> asic" where
  "asicResetSpi s =
     (let s = s\<lparr>report_count := 0, report_valid := 0\<rparr>
      in delay_us 1 (asicEnableSpi (delay_us 5 (asicDisableSpi s))))"

definition asicStop :: "asic \<Rightarrow> asic" where
  "asicStop s =
     (let s = s\<lparr>report_count := 0, report_valid := 0\<rparr> in set_PORTD (PORTD s AND NOT RESET_PIN) s)"

definition asicReset :: "asic \<Rightarrow> asic" where
  "asicReset s =
     (let s = s\<lparr>report_count := 0, report_valid := 0\<rparr>;
          s = delay_us 1000 (set_PORTD (PORTD s AND NOT RESET_PIN) s)
      in delay_us 1000 (set_PORTD (PORTD s OR RESET_PIN) s))"

definition asicSend :: "u32 list \<Rightarrow> u8 \<Rightarrow> asic \<Rightarrow> asic" where
  "asicSend buffer n s = fold (\<lambda>i. send32 (buffer ! i)) [0..<unat n] s"

definition asicReportValid :: "asic \<Rightarrow> u8" where
  "asicReportValid s = ucast (report_valid s)"

definition asicGetNonce :: "asic \<Rightarrow> u32 \<times> asic" where
  "asicGetNonce s = (let s = s\<lparr>report_count := 0, report_valid := 0\<rparr> in (report s, s))"

section \<open>The precomputed rounds\<close>

definition rotate_u32 :: "u32 \<Rightarrow> nat \<Rightarrow> u32" where
  "rotate_u32 x y = push_bit y x OR drop_bit (32 - y) x"

definition precalc_K :: "u32 list" where
  "precalc_K = [0x428a2f98, 0x71374491, 0xb5c0fbcf]"

text \<open>The macro \<open>r(x)\<close>, \<open>((x-n)&7)\<close>, on C's \<open>int\<close>.\<close>

definition r_idx :: "nat \<Rightarrow> nat \<Rightarrow> nat" where
  "r_idx n x = nat ((int x - int n) mod 8)"

text \<open>One turn of the compiled loop: the eight state words stay in place and the roles rotate.\<close>

definition precalc_round :: "nat \<Rightarrow> u32 list \<Rightarrow> u32 list \<times> u32 list \<Rightarrow> u32 list \<times> u32 list" where
  "precalc_round n data = (\<lambda>(m, precalc).
     let x = m ! (5 - n) XOR m ! (6 - n);
         x = x AND m ! (4 - n);
         x = m ! (6 - n) XOR x;
         x = x + precalc_K ! n;
         x = x + data ! n;
         x = x + m ! (7 - n);
         y = rotate_u32 (m ! (4 - n)) 26;
         z = rotate_u32 (m ! (4 - n)) 21;
         z = y XOR z;
         y = rotate_u32 (m ! (4 - n)) 7;
         z = y XOR z;
         m = m[7 - n := z + x];
         m = m[3 - n := m ! (3 - n) + m ! (7 - n)];
         x = rotate_u32 (m ! r_idx n 0) 30;
         y = rotate_u32 (m ! r_idx n 0) 19;
         y = y XOR x;
         x = rotate_u32 (m ! r_idx n 0) 10;
         y = x XOR y;
         x = m ! r_idx n 0 OR m ! r_idx n 1;
         x = m ! r_idx n 2 AND x;
         z = m ! r_idx n 0 AND m ! r_idx n 1;
         x = x OR z;
         m = m[7 - n := m ! (7 - n) + (y + x)];
         precalc = precalc[2 - n := m ! (7 - n)];
         precalc = precalc[5 - n := m ! (3 - n)]
     in (m, precalc))"

definition asicPrecalc :: "u32 list \<Rightarrow> u32 list \<Rightarrow> u32 list \<Rightarrow> u32 list" where
  "asicPrecalc midstate data precalc =
     (let m = map (\<lambda>n. midstate ! n) [0..<8]
      in snd (fold (\<lambda>n. precalc_round n data) [0..<3] (m, precalc)))"

text \<open>
  The variant the source keeps under \<open>#if 0\<close>: SHA-256 compression rounds as FIPS 180-4 writes
  them, shifting the state words.
\<close>

definition precalc_ref_round :: "nat \<Rightarrow> u32 list \<Rightarrow> u32 list \<times> u32 list \<Rightarrow> u32 list \<times> u32 list" where
  "precalc_ref_round n data = (\<lambda>(m, precalc).
     let S1 = rotate_u32 (m ! 4) 26 XOR rotate_u32 (m ! 4) 21 XOR rotate_u32 (m ! 4) 7;
         ch = (m ! 4 AND m ! 5) XOR (NOT (m ! 4) AND m ! 6);
         t1 = m ! 7 + S1 + ch + precalc_K ! n + data ! n;
         S0 = rotate_u32 (m ! 0) 30 XOR rotate_u32 (m ! 0) 19 XOR rotate_u32 (m ! 0) 10;
         maj = (m ! 0 AND m ! 1) XOR (m ! 0 AND m ! 2) XOR (m ! 1 AND m ! 2);
         t2 = S0 + maj;
         m = m[7 := m ! 6]; m = m[6 := m ! 5]; m = m[5 := m ! 4]; m = m[4 := m ! 3 + t1];
         m = m[3 := m ! 2]; m = m[2 := m ! 1]; m = m[1 := m ! 0]; m = m[0 := t1 + t2];
         precalc = precalc[2 - n := m ! 0];
         precalc = precalc[5 - n := m ! 4]
     in (m, precalc))"

definition asicPrecalc_ref :: "u32 list \<Rightarrow> u32 list \<Rightarrow> u32 list \<Rightarrow> u32 list" where
  "asicPrecalc_ref midstate data precalc =
     (let m = map (\<lambda>n. midstate ! n) [0..<8]
      in snd (fold (\<lambda>n. precalc_ref_round n data) [0..<3] (m, precalc)))"

lemma ch_forms: "(g :: u32) XOR ((f XOR g) AND e) = (e AND f) XOR (NOT e AND g)"
  by (rule bit_word_eqI) (auto simp: bit_simps)

lemma maj_forms:
  "((c :: u32) AND (a OR b)) OR (a AND b) = (a AND b) XOR (a AND c) XOR (b AND c)"
  by (rule bit_word_eqI) (auto simp: bit_simps)

lemma upt_8: "[0..<8] = [0, 1, 2, 3, 4, 5, 6, 7]"
  by (simp add: upt_conv_Cons)

lemma nth_small_simps:
  "(a # b # c # d # e # f # g # h # xs) ! 2 = c" "(a # b # c # d # e # f # g # h # xs) ! 3 = d"
  "(a # b # c # d # e # f # g # h # xs) ! 4 = e" "(a # b # c # d # e # f # g # h # xs) ! 5 = f"
  "(a # b # c # d # e # f # g # h # xs) ! 6 = g" "(a # b # c # d # e # f # g # h # xs) ! 7 = h"
  by (simp_all add: numeral_eq_Suc)

definition sha_T1 :: "u32 \<Rightarrow> u32 \<Rightarrow> u32 \<Rightarrow> u32 \<Rightarrow> u32 \<Rightarrow> u32 \<Rightarrow> u32" where
  "sha_T1 e f g h k w = h + (rotate_u32 e 26 XOR rotate_u32 e 21 XOR rotate_u32 e 7)
     + ((e AND f) XOR (NOT e AND g)) + k + w"

definition sha_T2 :: "u32 \<Rightarrow> u32 \<Rightarrow> u32 \<Rightarrow> u32" where
  "sha_T2 a b c = (rotate_u32 a 30 XOR rotate_u32 a 19 XOR rotate_u32 a 10)
     + ((a AND b) XOR (a AND c) XOR (b AND c))"

lemma sha_T1_code:
  "(rotate_u32 e 7 XOR (rotate_u32 e 26 XOR rotate_u32 e 21)) + ((g XOR ((f XOR g) AND e)) + k + w + h)
     = sha_T1 e f g h k w"
  by (simp add: sha_T1_def ch_forms xor.assoc xor.commute xor.left_commute add_ac)

lemma sha_T2_code:
  "(rotate_u32 a 10 XOR (rotate_u32 a 19 XOR rotate_u32 a 30)) + (c AND (a OR b) OR a AND b) = sha_T2 a b c"
  by (simp add: sha_T2_def maj_forms xor.assoc xor.commute xor.left_commute)

lemma r_idx_simps:
  "r_idx 0 0 = 0" "r_idx 0 (Suc 0) = 1" "r_idx 0 1 = 1" "r_idx 0 2 = 2" "r_idx 0 3 = 3" "r_idx 0 4 = 4"
  "r_idx 0 5 = 5" "r_idx 0 6 = 6" "r_idx 0 7 = 7"
  "r_idx (Suc 0) 0 = 7" "r_idx (Suc 0) (Suc 0) = 0" "r_idx (Suc 0) 1 = 0" "r_idx (Suc 0) 2 = 1" "r_idx (Suc 0) 3 = 2"
  "r_idx (Suc 0) 4 = 3" "r_idx (Suc 0) 5 = 4" "r_idx (Suc 0) 6 = 5" "r_idx (Suc 0) 7 = 6"
  "r_idx 2 0 = 6" "r_idx 2 (Suc 0) = 7" "r_idx 2 1 = 7" "r_idx 2 2 = 0" "r_idx 2 3 = 1" "r_idx 2 4 = 2"
  "r_idx 2 5 = 3" "r_idx 2 6 = 4" "r_idx 2 7 = 5"
  "r_idx 3 0 = 5" "r_idx 3 (Suc 0) = 6" "r_idx 3 1 = 6" "r_idx 3 2 = 7" "r_idx 3 3 = 0" "r_idx 3 4 = 1"
  "r_idx 3 5 = 2" "r_idx 3 6 = 3" "r_idx 3 7 = 4"
  by (simp_all add: r_idx_def)

lemma list_update_small:
  "(a # b # c # d # e # f # g # h # xs)[2 := v] = a # b # v # d # e # f # g # h # xs"
  "(a # b # c # d # e # f # g # h # xs)[3 := v] = a # b # c # v # e # f # g # h # xs"
  "(a # b # c # d # e # f # g # h # xs)[4 := v] = a # b # c # d # v # f # g # h # xs"
  "(a # b # c # d # e # f # g # h # xs)[5 := v] = a # b # c # d # e # v # g # h # xs"
  "(a # b # c # d # e # f # g # h # xs)[6 := v] = a # b # c # d # e # f # v # h # xs"
  "(a # b # c # d # e # f # g # h # xs)[7 := v] = a # b # c # d # e # f # g # v # xs"
  by (simp_all add: numeral_eq_Suc)

lemmas precalc_eval = Let_def nth_small_simps list_update_small r_idx_simps sha_T1_code sha_T2_code

lemma precalc_ref_step:
  "precalc_ref_round n data ([a, b, c, d, e, f, g, h], p) =
     (let t1 = sha_T1 e f g h (precalc_K ! n) (data ! n) in
       ([t1 + sha_T2 a b c, a, b, c, d + t1, e, f, g],
        p[2 - n := t1 + sha_T2 a b c, 5 - n := d + t1]))"
  by (simp add: precalc_ref_round_def precalc_eval sha_T1_def [symmetric] sha_T2_def [symmetric])

lemma precalc_steps:
  "precalc_round 0 data ([a, b, c, d, e, f, g, h], p) =
     (let t1 = sha_T1 e f g h (precalc_K ! 0) (data ! 0) in
       ([a, b, c, d + t1, e, f, g, t1 + sha_T2 a b c],
        p[2 := t1 + sha_T2 a b c, 5 := d + t1]))"
  "precalc_round (Suc 0) data ([b, c, d, e, f, g, h, a], p) =
     (let t1 = sha_T1 e f g h (precalc_K ! Suc 0) (data ! Suc 0) in
       ([b, c, d + t1, e, f, g, t1 + sha_T2 a b c, a],
        p[Suc 0 := t1 + sha_T2 a b c, 4 := d + t1]))"
  "precalc_round 2 data ([c, d, e, f, g, h, a, b], p) =
     (let t1 = sha_T1 e f g h (precalc_K ! 2) (data ! 2) in
       ([c, d + t1, e, f, g, t1 + sha_T2 a b c, a, b],
        p[0 := t1 + sha_T2 a b c, 3 := d + t1]))"
  by (simp_all add: precalc_round_def precalc_eval)

lemma upt_3: "[0..<3] = [0, Suc 0, 2]"
  by (simp add: upt_conv_Cons)

text \<open>C21. The precalculation the firmware compiles, which never moves the eight state words, and
  the shifting SHA-256 rounds kept beside it in the source produce the same six words for every
  midstate and every data block.\<close>

theorem asicPrecalc_eq_ref:
  "asicPrecalc midstate data precalc = asicPrecalc_ref midstate data precalc"
  by (simp add: asicPrecalc_def asicPrecalc_ref_def upt_3 upt_8 precalc_ref_step precalc_steps Let_def)

section \<open>What the ASIC sees on the wire\<close>

text \<open>
  A receiver on the two lines: a level with exactly one line high is a bit. \<open>wire_words\<close>
  groups the bits in 32, least significant first.
\<close>

definition wire_bit :: "pin_event \<Rightarrow> bool list" where
  "wire_bit e = (case e of
     Out_B v \<Rightarrow> if bit v 5 \<and> \<not> bit v 4 then [True] else if bit v 4 \<and> \<not> bit v 5 then [False] else []
   | _ \<Rightarrow> [])"

definition wire_bits :: "pin_event list \<Rightarrow> bool list" where
  "wire_bits es = concat (map wire_bit es)"

fun wire_words :: "bool list \<Rightarrow> u32 list" where
  "wire_words bs = (if length bs < 32 then []
     else horner_sum of_bool 2 (take 32 bs) # wire_words (drop 32 bs))"

declare wire_words.simps [simp del]

lemma wire_bits_append [simp]: "wire_bits (xs @ ys) = wire_bits xs @ wire_bits ys"
  by (simp add: wire_bits_def)

lemma and_1_eq_0: "(w :: 'a::len word) AND 1 = 0 \<longleftrightarrow> \<not> bit w 0"
  using and_BV_eq_0 [of w 0] by (simp add: BV_def)

lemma wire_bits_send_bit: "wire_bits (pins (send_bit w s)) = wire_bits (pins s) @ [bit w 0]"
  unfolding send_bit_def Let_def and_1_eq_0
  by (simp add: port_defs wire_bits_def wire_bit_def bit_or_iff bit_and_iff bit_not_iff bit_BV)

lemma wire_bits_send_bits:
  "wire_bits (pins (send_bits n w s)) = wire_bits (pins s) @ map (bit w) [0..<n]"
proof (induction n arbitrary: w s)
  case (Suc n)
  have "map (bit w) [0..<Suc n] = bit w 0 # map (bit (drop_bit 1 w)) [0..<n]"
    by (simp add: upt_conv_Cons map_Suc_upt [symmetric] bit_drop_bit_eq comp_def del: upt_Suc)
  with Suc.IH [of "drop_bit 1 w" "send_bit w s"] show ?case by (simp add: wire_bits_send_bit)
qed simp

definition word_bits :: "u32 \<Rightarrow> bool list" where
  "word_bits w = map (bit w) [0..<32]"

lemma word_bits_facts [simp]:
  "length (word_bits w) = 32" "horner_sum of_bool 2 (word_bits w) = w"
  by (simp add: word_bits_def)
    (simp only: word_bits_def horner_sum_bit_eq_take_bit, simp add: take_bit_word_eq_self)

lemma wire_bits_send32: "wire_bits (pins (send32 w s)) = wire_bits (pins s) @ word_bits w"
  by (simp only: send32_def wire_bits_send_bits word_bits_def)

text \<open>\<open>emits ws s t\<close>: between \<open>s\<close> and \<open>t\<close> the pins carried exactly the words \<open>ws\<close>.\<close>

definition emits :: "u32 list \<Rightarrow> asic \<Rightarrow> asic \<Rightarrow> bool" where
  "emits ws s t \<longleftrightarrow> (\<exists>es. pins t = pins s @ es \<and> wire_bits es = concat (map word_bits ws))"

lemma emits_trans: "emits xs s t \<Longrightarrow> emits ys t u \<Longrightarrow> emits (xs @ ys) s u"
  by (auto simp: emits_def)

lemma send_bits_pins: "\<exists>es. pins (send_bits n w s) = pins s @ es"
proof (induction n arbitrary: w s)
  case (Suc n)
  obtain es where "pins (send_bits n (drop_bit 1 w) (send_bit w s)) = pins (send_bit w s) @ es"
    using Suc by blast
  then show ?case by (auto simp: send_bit_def port_defs Let_def)
qed simp

lemma emits_send32: "emits [w] s (send32 w s)"
proof -
  obtain es where "pins (send32 w s) = pins s @ es"
    using send_bits_pins unfolding send32_def by blast
  then show ?thesis using wire_bits_send32 [of w s] by (simp add: emits_def)
qed

lemma emits_fold_send32: "emits ws s (fold send32 ws s)"
proof (induction ws arbitrary: s)
  case (Cons w ws)
  from emits_trans [OF emits_send32 Cons.IH] show ?case by simp
qed (simp add: emits_def wire_bits_def)

lemma asicSend_take:
  assumes "unat n \<le> length ws"
  shows "asicSend ws n s = fold send32 (take (unat n) ws) s"
proof -
  have "map ((!) ws) [0..<unat n] = take (unat n) ws"
    using assms by (intro nth_equalityI) simp_all
  moreover have "fold (\<lambda>i. send32 (ws ! i)) [0..<unat n] s = fold send32 (map ((!) ws) [0..<unat n]) s"
    by (simp only: fold_map comp_def)
  ultimately show ?thesis by (simp add: asicSend_def)
qed

lemma emits_asicSend: "unat n \<le> length ws \<Longrightarrow> emits (take (unat n) ws) s (asicSend ws n s)"
  by (simp add: asicSend_take emits_fold_send32)

lemma emits_nothing:
  "emits [] s (asicReset s)" "emits [] s (asicResetSpi s)" "emits [] s (asicStop s)" "emits [] s (asicIdle s)"
  by (simp_all add: emits_def wire_bits_def wire_bit_def asicReset_def asicResetSpi_def asicStop_def asicIdle_def
      asicEnableSpi_def asicDisableSpi_def port_defs Let_def bit_or_iff bit_BV)

text \<open>Sending touches the data port only.\<close>

definition asic_rest :: "asic \<Rightarrow> u8 list \<times> u32 \<times> u32 \<times> u8 \<times> u16" where
  "asic_rest s = ([DDRB s, PORTC s, DDRC s, PORTD s, DDRD s, SPCR s], report s, report_valid s,
     report_count s, report_timeout s)"

lemma asic_rest_send_bits: "asic_rest (send_bits n w s) = asic_rest s"
  by (induction n arbitrary: w s) (simp_all add: send_bit_def port_defs Let_def asic_rest_def)

lemma asic_rest_asicSend: "asic_rest (asicSend ws n s) = asic_rest s"
proof -
  have "asic_rest (fold (\<lambda>i. send32 (ws ! i)) is s) = asic_rest s" for "is"
    by (induction "is" arbitrary: s) (simp_all add: send32_def asic_rest_send_bits)
  then show ?thesis by (simp add: asicSend_def)
qed

lemma wire_words_concat: "wire_words (concat (map word_bits ws)) = ws"
  by (induction ws) (simp_all add: wire_words.simps)

lemma emits_wire_words:
  "emits ws s t \<Longrightarrow> wire_words (wire_bits (drop (length (pins s)) (pins t))) = ws"
  by (auto simp: emits_def wire_words_concat)

section \<open>What the interrupt collects\<close>

lemma spi_collect_steps:
  "report_count s = 4 \<Longrightarrow> spi_collect D h s = (h, s)"
  "report_count s \<noteq> 4 \<Longrightarrow> io_test D SPSR SPIF h = (True, h1) \<Longrightarrow> io_rd D SPDR h1 = (v, h2) \<Longrightarrow>
     spi_collect D h s = spi_collect D h2 (s\<lparr>report := push_bit 8 (report s) OR ucast v,
       report_count := report_count s + 1, report_timeout := 0\<rparr>)"
  "report_count s \<noteq> 4 \<Longrightarrow> io_test D SPSR SPIF h = (False, h1) \<Longrightarrow> report_timeout s + 1 = 1000 \<Longrightarrow>
     spi_collect D h s = (h1, s\<lparr>report_timeout := 1000\<rparr>)"
  "report_count s \<noteq> 4 \<Longrightarrow> io_test D SPSR SPIF h = (False, h1) \<Longrightarrow> report_timeout s + 1 \<noteq> 1000 \<Longrightarrow>
     spi_collect D h s = spi_collect D h1 (s\<lparr>report_timeout := report_timeout s + 1\<rparr>)"
  by (subst spi_collect.simps, simp add: Let_def)+

lemma spi_collect_induct [case_names finished byte timeout wait]:
  fixes P :: "'h \<Rightarrow> asic \<Rightarrow> bool"
  assumes "\<And>h s. report_count s = 4 \<Longrightarrow> P h s"
    and "\<And>h s h1 v h2. report_count s \<noteq> 4 \<Longrightarrow> io_test D SPSR SPIF h = (True, h1) \<Longrightarrow>
      io_rd D SPDR h1 = (v, h2) \<Longrightarrow> P h2 (s\<lparr>report := push_bit 8 (report s) OR ucast v,
        report_count := report_count s + 1, report_timeout := 0\<rparr>) \<Longrightarrow> P h s"
    and "\<And>h s h1. report_count s \<noteq> 4 \<Longrightarrow> io_test D SPSR SPIF h = (False, h1) \<Longrightarrow>
      report_timeout s + 1 = 1000 \<Longrightarrow> P h s"
    and "\<And>h s h1. report_count s \<noteq> 4 \<Longrightarrow> io_test D SPSR SPIF h = (False, h1) \<Longrightarrow>
      report_timeout s + 1 \<noteq> 1000 \<Longrightarrow> P h1 (s\<lparr>report_timeout := report_timeout s + 1\<rparr>) \<Longrightarrow> P h s"
  shows "P h s"
proof -
  have "D' = D \<longrightarrow> P h s" for D'
  proof (induction D' h s rule: spi_collect.induct)
    case (1 D' h s)
    obtain r h1 v h2 where "io_test D SPSR SPIF h = (r, h1)" "io_rd D SPDR h1 = (v, h2)"
      by (metis surj_pair)
    then consider "report_count s = 4"
      | "report_count s \<noteq> 4" "io_test D SPSR SPIF h = (True, h1)" "io_rd D SPDR h1 = (v, h2)"
      | "report_count s \<noteq> 4" "io_test D SPSR SPIF h = (False, h1)" "report_timeout s + 1 = 1000"
      | "report_count s \<noteq> 4" "io_test D SPSR SPIF h = (False, h1)" "report_timeout s + 1 \<noteq> 1000"
      by (cases r) auto
    then show ?case
    proof cases
      case 2
      have "D' = D \<Longrightarrow> ?thesis"
        using 1(1) [OF 2(1) refl _ TrueI refl _ refl, of h1 v h2] assms(2) [OF 2] 2 by simp
      then show ?thesis by blast
    next
      case 4
      have "D' = D \<Longrightarrow> ?thesis"
        using 1(2) [OF 4(1) refl, of False h1] assms(4) [OF 4] 4 by simp
      then show ?thesis by blast
    qed (use assms in blast)+
  qed
  then show ?thesis by blast
qed

text \<open>Whatever the SPI unit does, the loop ends with four bytes collected or a timeout.\<close>

lemma spi_collect_outcome:
  "report_count (snd (spi_collect D h s)) = 4 \<or> report_timeout (snd (spi_collect D h s)) = 1000"
  by (induction h s rule: spi_collect_induct [where D = D]) (simp_all add: spi_collect_steps)

lemma spi_collect_frame [simp]:
  "ports.truncate (snd (spi_collect D h s)) = ports.truncate s"
  "report_valid (snd (spi_collect D h s)) = report_valid s"
  by (induction h s rule: spi_collect_induct [where D = D])
    (simp_all add: spi_collect_steps ports.defs)

text \<open>
  The SPI unit hands over \<open>bs\<close>: it raises \<open>SPIF\<close> for each byte after fewer than 1000 polls,
  \<open>n\<close> of them before the next one.
\<close>

inductive spi_delivers :: "'h io \<Rightarrow> u8 list \<Rightarrow> nat \<Rightarrow> 'h \<Rightarrow> 'h \<Rightarrow> bool" for D where
  spi_none: "spi_delivers D [] 0 h h"
| spi_poll: "io_test D SPSR SPIF h = (False, h1) \<Longrightarrow> spi_delivers D (b # bs) n h1 h' \<Longrightarrow> Suc n < 1000 \<Longrightarrow>
    spi_delivers D (b # bs) (Suc n) h h'"
| spi_byte: "io_test D SPSR SPIF h = (True, h1) \<Longrightarrow> io_rd D SPDR h1 = (b, h2) \<Longrightarrow>
    spi_delivers D bs n h2 h' \<Longrightarrow> spi_delivers D (b # bs) 0 h h'"

lemma spi_collect_delivers:
  assumes "spi_delivers D bs n h h'"
    and "unat (report_timeout s) + n < 1000" "unat (report_count s) + length bs = 4"
  shows "spi_collect D h s = (h', s\<lparr>report := fold (\<lambda>b r. push_bit 8 r OR ucast b) bs (report s),
    report_count := 4, report_timeout := (if bs = [] then report_timeout s else 0)\<rparr>)"
  using assms
proof (induction arbitrary: s rule: spi_delivers.induct)
  case (spi_none h)
  then have "report_count s = 4" by (simp add: word_unat_eq_iff)
  then show ?case by (simp add: spi_collect_steps)
next
  case (spi_poll h h1 b bs n h')
  have "report_timeout s + 1 \<noteq> 1000" "unat (report_timeout s + 1) = Suc (unat (report_timeout s))"
    using spi_poll.prems by (auto simp: word_unat_eq_iff unat_word_ariths)
  moreover have "report_count s \<noteq> 4" using spi_poll.prems by auto
  ultimately show ?case using spi_poll by (simp add: spi_collect_steps(4))
next
  case (spi_byte h h1 b h2 bs n h')
  have "report_count s \<noteq> 4" "unat (report_count s + 1) = Suc (unat (report_count s))"
    using spi_byte.prems by (auto simp: unat_word_ariths)
  moreover have "n < 1000" using spi_byte.hyps(3) by (cases) auto
  ultimately show ?case using spi_byte by (simp add: spi_collect_steps(2))
qed

lemma ports_truncate_eq:
  "ports.truncate s = ports.truncate t \<Longrightarrow>
     PORTB s = PORTB t \<and> DDRB s = DDRB t \<and> PORTC s = PORTC t \<and> DDRC s = DDRC t \<and> PORTD s = PORTD t
     \<and> DDRD s = DDRD t \<and> SPCR s = SPCR t \<and> pins s = pins t"
  by (simp add: ports.defs)

lemmas spi_collect_ports = ports_truncate_eq [OF spi_collect_frame(1)]

lemma SPI_STC_vect_frame:
  "SPCR (snd (SPI_STC_vect D h s)) = SPCR s AND NOT (BV SPIE)"
  "report_valid (snd (SPI_STC_vect D h s)) = 1"
  "PORTB (snd (SPI_STC_vect D h s)) = PORTB s" "PORTD (snd (SPI_STC_vect D h s)) = PORTD s"
  "pins (snd (SPI_STC_vect D h s)) = pins s"
  by (simp_all add: SPI_STC_vect_def Let_def split_beta spi_collect_ports)

text \<open>A scripted SPI unit: \<open>Some b\<close> is a byte ready to be read, \<open>None\<close> one poll without.\<close>

definition spi_script :: "u8 option list io" where
  "spi_script = \<lparr>io_rd = \<lambda>r h. case (r, h) of
       (SPSR, None # t) \<Rightarrow> (0, t) | (SPSR, Some b # t) \<Rightarrow> (0x80, Some b # t)
     | (SPDR, Some b # t) \<Rightarrow> (b, t) | _ \<Rightarrow> (0, h),
     io_wr = \<lambda>r v h. h, io_sig = \<lambda>a. 0\<rparr>"

lemma spi_script_simps [simp]:
  "io_test spi_script SPSR SPIF (None # t) = (False, t)"
  "io_test spi_script SPSR SPIF (Some b # t) = (True, Some b # t)"
  "io_test spi_script SPSR SPIF [] = (False, [])"
  "io_rd spi_script SPDR (Some b # t) = (b, t)"
  by (simp_all add: io_test_bit spi_script_def)

definition asic_off :: asic where
  "asic_off = \<lparr>PORTB = 0, DDRB = 0, PORTC = 0, DDRC = 0, PORTD = 0, DDRD = 0, SPCR = 0, pins = [],
     report = 0, report_valid = 0, report_count = 0, report_timeout = 0\<rparr>"

lemma fold_report_bytes:
  "fold (\<lambda>b r. push_bit 8 r OR ucast b) [b1, b2, b3] (ucast b0) = u32_of_bytes [b3, b2, b1, b0]"
  by (rule bit_word_eqI) (auto simp: u32_of_bytes_def bit_simps)

lemma SPI_delivered:
  assumes "io_rd D SPDR h = (b0, h0)" and "spi_delivers D [b1, b2, b3] n h0 h'"
  shows "SPI_STC_vect D h s =
    (h', s\<lparr>SPCR := SPCR s AND NOT (BV SPIE), report := u32_of_bytes [b3, b2, b1, b0],
           report_timeout := 0, report_count := 4, report_valid := 1\<rparr>)"
proof -
  have "n < 1000" using assms(2) by cases auto
  then show ?thesis
    using spi_collect_delivers [OF assms(2)] assms(1)
    by (simp add: SPI_STC_vect_def Let_def fold_report_bytes del: fold.simps)
qed

section \<open>Properties\<close>

text \<open>C14. When the ASIC shifts four bytes out, each within 1000 polls of the previous one, the
  SPI interrupt leaves exactly those bytes as a big-endian 32-bit report, marks it valid and
  switches its own interrupt off; nothing else of the state changes.\<close>

theorem SPI_report_complete:
  assumes "io_rd D SPDR h = (b0, h0)" and "spi_delivers D [b1, b2, b3] n h0 h'"
  shows "SPI_STC_vect D h s =
    (h', s\<lparr>SPCR := SPCR s AND NOT (BV SPIE), report := u32_of_bytes [b3, b2, b1, b0],
           report_timeout := 0, report_count := 4, report_valid := 1\<rparr>)"
  by (rule SPI_delivered [OF assms])

theorem SPI_report_complete_witness:
  "SPI_STC_vect spi_script [Some 0x12, None, Some 0x34, Some 0x56, None, None, Some 0x78] asic_off =
    ([], asic_off\<lparr>SPCR := 0, report := 0x12345678, report_timeout := 0, report_count := 4, report_valid := 1\<rparr>)"
proof -
  have d: "spi_delivers spi_script [0x34, 0x56, 0x78] (Suc 0)
      [None, Some 0x34, Some 0x56, None, None, Some 0x78] []"
    by (rule spi_script_simps spi_poll [OF spi_script_simps(1)] spi_byte [OF spi_script_simps(2,4)] spi_none
        | simp)+
  show ?thesis
    using SPI_report_complete [OF _ d, of "[Some 0x12, None, Some 0x34, Some 0x56, None, None, Some 0x78]" "0x12" asic_off]
    by (simp add: asic_off_def u32_of_bytes_def)
qed

text \<open>C15. The SPI interrupt returns for every behaviour of the SPI unit. It leaves either a
  complete report of four bytes or a timeout, and in both cases it raises \<open>report_valid\<close> and
  clears \<open>SPIE\<close>: a truncated report is handed on as a valid one.\<close>

theorem SPI_outcome:
  "\<exists>h' s'. SPI_STC_vect D h s = (h', s')
     \<and> (report_count s' = 4 \<or> report_timeout s' = 1000)
     \<and> asicReportValid s' = 1 \<and> SPCR s' = SPCR s AND NOT (BV SPIE)
     \<and> PORTB s' = PORTB s \<and> PORTD s' = PORTD s \<and> pins s' = pins s"
  using spi_collect_outcome
  by (simp add: SPI_STC_vect_def Let_def split_beta spi_collect_ports asicReportValid_def)

text \<open>C16. What a receiver on the two data lines reads back from \<open>asicSend\<close> is exactly the
  array of words, each least significant bit first, whatever the other pins of the port are.\<close>

theorem asicSend_wire:
  assumes "unat n = length ws"
  shows "wire_words (wire_bits (drop (length (pins s)) (pins (asicSend ws n s)))) = ws"
  using emits_asicSend [of n ws s] assms by (auto dest: emits_wire_words)

theorem asicSend_wire_witness:
  "wire_words (wire_bits (drop (length (pins asic_off)) (pins (asicSend [0x80000001, 0x172] 2 asic_off))))
     = [0x80000001, 0x172]"
  by (rule asicSend_wire) simp

end
