(* ===== verification/Ring_Buffer.thy ===== *)
theory Ring_Buffer
  imports Prelude
begin

text \<open>
  The byte ring buffer of \<open>LUFA/Drivers/Misc/RingBuffer.h\<close>. The four pointers of the C
  structure point into one array, so they are indices into \<open>rb_Data\<close> here, with
  \<open>Start = &DataPtr[0]\<close> and \<open>End = &DataPtr[Size]\<close> as the code sets them. The counters
  are 16-bit words and wrap. Nothing in the code checks for overrun or underrun, so the
  operations below do not either: what happens then is a property, not an assumption.
  Each operation is one function here; \<open>Ring_Interrupts\<close> has the statements one by one, with the
  interrupt-mask save, disable and restore around the counter update.
\<close>

record RingBuffer_t =
  rb_Data :: "u8 list"
  rb_In :: nat
  rb_Out :: nat
  rb_Start :: nat
  rb_End :: nat
  rb_Size :: u16
  rb_Count :: u16

definition RingBuffer_InitBuffer :: "u8 list \<Rightarrow> u16 \<Rightarrow> RingBuffer_t" where
  "RingBuffer_InitBuffer DataPtr Size =
     \<lparr>rb_Data = DataPtr, rb_In = 0, rb_Out = 0, rb_Start = 0, rb_End = unat Size,
      rb_Size = Size, rb_Count = 0\<rparr>"

definition RingBuffer_GetCount :: "RingBuffer_t \<Rightarrow> u16" where
  "RingBuffer_GetCount b = rb_Count b"

definition RingBuffer_GetFreeCount :: "RingBuffer_t \<Rightarrow> u16" where
  "RingBuffer_GetFreeCount b = rb_Size b - RingBuffer_GetCount b"

definition RingBuffer_IsEmpty :: "RingBuffer_t \<Rightarrow> bool" where
  "RingBuffer_IsEmpty b \<longleftrightarrow> RingBuffer_GetCount b = 0"

definition RingBuffer_IsFull :: "RingBuffer_t \<Rightarrow> bool" where
  "RingBuffer_IsFull b \<longleftrightarrow> RingBuffer_GetCount b = rb_Size b"

definition RingBuffer_Insert :: "RingBuffer_t \<Rightarrow> u8 \<Rightarrow> RingBuffer_t" where
  "RingBuffer_Insert b d =
     (let b = b\<lparr>rb_Data := (rb_Data b)[rb_In b := d]\<rparr>;
          b = b\<lparr>rb_In := Suc (rb_In b)\<rparr>;
          b = (if rb_In b = rb_End b then b\<lparr>rb_In := rb_Start b\<rparr> else b)
      in b\<lparr>rb_Count := rb_Count b + 1\<rparr>)"

definition RingBuffer_Remove :: "RingBuffer_t \<Rightarrow> u8 \<times> RingBuffer_t" where
  "RingBuffer_Remove b =
     (let d = rb_Data b ! rb_Out b;
          b = b\<lparr>rb_Out := Suc (rb_Out b)\<rparr>;
          b = (if rb_Out b = rb_End b then b\<lparr>rb_Out := rb_Start b\<rparr> else b)
      in (d, b\<lparr>rb_Count := rb_Count b - 1\<rparr>))"

definition RingBuffer_Peek :: "RingBuffer_t \<Rightarrow> u8" where
  "RingBuffer_Peek b = rb_Data b ! rb_Out b"

section \<open>Memory safety: the pointers stay inside the array\<close>

definition ring_safe :: "RingBuffer_t \<Rightarrow> bool" where
  "ring_safe b \<longleftrightarrow> rb_Start b = 0 \<and> rb_End b = length (rb_Data b) \<and> unat (rb_Size b) = length (rb_Data b)
     \<and> rb_In b < rb_End b \<and> rb_Out b < rb_End b"

lemma ring_safe_init:
  "length xs = unat n \<Longrightarrow> 0 < n \<Longrightarrow> ring_safe (RingBuffer_InitBuffer xs n)"
  by (auto simp: ring_safe_def RingBuffer_InitBuffer_def word_less_nat_alt)

lemma ring_safe_Insert: "ring_safe b \<Longrightarrow> ring_safe (RingBuffer_Insert b d)"
  by (auto simp: ring_safe_def RingBuffer_Insert_def Let_def)

lemma ring_safe_Remove: "ring_safe b \<Longrightarrow> ring_safe (snd (RingBuffer_Remove b))"
  by (auto simp: ring_safe_def RingBuffer_Remove_def Let_def)

section \<open>The abstract queue\<close>

text \<open>
  \<open>ring_ok\<close> is the state in which the buffer has neither overrun nor underrun;
  \<open>ring_list\<close> reads it as the list of its bytes, oldest first.
\<close>

definition ring_ok :: "RingBuffer_t \<Rightarrow> bool" where
  "ring_ok b \<longleftrightarrow> ring_safe b \<and> rb_Count b \<le> rb_Size b
     \<and> rb_In b = (rb_Out b + unat (rb_Count b)) mod length (rb_Data b)"

definition ring_list :: "RingBuffer_t \<Rightarrow> u8 list" where
  "ring_list b = map (\<lambda>i. rb_Data b ! ((rb_Out b + i) mod length (rb_Data b))) [0..<unat (rb_Count b)]"

lemma length_ring_list [simp]: "length (ring_list b) = unat (rb_Count b)"
  by (simp add: ring_list_def)

lemma ring_ok_init [ring_simps]:
  "length xs = unat n \<Longrightarrow> 0 < n \<Longrightarrow> ring_ok (RingBuffer_InitBuffer xs n)"
  using ring_safe_init [of xs n] by (auto simp: ring_ok_def RingBuffer_InitBuffer_def)

lemma rb_Data_init [ring_simps]: "rb_Data (RingBuffer_InitBuffer xs n) = xs"
  by (simp add: RingBuffer_InitBuffer_def)

lemma ring_list_init [ring_simps]: "ring_list (RingBuffer_InitBuffer xs n) = []"
  by (simp add: ring_list_def RingBuffer_InitBuffer_def)

lemma Suc_mod_eq: "i < n \<Longrightarrow> (if Suc i = n then 0 else Suc i) = Suc i mod n"
  by auto

lemma unat_Suc_count:
  "rb_Count b < rb_Size b \<Longrightarrow> unat (rb_Count b + 1) = Suc (unat (rb_Count b))"
  using unat_bounds(2) [of "rb_Size b"] by (simp add: unat_word_ariths word_less_nat_alt)

lemma Insert_fields:
  assumes "ring_safe b"
  shows "rb_Data (RingBuffer_Insert b d) = (rb_Data b)[rb_In b := d]"
    and "rb_In (RingBuffer_Insert b d) = Suc (rb_In b) mod length (rb_Data b)"
    and "rb_Out (RingBuffer_Insert b d) = rb_Out b"
    and "rb_Size (RingBuffer_Insert b d) = rb_Size b"
    and "rb_Count (RingBuffer_Insert b d) = rb_Count b + 1"
  using assms by (auto simp: RingBuffer_Insert_def Let_def ring_safe_def)

lemma Remove_fields:
  assumes "ring_safe b"
  shows "fst (RingBuffer_Remove b) = rb_Data b ! rb_Out b"
    and "rb_Data (snd (RingBuffer_Remove b)) = rb_Data b"
    and "rb_In (snd (RingBuffer_Remove b)) = rb_In b"
    and "rb_Out (snd (RingBuffer_Remove b)) = Suc (rb_Out b) mod length (rb_Data b)"
    and "rb_Size (snd (RingBuffer_Remove b)) = rb_Size b"
    and "rb_Count (snd (RingBuffer_Remove b)) = rb_Count b - 1"
  using assms by (auto simp: RingBuffer_Remove_def Let_def ring_safe_def)

lemma mod_index_neq:
  fixes n :: nat
  assumes "i < k" "k < n"
  shows "(a + i) mod n \<noteq> (a + k) mod n"
proof
  assume "(a + i) mod n = (a + k) mod n"
  then have "n dvd (a + k) - (a + i)"
    using assms mod_eq_dvd_iff_nat [of "a + i" "a + k" n] by simp
  then show False using assms by (auto dest: dvd_imp_le)
qed

lemma ring_Insert:
  assumes ok: "ring_ok b" and room: "rb_Count b < rb_Size b"
  shows "ring_ok (RingBuffer_Insert b d)"
    and "ring_list (RingBuffer_Insert b d) = ring_list b @ [d]"
proof -
  let ?n = "length (rb_Data b)" and ?c = "unat (rb_Count b)"
  from ok have safe: "ring_safe b" and at: "rb_In b = (rb_Out b + ?c) mod ?n"
    by (auto simp: ring_ok_def)
  from room safe have lt: "?c < ?n"
    by (auto simp: ring_safe_def word_less_nat_alt)
  from room have cnt: "unat (rb_Count b + 1) = Suc ?c" by (rule unat_Suc_count)
  have "rb_Count b + 1 \<le> rb_Size b"
    using lt safe by (auto simp: word_le_nat_alt cnt ring_safe_def)
  moreover have "Suc (rb_In b) mod ?n = (rb_Out b + Suc ?c) mod ?n"
    by (simp add: at mod_Suc_eq)
  ultimately show "ring_ok (RingBuffer_Insert b d)"
    using ring_safe_Insert [OF safe] by (simp add: ring_ok_def Insert_fields [OF safe] cnt)
  have "rb_In b < ?n" using safe by (simp add: ring_safe_def)
  moreover have "(rb_Out b + ?c) mod ?n \<noteq> (rb_Out b + i) mod ?n" if "i < ?c" for i
    using mod_index_neq [OF that lt] by metis
  ultimately show "ring_list (RingBuffer_Insert b d) = ring_list b @ [d]"
    by (auto simp: ring_list_def Insert_fields [OF safe] cnt at nth_list_update)
qed

lemma unat_pred_count: "0 < c \<Longrightarrow> unat (c - 1 :: u16) = unat c - 1"
  by (simp add: unat_minus_one word_neq_0_conv)

lemma ring_Remove:
  assumes ok: "ring_ok b" and some: "0 < rb_Count b"
  shows "ring_ok (snd (RingBuffer_Remove b))"
    and "ring_list b = fst (RingBuffer_Remove b) # ring_list (snd (RingBuffer_Remove b))"
proof -
  let ?n = "length (rb_Data b)"
  from ok have safe: "ring_safe b" by (simp add: ring_ok_def)
  obtain k where k: "unat (rb_Count b) = Suc k"
    using some by (metis not0_implies_Suc unat_eq_zero word_neq_0_conv)
  have k': "unat (rb_Count b - 1) = k" using unat_pred_count [OF some] k by simp
  have out: "rb_Out b mod ?n = rb_Out b" using safe by (simp add: ring_safe_def)
  have "rb_Count b - 1 \<le> rb_Size b"
    using ok k k' by (auto simp: ring_ok_def word_le_nat_alt)
  then show "ring_ok (snd (RingBuffer_Remove b))"
    using ok ring_safe_Remove [OF safe] k k'
    by (simp add: ring_ok_def Remove_fields [OF safe] mod_add_left_eq)
  show "ring_list b = fst (RingBuffer_Remove b) # ring_list (snd (RingBuffer_Remove b))"
    by (simp add: ring_list_def Remove_fields [OF safe] k k' out upt_conv_Cons map_Suc_upt [symmetric]
        mod_add_left_eq del: upt_Suc)
qed

section \<open>Interface: a bounded byte queue\<close>

text \<open>
  What the firmware relies on when it stores and fetches whole messages. \<open>cap\<close> is the number
  of bytes that fit. The clients below insert a block of bytes and take a block of bytes out.
\<close>

locale byte_queue =
  fixes insert :: "'q \<Rightarrow> u8 \<Rightarrow> 'q"
    and remove :: "'q \<Rightarrow> u8 \<times> 'q"
    and ok :: "'q \<Rightarrow> bool"
    and bytes :: "'q \<Rightarrow> u8 list"
    and cap :: "'q \<Rightarrow> nat"
  assumes insert_ok: "ok q \<Longrightarrow> length (bytes q) < cap q \<Longrightarrow> ok (insert q x)"
    and insert_bytes: "ok q \<Longrightarrow> length (bytes q) < cap q \<Longrightarrow> bytes (insert q x) = bytes q @ [x]"
    and insert_cap: "ok q \<Longrightarrow> length (bytes q) < cap q \<Longrightarrow> cap (insert q x) = cap q"
    and remove_ok: "ok q \<Longrightarrow> bytes q \<noteq> [] \<Longrightarrow> ok (snd (remove q))"
    and remove_bytes: "ok q \<Longrightarrow> bytes q \<noteq> [] \<Longrightarrow> bytes q = fst (remove q) # bytes (snd (remove q))"
    and remove_cap: "ok q \<Longrightarrow> bytes q \<noteq> [] \<Longrightarrow> cap (snd (remove q)) = cap q"
begin

lemma put_all_correct:
  "ok q \<Longrightarrow> length (bytes q) + length xs \<le> cap q \<Longrightarrow>
     ok (put_bytes insert xs q) \<and> bytes (put_bytes insert xs q) = bytes q @ xs
     \<and> cap (put_bytes insert xs q) = cap q"
proof (induction xs arbitrary: q)
  case (Cons x xs)
  then have "length (bytes q) < cap q" by simp
  with Cons show ?case by (simp add: insert_ok insert_bytes insert_cap)
qed simp

lemma get_n_correct:
  "ok q \<Longrightarrow> n \<le> length (bytes q) \<Longrightarrow>
     fst (get_bytes remove n q) = take n (bytes q) \<and> ok (snd (get_bytes remove n q))
     \<and> bytes (snd (get_bytes remove n q)) = drop n (bytes q) \<and> cap (snd (get_bytes remove n q)) = cap q"
proof (induction n arbitrary: q)
  case (Suc n)
  then have ne: "bytes q \<noteq> []" by auto
  note ok' = remove_ok [OF Suc.prems(1) ne] and eq = remove_bytes [OF Suc.prems(1) ne]
  have len: "n \<le> length (bytes (snd (remove q)))"
    using Suc.prems(2) eq by (metis Suc_le_mono length_Cons)
  have "take (Suc n) (bytes q) = fst (remove q) # take n (bytes (snd (remove q)))"
    and "drop (Suc n) (bytes q) = drop n (bytes (snd (remove q)))"
    by (subst eq, simp)+
  with Suc.IH [OF ok' len] show ?case
    by (simp add: Let_def split_beta remove_cap [OF Suc.prems(1) ne])
qed simp

end

definition ring_cap :: "RingBuffer_t \<Rightarrow> nat" where
  "ring_cap b = unat (rb_Size b)"

lemma ring_cap_init [ring_simps]: "ring_cap (RingBuffer_InitBuffer xs n) = unat n"
  by (simp add: ring_cap_def RingBuffer_InitBuffer_def)

interpretation ring: byte_queue RingBuffer_Insert RingBuffer_Remove ring_ok ring_list ring_cap
proof unfold_locales
  fix q x
  assume ok: "ring_ok q" and "length (ring_list q) < ring_cap q"
  then have room: "rb_Count q < rb_Size q" by (simp add: ring_cap_def word_less_nat_alt)
  show "ring_ok (RingBuffer_Insert q x)" by (rule ring_Insert(1) [OF ok room])
  show "ring_list (RingBuffer_Insert q x) = ring_list q @ [x]" by (rule ring_Insert(2) [OF ok room])
  show "ring_cap (RingBuffer_Insert q x) = ring_cap q"
    using ok by (simp add: ring_cap_def ring_ok_def Insert_fields)
next
  fix q
  assume ok: "ring_ok q" and "ring_list q \<noteq> []"
  then have some: "0 < rb_Count q" by (auto simp: ring_list_def word_neq_0_conv [symmetric])
  show "ring_ok (snd (RingBuffer_Remove q))" by (rule ring_Remove(1) [OF ok some])
  show "ring_list q = fst (RingBuffer_Remove q) # ring_list (snd (RingBuffer_Remove q))"
    by (rule ring_Remove(2) [OF ok some])
  show "ring_cap (snd (RingBuffer_Remove q)) = ring_cap q"
    using ok by (simp add: ring_cap_def ring_ok_def Remove_fields)
qed

lemma ring_empty_iff: "RingBuffer_GetCount b = 0 \<longleftrightarrow> ring_list b = []"
  by (auto simp: RingBuffer_GetCount_def ring_list_def unat_eq_zero)

lemma ring_Peek:
  assumes "ring_ok b" "ring_list b = x # xs"
  shows "RingBuffer_Peek b = x"
proof -
  have "fst (RingBuffer_Remove b) = x" using ring.remove_bytes [OF assms(1)] assms(2) by simp
  then show ?thesis using Remove_fields(1) [of b] assms(1) by (simp add: RingBuffer_Peek_def ring_ok_def)
qed

lemma Insert_count: "ring_safe r \<Longrightarrow> RingBuffer_GetCount (RingBuffer_Insert r b) = RingBuffer_GetCount r + 1"
  by (simp add: RingBuffer_GetCount_def Insert_fields)

lemma Remove_count: "ring_safe r \<Longrightarrow> RingBuffer_GetCount (snd (RingBuffer_Remove r)) = RingBuffer_GetCount r - 1"
  by (simp add: RingBuffer_GetCount_def Remove_fields)

section \<open>Sequences of operations\<close>

datatype queue_op = Put u8 | Get

text \<open>What a sequence of insertions and removals returns, on the ring buffer and on a bounded list;
  the latter has no outcome once the queue over- or underflows.\<close>

fun ring_run :: "queue_op list \<Rightarrow> RingBuffer_t \<Rightarrow> u8 list \<times> RingBuffer_t" where
  "ring_run [] r = ([], r)"
| "ring_run (Put b # ops) r = ring_run ops (RingBuffer_Insert r b)"
| "ring_run (Get # ops) r =
     (let (v, r) = RingBuffer_Remove r; (vs, r) = ring_run ops r in (v # vs, r))"

fun queue_run :: "nat \<Rightarrow> queue_op list \<Rightarrow> u8 list \<Rightarrow> (u8 list \<times> u8 list) option" where
  "queue_run n [] q = Some ([], q)"
| "queue_run n (Put b # ops) q = (if length q < n then queue_run n ops (q @ [b]) else None)"
| "queue_run n (Get # ops) [] = None"
| "queue_run n (Get # ops) (v # q) = map_option (\<lambda>(vs, q). (v # vs, q)) (queue_run n ops q)"

lemma ring_run_queue:
  "ring_ok r \<Longrightarrow> queue_run (ring_cap r) ops (ring_list r) = Some (out, q) \<Longrightarrow>
     fst (ring_run ops r) = out \<and> ring_list (snd (ring_run ops r)) = q \<and> ring_ok (snd (ring_run ops r))"
proof (induction ops arbitrary: r out)
  case (Cons op ops)
  show ?case
  proof (cases op)
    case (Put b)
    with Cons ring.insert_ok [of r b] ring.insert_bytes [of r b] ring.insert_cap [of r b] show ?thesis
      by (auto simp del: length_ring_list split: if_split_asm)
  next
    case Get
    with Cons.prems obtain v vs where l: "ring_list r = v # vs" by (cases "ring_list r") auto
    with Get Cons ring.remove_bytes [of r] ring.remove_ok [of r] ring.remove_cap [of r] show ?thesis
      by (auto simp: Let_def split_beta)
  qed
qed simp

lemma ring_run_safe: "ring_safe r \<Longrightarrow> ring_safe (snd (ring_run ops r))"
proof (induction ops arbitrary: r)
  case (Cons op ops)
  then show ?case by (cases op) (auto simp: ring_safe_Insert ring_safe_Remove Let_def split_beta)
qed simp

section \<open>Properties\<close>

text \<open>C20. The ring buffer is a bounded first-in first-out queue: on any interleaving of insertions
  and removals that a list of the buffer's capacity can follow without over- or underflow, it
  returns the same bytes and holds the same bytes in the same order.\<close>

theorem ring_refines_queue:
  assumes "length data = unat n" "0 < n" "queue_run (unat n) ops [] = Some (out, q)"
  shows "let (vs, r) = ring_run ops (RingBuffer_InitBuffer data n)
         in vs = out \<and> ring_list r = q \<and> unat (RingBuffer_GetCount r) = length q \<and> ring_ok r"
proof -
  let ?r = "RingBuffer_InitBuffer data n"
  have "queue_run (ring_cap ?r) ops (ring_list ?r) = Some (out, q)"
    using assms(3) by (simp add: ring_simps)
  from ring_run_queue [OF ring_ok_init [OF assms(1,2)] this] show ?thesis
    by (auto simp: Let_def split_beta RingBuffer_GetCount_def simp flip: length_ring_list)
qed

theorem ring_refines_queue_witness:
  "fst (ring_run [Put 1, Put 2, Get, Put 3, Get, Get] (RingBuffer_InitBuffer [0, 0] 2)) = [1, 2, 3]"
  using ring_refines_queue [of "[0, 0]" 2 "[Put 1, Put 2, Get, Put 3, Get, Get]" "[1, 2, 3]" "[]"]
  by (simp add: Let_def split_beta)

text \<open>Whatever is inserted and removed, even past a full or an empty buffer, the two pointers
  stay inside the array: an overrun damages the contents, never the memory around them.\<close>

theorem ring_memory_safe:
  assumes "length data = unat n" "0 < n"
  shows "let r = snd (ring_run ops (RingBuffer_InitBuffer data n))
         in rb_In r < length (rb_Data r) \<and> rb_Out r < length (rb_Data r) \<and> length (rb_Data r) = unat (rb_Size r)"
  using ring_run_safe [OF ring_safe_init [OF assms], of ops] by (auto simp: Let_def ring_safe_def)

theorem ring_memory_safe_witness:
  "rb_In (snd (ring_run [Put 1, Put 2, Put 3, Get] (RingBuffer_InitBuffer [0, 0] 2))) < 2"
  using ring_memory_safe [of "[0, 0]" 2 "[Put 1, Put 2, Put 3, Get]"]
  by (simp add: Let_def RingBuffer_InitBuffer_def RingBuffer_Insert_def RingBuffer_Remove_def)

text \<open>C36. Inserting into a full buffer, which the code does not check, overwrites the oldest byte
  with the newest and counts one byte more than the buffer holds (for every size below 65535, the
  largest count).\<close>

theorem ring_overrun:
  assumes "ring_ok r" "RingBuffer_IsFull r" "unat (rb_Size r) < 65535"
  shows "RingBuffer_Peek (RingBuffer_Insert r b) = b
    \<and> unat (RingBuffer_GetCount (RingBuffer_Insert r b)) = Suc (unat (rb_Size r))"
proof -
  have f: "rb_In r = rb_Out r" "rb_Count r = rb_Size r" "ring_safe r"
    using assms(1,2) by (auto simp: ring_ok_def ring_safe_def RingBuffer_IsFull_def RingBuffer_GetCount_def)
  have "unat (rb_Size r + 1) = Suc (unat (rb_Size r))" using assms(3) by (simp add: unat_word_ariths)
  with f show ?thesis
    by (auto simp: RingBuffer_Peek_def Insert_fields RingBuffer_GetCount_def ring_safe_def)
qed

theorem ring_overrun_witness:
  "RingBuffer_Peek (RingBuffer_Insert (put_bytes RingBuffer_Insert [1, 2] (RingBuffer_InitBuffer [0, 0] 2)) 3) = 3"
proof -
  let ?r = "RingBuffer_InitBuffer [0, 0] 2"
  have "ring_ok (put_bytes RingBuffer_Insert [1, 2] ?r)"
    using ring.put_all_correct [of ?r "[1, 2]"] by (simp add: ring_simps)
  then show ?thesis
    using ring_overrun [of "put_bytes RingBuffer_Insert [1, 2] ?r" 3]
    by (simp add: RingBuffer_IsFull_def RingBuffer_GetCount_def RingBuffer_Insert_def RingBuffer_InitBuffer_def Let_def)
qed

end
