(* ===== verification/Clock_Timer.thy ===== *)
theory Clock_Timer
  imports Avr_Registers
begin

text \<open>
  The millisecond clock of \<open>clock.c\<close> and the one-shot timers of \<open>timer.c\<close>
  (the same files in \<open>Projects/AvalonBTC\<close> and \<open>Projects/XilinxFpgaProg\<close>). The tick
  counter is a 32-bit word and wraps after about 49.7 days; \<open>timerExpired\<close> has a branch for
  the wrapped case, and the lemmas below say what its two branches do to the deadline.
\<close>

section \<open>clock.c\<close>

record clock =
  clk_time :: u32
  TIMSK0 :: u8
  OCR0A :: u8
  TCCR0A :: u8
  TCCR0B :: u8

definition TIMER0_COMPA_vect :: "clock \<Rightarrow> clock" where
  "TIMER0_COMPA_vect c = c\<lparr>clk_time := clk_time c + 1\<rparr>"

definition clockInit :: "clock \<Rightarrow> clock" where
  "clockInit c = c\<lparr>clk_time := 0, TIMSK0 := TIMSK0 c OR BV OCIE0A, OCR0A := 249,
      TCCR0A := BV WGM01, TCCR0B := 0x03\<rparr>"

definition clockGetTime :: "clock \<Rightarrow> u32" where
  "clockGetTime c = clk_time c"

section \<open>timer.c\<close>

record Timer =
  t_active :: u8
  t_start :: u32
  t_interval :: u32

definition timerActive :: "Timer \<Rightarrow> bool" where
  "timerActive t \<longleftrightarrow> t_active t \<noteq> 0"

definition timerSet :: "clock \<Rightarrow> Timer \<Rightarrow> u32 \<Rightarrow> Timer" where
  "timerSet c t interval = t\<lparr>t_active := 1, t_start := clockGetTime c, t_interval := interval\<rparr>"

definition timerStop :: "Timer \<Rightarrow> Timer" where
  "timerStop t = t\<lparr>t_active := 0\<rparr>"

definition timerReset :: "Timer \<Rightarrow> Timer" where
  "timerReset t = t\<lparr>t_active := 1, t_start := t_start t + t_interval t\<rparr>"

definition timerRestart :: "clock \<Rightarrow> Timer \<Rightarrow> Timer" where
  "timerRestart c t = t\<lparr>t_active := 1, t_start := clockGetTime c\<rparr>"

definition timerExpired :: "clock \<Rightarrow> Timer \<Rightarrow> bool \<times> Timer" where
  "timerExpired c t =
     (let time = clockGetTime c in
      if \<not> timerActive t then (False, t)
      else if time > t_start t then
        (let diff = time - t_start t in
         if diff > t_interval t then (True, t\<lparr>t_active := 0\<rparr>) else (False, t))
      else
        (if (NOT (t_start t)) + time + 1 \<ge> t_interval t then (True, t\<lparr>t_active := 0\<rparr>) else (False, t)))"

section \<open>What a poll returns\<close>

lemma not_plus_one: "NOT (a :: 'a::len word) + b + 1 = b - a"
  by (simp add: minus_eq_not_plus_1 [symmetric] algebra_simps)

lemma timerExpired_iff:
  "fst (timerExpired c t) \<longleftrightarrow> timerActive t \<and>
     (t_interval t < clk_time c - t_start t \<or> (t_interval t = clk_time c - t_start t \<and> clk_time c \<le> t_start t))"
  by (auto simp: timerExpired_def Let_def clockGetTime_def not_plus_one)

lemma timerExpired_state:
  "snd (timerExpired c t) = (if fst (timerExpired c t) then timerStop t else t)"
  by (simp add: timerExpired_def Let_def timerStop_def)

lemma timer_stopped_silent: "\<not> timerActive t \<Longrightarrow> timerExpired c t = (False, t)"
  by (simp add: timerExpired_def Let_def)

lemma timerStop_inactive [simp]: "\<not> timerActive (timerStop t)"
  by (simp add: timerStop_def timerActive_def)

section \<open>Deadlines in real time\<close>

text \<open>\<open>n\<close> timer interrupts after a state, the tick counter has moved by \<open>n\<close>, modulo its width.\<close>

lemma ticks_time: "clk_time ((TIMER0_COMPA_vect ^^ n) c) = clk_time c + of_nat n"
  by (induction n) (simp_all add: TIMER0_COMPA_vect_def algebra_simps)

lemma elapsed_after_set:
  "clk_time ((TIMER0_COMPA_vect ^^ n) c) - t_start (timerSet c t iv) = of_nat n"
  by (simp add: ticks_time timerSet_def clockGetTime_def)

lemma unat_of_nat_u32: "n < 2 ^ 32 \<Longrightarrow> unat (of_nat n :: u32) = n"
  by (simp add: unat_of_nat take_bit_nat_eq_self)

lemma timer_fires_iff:
  assumes "n < 2 ^ 32"
  shows "fst (timerExpired ((TIMER0_COMPA_vect ^^ n) c) (timerSet c t iv)) \<longleftrightarrow>
    unat iv < n \<or> (unat iv = n \<and> clk_time c + of_nat n \<le> clk_time c)"
proof -
  let ?c = "(TIMER0_COMPA_vect ^^ n) c" and ?t = "timerSet c t iv"
  have act: "timerActive ?t" and fields: "t_interval ?t = iv" "t_start ?t = clk_time c"
    by (simp_all add: timerSet_def timerActive_def clockGetTime_def)
  have "iv < of_nat n \<longleftrightarrow> unat iv < n" and "iv = of_nat n \<longleftrightarrow> unat iv = n"
    using unat_of_nat_u32 [OF assms] by (auto simp: word_less_nat_alt word_unat_eq_iff)
  then show ?thesis
    using elapsed_after_set [of n c t iv] by (simp add: timerExpired_iff act fields ticks_time)
qed

section \<open>Properties\<close>

text \<open>C34. A timer set to \<open>iv\<close> ticks is exact to one tick across the wrap-around of the 32-bit
  tick counter: polled \<open>n\<close> ticks later (\<open>n < 2 ^ 32\<close>) it has expired when \<open>n > iv\<close>, not when
  \<open>n < iv\<close>, and at \<open>n = iv\<close> exactly if the counter has wrapped in between or stands still (\<open>n = iv = 0\<close>, which
  the code takes for a wrap-around). It fires once: the
  next poll, whenever it is made, returns false.\<close>

theorem timer_window:
  assumes "n < 2 ^ 32"
  shows "let (fired, t') = timerExpired ((TIMER0_COMPA_vect ^^ n) c) (timerSet c t iv)
         in (unat iv < n \<longrightarrow> fired) \<and> (n < unat iv \<longrightarrow> \<not> fired)
          \<and> (n = unat iv \<longrightarrow> (fired \<longleftrightarrow> clk_time c + of_nat n \<le> clk_time c))
          \<and> (fired \<longrightarrow> timerExpired c' t' = (False, t'))"
  using timer_fires_iff [OF assms, of c t iv] timerExpired_state [of "(TIMER0_COMPA_vect ^^ n) c" "timerSet c t iv"]
  by (auto simp: Let_def split_beta timer_stopped_silent)

theorem timer_window_witness:
  "fst (timerExpired ((TIMER0_COMPA_vect ^^ 20) \<lparr>clk_time = 0xFFFFFFFF, TIMSK0 = 0, OCR0A = 0, TCCR0A = 0, TCCR0B = 0\<rparr>)
     (timerSet \<lparr>clk_time = 0xFFFFFFFF, TIMSK0 = 0, OCR0A = 0, TCCR0A = 0, TCCR0B = 0\<rparr> \<lparr>t_active = 0, t_start = 0, t_interval = 0\<rparr> 10))"
  using timer_window [of 20 "\<lparr>clk_time = 0xFFFFFFFF, TIMSK0 = 0, OCR0A = 0, TCCR0A = 0, TCCR0B = 0\<rparr>"
      "\<lparr>t_active = 0, t_start = 0, t_interval = 0\<rparr>" 10]
  by (simp add: Let_def split_beta)

text \<open>A timer that is reset when it has fired, rather than restarted, keeps its phase: its
  deadlines are multiples of the interval after the first start, however late the polls are.\<close>

theorem timer_phase:
  "t_start ((timerReset ^^ k) (timerSet c t iv)) = clk_time c + of_nat k * iv
   \<and> t_interval ((timerReset ^^ k) (timerSet c t iv)) = iv"
  by (induction k) (simp_all add: timerReset_def timerSet_def clockGetTime_def algebra_simps)

end
