(* ===== verification/Usb_Endpoint.thy ===== *)
theory Usb_Endpoint
  imports Avr_Registers
begin

text \<open>
  The endpoint primitives of \<open>LUFA/Drivers/USB/Core/AVR8/Endpoint_AVR8.h\<close> and
  \<open>Endpoint_AVR8.c\<close>, for the ATmega32U2 (\<open>USB_SERIES_2_AVR\<close>: five endpoints, byte counts in
  \<open>UEBCLX\<close>). Every operation is a sequence of accesses to the USB controller, the parameter
  \<open>D\<close>. \<open>USB_DeviceState\<close> is the register \<open>GPIOR0\<close> (\<open>DEVICE_STATE_AS_GPIOR = 0\<close> in the
  makefiles), which interrupts change while the code waits; it is read through \<open>D\<close> too.
\<close>

section \<open>Constants\<close>

abbreviation (input) "ENDPOINT_EPNUM_MASK \<equiv> 0x0F :: u8"
abbreviation (input) "ENDPOINT_DIR_OUT \<equiv> 0x00 :: u8"
abbreviation (input) "ENDPOINT_DIR_IN \<equiv> 0x80 :: u8"
abbreviation (input) "ENDPOINT_CONTROLEP \<equiv> 0 :: u8"
abbreviation (input) "ENDPOINT_TOTAL_ENDPOINTS \<equiv> 5 :: u8"
abbreviation (input) "EP_TYPE_CONTROL \<equiv> 0x00 :: u8"
abbreviation (input) "EP_TYPE_BULK \<equiv> 0x02 :: u8"
abbreviation (input) "EP_TYPE_INTERRUPT \<equiv> 0x03 :: u8"

abbreviation (input) "ENDPOINT_READYWAIT_NoError \<equiv> 0 :: u8"
abbreviation (input) "ENDPOINT_READYWAIT_EndpointStalled \<equiv> 1 :: u8"
abbreviation (input) "ENDPOINT_READYWAIT_DeviceDisconnected \<equiv> 2 :: u8"
abbreviation (input) "ENDPOINT_READYWAIT_BusSuspended \<equiv> 3 :: u8"
abbreviation (input) "ENDPOINT_READYWAIT_Timeout \<equiv> 4 :: u8"

abbreviation (input) "DEVICE_STATE_Unattached \<equiv> 0 :: u8"
abbreviation (input) "DEVICE_STATE_Powered \<equiv> 1 :: u8"
abbreviation (input) "DEVICE_STATE_Default \<equiv> 2 :: u8"
abbreviation (input) "DEVICE_STATE_Addressed \<equiv> 3 :: u8"
abbreviation (input) "DEVICE_STATE_Configured \<equiv> 4 :: u8"
abbreviation (input) "DEVICE_STATE_Suspended \<equiv> 5 :: u8"

abbreviation (input) "USB_STREAM_TIMEOUT_MS \<equiv> 100 :: u8"

definition USB_DeviceState :: "'h io \<Rightarrow> 'h \<Rightarrow> u8 \<times> 'h" where
  "USB_DeviceState D h = io_rd D GPIOR0 h"

definition set_USB_DeviceState :: "'h io \<Rightarrow> u8 \<Rightarrow> 'h \<Rightarrow> 'h" where
  "set_USB_DeviceState D v h = io_wr D GPIOR0 v h"

section \<open>Endpoint\_AVR8.h\<close>

text \<open>The loop does not end for sizes above 32768, where the shifted counter becomes 0.\<close>

definition Endpoint_BytesToEPSizeMask :: "u16 \<Rightarrow> u8 option" where
  "Endpoint_BytesToEPSizeMask Bytes =
     loop (\<lambda>(MaskVal :: u8, CheckBytes :: u16).
        if CheckBytes < Bytes then Some (Inr (MaskVal + 1, push_bit 1 CheckBytes))
        else Some (Inl (push_bit EPSIZE0 MaskVal)))
       (0, 8)"

definition Endpoint_BytesInEndpoint :: "'h io \<Rightarrow> 'h \<Rightarrow> u16 \<times> 'h" where
  "Endpoint_BytesInEndpoint D h = (let (v, h) = io_rd D UEBCLX h in (ucast v, h))"

definition Endpoint_GetEndpointDirection :: "'h io \<Rightarrow> 'h \<Rightarrow> u8 \<times> 'h" where
  "Endpoint_GetEndpointDirection D h =
     (let (b, h) = io_test D UECFG0X EPDIR h in (if b then ENDPOINT_DIR_IN else ENDPOINT_DIR_OUT, h))"

definition Endpoint_GetCurrentEndpoint :: "'h io \<Rightarrow> 'h \<Rightarrow> u8 \<times> 'h" where
  "Endpoint_GetCurrentEndpoint D h =
     (let (v, h) = io_rd D UENUM h; (d, h) = Endpoint_GetEndpointDirection D h
      in ((v AND ENDPOINT_EPNUM_MASK) OR d, h))"

definition Endpoint_SelectEndpoint :: "'h io \<Rightarrow> u8 \<Rightarrow> 'h \<Rightarrow> 'h" where
  "Endpoint_SelectEndpoint D Address h = io_wr D UENUM (Address AND ENDPOINT_EPNUM_MASK) h"

definition Endpoint_ResetEndpoint :: "'h io \<Rightarrow> u8 \<Rightarrow> 'h \<Rightarrow> 'h" where
  "Endpoint_ResetEndpoint D Address h =
     (let h = io_wr D UERST (BV (unat (Address AND ENDPOINT_EPNUM_MASK))) h in io_wr D UERST 0 h)"

definition Endpoint_EnableEndpoint :: "'h io \<Rightarrow> 'h \<Rightarrow> 'h" where
  "Endpoint_EnableEndpoint D h = io_or D UECONX (BV EPEN) h"

definition Endpoint_DisableEndpoint :: "'h io \<Rightarrow> 'h \<Rightarrow> 'h" where
  "Endpoint_DisableEndpoint D h = io_and D UECONX (NOT (BV EPEN)) h"

definition Endpoint_IsEnabled :: "'h io \<Rightarrow> 'h \<Rightarrow> bool \<times> 'h" where
  "Endpoint_IsEnabled D h = io_test D UECONX EPEN h"

definition Endpoint_GetBusyBanks :: "'h io \<Rightarrow> 'h \<Rightarrow> u8 \<times> 'h" where
  "Endpoint_GetBusyBanks D h = (let (v, h) = io_rd D UESTA0X h in (v AND push_bit NBUSYBK0 0x03, h))"

definition Endpoint_AbortPendingIN :: "'h io \<Rightarrow> 'h \<Rightarrow> 'h option" where
  "Endpoint_AbortPendingIN D h =
     loop (\<lambda>h. let (n, h) = Endpoint_GetBusyBanks D h in
        if n = 0 then Some (Inl h)
        else let h = io_or D UEINTX (BV RXOUTI) h in
          do { h \<leftarrow> loop (\<lambda>h. let (b, h) = io_test D UEINTX RXOUTI h in
                    if b then Some (Inr h) else Some (Inl h)) h;
               Some (Inr h) }) h"

definition Endpoint_IsReadWriteAllowed :: "'h io \<Rightarrow> 'h \<Rightarrow> bool \<times> 'h" where
  "Endpoint_IsReadWriteAllowed D h = io_test D UEINTX RWAL h"

definition Endpoint_IsConfigured :: "'h io \<Rightarrow> 'h \<Rightarrow> bool \<times> 'h" where
  "Endpoint_IsConfigured D h = io_test D UESTA0X CFGOK h"

definition Endpoint_GetEndpointInterrupts :: "'h io \<Rightarrow> 'h \<Rightarrow> u8 \<times> 'h" where
  "Endpoint_GetEndpointInterrupts D h = io_rd D UEINT h"

definition Endpoint_HasEndpointInterrupted :: "'h io \<Rightarrow> u8 \<Rightarrow> 'h \<Rightarrow> bool \<times> 'h" where
  "Endpoint_HasEndpointInterrupted D Address h =
     (let (v, h) = Endpoint_GetEndpointInterrupts D h
      in (ucast v AND (BV (unat (Address AND ENDPOINT_EPNUM_MASK)) :: u16) \<noteq> 0, h))"

definition Endpoint_IsINReady :: "'h io \<Rightarrow> 'h \<Rightarrow> bool \<times> 'h" where
  "Endpoint_IsINReady D h = io_test D UEINTX TXINI h"

definition Endpoint_IsOUTReceived :: "'h io \<Rightarrow> 'h \<Rightarrow> bool \<times> 'h" where
  "Endpoint_IsOUTReceived D h = io_test D UEINTX RXOUTI h"

definition Endpoint_IsSETUPReceived :: "'h io \<Rightarrow> 'h \<Rightarrow> bool \<times> 'h" where
  "Endpoint_IsSETUPReceived D h = io_test D UEINTX RXSTPI h"

definition Endpoint_ClearSETUP :: "'h io \<Rightarrow> 'h \<Rightarrow> 'h" where
  "Endpoint_ClearSETUP D h = io_and D UEINTX (NOT (BV RXSTPI)) h"

definition Endpoint_ClearIN :: "'h io \<Rightarrow> 'h \<Rightarrow> 'h" where
  "Endpoint_ClearIN D h = io_and D UEINTX (NOT (BV TXINI OR BV FIFOCON)) h"

definition Endpoint_ClearOUT :: "'h io \<Rightarrow> 'h \<Rightarrow> 'h" where
  "Endpoint_ClearOUT D h = io_and D UEINTX (NOT (BV RXOUTI OR BV FIFOCON)) h"

definition Endpoint_StallTransaction :: "'h io \<Rightarrow> 'h \<Rightarrow> 'h" where
  "Endpoint_StallTransaction D h = io_or D UECONX (BV STALLRQ) h"

definition Endpoint_ClearStall :: "'h io \<Rightarrow> 'h \<Rightarrow> 'h" where
  "Endpoint_ClearStall D h = io_or D UECONX (BV STALLRQC) h"

definition Endpoint_IsStalled :: "'h io \<Rightarrow> 'h \<Rightarrow> bool \<times> 'h" where
  "Endpoint_IsStalled D h = io_test D UECONX STALLRQ h"

definition Endpoint_ResetDataToggle :: "'h io \<Rightarrow> 'h \<Rightarrow> 'h" where
  "Endpoint_ResetDataToggle D h = io_or D UECONX (BV RSTDT) h"

definition Endpoint_SetEndpointDirection :: "'h io \<Rightarrow> u8 \<Rightarrow> 'h \<Rightarrow> 'h" where
  "Endpoint_SetEndpointDirection D DirectionMask h =
     (let (v, h) = io_rd D UECFG0X h
      in io_wr D UECFG0X ((v AND NOT (BV EPDIR)) OR (if DirectionMask \<noteq> 0 then BV EPDIR else 0)) h)"

definition Endpoint_Read_8 :: "'h io \<Rightarrow> 'h \<Rightarrow> u8 \<times> 'h" where
  "Endpoint_Read_8 D h = io_rd D UEDATX h"

definition Endpoint_Write_8 :: "'h io \<Rightarrow> u8 \<Rightarrow> 'h \<Rightarrow> 'h" where
  "Endpoint_Write_8 D Data h = io_wr D UEDATX Data h"

definition Endpoint_Discard_8 :: "'h io \<Rightarrow> 'h \<Rightarrow> 'h" where
  "Endpoint_Discard_8 D h = snd (io_rd D UEDATX h)"

definition Endpoint_Read_16_LE :: "'h io \<Rightarrow> 'h \<Rightarrow> u16 \<times> 'h" where
  "Endpoint_Read_16_LE D h =
     (let (b0, h) = io_rd D UEDATX h; (b1, h) = io_rd D UEDATX h in (u16_of_bytes [b0, b1], h))"

definition Endpoint_Read_16_BE :: "'h io \<Rightarrow> 'h \<Rightarrow> u16 \<times> 'h" where
  "Endpoint_Read_16_BE D h =
     (let (b1, h) = io_rd D UEDATX h; (b0, h) = io_rd D UEDATX h in (u16_of_bytes [b0, b1], h))"

definition Endpoint_Write_16_LE :: "'h io \<Rightarrow> u16 \<Rightarrow> 'h \<Rightarrow> 'h" where
  "Endpoint_Write_16_LE D Data h =
     (let h = io_wr D UEDATX (ucast (Data AND 0xFF)) h in io_wr D UEDATX (ucast (drop_bit 8 Data)) h)"

definition Endpoint_Write_16_BE :: "'h io \<Rightarrow> u16 \<Rightarrow> 'h \<Rightarrow> 'h" where
  "Endpoint_Write_16_BE D Data h =
     (let h = io_wr D UEDATX (ucast (drop_bit 8 Data)) h in io_wr D UEDATX (ucast (Data AND 0xFF)) h)"

definition Endpoint_Discard_16 :: "'h io \<Rightarrow> 'h \<Rightarrow> 'h" where
  "Endpoint_Discard_16 D h = (let h = snd (io_rd D UEDATX h) in snd (io_rd D UEDATX h))"

definition Endpoint_Read_32_LE :: "'h io \<Rightarrow> 'h \<Rightarrow> u32 \<times> 'h" where
  "Endpoint_Read_32_LE D h =
     (let (b0, h) = io_rd D UEDATX h; (b1, h) = io_rd D UEDATX h;
          (b2, h) = io_rd D UEDATX h; (b3, h) = io_rd D UEDATX h
      in (u32_of_bytes [b0, b1, b2, b3], h))"

definition Endpoint_Read_32_BE :: "'h io \<Rightarrow> 'h \<Rightarrow> u32 \<times> 'h" where
  "Endpoint_Read_32_BE D h =
     (let (b3, h) = io_rd D UEDATX h; (b2, h) = io_rd D UEDATX h;
          (b1, h) = io_rd D UEDATX h; (b0, h) = io_rd D UEDATX h
      in (u32_of_bytes [b0, b1, b2, b3], h))"

definition Endpoint_Write_32_LE :: "'h io \<Rightarrow> u32 \<Rightarrow> 'h \<Rightarrow> 'h" where
  "Endpoint_Write_32_LE D Data h =
     (let h = io_wr D UEDATX (ucast (Data AND 0xFF)) h;
          h = io_wr D UEDATX (ucast (drop_bit 8 Data)) h;
          h = io_wr D UEDATX (ucast (drop_bit 16 Data)) h
      in io_wr D UEDATX (ucast (drop_bit 24 Data)) h)"

definition Endpoint_Write_32_BE :: "'h io \<Rightarrow> u32 \<Rightarrow> 'h \<Rightarrow> 'h" where
  "Endpoint_Write_32_BE D Data h =
     (let h = io_wr D UEDATX (ucast (drop_bit 24 Data)) h;
          h = io_wr D UEDATX (ucast (drop_bit 16 Data)) h;
          h = io_wr D UEDATX (ucast (drop_bit 8 Data)) h
      in io_wr D UEDATX (ucast (Data AND 0xFF)) h)"

definition Endpoint_Discard_32 :: "'h io \<Rightarrow> 'h \<Rightarrow> 'h" where
  "Endpoint_Discard_32 D h =
     (let h = snd (io_rd D UEDATX h); h = snd (io_rd D UEDATX h); h = snd (io_rd D UEDATX h)
      in snd (io_rd D UEDATX h))"

section \<open>Endpoint\_AVR8.c and frame numbers\<close>

text \<open>\<open>UDFNUM\<close> is a 16-bit register, read low byte first.\<close>

definition USB_Device_GetFrameNumber :: "'h io \<Rightarrow> 'h \<Rightarrow> u16 \<times> 'h" where
  "USB_Device_GetFrameNumber D h =
     (let (l, h) = io_rd D UDFNUML h; (u, h) = io_rd D UDFNUMH h in (u16_of_bytes [l, u], h))"

function Endpoint_ConfigureEndpoint_loop :: "'h io \<Rightarrow> u8 \<Rightarrow> u8 \<Rightarrow> u8 \<Rightarrow> u8 \<Rightarrow> 'h \<Rightarrow> bool \<times> 'h" where
  "Endpoint_ConfigureEndpoint_loop D Number UECFG0XData UECFG1XData EPNum h =
     (if EPNum < ENDPOINT_TOTAL_ENDPOINTS then
        let h = Endpoint_SelectEndpoint D EPNum h;
            (cfg0, cfg1, ien, h) =
              (if EPNum = Number then (UECFG0XData, UECFG1XData, 0, h)
               else let (a, h) = io_rd D UECFG0X h; (b, h) = io_rd D UECFG1X h; (c, h) = io_rd D UEIENX h
                 in (a, b, c, h))
        in if cfg1 AND BV ALLOC = 0 then
             Endpoint_ConfigureEndpoint_loop D Number UECFG0XData UECFG1XData (EPNum + 1) h
           else
             let h = Endpoint_DisableEndpoint D h;
                 h = io_and D UECFG1X (NOT (BV ALLOC)) h;
                 h = Endpoint_EnableEndpoint D h;
                 h = io_wr D UECFG0X cfg0 h;
                 h = io_wr D UECFG1X cfg1 h;
                 h = io_wr D UEIENX ien h;
                 (ok, h) = Endpoint_IsConfigured D h
             in if \<not> ok then (False, h)
                else Endpoint_ConfigureEndpoint_loop D Number UECFG0XData UECFG1XData (EPNum + 1) h
      else (True, Endpoint_SelectEndpoint D Number h))"
  by pat_completeness auto

lemma u8_next_less: "e < (5 :: u8) \<Longrightarrow> 5 - unat (e + 1) < 5 - unat e"
  by (simp add: unat_word_ariths word_less_nat_alt)

termination Endpoint_ConfigureEndpoint_loop
  by (relation "measure (\<lambda>(D, n, a, b, e, h). 5 - unat e)") (simp_all add: u8_next_less)

declare Endpoint_ConfigureEndpoint_loop.simps [simp del]

definition Endpoint_ConfigureEndpoint_Prv :: "'h io \<Rightarrow> u8 \<Rightarrow> u8 \<Rightarrow> u8 \<Rightarrow> 'h \<Rightarrow> bool \<times> 'h" where
  "Endpoint_ConfigureEndpoint_Prv D Number UECFG0XData UECFG1XData h =
     Endpoint_ConfigureEndpoint_loop D Number UECFG0XData UECFG1XData Number h"

definition Endpoint_ConfigureEndpoint :: "'h io \<Rightarrow> u8 \<Rightarrow> u8 \<Rightarrow> u16 \<Rightarrow> u8 \<Rightarrow> 'h \<Rightarrow> (bool \<times> 'h) option" where
  "Endpoint_ConfigureEndpoint D Address Type Size Banks h =
     (let Number = Address AND ENDPOINT_EPNUM_MASK in
      if Number \<ge> ENDPOINT_TOTAL_ENDPOINTS then Some (False, h)
      else do {
        szmask \<leftarrow> Endpoint_BytesToEPSizeMask Size;
        Some (Endpoint_ConfigureEndpoint_Prv D Number
          (push_bit EPTYPE0 Type OR (if Address AND ENDPOINT_DIR_IN \<noteq> 0 then BV EPDIR else 0))
          (BV ALLOC OR (if Banks > 1 then BV EPBK0 else 0) OR szmask) h) })"

record USB_Endpoint_Table_t =
  ep_Address :: u8
  ep_Size :: u16
  ep_Type :: u8
  ep_Banks :: u8

primrec Endpoint_ConfigureEndpointTable :: "'h io \<Rightarrow> USB_Endpoint_Table_t list \<Rightarrow> 'h \<Rightarrow> (bool \<times> 'h) option" where
  "Endpoint_ConfigureEndpointTable D [] h = Some (True, h)"
| "Endpoint_ConfigureEndpointTable D (e # es) h =
     (if ep_Address e = 0 then Endpoint_ConfigureEndpointTable D es h
      else do {
        (ok, h) \<leftarrow> Endpoint_ConfigureEndpoint D (ep_Address e) (ep_Type e) (ep_Size e) (ep_Banks e) h;
        if \<not> ok then Some (False, h) else Endpoint_ConfigureEndpointTable D es h })"

definition Endpoint_ClearEndpoints :: "'h io \<Rightarrow> 'h \<Rightarrow> 'h" where
  "Endpoint_ClearEndpoints D h =
     fold (\<lambda>EPNum h.
        let h = Endpoint_SelectEndpoint D EPNum h;
            h = io_wr D UEIENX 0 h;
            h = io_wr D UEINTX 0 h;
            h = io_wr D UECFG1X 0 h
        in Endpoint_DisableEndpoint D h)
       [0, 1, 2, 3, 4] (io_wr D UEINT 0 h)"

text \<open>\<open>bmRequestType\<close> is the field of the current control request.\<close>

definition Endpoint_ClearStatusStage :: "'h io \<Rightarrow> u8 \<Rightarrow> 'h \<Rightarrow> 'h option" where
  "Endpoint_ClearStatusStage D bmRequestType h =
     (if bmRequestType AND 0x80 \<noteq> 0 then
        loop (\<lambda>h. let (b, h) = Endpoint_IsOUTReceived D h in
            if b then Some (Inl (Endpoint_ClearOUT D h))
            else let (st, h) = USB_DeviceState D h in
              if st = DEVICE_STATE_Unattached then Some (Inl h) else Some (Inr h)) h
      else
        loop (\<lambda>h. let (b, h) = Endpoint_IsINReady D h in
            if b then Some (Inl (Endpoint_ClearIN D h))
            else let (st, h) = USB_DeviceState D h in
              if st = DEVICE_STATE_Unattached then Some (Inl h) else Some (Inr h)) h)"

definition wait_turn :: "'h io \<Rightarrow> u16 \<times> u8 \<times> 'h \<Rightarrow> ((u8 \<times> 'h) + (u16 \<times> u8 \<times> 'h)) option" where
  "wait_turn D = (\<lambda>(PreviousFrameNumber, TimeoutMSRem, h).
     let (dir, h) = Endpoint_GetEndpointDirection D h;
         (ready, h) = (if dir = ENDPOINT_DIR_IN then Endpoint_IsINReady D h else Endpoint_IsOUTReceived D h)
     in if ready then Some (Inl (ENDPOINT_READYWAIT_NoError, h))
     else let (st, h) = USB_DeviceState D h in
       if st = DEVICE_STATE_Unattached then Some (Inl (ENDPOINT_READYWAIT_DeviceDisconnected, h))
       else if st = DEVICE_STATE_Suspended then Some (Inl (ENDPOINT_READYWAIT_BusSuspended, h))
       else let (stalled, h) = Endpoint_IsStalled D h in
         if stalled then Some (Inl (ENDPOINT_READYWAIT_EndpointStalled, h))
         else let (CurrentFrameNumber, h) = USB_Device_GetFrameNumber D h in
           if CurrentFrameNumber \<noteq> PreviousFrameNumber then
             (if TimeoutMSRem = 0 then Some (Inl (ENDPOINT_READYWAIT_Timeout, h))
              else Some (Inr (CurrentFrameNumber, TimeoutMSRem - 1, h)))
           else Some (Inr (PreviousFrameNumber, TimeoutMSRem, h)))"

definition Endpoint_WaitUntilReady :: "'h io \<Rightarrow> 'h \<Rightarrow> (u8 \<times> 'h) option" where
  "Endpoint_WaitUntilReady D h =
     (let (PreviousFrameNumber, h) = USB_Device_GetFrameNumber D h
      in loop (wait_turn D) (PreviousFrameNumber, USB_STREAM_TIMEOUT_MS, h))"

section \<open>Properties\<close>

lemma unat_u16_power:
  assumes "n < 16"
  shows "unat (2 ^ n :: u16) = 2 ^ n"
proof -
  have "unat (of_nat (2 ^ n) :: u16) = 2 ^ n"
    using assms by (simp add: unsigned_of_nat take_bit_nat_eq_self del: of_nat_power)
  then show ?thesis by simp
qed

lemma push_u16_power: "push_bit 1 (2 ^ (k + 3) :: u16) = 2 ^ (Suc k + 3)"
  by (simp add: push_bit_eq_mult power_add)

lemma EPSizeMask_loop:
  assumes "k \<le> 12" "unat Bytes \<le> 2 ^ 15" "k = 0 \<or> 2 ^ (k + 2) < unat Bytes"
  shows "\<exists>j. loop (\<lambda>(MaskVal :: u8, CheckBytes :: u16).
        if CheckBytes < Bytes then Some (Inr (MaskVal + 1, push_bit 1 CheckBytes))
        else Some (Inl (push_bit EPSIZE0 MaskVal))) (of_nat k, 2 ^ (k + 3)) = Some (push_bit EPSIZE0 (of_nat j))
    \<and> j \<le> 12 \<and> unat Bytes \<le> 2 ^ (j + 3) \<and> (j = 0 \<or> 2 ^ (j + 2) < unat Bytes)"
  using assms
proof (induction "12 - k" arbitrary: k)
  case 0
  then have k: "k = 12" by simp
  have "unat (2 ^ (k + 3) :: u16) = 2 ^ (k + 3)" by (rule unat_u16_power) (simp add: k)
  with 0 show ?case by (intro exI [of _ k]) (simp add: k loop_turn word_less_nat_alt)
next
  case (Suc n)
  then have "k < 12" by simp
  then have u: "unat (2 ^ (k + 3) :: u16) = 2 ^ (k + 3)"
    by (intro unat_u16_power) simp
  show ?case
  proof (cases "(2 ^ (k + 3) :: u16) < Bytes")
    case True
    then have b: "2 ^ (Suc k + 2) < unat Bytes" using u by (simp add: word_less_nat_alt power_add)
    have "n = 12 - Suc k" "Suc k \<le> 12" using Suc.hyps(2) by simp_all
    from Suc.hyps(1) [OF this Suc.prems(2) disjI2 [OF b]] True show ?thesis
      by (subst loop_turn(2) [where s' = "(of_nat (Suc k), 2 ^ (Suc k + 3))"])
        (simp_all only: push_u16_power of_nat_Suc add.commute [of 1] split if_True)
  next
    case False
    with Suc.prems u show ?thesis by (intro exI [of _ k]) (simp add: loop_turn(1) word_less_nat_alt not_less)
  qed
qed

text \<open>The size field computed for an endpoint is the smallest bank size, a power of two from 8
  bytes on, that holds the requested number of bytes. For more than 32768 bytes the 16-bit counter
  shifts out to zero and the computation never ends.\<close>

theorem endpoint_size_mask:
  "if unat Bytes \<le> 32768
   then \<exists>j\<le>12. Endpoint_BytesToEPSizeMask Bytes = Some (push_bit EPSIZE0 (of_nat j))
     \<and> unat Bytes \<le> 8 * 2 ^ j \<and> (j = 0 \<or> 8 * 2 ^ (j - 1) < unat Bytes)
   else Endpoint_BytesToEPSizeMask Bytes = None"
proof (cases "unat Bytes \<le> 32768")
  case True
  then obtain j where "Endpoint_BytesToEPSizeMask Bytes = Some (push_bit EPSIZE0 (of_nat j))" "j \<le> 12"
    "unat Bytes \<le> 2 ^ (j + 3)" "j = 0 \<or> 2 ^ (j + 2) < unat Bytes"
    using EPSizeMask_loop [of 0 Bytes] by (auto simp: Endpoint_BytesToEPSizeMask_def)
  moreover from this(4) have "j = 0 \<or> 8 * 2 ^ (j - 1) < unat Bytes" by (cases j) simp_all
  moreover have "(2 :: nat) ^ (j + 3) = 8 * 2 ^ j" by (simp add: power_add)
  ultimately show ?thesis using True by (simp only: if_True) (intro exI [of _ j] conjI; simp)
next
  case False
  have "\<exists>s'. (case s of (MaskVal :: u8, CheckBytes :: u16) \<Rightarrow>
        if CheckBytes < Bytes then Some (Inr (MaskVal + 1, push_bit 1 CheckBytes))
        else Some (Inl (push_bit EPSIZE0 MaskVal :: u8))) = Some (Inr s') \<and> (snd s' = 0 \<or> (\<exists>k\<le>12. snd s' = 2 ^ (k + 3)))"
    if I: "snd s = 0 \<or> (\<exists>k\<le>12. snd s = 2 ^ (k + 3))" for s :: "u8 \<times> u16"
  proof -
    have less: "snd s < Bytes"
      using I
    proof
      assume "\<exists>k\<le>12. snd s = 2 ^ (k + 3)"
      then obtain k where k: "k \<le> 12" "snd s = 2 ^ (k + 3)" by blast
      then have "unat (snd s) \<le> 2 ^ 15" by (simp add: unat_u16_power) (use power_increasing [of "k + 3" 15 "2 :: nat"] in simp)
      then show ?thesis using False by (simp add: word_less_nat_alt)
    qed (use False in \<open>auto simp: word_less_nat_alt\<close>)
    have "(2 ^ (Suc 12 + 3) :: u16) = 0" by simp
    then have "push_bit 1 (snd s) = 0 \<or> (\<exists>k\<le>12. push_bit 1 (snd s) = 2 ^ (k + 3))"
      using I push_u16_power by (metis le_SucE not_less_eq_eq push_bit_of_0)
    with less show ?thesis by (cases s) simp
  qed
  then have "Endpoint_BytesToEPSizeMask Bytes = None"
    unfolding Endpoint_BytesToEPSizeMask_def
    by (intro loop_forever [where I = "\<lambda>s. snd s = 0 \<or> (\<exists>k\<le>12. snd s = 2 ^ (k + 3))"]) (auto intro!: exI [of _ 0])
  with False show ?thesis by simp
qed

lemma wait_turn_cases:
  "(\<exists>e h'. wait_turn D (p, k, h) = Some (Inl (e, h')) \<and> e \<le> 4)
   \<or> (\<exists>h'. wait_turn D (p, k, h) = Some (Inr (p, k, h')))
   \<or> (\<exists>p' h'. wait_turn D (p, k, h) = Some (Inr (p', k - 1, h')) \<and> k \<noteq> 0)"
  by (simp add: wait_turn_def Let_def split_beta)

lemma wait_turn_code: "wait_turn D s = Some (Inl r) \<Longrightarrow> fst r \<le> 4"
  using wait_turn_cases [of D "fst s" "fst (snd s)" "snd (snd s)"] by auto

text \<open>Waiting for an endpoint always ends, whatever the host does, as long as the frame number
  of the controller does not stand still: \<open>rank\<close> bounds the number of polls within one frame. The
  result is one of the five codes, at the latest a timeout after 100 frames.\<close>

theorem wait_until_ready_returns:
  fixes rank :: "u16 \<Rightarrow> 'h \<Rightarrow> nat"
  assumes "\<And>p k h u. wait_turn D (p, k, h) = Some (Inr (p, k, u)) \<Longrightarrow> rank p u < rank p h"
  shows "\<exists>e h'. Endpoint_WaitUntilReady D h = Some (e, h') \<and> e \<le> ENDPOINT_READYWAIT_Timeout"
proof -
  obtain p h1 where p: "USB_Device_GetFrameNumber D h = (p, h1)" by (cases "USB_Device_GetFrameNumber D h")
  let ?R = "(\<lambda>(p, k, h). unat k) <*mlex*> measure (\<lambda>(p, k :: u8, h). rank p h)"
  have "\<exists>r. loop (wait_turn D) (p, USB_STREAM_TIMEOUT_MS, h1) = Some r"
  proof (rule loop_returns_wf [where R = ?R and I = "\<lambda>_. True"])
    show "wf ?R" by (intro wf_mlex wf_measure)
  next
    fix s :: "u16 \<times> u8 \<times> 'h"
    obtain p k h where s: "s = (p, k, h)" by (cases s)
    have "unat (k - 1) < unat k" if "k \<noteq> 0" using that by (simp add: measure_unat)
    with wait_turn_cases [of D p k h] assms [of p k h]
    show "(\<exists>r. wait_turn D s = Some (Inl r)) \<or> (\<exists>s'. wait_turn D s = Some (Inr s') \<and> True \<and> (s', s) \<in> ?R)"
      by (auto simp: s mlex_prod_def)
  qed simp
  then obtain e h' where l: "loop (wait_turn D) (p, USB_STREAM_TIMEOUT_MS, h1) = Some (e, h')" by auto
  then have "fst (e, h') \<le> 4"
    by (rule loop_invariant [where I = "\<lambda>_. True"]) (auto dest: wait_turn_code)
  with l p show ?thesis by (simp add: Endpoint_WaitUntilReady_def)
qed

text \<open>A controller that is never ready and starts a new frame at every poll.\<close>

definition ticking :: "u8 io" where
  "ticking = \<lparr>io_rd = (\<lambda>r h. if r = UDFNUML then (h, h + 1) else if r = GPIOR0 then (4, h) else (0, h)),
     io_wr = (\<lambda>r v h. h), io_sig = (\<lambda>_. 0)\<rparr>"

lemma ticking_turn:
  "wait_turn ticking (p, k, h) = Some (Inr (p, k, u)) \<Longrightarrow> p = ucast h \<and> u = h + 1"
  by (auto simp: wait_turn_def ticking_def Endpoint_GetEndpointDirection_def Endpoint_IsOUTReceived_def
      Endpoint_IsINReady_def USB_DeviceState_def Endpoint_IsStalled_def USB_Device_GetFrameNumber_def io_test_bit Let_def
      u16_of_bytes_def split: if_split_asm)

theorem wait_until_ready_returns_witness:
  "\<exists>e h'. Endpoint_WaitUntilReady ticking 0 = Some (e, h') \<and> e \<le> ENDPOINT_READYWAIT_Timeout"
proof (rule wait_until_ready_returns [where rank = "\<lambda>p h. if p = ucast h then 1 else 0"])
  fix p k h u assume "wait_turn ticking (p, k, h) = Some (Inr (p, k, u))"
  then have "p = ucast h" "u = h + 1" using ticking_turn by blast+
  then show "(if p = ucast u then 1 else 0 :: nat) < (if p = ucast h then 1 else 0)"
    using ucast_u16_inj [of h "h + 1"] by simp
qed

end
