(* ===== verification/Usb_Core.thy ===== *)
theory Usb_Core
  imports Usb_Endpoint
begin

text \<open>
  The USB controller layer of LUFA: \<open>Core/AVR8/USBController_AVR8.h\<close> and \<open>.c\<close>,
  \<open>Core/AVR8/USBInterrupt_AVR8.h\<close> and the register functions of \<open>USBInterrupt_AVR8.c\<close>,
  \<open>Core/AVR8/Device_AVR8.h\<close> and \<open>.c\<close>. The configuration is the one both projects compile
  with (\<open>Config/LUFAConfig.h\<close>): device only, static options, automatic PLL, ATmega32U2.
  The global variables of the stack are the record \<open>usb_core\<close>; a firmware extends it with its
  own variables, and the stack's functions work on every extension.
\<close>

section \<open>Global state\<close>

record USB_Request_Header_t =
  bmRequestType :: u8
  bRequest :: u8
  wValue :: u16
  wIndex :: u16
  wLength :: u16

record 'h usb_core =
  hw :: 'h
  USB_IsInitialized :: bool
  USB_ControlRequest :: USB_Request_Header_t
  USB_Device_ConfigurationNumber :: u8
  USB_Device_CurrentlySelfPowered :: bool
  USB_Device_RemoteWakeupEnabled :: bool
  SREG_I :: bool

text \<open>Running a hardware access, total or not, with or without a result, inside the state.\<close>

definition hw_do :: "('h \<Rightarrow> 'h) \<Rightarrow> ('h, 'm) usb_core_scheme \<Rightarrow> ('h, 'm) usb_core_scheme" where
  "hw_do f s = s\<lparr>hw := f (hw s)\<rparr>"

definition hw_get :: "('h \<Rightarrow> 'a \<times> 'h) \<Rightarrow> ('h, 'm) usb_core_scheme \<Rightarrow> 'a \<times> ('h, 'm) usb_core_scheme" where
  "hw_get f s = (let (v, h) = f (hw s) in (v, s\<lparr>hw := h\<rparr>))"

definition hw_try :: "('h \<Rightarrow> 'h option) \<Rightarrow> ('h, 'm) usb_core_scheme \<Rightarrow> ('h, 'm) usb_core_scheme option" where
  "hw_try f s = map_option (\<lambda>h. s\<lparr>hw := h\<rparr>) (f (hw s))"

definition hw_tryget :: "('h \<Rightarrow> ('a \<times> 'h) option) \<Rightarrow> ('h, 'm) usb_core_scheme
    \<Rightarrow> ('a \<times> ('h, 'm) usb_core_scheme) option" where
  "hw_tryget f s = map_option (\<lambda>(v, h). (v, s\<lparr>hw := h\<rparr>)) (f (hw s))"

lemmas hw_defs = hw_do_def hw_get_def hw_try_def hw_tryget_def

section \<open>USBController\_AVR8.h\<close>

abbreviation (input) "USB_OPT_REG_DISABLED \<equiv> BV 1 :: u8"
abbreviation (input) "USB_OPT_MANUAL_PLL \<equiv> BV 2 :: u8"

text \<open>\<open>USE_STATIC_OPTIONS\<close>: full speed, regulator on, automatic PLL; \<open>F_USB\<close> is 16 MHz.\<close>

definition USB_Options :: u8 where "USB_Options = 0"
definition USB_PLL_PSC :: u8 where "USB_PLL_PSC = BV PLLP0"

definition USB_Detach :: "'h io \<Rightarrow> 'h \<Rightarrow> 'h" where
  "USB_Detach D h = io_or D UDCON (BV DETACH) h"

definition USB_Attach :: "'h io \<Rightarrow> 'h \<Rightarrow> 'h" where
  "USB_Attach D h = io_and D UDCON (NOT (BV DETACH)) h"

definition USB_PLL_On :: "'h io \<Rightarrow> 'h \<Rightarrow> 'h" where
  "USB_PLL_On D h = (let h = io_wr D PLLCSR USB_PLL_PSC h in io_wr D PLLCSR (USB_PLL_PSC OR BV PLLE) h)"

definition USB_PLL_Off :: "'h io \<Rightarrow> 'h \<Rightarrow> 'h" where
  "USB_PLL_Off D h = io_wr D PLLCSR 0 h"

definition USB_PLL_IsReady :: "'h io \<Rightarrow> 'h \<Rightarrow> bool \<times> 'h" where
  "USB_PLL_IsReady D h = io_test D PLLCSR PLOCK h"

definition USB_REG_On :: "'h io \<Rightarrow> 'h \<Rightarrow> 'h" where
  "USB_REG_On D h = io_and D REGCR (NOT (BV REGDIS)) h"

definition USB_REG_Off :: "'h io \<Rightarrow> 'h \<Rightarrow> 'h" where
  "USB_REG_Off D h = io_or D REGCR (BV REGDIS) h"

definition USB_CLK_Freeze :: "'h io \<Rightarrow> 'h \<Rightarrow> 'h" where
  "USB_CLK_Freeze D h = io_or D USBCON (BV FRZCLK) h"

definition USB_CLK_Unfreeze :: "'h io \<Rightarrow> 'h \<Rightarrow> 'h" where
  "USB_CLK_Unfreeze D h = io_and D USBCON (NOT (BV FRZCLK)) h"

definition USB_Controller_Enable :: "'h io \<Rightarrow> 'h \<Rightarrow> 'h" where
  "USB_Controller_Enable D h = io_or D USBCON (BV USBE) h"

definition USB_Controller_Disable :: "'h io \<Rightarrow> 'h \<Rightarrow> 'h" where
  "USB_Controller_Disable D h = io_and D USBCON (NOT (BV USBE)) h"

definition USB_Controller_Reset :: "'h io \<Rightarrow> 'h \<Rightarrow> 'h" where
  "USB_Controller_Reset D h =
     (let h = io_and D USBCON (NOT (BV USBE)) h in io_or D USBCON (BV USBE) h)"

text \<open>\<open>while (!(USB_PLL_IsReady()));\<close>\<close>

definition USB_PLL_wait :: "'h io \<Rightarrow> 'h \<Rightarrow> 'h option" where
  "USB_PLL_wait D h = loop (\<lambda>h. let (b, h) = USB_PLL_IsReady D h in
     if b then Some (Inl h) else Some (Inr h)) h"

section \<open>USBInterrupt\_AVR8.h\<close>

datatype USB_Interrupts_t = USB_INT_WAKEUPI | USB_INT_SUSPI | USB_INT_EORSTI | USB_INT_SOFI | USB_INT_RXSTPI

definition USB_INT_Enable :: "'h io \<Rightarrow> USB_Interrupts_t \<Rightarrow> 'h \<Rightarrow> 'h" where
  "USB_INT_Enable D Interrupt h = (case Interrupt of
       USB_INT_WAKEUPI \<Rightarrow> io_or D UDIEN (BV WAKEUPE) h
     | USB_INT_SUSPI \<Rightarrow> io_or D UDIEN (BV SUSPE) h
     | USB_INT_EORSTI \<Rightarrow> io_or D UDIEN (BV EORSTE) h
     | USB_INT_SOFI \<Rightarrow> io_or D UDIEN (BV SOFE) h
     | USB_INT_RXSTPI \<Rightarrow> io_or D UEIENX (BV RXSTPE) h)"

definition USB_INT_Disable :: "'h io \<Rightarrow> USB_Interrupts_t \<Rightarrow> 'h \<Rightarrow> 'h" where
  "USB_INT_Disable D Interrupt h = (case Interrupt of
       USB_INT_WAKEUPI \<Rightarrow> io_and D UDIEN (NOT (BV WAKEUPE)) h
     | USB_INT_SUSPI \<Rightarrow> io_and D UDIEN (NOT (BV SUSPE)) h
     | USB_INT_EORSTI \<Rightarrow> io_and D UDIEN (NOT (BV EORSTE)) h
     | USB_INT_SOFI \<Rightarrow> io_and D UDIEN (NOT (BV SOFE)) h
     | USB_INT_RXSTPI \<Rightarrow> io_and D UEIENX (NOT (BV RXSTPE)) h)"

definition USB_INT_Clear :: "'h io \<Rightarrow> USB_Interrupts_t \<Rightarrow> 'h \<Rightarrow> 'h" where
  "USB_INT_Clear D Interrupt h = (case Interrupt of
       USB_INT_WAKEUPI \<Rightarrow> io_and D UDINT (NOT (BV WAKEUPI)) h
     | USB_INT_SUSPI \<Rightarrow> io_and D UDINT (NOT (BV SUSPI)) h
     | USB_INT_EORSTI \<Rightarrow> io_and D UDINT (NOT (BV EORSTI)) h
     | USB_INT_SOFI \<Rightarrow> io_and D UDINT (NOT (BV SOFI)) h
     | USB_INT_RXSTPI \<Rightarrow> io_and D UEINTX (NOT (BV RXSTPI)) h)"

definition USB_INT_IsEnabled :: "'h io \<Rightarrow> USB_Interrupts_t \<Rightarrow> 'h \<Rightarrow> bool \<times> 'h" where
  "USB_INT_IsEnabled D Interrupt h = (case Interrupt of
       USB_INT_WAKEUPI \<Rightarrow> io_test D UDIEN WAKEUPE h
     | USB_INT_SUSPI \<Rightarrow> io_test D UDIEN SUSPE h
     | USB_INT_EORSTI \<Rightarrow> io_test D UDIEN EORSTE h
     | USB_INT_SOFI \<Rightarrow> io_test D UDIEN SOFE h
     | USB_INT_RXSTPI \<Rightarrow> io_test D UEIENX RXSTPE h)"

definition USB_INT_HasOccurred :: "'h io \<Rightarrow> USB_Interrupts_t \<Rightarrow> 'h \<Rightarrow> bool \<times> 'h" where
  "USB_INT_HasOccurred D Interrupt h = (case Interrupt of
       USB_INT_WAKEUPI \<Rightarrow> io_test D UDINT WAKEUPI h
     | USB_INT_SUSPI \<Rightarrow> io_test D UDINT SUSPI h
     | USB_INT_EORSTI \<Rightarrow> io_test D UDINT EORSTI h
     | USB_INT_SOFI \<Rightarrow> io_test D UDINT SOFI h
     | USB_INT_RXSTPI \<Rightarrow> io_test D UEINTX RXSTPI h)"

text \<open>\<open>USB_INT_HasOccurred(i) && USB_INT_IsEnabled(i)\<close>, with C's short circuit.\<close>

definition int_pending :: "'h io \<Rightarrow> USB_Interrupts_t \<Rightarrow> 'h \<Rightarrow> bool \<times> 'h" where
  "int_pending D i h =
     (let (occurred, h) = USB_INT_HasOccurred D i h in
      if occurred then USB_INT_IsEnabled D i h else (False, h))"

definition USB_INT_DisableAllInterrupts :: "'h io \<Rightarrow> 'h \<Rightarrow> 'h" where
  "USB_INT_DisableAllInterrupts D h = io_wr D UDIEN 0 h"

definition USB_INT_ClearAllInterrupts :: "'h io \<Rightarrow> 'h \<Rightarrow> 'h" where
  "USB_INT_ClearAllInterrupts D h = io_wr D UDINT 0 h"

section \<open>Device\_AVR8.h and Device\_AVR8.c\<close>

definition USB_Device_EnableSOFEvents :: "'h io \<Rightarrow> 'h \<Rightarrow> 'h" where
  "USB_Device_EnableSOFEvents D h = USB_INT_Enable D USB_INT_SOFI h"

definition USB_Device_DisableSOFEvents :: "'h io \<Rightarrow> 'h \<Rightarrow> 'h" where
  "USB_Device_DisableSOFEvents D h = USB_INT_Disable D USB_INT_SOFI h"

definition USB_Device_SetDeviceAddress :: "'h io \<Rightarrow> u8 \<Rightarrow> 'h \<Rightarrow> 'h" where
  "USB_Device_SetDeviceAddress D Address h =
     (let (v, h) = io_rd D UDADDR h;
          Temp = (v AND BV ADDEN) OR (Address AND 0x7F);
          h = io_wr D UDADDR Temp h
      in io_wr D UDADDR (Temp OR BV ADDEN) h)"

definition USB_Device_IsAddressSet :: "'h io \<Rightarrow> 'h \<Rightarrow> bool \<times> 'h" where
  "USB_Device_IsAddressSet D h = io_test D UDADDR ADDEN h"

abbreviation (input) "INTERNAL_SERIAL_START_ADDRESS \<equiv> 0x0E :: u8"
abbreviation (input) "INTERNAL_SERIAL_LENGTH_BITS \<equiv> 80 :: nat"

text \<open>One character per nibble, low nibble first; \<open>SigReadAddress\<close> moves on after the high one.\<close>

primrec serial_chars :: "'h io \<Rightarrow> nat \<Rightarrow> nat \<Rightarrow> u8 \<Rightarrow> u16 list" where
  "serial_chars D 0 SerialCharNum SigReadAddress = []"
| "serial_chars D (Suc n) SerialCharNum SigReadAddress =
     (let SerialByte = io_sig D SigReadAddress;
          (SerialByte, SigReadAddress) =
            (if odd SerialCharNum then (drop_bit 4 SerialByte, SigReadAddress + 1)
             else (SerialByte, SigReadAddress));
          SerialByte = SerialByte AND 0x0F
      in (if SerialByte \<ge> 10 then (65 - 10) + ucast SerialByte else 48 + ucast SerialByte)
         # serial_chars D n (Suc SerialCharNum) SigReadAddress)"

definition USB_Device_GetSerialString :: "'h io \<Rightarrow> u16 list" where
  "USB_Device_GetSerialString D = serial_chars D (INTERNAL_SERIAL_LENGTH_BITS div 4) 0 INTERNAL_SERIAL_START_ADDRESS"

definition USB_Device_SendRemoteWakeup :: "'h io \<Rightarrow> 'h \<Rightarrow> 'h option" where
  "USB_Device_SendRemoteWakeup D h =
     do {
       h \<leftarrow> (if USB_Options AND USB_OPT_MANUAL_PLL = 0 then USB_PLL_wait D (USB_PLL_On D h) else Some h);
       let h = USB_CLK_Unfreeze D h;
       let h = io_or D UDCON (BV RMWKUP) h;
       loop (\<lambda>h. let (b, h) = io_test D UDCON RMWKUP h in if b then Some (Inr h) else Some (Inl h)) h
     }"

section \<open>USBController\_AVR8.c\<close>

definition USB_Init_Device :: "'h io \<Rightarrow> ('h, 'm) usb_core_scheme \<Rightarrow> ('h, 'm) usb_core_scheme option" where
  "USB_Init_Device D s =
     do {
       let s = hw_do (set_USB_DeviceState D DEVICE_STATE_Unattached) s;
       let s = s\<lparr>USB_Device_ConfigurationNumber := 0, USB_Device_RemoteWakeupEnabled := False,
                 USB_Device_CurrentlySelfPowered := False\<rparr>;
       (_, s) \<leftarrow> hw_tryget (Endpoint_ConfigureEndpoint D ENDPOINT_CONTROLEP EP_TYPE_CONTROL 8 1) s;
       let s = hw_do (USB_INT_Clear D USB_INT_SUSPI) s;
       let s = hw_do (USB_INT_Enable D USB_INT_SUSPI) s;
       let s = hw_do (USB_INT_Enable D USB_INT_EORSTI) s;
       Some (hw_do (USB_Attach D) s)
     }"

definition USB_ResetInterface :: "'h io \<Rightarrow> ('h, 'm) usb_core_scheme \<Rightarrow> ('h, 'm) usb_core_scheme option" where
  "USB_ResetInterface D s =
     do {
       let s = hw_do (USB_INT_DisableAllInterrupts D) s;
       let s = hw_do (USB_INT_ClearAllInterrupts D) s;
       let s = hw_do (USB_Controller_Reset D) s;
       let s = hw_do (USB_CLK_Unfreeze D) s;
       s \<leftarrow> (if USB_Options AND USB_OPT_MANUAL_PLL = 0
             then hw_try (USB_PLL_wait D) (hw_do (USB_PLL_On D) s) else Some s);
       USB_Init_Device D s
     }"

definition USB_Init :: "'h io \<Rightarrow> ('h, 'm) usb_core_scheme \<Rightarrow> ('h, 'm) usb_core_scheme option" where
  "USB_Init D s =
     (let s = (if USB_Options AND USB_OPT_REG_DISABLED = 0 then hw_do (USB_REG_On D) s
               else hw_do (USB_REG_Off D) s)
      in USB_ResetInterface D (s\<lparr>USB_IsInitialized := True\<rparr>))"

definition USB_Disable :: "'h io \<Rightarrow> ('h, 'm) usb_core_scheme \<Rightarrow> ('h, 'm) usb_core_scheme" where
  "USB_Disable D s =
     (let s = hw_do (USB_INT_DisableAllInterrupts D) s;
          s = hw_do (USB_INT_ClearAllInterrupts D) s;
          s = hw_do (USB_Detach D) s;
          s = hw_do (USB_Controller_Disable D) s;
          s = (if USB_Options AND USB_OPT_MANUAL_PLL = 0 then hw_do (USB_PLL_Off D) s else s);
          s = hw_do (USB_REG_Off D) s
      in s\<lparr>USB_IsInitialized := False\<rparr>)"

end
