(* ===== verification/Usb_Stream.thy ===== *)
theory Usb_Stream
  imports Usb_Endpoint
begin

text \<open>
  Multi-byte endpoint transfers: \<open>LUFA/Drivers/USB/Core/AVR8/EndpointStream_AVR8.c\<close> and the
  three function templates it instantiates (\<open>Template_Endpoint_RW.c\<close>,
  \<open>Template_Endpoint_Control_W.c\<close>, \<open>Template_Endpoint_Control_R.c\<close>). A template is a
  definition with the template macros as parameters, an instance applies it. The buffer is the
  list of bytes \<open>Buf\<close> (RAM, flash or EEPROM), \<open>DataStream\<close> an index into it. With
  \<open>INTERRUPT_CONTROL_ENDPOINT\<close> defined, as in both projects, no template calls
  \<open>USB_USBTask\<close>. \<open>BytesProcessed\<close> is \<open>None\<close> for a null pointer.
\<close>

abbreviation (input) "ENDPOINT_RWSTREAM_NoError \<equiv> 0 :: u8"
abbreviation (input) "ENDPOINT_RWSTREAM_IncompleteTransfer \<equiv> 5 :: u8"
abbreviation (input) "ENDPOINT_RWCSTREAM_NoError \<equiv> 0 :: u8"
abbreviation (input) "ENDPOINT_RWCSTREAM_HostAborted \<equiv> 1 :: u8"
abbreviation (input) "ENDPOINT_RWCSTREAM_DeviceDisconnected \<equiv> 2 :: u8"
abbreviation (input) "ENDPOINT_RWCSTREAM_BusSuspended \<equiv> 3 :: u8"
abbreviation (input) "USB_Device_ControlEndpointSize \<equiv> 8 :: u16"

type_synonym 'h xfer = "int \<Rightarrow> u8 list \<Rightarrow> 'h \<Rightarrow> u8 list \<times> 'h"

text \<open>\<open>TEMPLATE_TRANSFER_BYTE\<close> of the writing and of the reading instances.\<close>

definition write_byte :: "'h io \<Rightarrow> 'h xfer" where
  "write_byte D p Buf h = (Buf, Endpoint_Write_8 D (Buf ! nat p) h)"

definition read_byte :: "'h io \<Rightarrow> 'h xfer" where
  "read_byte D p Buf h = (let (v, h) = Endpoint_Read_8 D h in (Buf[nat p := v], h))"

text \<open>\<open>TEMPLATE_BUFFER_OFFSET\<close> and \<open>TEMPLATE_BUFFER_MOVE\<close>: forwards (LE) or backwards (BE).\<close>

definition offset_LE :: "u16 \<Rightarrow> int" where "offset_LE Length = 0"
definition offset_BE :: "u16 \<Rightarrow> int" where "offset_BE Length = uint Length - 1"

section \<open>Template\_Endpoint\_RW.c\<close>

definition rw_turn :: "'h io \<Rightarrow> ('h \<Rightarrow> 'h) \<Rightarrow> int \<Rightarrow> 'h xfer \<Rightarrow> u16 option
    \<Rightarrow> u16 \<times> int \<times> u16 \<times> u8 list \<times> 'h
    \<Rightarrow> ((u8 \<times> u16 option \<times> u8 list \<times> 'h) + (u16 \<times> int \<times> u16 \<times> u8 list \<times> 'h)) option" where
  "rw_turn D clear move xfer BytesProcessed = (\<lambda>(Length, DataStream, BytesInTransfer, Buf, h).
     if Length = 0 then Some (Inl (ENDPOINT_RWSTREAM_NoError, BytesProcessed, Buf, h))
     else let (allowed, h) = Endpoint_IsReadWriteAllowed D h in
       if \<not> allowed then
         let h = clear h in
         (case BytesProcessed of
            Some n \<Rightarrow> Some (Inl (ENDPOINT_RWSTREAM_IncompleteTransfer, Some (n + BytesInTransfer), Buf, h))
          | None \<Rightarrow> do {
              (ErrorCode, h) \<leftarrow> Endpoint_WaitUntilReady D h;
              if ErrorCode \<noteq> 0 then Some (Inl (ErrorCode, BytesProcessed, Buf, h))
              else Some (Inr (Length, DataStream, BytesInTransfer, Buf, h)) })
       else
         let (Buf, h) = xfer DataStream Buf h
         in Some (Inr (Length - 1, DataStream + move, BytesInTransfer + 1, Buf, h)))"

definition Template_Endpoint_RW :: "'h io \<Rightarrow> ('h \<Rightarrow> 'h) \<Rightarrow> (u16 \<Rightarrow> int) \<Rightarrow> int \<Rightarrow> 'h xfer
    \<Rightarrow> u8 list \<Rightarrow> u16 \<Rightarrow> u16 option \<Rightarrow> 'h \<Rightarrow> (u8 \<times> u16 option \<times> u8 list \<times> 'h) option" where
  "Template_Endpoint_RW D clear offset move xfer Buf Length BytesProcessed h =
     do {
       let DataStream = offset Length;
       (ErrorCode, h) \<leftarrow> Endpoint_WaitUntilReady D h;
       if ErrorCode \<noteq> 0 then Some (ErrorCode, BytesProcessed, Buf, h)
       else
         (case BytesProcessed of
            None \<Rightarrow> loop (rw_turn D clear move xfer BytesProcessed) (Length, DataStream, 0, Buf, h)
          | Some n \<Rightarrow> loop (rw_turn D clear move xfer BytesProcessed)
              (Length - n, DataStream + move * uint n, 0, Buf, h))
     }"

definition Endpoint_Discard_Stream :: "'h io \<Rightarrow> u16 \<Rightarrow> u16 option \<Rightarrow> 'h \<Rightarrow> (u8 \<times> u16 option \<times> u8 list \<times> 'h) option" where
  "Endpoint_Discard_Stream D Length BytesProcessed h =
     Template_Endpoint_RW D (Endpoint_ClearOUT D) offset_LE 1
       (\<lambda>_ Buf h. (Buf, Endpoint_Discard_8 D h)) [] Length BytesProcessed h"

definition Endpoint_Null_Stream :: "'h io \<Rightarrow> u16 \<Rightarrow> u16 option \<Rightarrow> 'h \<Rightarrow> (u8 \<times> u16 option \<times> u8 list \<times> 'h) option" where
  "Endpoint_Null_Stream D Length BytesProcessed h =
     Template_Endpoint_RW D (Endpoint_ClearIN D) offset_LE 1
       (\<lambda>_ Buf h. (Buf, Endpoint_Write_8 D 0 h)) [] Length BytesProcessed h"

definition Endpoint_Write_Stream_LE :: "'h io \<Rightarrow> u8 list \<Rightarrow> u16 \<Rightarrow> u16 option \<Rightarrow> 'h \<Rightarrow> (u8 \<times> u16 option \<times> u8 list \<times> 'h) option" where
  "Endpoint_Write_Stream_LE D =
     Template_Endpoint_RW D (Endpoint_ClearIN D) offset_LE 1 (write_byte D)"

definition Endpoint_Write_Stream_BE :: "'h io \<Rightarrow> u8 list \<Rightarrow> u16 \<Rightarrow> u16 option \<Rightarrow> 'h \<Rightarrow> (u8 \<times> u16 option \<times> u8 list \<times> 'h) option" where
  "Endpoint_Write_Stream_BE D =
     Template_Endpoint_RW D (Endpoint_ClearIN D) offset_BE (-1) (write_byte D)"

definition Endpoint_Read_Stream_LE :: "'h io \<Rightarrow> u8 list \<Rightarrow> u16 \<Rightarrow> u16 option \<Rightarrow> 'h \<Rightarrow> (u8 \<times> u16 option \<times> u8 list \<times> 'h) option" where
  "Endpoint_Read_Stream_LE D =
     Template_Endpoint_RW D (Endpoint_ClearOUT D) offset_LE 1 (read_byte D)"

definition Endpoint_Read_Stream_BE :: "'h io \<Rightarrow> u8 list \<Rightarrow> u16 \<Rightarrow> u16 option \<Rightarrow> 'h \<Rightarrow> (u8 \<times> u16 option \<times> u8 list \<times> 'h) option" where
  "Endpoint_Read_Stream_BE D =
     Template_Endpoint_RW D (Endpoint_ClearOUT D) offset_BE (-1) (read_byte D)"

definition Endpoint_Write_PStream_LE :: "'h io \<Rightarrow> u8 list \<Rightarrow> u16 \<Rightarrow> u16 option \<Rightarrow> 'h \<Rightarrow> (u8 \<times> u16 option \<times> u8 list \<times> 'h) option" where
  "Endpoint_Write_PStream_LE D =
     Template_Endpoint_RW D (Endpoint_ClearIN D) offset_LE 1 (write_byte D)"

definition Endpoint_Write_PStream_BE :: "'h io \<Rightarrow> u8 list \<Rightarrow> u16 \<Rightarrow> u16 option \<Rightarrow> 'h \<Rightarrow> (u8 \<times> u16 option \<times> u8 list \<times> 'h) option" where
  "Endpoint_Write_PStream_BE D =
     Template_Endpoint_RW D (Endpoint_ClearIN D) offset_BE (-1) (write_byte D)"

definition Endpoint_Write_EStream_LE :: "'h io \<Rightarrow> u8 list \<Rightarrow> u16 \<Rightarrow> u16 option \<Rightarrow> 'h \<Rightarrow> (u8 \<times> u16 option \<times> u8 list \<times> 'h) option" where
  "Endpoint_Write_EStream_LE D =
     Template_Endpoint_RW D (Endpoint_ClearIN D) offset_LE 1 (write_byte D)"

definition Endpoint_Write_EStream_BE :: "'h io \<Rightarrow> u8 list \<Rightarrow> u16 \<Rightarrow> u16 option \<Rightarrow> 'h \<Rightarrow> (u8 \<times> u16 option \<times> u8 list \<times> 'h) option" where
  "Endpoint_Write_EStream_BE D =
     Template_Endpoint_RW D (Endpoint_ClearIN D) offset_BE (-1) (write_byte D)"

definition Endpoint_Read_EStream_LE :: "'h io \<Rightarrow> u8 list \<Rightarrow> u16 \<Rightarrow> u16 option \<Rightarrow> 'h \<Rightarrow> (u8 \<times> u16 option \<times> u8 list \<times> 'h) option" where
  "Endpoint_Read_EStream_LE D =
     Template_Endpoint_RW D (Endpoint_ClearOUT D) offset_LE 1 (read_byte D)"

definition Endpoint_Read_EStream_BE :: "'h io \<Rightarrow> u8 list \<Rightarrow> u16 \<Rightarrow> u16 option \<Rightarrow> 'h \<Rightarrow> (u8 \<times> u16 option \<times> u8 list \<times> 'h) option" where
  "Endpoint_Read_EStream_BE D =
     Template_Endpoint_RW D (Endpoint_ClearOUT D) offset_BE (-1) (read_byte D)"

section \<open>Template\_Endpoint\_Control\_W.c\<close>

function control_fill :: "int \<Rightarrow> 'h xfer \<Rightarrow> u16 \<Rightarrow> int \<Rightarrow> u16 \<Rightarrow> u8 list \<Rightarrow> 'h \<Rightarrow> u16 \<times> int \<times> u16 \<times> u8 list \<times> 'h" where
  "control_fill move xfer Length DataStream BytesInEndpoint Buf h =
     (if Length \<noteq> 0 \<and> BytesInEndpoint < USB_Device_ControlEndpointSize then
        let (Buf, h) = xfer DataStream Buf h
        in control_fill move xfer (Length - 1) (DataStream + move) (BytesInEndpoint + 1) Buf h
      else (Length, DataStream, BytesInEndpoint, Buf, h))"
  by pat_completeness auto

lemma u16_pred_less: "(n :: u16) \<noteq> 0 \<Longrightarrow> unat (n - 1) < unat n"
  by (simp add: measure_unat)

termination control_fill
  by (relation "measure (\<lambda>(m, x, n, p, b, B, h). unat n)") (simp_all add: u16_pred_less)

declare control_fill.simps [simp del]

text \<open>The wait for the status stage that ends both control templates.\<close>

definition control_status :: "'h io \<Rightarrow> ('h io \<Rightarrow> 'h \<Rightarrow> bool \<times> 'h) \<Rightarrow> u8 list \<Rightarrow> 'h \<Rightarrow> (u8 \<times> u8 list \<times> 'h) option" where
  "control_status D ready Buf h = loop (\<lambda>h.
     let (r, h) = ready D h in
     if r then Some (Inl (ENDPOINT_RWCSTREAM_NoError, Buf, h))
     else let (st, h) = USB_DeviceState D h in
       if st = DEVICE_STATE_Unattached then Some (Inl (ENDPOINT_RWCSTREAM_DeviceDisconnected, Buf, h))
       else if st = DEVICE_STATE_Suspended then Some (Inl (ENDPOINT_RWCSTREAM_BusSuspended, Buf, h))
       else Some (Inr h)) h"

text \<open>One turn of the data stage; \<open>Inl (None, ...)\<close> leaves it for the status stage.\<close>

definition control_w_turn :: "'h io \<Rightarrow> int \<Rightarrow> 'h xfer \<Rightarrow> u16 \<times> int \<times> bool \<times> u8 list \<times> 'h
    \<Rightarrow> ((u8 option \<times> u8 list \<times> 'h) + (u16 \<times> int \<times> bool \<times> u8 list \<times> 'h)) option" where
  "control_w_turn D move xfer = (\<lambda>(Length, DataStream, LastPacketFull, Buf, h).
     if Length = 0 \<and> \<not> LastPacketFull then Some (Inl (None, Buf, h))
     else let (st, h) = USB_DeviceState D h in
       if st = DEVICE_STATE_Unattached then Some (Inl (Some ENDPOINT_RWCSTREAM_DeviceDisconnected, Buf, h))
       else if st = DEVICE_STATE_Suspended then Some (Inl (Some ENDPOINT_RWCSTREAM_BusSuspended, Buf, h))
       else let (setup, h) = Endpoint_IsSETUPReceived D h in
         if setup then Some (Inl (Some ENDPOINT_RWCSTREAM_HostAborted, Buf, h))
         else let (rx, h) = Endpoint_IsOUTReceived D h in
           if rx then Some (Inl (None, Buf, h))
           else let (ready, h) = Endpoint_IsINReady D h in
             if ready then
               let (BytesInEndpoint, h) = Endpoint_BytesInEndpoint D h;
                   (Length, DataStream, BytesInEndpoint, Buf, h) =
                     control_fill move xfer Length DataStream BytesInEndpoint Buf h
               in Some (Inr (Length, DataStream, BytesInEndpoint = USB_Device_ControlEndpointSize,
                    Buf, Endpoint_ClearIN D h))
             else Some (Inr (Length, DataStream, LastPacketFull, Buf, h)))"

definition Template_Endpoint_Control_W :: "'h io \<Rightarrow> (u16 \<Rightarrow> int) \<Rightarrow> int \<Rightarrow> 'h xfer \<Rightarrow> u16
    \<Rightarrow> u8 list \<Rightarrow> u16 \<Rightarrow> 'h \<Rightarrow> (u8 \<times> u8 list \<times> 'h) option" where
  "Template_Endpoint_Control_W D offset move xfer wLength Buf Length h =
     do {
       let DataStream = offset Length;
       let (Length, h) = (if Length > wLength then (wLength, h)
          else if Length = 0 then (Length, Endpoint_ClearIN D h) else (Length, h));
       (code, Buf, h) \<leftarrow> loop (control_w_turn D move xfer) (Length, DataStream, False, Buf, h);
       case code of Some e \<Rightarrow> Some (e, Buf, h) | None \<Rightarrow> control_status D Endpoint_IsOUTReceived Buf h
     }"

section \<open>Template\_Endpoint\_Control\_R.c\<close>

function control_drain :: "'h io \<Rightarrow> int \<Rightarrow> 'h xfer \<Rightarrow> u16 \<Rightarrow> int \<Rightarrow> u8 list \<Rightarrow> 'h \<Rightarrow> u16 \<times> int \<times> u8 list \<times> 'h" where
  "control_drain D move xfer Length DataStream Buf h =
     (if Length = 0 then (Length, DataStream, Buf, h)
      else let (n, h) = Endpoint_BytesInEndpoint D h in
        if n = 0 then (Length, DataStream, Buf, h)
        else let (Buf, h) = xfer DataStream Buf h
          in control_drain D move xfer (Length - 1) (DataStream + move) Buf h)"
  by pat_completeness auto

termination control_drain
  by (relation "measure (\<lambda>(D, m, x, n, p, B, h). unat n)") (simp_all add: u16_pred_less)

declare control_drain.simps [simp del]

definition control_r_turn :: "'h io \<Rightarrow> int \<Rightarrow> 'h xfer \<Rightarrow> u16 \<times> int \<times> u8 list \<times> 'h
    \<Rightarrow> ((u8 option \<times> u8 list \<times> 'h) + (u16 \<times> int \<times> u8 list \<times> 'h)) option" where
  "control_r_turn D move xfer = (\<lambda>(Length, DataStream, Buf, h).
     if Length = 0 then Some (Inl (None, Buf, h))
     else let (st, h) = USB_DeviceState D h in
       if st = DEVICE_STATE_Unattached then Some (Inl (Some ENDPOINT_RWCSTREAM_DeviceDisconnected, Buf, h))
       else if st = DEVICE_STATE_Suspended then Some (Inl (Some ENDPOINT_RWCSTREAM_BusSuspended, Buf, h))
       else let (setup, h) = Endpoint_IsSETUPReceived D h in
         if setup then Some (Inl (Some ENDPOINT_RWCSTREAM_HostAborted, Buf, h))
         else let (rx, h) = Endpoint_IsOUTReceived D h in
           if rx then
             let (Length, DataStream, Buf, h) = control_drain D move xfer Length DataStream Buf h
             in Some (Inr (Length, DataStream, Buf, Endpoint_ClearOUT D h))
           else Some (Inr (Length, DataStream, Buf, h)))"

definition Template_Endpoint_Control_R :: "'h io \<Rightarrow> (u16 \<Rightarrow> int) \<Rightarrow> int \<Rightarrow> 'h xfer
    \<Rightarrow> u8 list \<Rightarrow> u16 \<Rightarrow> 'h \<Rightarrow> (u8 \<times> u8 list \<times> 'h) option" where
  "Template_Endpoint_Control_R D offset move xfer Buf Length h =
     do {
       let DataStream = offset Length;
       let h = (if Length = 0 then Endpoint_ClearOUT D h else h);
       (code, Buf, h) \<leftarrow> loop (control_r_turn D move xfer) (Length, DataStream, Buf, h);
       case code of Some e \<Rightarrow> Some (e, Buf, h) | None \<Rightarrow> control_status D Endpoint_IsINReady Buf h
     }"

definition Endpoint_Write_Control_Stream_LE :: "'h io \<Rightarrow> u16 \<Rightarrow> u8 list \<Rightarrow> u16 \<Rightarrow> 'h \<Rightarrow> (u8 \<times> u8 list \<times> 'h) option" where
  "Endpoint_Write_Control_Stream_LE D = Template_Endpoint_Control_W D offset_LE 1 (write_byte D)"

definition Endpoint_Write_Control_Stream_BE :: "'h io \<Rightarrow> u16 \<Rightarrow> u8 list \<Rightarrow> u16 \<Rightarrow> 'h \<Rightarrow> (u8 \<times> u8 list \<times> 'h) option" where
  "Endpoint_Write_Control_Stream_BE D = Template_Endpoint_Control_W D offset_BE (-1) (write_byte D)"

definition Endpoint_Read_Control_Stream_LE :: "'h io \<Rightarrow> u8 list \<Rightarrow> u16 \<Rightarrow> 'h \<Rightarrow> (u8 \<times> u8 list \<times> 'h) option" where
  "Endpoint_Read_Control_Stream_LE D = Template_Endpoint_Control_R D offset_LE 1 (read_byte D)"

definition Endpoint_Read_Control_Stream_BE :: "'h io \<Rightarrow> u8 list \<Rightarrow> u16 \<Rightarrow> 'h \<Rightarrow> (u8 \<times> u8 list \<times> 'h) option" where
  "Endpoint_Read_Control_Stream_BE D = Template_Endpoint_Control_R D offset_BE (-1) (read_byte D)"

definition Endpoint_Write_Control_PStream_LE :: "'h io \<Rightarrow> u16 \<Rightarrow> u8 list \<Rightarrow> u16 \<Rightarrow> 'h \<Rightarrow> (u8 \<times> u8 list \<times> 'h) option" where
  "Endpoint_Write_Control_PStream_LE D = Template_Endpoint_Control_W D offset_LE 1 (write_byte D)"

definition Endpoint_Write_Control_PStream_BE :: "'h io \<Rightarrow> u16 \<Rightarrow> u8 list \<Rightarrow> u16 \<Rightarrow> 'h \<Rightarrow> (u8 \<times> u8 list \<times> 'h) option" where
  "Endpoint_Write_Control_PStream_BE D = Template_Endpoint_Control_W D offset_BE (-1) (write_byte D)"

definition Endpoint_Write_Control_EStream_LE :: "'h io \<Rightarrow> u16 \<Rightarrow> u8 list \<Rightarrow> u16 \<Rightarrow> 'h \<Rightarrow> (u8 \<times> u8 list \<times> 'h) option" where
  "Endpoint_Write_Control_EStream_LE D = Template_Endpoint_Control_W D offset_LE 1 (write_byte D)"

definition Endpoint_Write_Control_EStream_BE :: "'h io \<Rightarrow> u16 \<Rightarrow> u8 list \<Rightarrow> u16 \<Rightarrow> 'h \<Rightarrow> (u8 \<times> u8 list \<times> 'h) option" where
  "Endpoint_Write_Control_EStream_BE D = Template_Endpoint_Control_W D offset_BE (-1) (write_byte D)"

definition Endpoint_Read_Control_EStream_LE :: "'h io \<Rightarrow> u8 list \<Rightarrow> u16 \<Rightarrow> 'h \<Rightarrow> (u8 \<times> u8 list \<times> 'h) option" where
  "Endpoint_Read_Control_EStream_LE D = Template_Endpoint_Control_R D offset_LE 1 (read_byte D)"

definition Endpoint_Read_Control_EStream_BE :: "'h io \<Rightarrow> u8 list \<Rightarrow> u16 \<Rightarrow> 'h \<Rightarrow> (u8 \<times> u8 list \<times> 'h) option" where
  "Endpoint_Read_Control_EStream_BE D = Template_Endpoint_Control_R D offset_BE (-1) (read_byte D)"

end
