(* ===== verification/Usb_Request.thy ===== *)
theory Usb_Request
  imports Usb_Core Usb_Stream
begin

text \<open>
  Control requests and interrupts of the USB stack: \<open>Core/DeviceStandardReq.c\<close>,
  \<open>Core/USBTask.c\<close> and the two interrupt handlers of \<open>Core/AVR8/USBInterrupt_AVR8.c\<close>. The
  event and callback functions the application gives LUFA by name are the fields of
  \<open>usb_app\<close>; an event the application does not define is LUFA's empty stub.
\<close>

record ('s) usb_app =
  EVENT_Connect :: "'s \<Rightarrow> 's option"
  EVENT_Disconnect :: "'s \<Rightarrow> 's option"
  EVENT_Reset :: "'s \<Rightarrow> 's option"
  EVENT_StartOfFrame :: "'s \<Rightarrow> 's option"
  EVENT_ConfigurationChanged :: "'s \<Rightarrow> 's option"
  EVENT_ControlRequest :: "'s \<Rightarrow> 's option"
  CALLBACK_GetDescriptor :: "u16 \<Rightarrow> u8 \<Rightarrow> u16 \<times> u8 list"

section \<open>Request constants\<close>

abbreviation (input) "REQ_GetStatus \<equiv> 0 :: u8"
abbreviation (input) "REQ_ClearFeature \<equiv> 1 :: u8"
abbreviation (input) "REQ_SetFeature \<equiv> 3 :: u8"
abbreviation (input) "REQ_SetAddress \<equiv> 5 :: u8"
abbreviation (input) "REQ_GetDescriptor \<equiv> 6 :: u8"
abbreviation (input) "REQ_GetConfiguration \<equiv> 8 :: u8"
abbreviation (input) "REQ_SetConfiguration \<equiv> 9 :: u8"
abbreviation (input) "REQDIR_HOSTTODEVICE \<equiv> 0x00 :: u8"
abbreviation (input) "REQDIR_DEVICETOHOST \<equiv> 0x80 :: u8"
abbreviation (input) "REQTYPE_STANDARD \<equiv> 0x00 :: u8"
abbreviation (input) "REQTYPE_CLASS \<equiv> 0x20 :: u8"
abbreviation (input) "REQREC_DEVICE \<equiv> 0 :: u8"
abbreviation (input) "REQREC_INTERFACE \<equiv> 1 :: u8"
abbreviation (input) "REQREC_ENDPOINT \<equiv> 2 :: u8"
abbreviation (input) "CONTROL_REQTYPE_RECIPIENT \<equiv> 0x1F :: u8"
abbreviation (input) "FEATURE_SEL_EndpointHalt \<equiv> 0x00 :: u8"
abbreviation (input) "FEATURE_SEL_DeviceRemoteWakeup \<equiv> 0x01 :: u8"
abbreviation (input) "FEATURE_SELFPOWERED_ENABLED \<equiv> BV 0 :: u8"
abbreviation (input) "FEATURE_REMOTE_WAKEUP_ENABLED \<equiv> BV 1 :: u8"
abbreviation (input) "DTYPE_String \<equiv> 0x03 :: u16"
abbreviation (input) "USE_INTERNAL_SERIAL \<equiv> 0xDC :: u16"
abbreviation (input) "NO_DESCRIPTOR \<equiv> 0 :: u16"
abbreviation (input) "FIXED_NUM_CONFIGURATIONS \<equiv> 1 :: u8"

section \<open>DeviceStandardReq.c\<close>

definition ClearStatusStage :: "'h io \<Rightarrow> ('h, 'm) usb_core_scheme \<Rightarrow> ('h, 'm) usb_core_scheme option" where
  "ClearStatusStage D s = hw_try (Endpoint_ClearStatusStage D (bmRequestType (USB_ControlRequest s))) s"

definition USB_Device_SetAddress :: "'h io \<Rightarrow> ('h, 'm) usb_core_scheme \<Rightarrow> ('h, 'm) usb_core_scheme option" where
  "USB_Device_SetAddress D s =
     do {
       let DeviceAddress = (ucast (wValue (USB_ControlRequest s) AND 0x7F) :: u8);
       let CurrentGlobalInt = SREG_I s;
       let s = s\<lparr>SREG_I := False\<rparr>;
       let s = hw_do (Endpoint_ClearSETUP D) s;
       s \<leftarrow> ClearStatusStage D s;
       s \<leftarrow> hw_try (loop (\<lambda>h. let (b, h) = Endpoint_IsINReady D h in
              if b then Some (Inl h) else Some (Inr h))) s;
       let s = hw_do (USB_Device_SetDeviceAddress D DeviceAddress) s;
       let s = hw_do (set_USB_DeviceState D
          (if DeviceAddress \<noteq> 0 then DEVICE_STATE_Addressed else DEVICE_STATE_Default)) s;
       Some (s\<lparr>SREG_I := CurrentGlobalInt\<rparr>)
     }"

definition USB_Device_SetConfiguration :: "'h io \<Rightarrow> ('h, 'm) usb_core_scheme usb_app
    \<Rightarrow> ('h, 'm) usb_core_scheme \<Rightarrow> ('h, 'm) usb_core_scheme option" where
  "USB_Device_SetConfiguration D A s =
     (if (ucast (wValue (USB_ControlRequest s)) :: u8) > FIXED_NUM_CONFIGURATIONS then Some s
      else do {
        let s = hw_do (Endpoint_ClearSETUP D) s;
        let s = s\<lparr>USB_Device_ConfigurationNumber := ucast (wValue (USB_ControlRequest s))\<rparr>;
        s \<leftarrow> ClearStatusStage D s;
        let s = (if USB_Device_ConfigurationNumber s \<noteq> 0
                 then hw_do (set_USB_DeviceState D DEVICE_STATE_Configured) s
                 else let (a, s) = hw_get (USB_Device_IsAddressSet D) s
                   in hw_do (set_USB_DeviceState D
                        (if a then DEVICE_STATE_Configured else DEVICE_STATE_Powered)) s);
        EVENT_ConfigurationChanged A s
      })"

definition USB_Device_GetConfiguration :: "'h io \<Rightarrow> ('h, 'm) usb_core_scheme \<Rightarrow> ('h, 'm) usb_core_scheme option" where
  "USB_Device_GetConfiguration D s =
     (let s = hw_do (Endpoint_ClearSETUP D) s;
          s = hw_do (Endpoint_Write_8 D (USB_Device_ConfigurationNumber s)) s;
          s = hw_do (Endpoint_ClearIN D) s
      in ClearStatusStage D s)"

text \<open>The packed string descriptor: header (size, type), then UTF-16 little endian.\<close>

definition SignatureDescriptor :: "'h io \<Rightarrow> u8 list" where
  "SignatureDescriptor D =
     [of_nat (2 + 2 * (INTERNAL_SERIAL_LENGTH_BITS div 4)), ucast DTYPE_String]
     @ concat (map bytes_of_u16 (USB_Device_GetSerialString D))"

definition control_write :: "('h io \<Rightarrow> u16 \<Rightarrow> u8 list \<Rightarrow> u16 \<Rightarrow> 'h \<Rightarrow> (u8 \<times> u8 list \<times> 'h) option)
    \<Rightarrow> 'h io \<Rightarrow> u8 list \<Rightarrow> u16 \<Rightarrow> ('h, 'm) usb_core_scheme \<Rightarrow> (u8 \<times> ('h, 'm) usb_core_scheme) option" where
  "control_write f D Buf Length s =
     map_option (\<lambda>(e, _, h). (e, s\<lparr>hw := h\<rparr>)) (f D (wLength (USB_ControlRequest s)) Buf Length (hw s))"

definition USB_Device_GetInternalSerialDescriptor :: "'h io \<Rightarrow> ('h, 'm) usb_core_scheme
    \<Rightarrow> ('h, 'm) usb_core_scheme option" where
  "USB_Device_GetInternalSerialDescriptor D s =
     do {
       let s = hw_do (Endpoint_ClearSETUP D) s;
       (_, s) \<leftarrow> control_write Endpoint_Write_Control_Stream_LE D (SignatureDescriptor D)
                  (of_nat (length (SignatureDescriptor D))) s;
       Some (hw_do (Endpoint_ClearOUT D) s)
     }"

definition USB_Device_GetDescriptor :: "'h io \<Rightarrow> ('h, 'm) usb_core_scheme usb_app
    \<Rightarrow> ('h, 'm) usb_core_scheme \<Rightarrow> ('h, 'm) usb_core_scheme option" where
  "USB_Device_GetDescriptor D A s =
     (if wValue (USB_ControlRequest s) = push_bit 8 DTYPE_String OR USE_INTERNAL_SERIAL
      then USB_Device_GetInternalSerialDescriptor D s
      else
        let (DescriptorSize, Descriptor) =
              CALLBACK_GetDescriptor A (wValue (USB_ControlRequest s)) (ucast (wIndex (USB_ControlRequest s)))
        in if DescriptorSize = NO_DESCRIPTOR then Some s
        else do {
          let s = hw_do (Endpoint_ClearSETUP D) s;
          (_, s) \<leftarrow> control_write Endpoint_Write_Control_PStream_LE D Descriptor DescriptorSize s;
          Some (hw_do (Endpoint_ClearOUT D) s)
        })"

definition USB_Device_GetStatus :: "'h io \<Rightarrow> ('h, 'm) usb_core_scheme \<Rightarrow> ('h, 'm) usb_core_scheme option" where
  "USB_Device_GetStatus D s =
     (let reply = (\<lambda>CurrentStatus :: u8. \<lambda>s.
            let s = hw_do (Endpoint_ClearSETUP D) s;
                s = hw_do (Endpoint_Write_16_LE D (ucast CurrentStatus)) s;
                s = hw_do (Endpoint_ClearIN D) s
            in ClearStatusStage D s)
      in if bmRequestType (USB_ControlRequest s) = REQDIR_DEVICETOHOST OR REQTYPE_STANDARD OR REQREC_DEVICE then
           reply ((if USB_Device_CurrentlySelfPowered s then FEATURE_SELFPOWERED_ENABLED else 0)
                  OR (if USB_Device_RemoteWakeupEnabled s then FEATURE_REMOTE_WAKEUP_ENABLED else 0)) s
         else if bmRequestType (USB_ControlRequest s) = REQDIR_DEVICETOHOST OR REQTYPE_STANDARD OR REQREC_ENDPOINT then
           (let s = hw_do (Endpoint_SelectEndpoint D (ucast (wIndex (USB_ControlRequest s)) AND ENDPOINT_EPNUM_MASK)) s;
                (st, s) = hw_get (Endpoint_IsStalled D) s;
                s = hw_do (Endpoint_SelectEndpoint D ENDPOINT_CONTROLEP) s
            in reply (if st then 1 else 0) s)
         else Some s)"

definition USB_Device_ClearSetFeature :: "'h io \<Rightarrow> ('h, 'm) usb_core_scheme \<Rightarrow> ('h, 'm) usb_core_scheme option" where
  "USB_Device_ClearSetFeature D s =
     (let rq = USB_ControlRequest s;
          finish = (\<lambda>s.
            let s = hw_do (Endpoint_SelectEndpoint D ENDPOINT_CONTROLEP) s;
                s = hw_do (Endpoint_ClearSETUP D) s
            in ClearStatusStage D s)
      in if bmRequestType rq AND CONTROL_REQTYPE_RECIPIENT = REQREC_DEVICE then
           (if ucast (wValue rq) = FEATURE_SEL_DeviceRemoteWakeup
            then finish (s\<lparr>USB_Device_RemoteWakeupEnabled := (bRequest rq = REQ_SetFeature)\<rparr>)
            else Some s)
         else if bmRequestType rq AND CONTROL_REQTYPE_RECIPIENT = REQREC_ENDPOINT then
           (if ucast (wValue rq) = FEATURE_SEL_EndpointHalt then
              let EndpointIndex = ucast (wIndex rq) AND ENDPOINT_EPNUM_MASK in
              if EndpointIndex = ENDPOINT_CONTROLEP then Some s
              else
                let s = hw_do (Endpoint_SelectEndpoint D EndpointIndex) s;
                    (en, s) = hw_get (Endpoint_IsEnabled D) s;
                    s = (if en then
                           if bRequest rq = REQ_SetFeature then hw_do (Endpoint_StallTransaction D) s
                           else let s = hw_do (Endpoint_ClearStall D) s;
                                    s = hw_do (Endpoint_ResetEndpoint D EndpointIndex) s
                             in hw_do (Endpoint_ResetDataToggle D) s
                         else s)
                in finish s
            else finish s)
         else Some s)"

definition request_of_bytes :: "u8 list \<Rightarrow> USB_Request_Header_t" where
  "request_of_bytes bs = \<lparr>bmRequestType = bs ! 0, bRequest = bs ! 1, wValue = u16_of_bytes [bs ! 2, bs ! 3],
     wIndex = u16_of_bytes [bs ! 4, bs ! 5], wLength = u16_of_bytes [bs ! 6, bs ! 7]\<rparr>"

definition standard_request :: "'h io \<Rightarrow> ('h, 'm) usb_core_scheme usb_app
    \<Rightarrow> ('h, 'm) usb_core_scheme \<Rightarrow> ('h, 'm) usb_core_scheme option" where
  "standard_request D A s =
     (let rq = bRequest (USB_ControlRequest s);
          ty = bmRequestType (USB_ControlRequest s)
      in if rq = REQ_GetStatus then
           (if ty = REQDIR_DEVICETOHOST OR REQTYPE_STANDARD OR REQREC_DEVICE
               \<or> ty = REQDIR_DEVICETOHOST OR REQTYPE_STANDARD OR REQREC_ENDPOINT
            then USB_Device_GetStatus D s else Some s)
         else if rq = REQ_ClearFeature \<or> rq = REQ_SetFeature then
           (if ty = REQDIR_HOSTTODEVICE OR REQTYPE_STANDARD OR REQREC_DEVICE
               \<or> ty = REQDIR_HOSTTODEVICE OR REQTYPE_STANDARD OR REQREC_ENDPOINT
            then USB_Device_ClearSetFeature D s else Some s)
         else if rq = REQ_SetAddress then
           (if ty = REQDIR_HOSTTODEVICE OR REQTYPE_STANDARD OR REQREC_DEVICE
            then USB_Device_SetAddress D s else Some s)
         else if rq = REQ_GetDescriptor then
           (if ty = REQDIR_DEVICETOHOST OR REQTYPE_STANDARD OR REQREC_DEVICE
               \<or> ty = REQDIR_DEVICETOHOST OR REQTYPE_STANDARD OR REQREC_INTERFACE
            then USB_Device_GetDescriptor D A s else Some s)
         else if rq = REQ_GetConfiguration then
           (if ty = REQDIR_DEVICETOHOST OR REQTYPE_STANDARD OR REQREC_DEVICE
            then USB_Device_GetConfiguration D s else Some s)
         else if rq = REQ_SetConfiguration then
           (if ty = REQDIR_HOSTTODEVICE OR REQTYPE_STANDARD OR REQREC_DEVICE
            then USB_Device_SetConfiguration D A s else Some s)
         else Some s)"

definition USB_Device_ProcessControlRequest :: "'h io \<Rightarrow> ('h, 'm) usb_core_scheme usb_app
    \<Rightarrow> ('h, 'm) usb_core_scheme \<Rightarrow> ('h, 'm) usb_core_scheme option" where
  "USB_Device_ProcessControlRequest D A s =
     do {
       let (bs, s) = hw_get (get_bytes (Endpoint_Read_8 D) 8) s;
       let s = s\<lparr>USB_ControlRequest := request_of_bytes bs\<rparr>;
       s \<leftarrow> EVENT_ControlRequest A s;
       let (setup, s) = hw_get (Endpoint_IsSETUPReceived D) s;
       s \<leftarrow> (if setup then standard_request D A s else Some s);
       let (setup, s) = hw_get (Endpoint_IsSETUPReceived D) s;
       Some (if setup then hw_do (Endpoint_ClearSETUP D) (hw_do (Endpoint_StallTransaction D) s) else s)
     }"

section \<open>USBTask.c\<close>

definition USB_DeviceTask :: "'h io \<Rightarrow> ('h, 'm) usb_core_scheme usb_app
    \<Rightarrow> ('h, 'm) usb_core_scheme \<Rightarrow> ('h, 'm) usb_core_scheme option" where
  "USB_DeviceTask D A s =
     (let (st, s) = hw_get (USB_DeviceState D) s in
      if st \<noteq> DEVICE_STATE_Unattached then
        do {
          let (PrevEndpoint, s) = hw_get (Endpoint_GetCurrentEndpoint D) s;
          let s = hw_do (Endpoint_SelectEndpoint D ENDPOINT_CONTROLEP) s;
          let (setup, s) = hw_get (Endpoint_IsSETUPReceived D) s;
          s \<leftarrow> (if setup then USB_Device_ProcessControlRequest D A s else Some s);
          Some (hw_do (Endpoint_SelectEndpoint D PrevEndpoint) s)
        }
      else Some s)"

definition USB_USBTask :: "'h io \<Rightarrow> ('h, 'm) usb_core_scheme usb_app
    \<Rightarrow> ('h, 'm) usb_core_scheme \<Rightarrow> ('h, 'm) usb_core_scheme option" where
  "USB_USBTask D A s = USB_DeviceTask D A s"

section \<open>USBInterrupt\_AVR8.c\<close>

definition gen_sof :: "'h io \<Rightarrow> ('h, 'm) usb_core_scheme usb_app
    \<Rightarrow> ('h, 'm) usb_core_scheme \<Rightarrow> ('h, 'm) usb_core_scheme option" where
  "gen_sof D A s =
     (let (p, s) = hw_get (int_pending D USB_INT_SOFI) s in
      if p then EVENT_StartOfFrame A (hw_do (USB_INT_Clear D USB_INT_SOFI) s) else Some s)"

definition gen_suspend :: "'h io \<Rightarrow> ('h, 'm) usb_core_scheme usb_app
    \<Rightarrow> ('h, 'm) usb_core_scheme \<Rightarrow> ('h, 'm) usb_core_scheme option" where
  "gen_suspend D A s =
     (let (p, s) = hw_get (int_pending D USB_INT_SUSPI) s in
      if p then
        let s = hw_do (USB_INT_Disable D USB_INT_SUSPI) s;
            s = hw_do (USB_INT_Enable D USB_INT_WAKEUPI) s;
            s = hw_do (USB_CLK_Freeze D) s;
            s = (if USB_Options AND USB_OPT_MANUAL_PLL = 0 then hw_do (USB_PLL_Off D) s else s);
            s = hw_do (set_USB_DeviceState D DEVICE_STATE_Unattached) s
        in EVENT_Disconnect A s
      else Some s)"

definition gen_wakeup :: "'h io \<Rightarrow> ('h, 'm) usb_core_scheme usb_app
    \<Rightarrow> ('h, 'm) usb_core_scheme \<Rightarrow> ('h, 'm) usb_core_scheme option" where
  "gen_wakeup D A s =
     (let (p, s) = hw_get (int_pending D USB_INT_WAKEUPI) s in
      if p then
        do {
          s \<leftarrow> (if USB_Options AND USB_OPT_MANUAL_PLL = 0
                then hw_try (USB_PLL_wait D) (hw_do (USB_PLL_On D) s) else Some s);
          let s = hw_do (USB_CLK_Unfreeze D) s;
          let s = hw_do (USB_INT_Clear D USB_INT_WAKEUPI) s;
          let s = hw_do (USB_INT_Disable D USB_INT_WAKEUPI) s;
          let s = hw_do (USB_INT_Enable D USB_INT_SUSPI) s;
          let s = (if USB_Device_ConfigurationNumber s \<noteq> 0
                   then hw_do (set_USB_DeviceState D DEVICE_STATE_Configured) s
                   else let (a, s) = hw_get (USB_Device_IsAddressSet D) s
                     in hw_do (set_USB_DeviceState D
                          (if a then DEVICE_STATE_Configured else DEVICE_STATE_Powered)) s);
          EVENT_Connect A s
        }
      else Some s)"

definition gen_reset :: "'h io \<Rightarrow> ('h, 'm) usb_core_scheme usb_app
    \<Rightarrow> ('h, 'm) usb_core_scheme \<Rightarrow> ('h, 'm) usb_core_scheme option" where
  "gen_reset D A s =
     (let (p, s) = hw_get (int_pending D USB_INT_EORSTI) s in
      if p then
        do {
          let s = hw_do (USB_INT_Clear D USB_INT_EORSTI) s;
          let s = hw_do (set_USB_DeviceState D DEVICE_STATE_Default) s;
          let s = s\<lparr>USB_Device_ConfigurationNumber := 0\<rparr>;
          let s = hw_do (USB_INT_Clear D USB_INT_SUSPI) s;
          let s = hw_do (USB_INT_Disable D USB_INT_SUSPI) s;
          let s = hw_do (USB_INT_Enable D USB_INT_WAKEUPI) s;
          (_, s) \<leftarrow> hw_tryget (Endpoint_ConfigureEndpoint D ENDPOINT_CONTROLEP EP_TYPE_CONTROL 8 1) s;
          let s = hw_do (USB_INT_Enable D USB_INT_RXSTPI) s;
          EVENT_Reset A s
        }
      else Some s)"

definition USB_GEN_vect :: "'h io \<Rightarrow> ('h, 'm) usb_core_scheme usb_app
    \<Rightarrow> ('h, 'm) usb_core_scheme \<Rightarrow> ('h, 'm) usb_core_scheme option" where
  "USB_GEN_vect D A s =
     do {
       s \<leftarrow> gen_sof D A s;
       s \<leftarrow> gen_suspend D A s;
       s \<leftarrow> gen_wakeup D A s;
       gen_reset D A s
     }"

definition USB_COM_vect :: "'h io \<Rightarrow> ('h, 'm) usb_core_scheme usb_app
    \<Rightarrow> ('h, 'm) usb_core_scheme \<Rightarrow> ('h, 'm) usb_core_scheme option" where
  "USB_COM_vect D A s =
     do {
       let (PrevSelectedEndpoint, s) = hw_get (Endpoint_GetCurrentEndpoint D) s;
       let s = hw_do (Endpoint_SelectEndpoint D ENDPOINT_CONTROLEP) s;
       let s = hw_do (USB_INT_Disable D USB_INT_RXSTPI) s;
       let s = s\<lparr>SREG_I := True\<rparr>;
       s \<leftarrow> USB_Device_ProcessControlRequest D A s;
       let s = hw_do (Endpoint_SelectEndpoint D ENDPOINT_CONTROLEP) s;
       let s = hw_do (USB_INT_Enable D USB_INT_RXSTPI) s;
       Some (hw_do (Endpoint_SelectEndpoint D PrevSelectedEndpoint) s)
     }"

section \<open>Interface: what the stack needs of the application\<close>

text \<open>
  A property \<open>P\<close> of the application's own variables that every event handler keeps is kept by
  everything the stack does: control requests, the background task and both interrupts.
\<close>

lemma more_hw [simp]:
  "usb_core.more (hw_do f s) = usb_core.more s" "usb_core.more (snd (hw_get g s)) = usb_core.more s"
  "hw_try k s = Some s' \<Longrightarrow> usb_core.more s' = usb_core.more s"
  "hw_tryget q s = Some (v, s') \<Longrightarrow> usb_core.more s' = usb_core.more s"
  by (auto simp: hw_defs Let_def split_beta)

lemma ClearStatusStage_more: "ClearStatusStage D s = Some s' \<Longrightarrow> usb_core.more s' = usb_core.more s"
  by (auto simp: ClearStatusStage_def)

lemma USB_Init_more: "USB_Init D s = Some s' \<Longrightarrow> usb_core.more s' = usb_core.more s"
  by (auto simp: USB_Init_def USB_ResetInterface_def USB_Init_Device_def Let_def bind_eq_Some_conv
      split: if_splits dest!: more_hw(3,4))

locale usb_client =
  fixes D :: "'h io" and A :: "('h, 'm) usb_core_scheme usb_app" and P :: "('h, 'm) usb_core_scheme \<Rightarrow> bool"
  assumes P_more: "P s \<Longrightarrow> usb_core.more t = usb_core.more s \<Longrightarrow> P t"
    and P_Connect: "P s \<Longrightarrow> EVENT_Connect A s = Some s' \<Longrightarrow> P s'"
    and P_Disconnect: "P s \<Longrightarrow> EVENT_Disconnect A s = Some s' \<Longrightarrow> P s'"
    and P_Reset: "P s \<Longrightarrow> EVENT_Reset A s = Some s' \<Longrightarrow> P s'"
    and P_StartOfFrame: "P s \<Longrightarrow> EVENT_StartOfFrame A s = Some s' \<Longrightarrow> P s'"
    and P_ConfigurationChanged: "P s \<Longrightarrow> EVENT_ConfigurationChanged A s = Some s' \<Longrightarrow> P s'"
    and P_ControlRequest: "P s \<Longrightarrow> EVENT_ControlRequest A s = Some s' \<Longrightarrow> P s'"
begin

lemma P_hw:
  "P s \<Longrightarrow> P (hw_do f s)"
  "P s \<Longrightarrow> hw_get g s = (v, s') \<Longrightarrow> P s'"
  "P s \<Longrightarrow> P (snd (hw_get g s))"
  "P s \<Longrightarrow> hw_try k s = Some s' \<Longrightarrow> P s'"
  "P s \<Longrightarrow> hw_tryget q s = Some (v, s') \<Longrightarrow> P s'"
  "P s \<Longrightarrow> ClearStatusStage D s = Some s' \<Longrightarrow> P s'"
  "P s \<Longrightarrow> P (s\<lparr>SREG_I := i\<rparr>)" "P s \<Longrightarrow> P (s\<lparr>USB_ControlRequest := rq\<rparr>)"
  "P s \<Longrightarrow> P (s\<lparr>USB_Device_ConfigurationNumber := n\<rparr>)"
  "P s \<Longrightarrow> P (s\<lparr>USB_Device_RemoteWakeupEnabled := b\<rparr>)"
  by (erule P_more; auto simp: ClearStatusStage_more hw_defs Let_def split_beta)+

lemma P_control_write: "P s \<Longrightarrow> control_write f D Buf n s = Some (e, s') \<Longrightarrow> P s'"
  by (erule P_more) (auto simp: control_write_def)

text \<open>Total steps are backward rules, steps that may not return forward rules.\<close>

lemmas P_total = P_hw(1,3,7-10)
lemmas P_partial = P_hw(4-6) [rotated] P_control_write [rotated] P_Connect [rotated] P_Disconnect [rotated]
  P_Reset [rotated] P_StartOfFrame [rotated] P_ConfigurationChanged [rotated] P_ControlRequest [rotated]

lemma SetAddress_keeps: "P s \<Longrightarrow> USB_Device_SetAddress D s = Some s' \<Longrightarrow> P s'"
  unfolding USB_Device_SetAddress_def Let_def
  by (auto simp: bind_eq_Some_conv intro!: P_total dest!: P_partial)

lemma SetConfiguration_keeps: "P s \<Longrightarrow> USB_Device_SetConfiguration D A s = Some s' \<Longrightarrow> P s'"
  unfolding USB_Device_SetConfiguration_def Let_def split_beta
  by (auto simp: bind_eq_Some_conv split: if_splits intro!: P_total dest!: P_partial)

lemma GetConfiguration_keeps: "P s \<Longrightarrow> USB_Device_GetConfiguration D s = Some s' \<Longrightarrow> P s'"
  unfolding USB_Device_GetConfiguration_def Let_def by (auto intro!: P_total dest!: P_partial)

lemma GetDescriptor_keeps: "P s \<Longrightarrow> USB_Device_GetDescriptor D A s = Some s' \<Longrightarrow> P s'"
  unfolding USB_Device_GetDescriptor_def USB_Device_GetInternalSerialDescriptor_def Let_def split_beta
  by (auto simp: bind_eq_Some_conv split: if_splits intro!: P_total dest!: P_partial)

lemma GetStatus_keeps: "P s \<Longrightarrow> USB_Device_GetStatus D s = Some s' \<Longrightarrow> P s'"
  unfolding USB_Device_GetStatus_def Let_def split_beta
  by (auto split: if_splits intro!: P_total dest!: P_partial)

lemma ClearSetFeature_keeps: "P s \<Longrightarrow> USB_Device_ClearSetFeature D s = Some s' \<Longrightarrow> P s'"
  unfolding USB_Device_ClearSetFeature_def Let_def split_beta
  by (auto split: if_splits intro!: P_total dest!: P_partial)

lemma standard_request_keeps: "P s \<Longrightarrow> standard_request D A s = Some s' \<Longrightarrow> P s'"
  unfolding standard_request_def Let_def
  by (auto split: if_splits intro: SetAddress_keeps SetConfiguration_keeps GetConfiguration_keeps
      GetDescriptor_keeps GetStatus_keeps ClearSetFeature_keeps)

lemma ProcessControlRequest_keeps: "P s \<Longrightarrow> USB_Device_ProcessControlRequest D A s = Some s' \<Longrightarrow> P s'"
  unfolding USB_Device_ProcessControlRequest_def Let_def split_beta
  by (auto simp: bind_eq_Some_conv split: if_splits intro!: P_total dest!: P_partial standard_request_keeps [rotated])

lemma USBTask_keeps: "P s \<Longrightarrow> USB_USBTask D A s = Some s' \<Longrightarrow> P s'"
  unfolding USB_USBTask_def USB_DeviceTask_def Let_def split_beta
  by (auto simp: bind_eq_Some_conv split: if_splits intro!: P_total dest!: P_partial ProcessControlRequest_keeps [rotated])

lemma gen_sof_keeps: "P s \<Longrightarrow> gen_sof D A s = Some s' \<Longrightarrow> P s'"
  unfolding gen_sof_def Let_def split_beta
  by (auto simp: bind_eq_Some_conv split: if_splits intro!: P_total dest!: P_partial)

lemma gen_suspend_keeps: "P s \<Longrightarrow> gen_suspend D A s = Some s' \<Longrightarrow> P s'"
  unfolding gen_suspend_def Let_def split_beta
  by (auto simp: bind_eq_Some_conv split: if_splits intro!: P_total dest!: P_partial)

lemma gen_wakeup_keeps: "P s \<Longrightarrow> gen_wakeup D A s = Some s' \<Longrightarrow> P s'"
  unfolding gen_wakeup_def Let_def split_beta
  by (auto simp: bind_eq_Some_conv split: if_splits intro!: P_total dest!: P_partial)

lemma gen_reset_keeps: "P s \<Longrightarrow> gen_reset D A s = Some s' \<Longrightarrow> P s'"
  unfolding gen_reset_def Let_def split_beta
  by (auto simp: bind_eq_Some_conv split: if_splits intro!: P_total dest!: P_partial)

lemma GEN_vect_keeps:
  assumes "P s" "USB_GEN_vect D A s = Some s'"
  shows "P s'"
proof -
  obtain s1 s2 s3 where "gen_sof D A s = Some s1" "gen_suspend D A s1 = Some s2" "gen_wakeup D A s2 = Some s3"
    and last: "gen_reset D A s3 = Some s'"
    using assms(2) by (auto simp: USB_GEN_vect_def bind_eq_Some_conv)
  then have "P s3" using assms(1) gen_sof_keeps gen_suspend_keeps gen_wakeup_keeps by metis
  then show ?thesis using last by (rule gen_reset_keeps)
qed

lemma COM_vect_keeps: "P s \<Longrightarrow> USB_COM_vect D A s = Some s' \<Longrightarrow> P s'"
  unfolding USB_COM_vect_def Let_def split_beta
  by (auto simp: bind_eq_Some_conv intro!: P_total dest!: P_partial ProcessControlRequest_keeps [rotated])

end
end
