(* ===== verification/Cdc_Class.thy ===== *)
theory Cdc_Class
  imports Usb_Request
begin

text \<open>
  The CDC-ACM (virtual serial port) class driver, \<open>LUFA/Drivers/USB/Class/Device/CDCClassDevice.c\<close>
  and the types of \<open>CDCClassDevice.h\<close> and \<open>CDCClassCommon.h\<close>. Both firmwares have one CDC
  interface; its structure is the field \<open>cdc\<close> that \<open>cdc_core\<close> adds to the globals of the
  USB stack.
\<close>

record CDC_LineEncoding_t =
  BaudRateBPS :: u32
  CharFormat :: u8
  ParityType :: u8
  DataBits :: u8

record USB_ClassInfo_CDC_Device_t =
  ControlInterfaceNumber :: u8
  DataINEndpoint :: USB_Endpoint_Table_t
  DataOUTEndpoint :: USB_Endpoint_Table_t
  NotificationEndpoint :: USB_Endpoint_Table_t
  HostToDevice :: u16
  DeviceToHost :: u16
  LineEncoding :: CDC_LineEncoding_t

record 'h cdc_core = "'h usb_core" +
  cdc :: USB_ClassInfo_CDC_Device_t

record 's cdc_app =
  EVENT_LineEncodingChanged :: "'s \<Rightarrow> 's option"
  EVENT_ControLineStateChanged :: "'s \<Rightarrow> 's option"
  EVENT_BreakSent :: "u8 \<Rightarrow> 's \<Rightarrow> 's option"

abbreviation (input) "CDC_REQ_SetLineEncoding \<equiv> 0x20 :: u8"
abbreviation (input) "CDC_REQ_GetLineEncoding \<equiv> 0x21 :: u8"
abbreviation (input) "CDC_REQ_SetControlLineState \<equiv> 0x22 :: u8"
abbreviation (input) "CDC_REQ_SendBreak \<equiv> 0x23 :: u8"
abbreviation (input) "CDC_NOTIF_SerialState \<equiv> 0x20 :: u8"
abbreviation (input) "ENDPOINT_RWSTREAM_DeviceDisconnected \<equiv> 2 :: u8"

section \<open>Control requests\<close>

definition cdc_GetLineEncoding :: "'h io \<Rightarrow> ('h, 'm) cdc_core_scheme \<Rightarrow> ('h, 'm) cdc_core_scheme option" where
  "cdc_GetLineEncoding D s =
     do {
       let s = hw_do (Endpoint_ClearSETUP D) s;
       s \<leftarrow> hw_try (loop (\<lambda>h. let (b, h) = Endpoint_IsINReady D h in
              if b then Some (Inl h) else Some (Inr h))) s;
       let le = LineEncoding (cdc s);
       let s = hw_do (Endpoint_Write_32_LE D (BaudRateBPS le)) s;
       let s = hw_do (Endpoint_Write_8 D (CharFormat le)) s;
       let s = hw_do (Endpoint_Write_8 D (ParityType le)) s;
       let s = hw_do (Endpoint_Write_8 D (DataBits le)) s;
       let s = hw_do (Endpoint_ClearIN D) s;
       ClearStatusStage D s
     }"

text \<open>The wait for the data stage leaves the handler when the device is unplugged (\<open>False\<close>).\<close>

definition cdc_SetLineEncoding :: "'h io \<Rightarrow> ('h, 'm) cdc_core_scheme cdc_app
    \<Rightarrow> ('h, 'm) cdc_core_scheme \<Rightarrow> ('h, 'm) cdc_core_scheme option" where
  "cdc_SetLineEncoding D C s =
     do {
       let s = hw_do (Endpoint_ClearSETUP D) s;
       (received, s) \<leftarrow> hw_tryget (loop (\<lambda>h. let (b, h) = Endpoint_IsOUTReceived D h in
           if b then Some (Inl (True, h))
           else let (st, h) = USB_DeviceState D h in
             if st = DEVICE_STATE_Unattached then Some (Inl (False, h)) else Some (Inr h))) s;
       if \<not> received then Some s
       else do {
         let (baud, s) = hw_get (Endpoint_Read_32_LE D) s;
         let (cf, s) = hw_get (Endpoint_Read_8 D) s;
         let (pt, s) = hw_get (Endpoint_Read_8 D) s;
         let (db, s) = hw_get (Endpoint_Read_8 D) s;
         let s = s\<lparr>cdc := (cdc s)\<lparr>LineEncoding :=
               \<lparr>BaudRateBPS = baud, CharFormat = cf, ParityType = pt, DataBits = db\<rparr>\<rparr>\<rparr>;
         let s = hw_do (Endpoint_ClearOUT D) s;
         s \<leftarrow> ClearStatusStage D s;
         EVENT_LineEncodingChanged C s
       }
     }"

definition CDC_Device_ProcessControlRequest :: "'h io \<Rightarrow> ('h, 'm) cdc_core_scheme cdc_app
    \<Rightarrow> ('h, 'm) cdc_core_scheme \<Rightarrow> ('h, 'm) cdc_core_scheme option" where
  "CDC_Device_ProcessControlRequest D C s =
     (let (setup, s) = hw_get (Endpoint_IsSETUPReceived D) s;
          rq = USB_ControlRequest s
      in if \<not> setup then Some s
      else if wIndex rq \<noteq> ucast (ControlInterfaceNumber (cdc s)) then Some s
      else if bRequest rq = CDC_REQ_GetLineEncoding then
        (if bmRequestType rq = REQDIR_DEVICETOHOST OR REQTYPE_CLASS OR REQREC_INTERFACE
         then cdc_GetLineEncoding D s else Some s)
      else if bRequest rq = CDC_REQ_SetLineEncoding then
        (if bmRequestType rq = REQDIR_HOSTTODEVICE OR REQTYPE_CLASS OR REQREC_INTERFACE
         then cdc_SetLineEncoding D C s else Some s)
      else if bRequest rq = CDC_REQ_SetControlLineState then
        (if bmRequestType rq = REQDIR_HOSTTODEVICE OR REQTYPE_CLASS OR REQREC_INTERFACE
         then do {
           s \<leftarrow> ClearStatusStage D (hw_do (Endpoint_ClearSETUP D) s);
           EVENT_ControLineStateChanged C (s\<lparr>cdc := (cdc s)\<lparr>HostToDevice := wValue rq\<rparr>\<rparr>)
         } else Some s)
      else if bRequest rq = CDC_REQ_SendBreak then
        (if bmRequestType rq = REQDIR_HOSTTODEVICE OR REQTYPE_CLASS OR REQREC_INTERFACE
         then do {
           s \<leftarrow> ClearStatusStage D (hw_do (Endpoint_ClearSETUP D) s);
           EVENT_BreakSent C (ucast (wValue rq)) s
         } else Some s)
      else Some s)"

section \<open>Configuration\<close>

definition CDC_Device_ConfigureEndpoints :: "'h io \<Rightarrow> ('h, 'm) cdc_core_scheme
    \<Rightarrow> (bool \<times> ('h, 'm) cdc_core_scheme) option" where
  "CDC_Device_ConfigureEndpoints D s =
     do {
       let c = (cdc s)\<lparr>HostToDevice := 0, DeviceToHost := 0,
             LineEncoding := \<lparr>BaudRateBPS = 0, CharFormat = 0, ParityType = 0, DataBits = 0\<rparr>\<rparr>;
       let c = c\<lparr>DataINEndpoint := (DataINEndpoint c)\<lparr>ep_Type := EP_TYPE_BULK\<rparr>\<rparr>;
       let c = c\<lparr>DataOUTEndpoint := (DataOUTEndpoint c)\<lparr>ep_Type := EP_TYPE_BULK\<rparr>\<rparr>;
       let c = c\<lparr>NotificationEndpoint := (NotificationEndpoint c)\<lparr>ep_Type := EP_TYPE_INTERRUPT\<rparr>\<rparr>;
       let s = s\<lparr>cdc := c\<rparr>;
       (ok, s) \<leftarrow> hw_tryget (Endpoint_ConfigureEndpointTable D [DataINEndpoint c]) s;
       if \<not> ok then Some (False, s) else do {
         (ok, s) \<leftarrow> hw_tryget (Endpoint_ConfigureEndpointTable D [DataOUTEndpoint c]) s;
         if \<not> ok then Some (False, s) else do {
           (ok, s) \<leftarrow> hw_tryget (Endpoint_ConfigureEndpointTable D [NotificationEndpoint c]) s;
           Some (ok, s)
         }
       }
     }"

section \<open>Data transfer\<close>

text \<open>
  The guard of every data function: the device is configured and the host has set a baud rate.
  C evaluates the first operand first, so the register is read in any case.
\<close>

definition cdc_down :: "'h io \<Rightarrow> ('h, 'm) cdc_core_scheme \<Rightarrow> bool \<times> ('h, 'm) cdc_core_scheme" where
  "cdc_down D s =
     (let (st, s) = hw_get (USB_DeviceState D) s
      in (st \<noteq> DEVICE_STATE_Configured \<or> BaudRateBPS (LineEncoding (cdc s)) = 0, s))"

definition CDC_Device_Flush :: "'h io \<Rightarrow> ('h, 'm) cdc_core_scheme \<Rightarrow> (u8 \<times> ('h, 'm) cdc_core_scheme) option" where
  "CDC_Device_Flush D s =
     (let (down, s) = cdc_down D s in
      if down then Some (ENDPOINT_RWSTREAM_DeviceDisconnected, s)
      else
        let s = hw_do (Endpoint_SelectEndpoint D (ep_Address (DataINEndpoint (cdc s)))) s;
            (n, s) = hw_get (Endpoint_BytesInEndpoint D) s
        in if n = 0 then Some (ENDPOINT_READYWAIT_NoError, s)
        else
          let (rw, s) = hw_get (Endpoint_IsReadWriteAllowed D) s;
              BankFull = (\<not> rw);
              s = hw_do (Endpoint_ClearIN D) s
          in if BankFull then do {
               (ErrorCode, s) \<leftarrow> hw_tryget (Endpoint_WaitUntilReady D) s;
               if ErrorCode \<noteq> ENDPOINT_READYWAIT_NoError then Some (ErrorCode, s)
               else Some (ENDPOINT_READYWAIT_NoError, hw_do (Endpoint_ClearIN D) s)
             }
             else Some (ENDPOINT_READYWAIT_NoError, s))"

definition CDC_Device_USBTask :: "'h io \<Rightarrow> ('h, 'm) cdc_core_scheme \<Rightarrow> ('h, 'm) cdc_core_scheme option" where
  "CDC_Device_USBTask D s =
     (let (down, s) = cdc_down D s in
      if down then Some s else map_option snd (CDC_Device_Flush D s))"

definition write_stream :: "'h io \<Rightarrow> u8 list \<Rightarrow> u16 \<Rightarrow> ('h, 'm) usb_core_scheme \<Rightarrow> (u8 \<times> ('h, 'm) usb_core_scheme) option" where
  "write_stream D Buf Length s =
     map_option (\<lambda>(e, _, _, h). (e, s\<lparr>hw := h\<rparr>)) (Endpoint_Write_Stream_LE D Buf Length None (hw s))"

definition CDC_Device_SendData :: "'h io \<Rightarrow> u8 list \<Rightarrow> u16 \<Rightarrow> ('h, 'm) cdc_core_scheme
    \<Rightarrow> (u8 \<times> ('h, 'm) cdc_core_scheme) option" where
  "CDC_Device_SendData D Buf Length s =
     (let (down, s) = cdc_down D s in
      if down then Some (ENDPOINT_RWSTREAM_DeviceDisconnected, s)
      else write_stream D Buf Length
             (hw_do (Endpoint_SelectEndpoint D (ep_Address (DataINEndpoint (cdc s)))) s))"

definition strlen :: "u8 list \<Rightarrow> u16" where
  "strlen cs = of_nat (length (takeWhile (\<lambda>c. c \<noteq> 0) cs))"

definition CDC_Device_SendString :: "'h io \<Rightarrow> u8 list \<Rightarrow> ('h, 'm) cdc_core_scheme
    \<Rightarrow> (u8 \<times> ('h, 'm) cdc_core_scheme) option" where
  "CDC_Device_SendString D String s =
     (let (down, s) = cdc_down D s in
      if down then Some (ENDPOINT_RWSTREAM_DeviceDisconnected, s)
      else write_stream D String (strlen String)
             (hw_do (Endpoint_SelectEndpoint D (ep_Address (DataINEndpoint (cdc s)))) s))"

definition CDC_Device_SendByte :: "'h io \<Rightarrow> u8 \<Rightarrow> ('h, 'm) cdc_core_scheme
    \<Rightarrow> (u8 \<times> ('h, 'm) cdc_core_scheme) option" where
  "CDC_Device_SendByte D Data s =
     (let (down, s) = cdc_down D s in
      if down then Some (ENDPOINT_RWSTREAM_DeviceDisconnected, s)
      else
        let s = hw_do (Endpoint_SelectEndpoint D (ep_Address (DataINEndpoint (cdc s)))) s;
            (rw, s) = hw_get (Endpoint_IsReadWriteAllowed D) s
        in if \<not> rw then do {
             (ErrorCode, s) \<leftarrow> hw_tryget (Endpoint_WaitUntilReady D) (hw_do (Endpoint_ClearIN D) s);
             if ErrorCode \<noteq> ENDPOINT_READYWAIT_NoError then Some (ErrorCode, s)
             else Some (ENDPOINT_READYWAIT_NoError, hw_do (Endpoint_Write_8 D Data) s)
           }
           else Some (ENDPOINT_READYWAIT_NoError, hw_do (Endpoint_Write_8 D Data) s))"

definition CDC_Device_BytesReceived :: "'h io \<Rightarrow> ('h, 'm) cdc_core_scheme \<Rightarrow> u16 \<times> ('h, 'm) cdc_core_scheme" where
  "CDC_Device_BytesReceived D s =
     (let (down, s) = cdc_down D s in
      if down then (0, s)
      else
        let s = hw_do (Endpoint_SelectEndpoint D (ep_Address (DataOUTEndpoint (cdc s)))) s;
            (rx, s) = hw_get (Endpoint_IsOUTReceived D) s
        in if rx then
             let (n, s) = hw_get (Endpoint_BytesInEndpoint D) s in
             if n = 0 then (0, hw_do (Endpoint_ClearOUT D) s)
             else hw_get (Endpoint_BytesInEndpoint D) s
           else (0, s))"

text \<open>The \<open>int16_t\<close> result is an \<open>int\<close>: \<open>-1\<close> for nothing, otherwise the byte.\<close>

definition CDC_Device_ReceiveByte :: "'h io \<Rightarrow> ('h, 'm) cdc_core_scheme \<Rightarrow> int \<times> ('h, 'm) cdc_core_scheme" where
  "CDC_Device_ReceiveByte D s =
     (let (down, s) = cdc_down D s in
      if down then (-1, s)
      else
        let s = hw_do (Endpoint_SelectEndpoint D (ep_Address (DataOUTEndpoint (cdc s)))) s;
            (rx, s) = hw_get (Endpoint_IsOUTReceived D) s
        in if rx then
             let (n, s) = hw_get (Endpoint_BytesInEndpoint D) s;
                 (ReceivedByte, s) =
                   (if n \<noteq> 0 then let (b, s) = hw_get (Endpoint_Read_8 D) s in (uint b, s) else (-1, s));
                 (n, s) = hw_get (Endpoint_BytesInEndpoint D) s;
                 s = (if n = 0 then hw_do (Endpoint_ClearOUT D) s else s)
             in (ReceivedByte, s)
           else (-1, s))"

definition CDC_Device_SendControlLineStateChange :: "'h io \<Rightarrow> ('h, 'm) cdc_core_scheme
    \<Rightarrow> ('h, 'm) cdc_core_scheme option" where
  "CDC_Device_SendControlLineStateChange D s =
     (let (down, s) = cdc_down D s in
      if down then Some s
      else do {
        let s = hw_do (Endpoint_SelectEndpoint D (ep_Address (NotificationEndpoint (cdc s)))) s;
        let Notification = [REQDIR_DEVICETOHOST OR REQTYPE_CLASS OR REQREC_INTERFACE, CDC_NOTIF_SerialState]
              @ bytes_of_u16 0 @ bytes_of_u16 0 @ bytes_of_u16 2;
        (_, s) \<leftarrow> write_stream D Notification 8 s;
        (_, s) \<leftarrow> write_stream D (bytes_of_u16 (DeviceToHost (cdc s))) 2 s;
        Some (hw_do (Endpoint_ClearIN D) s)
      })"

section \<open>Standard streams\<close>

text \<open>A stream made by \<open>CDC_Device_CreateStream\<close> or \<open>CDC_Device_CreateBlockingStream\<close> is the
  pair of its put and get functions below; \<open>_FDEV_ERR\<close> is \<open>-1\<close> and \<open>_FDEV_EOF\<close> is \<open>-2\<close>.\<close>

definition CDC_Device_putchar :: "'h io \<Rightarrow> u8 \<Rightarrow> ('h, 'm) cdc_core_scheme \<Rightarrow> (int \<times> ('h, 'm) cdc_core_scheme) option" where
  "CDC_Device_putchar D c s =
     map_option (\<lambda>(e, s). (if e \<noteq> 0 then -1 else 0, s)) (CDC_Device_SendByte D c s)"

definition CDC_Device_getchar :: "'h io \<Rightarrow> ('h, 'm) cdc_core_scheme \<Rightarrow> int \<times> ('h, 'm) cdc_core_scheme" where
  "CDC_Device_getchar D s =
     (let (b, s) = CDC_Device_ReceiveByte D s in (if b < 0 then -2 else b, s))"

definition CDC_Device_getchar_Blocking :: "'h io \<Rightarrow> ('h, 'm) cdc_core_scheme usb_app
    \<Rightarrow> ('h, 'm) cdc_core_scheme \<Rightarrow> (int \<times> ('h, 'm) cdc_core_scheme) option" where
  "CDC_Device_getchar_Blocking D A s =
     loop (\<lambda>s. let (b, s) = CDC_Device_ReceiveByte D s in
        if b < 0 then
          let (st, s) = hw_get (USB_DeviceState D) s in
          if st = DEVICE_STATE_Unattached then Some (Inl (-2, s))
          else do {
            s \<leftarrow> CDC_Device_USBTask D s;
            s \<leftarrow> USB_USBTask D A s;
            Some (Inr s)
          }
        else Some (Inl (b, s))) s"

definition CDC_Device_CreateStream :: "'h io
    \<Rightarrow> (u8 \<Rightarrow> ('h, 'm) cdc_core_scheme \<Rightarrow> (int \<times> ('h, 'm) cdc_core_scheme) option)
     \<times> (('h, 'm) cdc_core_scheme \<Rightarrow> (int \<times> ('h, 'm) cdc_core_scheme) option)" where
  "CDC_Device_CreateStream D = (CDC_Device_putchar D, \<lambda>s. Some (CDC_Device_getchar D s))"

definition CDC_Device_CreateBlockingStream :: "'h io \<Rightarrow> ('h, 'm) cdc_core_scheme usb_app
    \<Rightarrow> (u8 \<Rightarrow> ('h, 'm) cdc_core_scheme \<Rightarrow> (int \<times> ('h, 'm) cdc_core_scheme) option)
     \<times> (('h, 'm) cdc_core_scheme \<Rightarrow> (int \<times> ('h, 'm) cdc_core_scheme) option)" where
  "CDC_Device_CreateBlockingStream D A = (CDC_Device_putchar D, CDC_Device_getchar_Blocking D A)"

section \<open>What the class driver touches\<close>

lemma cdc_down_more [simp]: "usb_core.more (snd (cdc_down D s)) = usb_core.more s"
  by (simp add: cdc_down_def hw_defs Let_def split_beta)

lemma cdc_data_more:
  "CDC_Device_SendByte D b s = Some (e, s1) \<Longrightarrow> usb_core.more s1 = usb_core.more s"
  "CDC_Device_Flush D s = Some (e, s2) \<Longrightarrow> usb_core.more s2 = usb_core.more s"
  "CDC_Device_USBTask D s = Some s3 \<Longrightarrow> usb_core.more s3 = usb_core.more s"
  "usb_core.more (snd (CDC_Device_BytesReceived D s)) = usb_core.more s"
  "usb_core.more (snd (CDC_Device_ReceiveByte D s)) = usb_core.more s"
proof -
  show fl: "CDC_Device_Flush D s = Some (e, s2) \<Longrightarrow> usb_core.more s2 = usb_core.more s" for s :: "('a, 'b) cdc_core_scheme" and e s2
    by (auto simp: CDC_Device_Flush_def Let_def split_beta bind_eq_Some_conv split: if_splits)
  show "CDC_Device_USBTask D s = Some s3 \<Longrightarrow> usb_core.more s3 = usb_core.more s"
    by (auto simp: CDC_Device_USBTask_def Let_def split_beta dest!: fl split: if_splits)
qed (auto simp: CDC_Device_SendByte_def CDC_Device_BytesReceived_def CDC_Device_ReceiveByte_def
      Let_def split_beta bind_eq_Some_conv split: if_splits)

lemma cdc_more: "usb_core.more t = usb_core.more s \<Longrightarrow> cdc_core.more t = cdc_core.more (s :: ('h, 'm) cdc_core_scheme)"
  by (cases s; cases t) simp

text \<open>
  The class driver promises the same as the stack: what the application's handlers keep, it
  keeps, provided that it does not speak of the USB variables and the CDC structure.
\<close>

locale cdc_client =
  fixes D :: "'h io" and C :: "('h, 'm) cdc_core_scheme cdc_app" and P :: "('h, 'm) cdc_core_scheme \<Rightarrow> bool"
  assumes P_more: "P s \<Longrightarrow> cdc_core.more t = cdc_core.more s \<Longrightarrow> P t"
    and P_LineEncodingChanged: "P s \<Longrightarrow> EVENT_LineEncodingChanged C s = Some s' \<Longrightarrow> P s'"
    and P_ControLineStateChanged: "P s \<Longrightarrow> EVENT_ControLineStateChanged C s = Some s' \<Longrightarrow> P s'"
    and P_BreakSent: "P s \<Longrightarrow> EVENT_BreakSent C d s = Some s' \<Longrightarrow> P s'"
begin

lemma P_hw:
  "P s \<Longrightarrow> P (hw_do f s)"
  "P s \<Longrightarrow> P (snd (hw_get g s))"
  "P s \<Longrightarrow> hw_try k s = Some s' \<Longrightarrow> P s'"
  "P s \<Longrightarrow> hw_tryget q s = Some (v, s') \<Longrightarrow> P s'"
  "P s \<Longrightarrow> ClearStatusStage D s = Some s' \<Longrightarrow> P s'"
  by (erule P_more, rule cdc_more, simp add: ClearStatusStage_more)+

lemma P_cdc: "P s \<Longrightarrow> P (s\<lparr>cdc := c\<rparr>)"
  by (erule P_more) simp

lemmas P_total = P_hw(1,2) P_cdc
lemmas P_partial = P_hw(3-5) [rotated] P_LineEncodingChanged [rotated] P_ControLineStateChanged [rotated] P_BreakSent [rotated]

lemma ConfigureEndpoints_keeps: "P s \<Longrightarrow> CDC_Device_ConfigureEndpoints D s = Some (ok, s') \<Longrightarrow> P s'"
  unfolding CDC_Device_ConfigureEndpoints_def Let_def
  by (auto simp: bind_eq_Some_conv split: if_splits intro!: P_total dest!: P_partial)

lemma GetLineEncoding_keeps: "P s \<Longrightarrow> cdc_GetLineEncoding D s = Some s' \<Longrightarrow> P s'"
  unfolding cdc_GetLineEncoding_def Let_def split_beta
  by (auto simp: bind_eq_Some_conv intro!: P_total dest!: P_partial)

lemma SetLineEncoding_keeps: "P s \<Longrightarrow> cdc_SetLineEncoding D C s = Some s' \<Longrightarrow> P s'"
  unfolding cdc_SetLineEncoding_def Let_def split_beta
  by (auto simp: bind_eq_Some_conv split: if_splits intro!: P_total dest!: P_partial)

lemma ProcessControlRequest_keeps: "P s \<Longrightarrow> CDC_Device_ProcessControlRequest D C s = Some s' \<Longrightarrow> P s'"
  unfolding CDC_Device_ProcessControlRequest_def Let_def split_beta
  by (auto simp: bind_eq_Some_conv split: if_splits intro!: P_total
      dest!: P_partial GetLineEncoding_keeps [rotated] SetLineEncoding_keeps [rotated])

end
end
