(* ===== verification/Application.thy ===== *)
theory Application
  imports Avalon Ring_Buffer Clock_Timer Cdc_Class
begin

text \<open>
  The miner application, \<open>Projects/AvalonBTC/application.c\<close> and \<open>application.h\<close>: the command
  interpreter of the USB serial link, the work loader and the periodic service that turns an ASIC
  report or a timeout into a status message. \<open>miner\<close> gathers what these functions change: the
  board (port latches and the variables of \<open>avalon.c\<close>), the clock of \<open>clock.c\<close>, the
  \<open>Application\<close> object and the local timer of \<open>main\<close>. \<open>firmware\<close> adds it to the USB stack.
\<close>

section \<open>application.h\<close>

abbreviation (input) "STATE_WORKING \<equiv> 0x57 :: u8"
abbreviation (input) "STATE_RESET \<equiv> 0x52 :: u8"
abbreviation (input) "CMD_L \<equiv> 0x4C :: u8"
abbreviation (input) "CMD_R \<equiv> 0x52 :: u8"
abbreviation (input) "CMD_I \<equiv> 0x49 :: u8"
abbreviation (input) "CMD_A \<equiv> 0x41 :: u8"
abbreviation (input) "CMD_S \<equiv> 0x53 :: u8"
abbreviation (input) "CMD_W \<equiv> 0x57 :: u8"

record Identity =
  version :: u8
  product :: "u8 list"
  serial :: u32

record WorkUnit =
  midstate :: "u32 list"
  data :: "u32 list"
  precalc :: "u32 list"

record State =
  state :: u8
  nonce_valid :: u8
  nonce :: u32

record Application =
  USARTtoUSB_Buffer :: RingBuffer_t
  rx_buffer :: RingBuffer_t
  worktask :: WorkUnit
  app_state :: State
  work_timer :: Timer

text \<open>The memory images \<open>(uint8_t *)&state\<close> and \<open>(uint8_t *)&ID\<close>: no padding on AVR.\<close>

definition state_bytes :: "State \<Rightarrow> u8 list" where
  "state_bytes st = [state st, nonce_valid st] @ bytes_of_u32 (nonce st)"

definition identity_bytes :: "Identity \<Rightarrow> u8 list" where
  "identity_bytes i = [version i] @ product i @ bytes_of_u32 (serial i)"

record miner =
  board :: asic
  clk :: clock
  app :: Application
  main_timer :: Timer

record 'h firmware = "'h cdc_core" +
  miner :: miner
  mcu :: mcu

section \<open>application.c\<close>

definition ID :: Identity where
  "ID = \<lparr>version = 1, product = map of_char ''MiniOne'' @ [0], serial = 0x20130712\<rparr>"

definition GOOD_WORK :: WorkUnit where
  "GOOD_WORK = \<lparr>midstate = [0x5fddb5bc, 0x00bdafd2, 0x144684c7, 0x19c68fa2, 0x27d0a8e3, 0x34ad84b2, 0xa92c66be, 0x3e99a4fd],
     data = [0xf64684bb, 0x51bc1508, 0x1a011337], precalc = [0, 0, 0, 0, 0, 0]\<rparr>"

definition CLOCK_CONFIG :: "u32 list" where
  "CLOCK_CONFIG = [push_bit 18 256 OR 0x00030007, 0x00000172]"

definition usbWrite :: "u8 list \<Rightarrow> u8 \<Rightarrow> Application \<Rightarrow> Application" where
  "usbWrite bs n a =
     a\<lparr>USARTtoUSB_Buffer := put_bytes RingBuffer_Insert (take (unat n) bs) (USARTtoUSB_Buffer a)\<rparr>"

definition sendCmdReply :: "u8 \<Rightarrow> u8 list \<Rightarrow> u8 \<Rightarrow> Application \<Rightarrow> Application" where
  "sendCmdReply cmd bs n a = usbWrite bs n (usbWrite [cmd] 1 a)"

definition pushWork :: "WorkUnit \<Rightarrow> asic \<Rightarrow> asic" where
  "pushWork work b =
     (let b = asicSend CLOCK_CONFIG 2 b;
          b = asicSend (data work) 3 b;
          b = asicSend (drop 1 (precalc work)) 5 b;
          b = asicSend (midstate work) 8 b;
          b = asicSend (precalc work) 1 b;
          b = asicSend [0] 1 b
      in asicIdle b)"

text \<open>\<open>RingBuffer_Remove(&app->buffer_)\<close> with the byte, and without.\<close>

definition app_drop :: "Application \<Rightarrow> Application" where
  "app_drop a = a\<lparr>rx_buffer := snd (RingBuffer_Remove (rx_buffer a))\<rparr>"

definition app_take :: "nat \<Rightarrow> Application \<Rightarrow> u8 list \<times> Application" where
  "app_take n a = (let (bs, q) = get_bytes RingBuffer_Remove n (rx_buffer a) in (bs, a\<lparr>rx_buffer := q\<rparr>))"

text \<open>Bytes stored over an array of 32-bit words.\<close>

definition words_of_bytes :: "u8 list \<Rightarrow> u32 list" where
  "words_of_bytes bs = map (\<lambda>i. u32_of_bytes (take 4 (drop (4 * i) bs))) [0..<length bs div 4]"

definition cmd_W :: "miner \<Rightarrow> miner" where
  "cmd_W m =
     (let a = app_drop (app m);
          (ms, a) = app_take 32 a;
          (ds, a) = app_take 12 a;
          w = (worktask a)\<lparr>midstate := words_of_bytes ms, data := words_of_bytes ds\<rparr>;
          w = w\<lparr>precalc := asicPrecalc (midstate w) (data w) (precalc w)\<rparr>;
          a = a\<lparr>worktask := w, app_state := \<lparr>state = STATE_WORKING, nonce_valid = 0, nonce = 0\<rparr>\<rparr>;
          b = asicReset (board m);
          b = asicResetSpi b;
          b = pushWork w b;
          a = a\<lparr>work_timer := timerSet (clk m) (work_timer a) 16000\<rparr>
      in m\<lparr>board := b, app := sendCmdReply CMD_W (state_bytes (app_state a)) 6 a\<rparr>)"

definition serialProcess :: "miner \<Rightarrow> miner" where
  "serialProcess m =
     (let a = app m; count = RingBuffer_GetCount (rx_buffer a) in
      if count = 0 then m
      else let cmd = RingBuffer_Peek (rx_buffer a) in
        if cmd = CMD_L then
          m\<lparr>app := app_drop a, board := LEDs_ToggleLEDs LEDS_LED1 (board m)\<rparr>
        else if cmd = CMD_R then
          (let b = asicResetSpi (asicReset (board m));
               a = (app_drop a)\<lparr>app_state := (app_state a)\<lparr>state := STATE_RESET\<rparr>\<rparr>
           in m\<lparr>board := b, app := sendCmdReply cmd (state_bytes (app_state a)) 6 a\<rparr>)
        else if cmd = CMD_I then
          m\<lparr>app := sendCmdReply cmd (identity_bytes ID) 13 (app_drop a)\<rparr>
        else if cmd = CMD_A then
          (let a = (app_drop a)\<lparr>app_state := (app_state a)\<lparr>state := STATE_RESET\<rparr>\<rparr>;
               b = asicStop (board m)
           in m\<lparr>board := b, app := sendCmdReply cmd (state_bytes (app_state a)) 6 a\<rparr>)
        else if cmd = CMD_S then
          m\<lparr>app := sendCmdReply cmd (state_bytes (app_state a)) 6 (app_drop a)\<rparr>
        else if cmd = CMD_W then
          (if count > 44 then cmd_W m else m)
        else m\<lparr>app := app_drop a\<rparr>)"

definition appInit :: "miner \<Rightarrow> miner" where
  "appInit m =
     (let a = app m;
          a = a\<lparr>USARTtoUSB_Buffer := RingBuffer_InitBuffer (rb_Data (USARTtoUSB_Buffer a)) 256\<rparr>;
          a = a\<lparr>rx_buffer := RingBuffer_InitBuffer (rb_Data (rx_buffer a)) 128\<rparr>;
          a = a\<lparr>app_state := (app_state a)\<lparr>state := STATE_RESET\<rparr>\<rparr>
      in m\<lparr>app := a, board := asicStop (asicInit (board m))\<rparr>)"

definition reverse_nonce :: "u32 \<Rightarrow> u32" where
  "reverse_nonce n =
     (let rev = 0 OR (n AND 0xFF);
          n = drop_bit 8 n; rev = push_bit 8 rev; rev = rev OR (n AND 0xFF);
          n = drop_bit 8 n; rev = push_bit 8 rev; rev = rev OR (n AND 0xFF);
          n = drop_bit 8 n; rev = push_bit 8 rev
      in rev OR (n AND 0xFF))"

text \<open>The two halves of \<open>appService\<close>: a report, then the work timer.\<close>

definition service_report :: "miner \<Rightarrow> miner" where
  "service_report m =
     (if asicReportValid (board m) \<noteq> 0 then
        let (n, b) = asicGetNonce (board m);
            a = app m;
            a = a\<lparr>work_timer := timerStop (work_timer a)\<rparr>;
            b = asicResetSpi (asicStop b);
            b = b\<lparr>SPCR := SPCR b OR BV SPIE\<rparr>;
            a = a\<lparr>app_state := \<lparr>state = STATE_RESET, nonce_valid = 1, nonce = reverse_nonce n - 0xC0\<rparr>\<rparr>
        in m\<lparr>board := b, app := sendCmdReply CMD_S (state_bytes (app_state a)) 6 a\<rparr>
      else m)"

definition service_timer :: "miner \<Rightarrow> miner" where
  "service_timer m =
     (let (expired, t) = timerExpired (clk m) (work_timer (app m));
          a = (app m)\<lparr>work_timer := t\<rparr>
      in if expired then
           let b = asicResetSpi (asicStop (board m));
               a = a\<lparr>app_state := \<lparr>state = STATE_RESET, nonce_valid = 0, nonce = 0\<rparr>\<rparr>
           in m\<lparr>board := b, app := sendCmdReply CMD_S (state_bytes (app_state a)) 6 a\<rparr>
         else m\<lparr>app := a\<rparr>)"

definition appService :: "miner \<Rightarrow> miner" where
  "appService m = service_timer (service_report m)"

text \<open>
  The receive loop takes bytes while the endpoint gives any; the value stored is the low byte of
  the \<open>int16_t\<close>.
\<close>

definition receive_turn :: "'h io \<Rightarrow> 'h firmware \<Rightarrow> ('h firmware + 'h firmware) option" where
  "receive_turn D s =
     (let (received_byte, s) = CDC_Device_ReceiveByte D s in
      if received_byte \<ge> 0 then
        let m = miner s;
            m = m\<lparr>app := (app m)\<lparr>rx_buffer := RingBuffer_Insert (rx_buffer (app m)) (word_of_int received_byte)\<rparr>\<rparr>
        in Some (Inr (s\<lparr>miner := m\<rparr>))
      else Some (Inl s))"

definition appUsbDataReceived :: "'h io \<Rightarrow> 'h firmware \<Rightarrow> 'h firmware option" where
  "appUsbDataReceived D s =
     do {
       s \<leftarrow> loop (receive_turn D) s;
       Some (s\<lparr>miner := serialProcess (miner s)\<rparr>)
     }"

section \<open>Words and bytes\<close>

lemma words_of_bytes_append4:
  assumes "length b4 = 4"
  shows "words_of_bytes (b4 @ bs) = u32_of_bytes b4 # words_of_bytes bs"
proof -
  have "length (b4 @ bs) div 4 = Suc (length bs div 4)" using assms by simp
  then have "words_of_bytes (b4 @ bs)
      = map (\<lambda>i. u32_of_bytes (take 4 (drop (4 * i) (b4 @ bs)))) (0 # map Suc [0..<length bs div 4])"
    by (simp only: words_of_bytes_def upt_conv_Cons map_Suc_upt zero_less_Suc)
  also have "\<dots> = u32_of_bytes b4 # words_of_bytes bs"
    using assms by (simp add: words_of_bytes_def comp_def)
  finally show ?thesis .
qed

lemma words_of_bytes_concat [codec_simps]: "words_of_bytes (concat (map bytes_of_u32 ws)) = ws"
proof (induction ws)
  case Nil then show ?case by (simp add: words_of_bytes_def)
next
  case (Cons w ws) then show ?case by (simp add: words_of_bytes_append4 u32_bytes_roundtrip)
qed

lemma length_words_of_bytes [simp]: "length (words_of_bytes bs) = length bs div 4"
  by (simp add: words_of_bytes_def)

lemma bytes_words_roundtrip [codec_simps]:
  "4 dvd length bs \<Longrightarrow> concat (map bytes_of_u32 (words_of_bytes bs)) = bs"
proof (induction "length bs div 4" arbitrary: bs)
  case 0 then show ?case by (auto simp: words_of_bytes_def elim!: dvdE)
next
  case (Suc n)
  then have "4 \<le> length bs" by auto
  then have eq: "bs = take 4 bs @ drop 4 bs" and len: "length (take 4 bs) = 4" by simp_all
  have "concat (map bytes_of_u32 (words_of_bytes (drop 4 bs))) = drop 4 bs"
    using Suc by (intro Suc.hyps(1)) auto
  then show ?case
    by (subst (1) eq, subst words_of_bytes_append4 [OF len]) (simp add: bytes_u32_roundtrip [OF len])
qed

lemma and_FF: "(x :: u32) AND 0xFF = take_bit 8 x" "(y :: u16) AND 0xFF = take_bit 8 y"
  by (simp_all add: take_bit_eq_mask mask_eq_exp_minus_1)

lemma reverse_nonce_bits:
  "reverse_nonce n = push_bit 24 (take_bit 8 n) OR push_bit 16 (take_bit 8 (drop_bit 8 n))
     OR push_bit 8 (take_bit 8 (drop_bit 16 n)) OR take_bit 8 (drop_bit 24 n)"
  unfolding reverse_nonce_def Let_def and_FF
  by (simp add: push_bit_or drop_bit_drop_bit or.assoc)

lemma take_8_ucast: "take_bit 8 (x :: u32) = ucast (ucast x :: u8)"
  by (rule bit_word_eqI) (auto simp: bit_simps)

lemma reverse_nonce_rev: "reverse_nonce n = u32_of_bytes (rev (bytes_of_u32 n))"
  by (simp add: reverse_nonce_bits take_8_ucast u32_of_bytes_def bytes_of_u32_def
      or.commute or.left_commute or.assoc)

lemma reverse_nonce_bytes: "reverse_nonce (u32_of_bytes [b3, b2, b1, b0]) = u32_of_bytes [b0, b1, b2, b3]"
  by (simp add: reverse_nonce_rev bytes_u32_roundtrip)

section \<open>The command interpreter, abstractly\<close>

text \<open>
  What the interpreter does, with the two ring buffers read as byte strings: the front command is
  taken off the input and its reply appended to the output.
\<close>

record link =
  l_in :: "u8 list"
  l_out :: "u8 list"
  l_state :: State
  l_work :: WorkUnit
  l_timer :: Timer
  l_board :: asic

definition link_of :: "miner \<Rightarrow> link" where
  "link_of m = \<lparr>l_in = ring_list (rx_buffer (app m)), l_out = ring_list (USARTtoUSB_Buffer (app m)),
     l_state = app_state (app m), l_work = worktask (app m), l_timer = work_timer (app m), l_board = board m\<rparr>"

definition load_work :: "clock \<Rightarrow> u8 list \<Rightarrow> link \<Rightarrow> link" where
  "load_work c frame l =
     (let ms = words_of_bytes (take 32 frame); ds = words_of_bytes (drop 32 frame);
          w = (l_work l)\<lparr>midstate := ms, data := ds, precalc := asicPrecalc ms ds (precalc (l_work l))\<rparr>;
          st = \<lparr>state = STATE_WORKING, nonce_valid = 0, nonce = 0\<rparr>
      in l\<lparr>l_work := w, l_state := st, l_timer := timerSet c (l_timer l) 16000,
           l_board := pushWork w (asicResetSpi (asicReset (l_board l))),
           l_out := l_out l @ CMD_W # state_bytes st\<rparr>)"

fun command :: "clock \<Rightarrow> link \<Rightarrow> link" where
  "command c l = (case l_in l of [] \<Rightarrow> l | cmd # rest \<Rightarrow>
     if cmd = CMD_W then
       (if length rest < 44 then l else load_work c (take 44 rest) (l\<lparr>l_in := drop 44 rest\<rparr>))
     else let l = l\<lparr>l_in := rest\<rparr>; stopped = (l_state l)\<lparr>state := STATE_RESET\<rparr> in
       if cmd = CMD_L then l\<lparr>l_board := LEDs_ToggleLEDs LEDS_LED1 (l_board l)\<rparr>
       else if cmd = CMD_R then
         l\<lparr>l_board := asicResetSpi (asicReset (l_board l)), l_state := stopped, l_out := l_out l @ cmd # state_bytes stopped\<rparr>
       else if cmd = CMD_I then l\<lparr>l_out := l_out l @ cmd # identity_bytes ID\<rparr>
       else if cmd = CMD_A then
         l\<lparr>l_board := asicStop (l_board l), l_state := stopped, l_out := l_out l @ cmd # state_bytes stopped\<rparr>
       else if cmd = CMD_S then l\<lparr>l_out := l_out l @ cmd # state_bytes (l_state l)\<rparr>
       else l)"

declare command.simps [simp del]

section \<open>Buffers in order\<close>

definition app_ok :: "Application \<Rightarrow> bool" where
  "app_ok a \<longleftrightarrow> ring_ok (USARTtoUSB_Buffer a) \<and> ring_cap (USARTtoUSB_Buffer a) = 256
     \<and> ring_ok (rx_buffer a) \<and> ring_cap (rx_buffer a) = 128"

definition room :: "nat \<Rightarrow> Application \<Rightarrow> bool" where
  "room n a \<longleftrightarrow> length (ring_list (USARTtoUSB_Buffer a)) + n \<le> 256"

lemma state_bytes_length [simp]: "length (state_bytes st) = 6"
  by (simp add: state_bytes_def)

lemma identity_bytes_length [simp]: "length (identity_bytes ID) = 13"
  by (simp add: identity_bytes_def ID_def)

lemma usbWrite_out:
  assumes "app_ok a" "room (length bs) a" "unat n = length bs"
  shows "ring_list (USARTtoUSB_Buffer (usbWrite bs n a)) = ring_list (USARTtoUSB_Buffer a) @ bs"
    and "app_ok (usbWrite bs n a)"
  using ring.put_all_correct [of "USARTtoUSB_Buffer a" bs] assms
  by (simp_all add: usbWrite_def app_ok_def room_def)

lemma sendCmdReply_out:
  assumes ok: "app_ok a" and r: "room (Suc (length bs)) a" and n: "unat n = length bs"
  shows "ring_list (USARTtoUSB_Buffer (sendCmdReply c bs n a)) = ring_list (USARTtoUSB_Buffer a) @ c # bs"
    and "app_ok (sendCmdReply c bs n a)"
proof -
  have w: "ring_list (USARTtoUSB_Buffer (usbWrite [c] 1 a)) = ring_list (USARTtoUSB_Buffer a) @ [c]"
    "app_ok (usbWrite [c] 1 a)"
    using usbWrite_out [OF ok, of "[c]" 1] r by (simp_all add: room_def)
  then have "room (length bs) (usbWrite [c] 1 a)" using r by (simp add: room_def del: length_ring_list)
  from usbWrite_out [OF w(2) this n] w(1)
  show "ring_list (USARTtoUSB_Buffer (sendCmdReply c bs n a)) = ring_list (USARTtoUSB_Buffer a) @ c # bs"
    and "app_ok (sendCmdReply c bs n a)"
    by (simp_all add: sendCmdReply_def)
qed

lemma sendCmdReply_frame [simp]:
  "rx_buffer (sendCmdReply c bs n a) = rx_buffer a" "worktask (sendCmdReply c bs n a) = worktask a"
  "app_state (sendCmdReply c bs n a) = app_state a" "work_timer (sendCmdReply c bs n a) = work_timer a"
  by (simp_all add: sendCmdReply_def usbWrite_def)

lemma app_ok_updates [simp]:
  "app_ok (a\<lparr>worktask := w\<rparr>) = app_ok a" "app_ok (a\<lparr>app_state := st\<rparr>) = app_ok a"
  "app_ok (a\<lparr>work_timer := t\<rparr>) = app_ok a"
  "room n (a\<lparr>worktask := w\<rparr>) = room n a" "room n (a\<lparr>app_state := st\<rparr>) = room n a"
  "room n (a\<lparr>work_timer := t\<rparr>) = room n a" "room n (a\<lparr>rx_buffer := q\<rparr>) = room n a"
  by (simp_all add: app_ok_def room_def)

lemma app_drop_in:
  assumes "app_ok a" "ring_list (rx_buffer a) = x # xs"
  shows "ring_list (rx_buffer (app_drop a)) = xs" "app_ok (app_drop a)"
  using assms ring.remove_bytes [of "rx_buffer a"] ring.remove_ok [of "rx_buffer a"] ring.remove_cap [of "rx_buffer a"]
  by (auto simp: app_drop_def app_ok_def)

lemma app_drop_frame [simp]:
  "USARTtoUSB_Buffer (app_drop a) = USARTtoUSB_Buffer a" "worktask (app_drop a) = worktask a"
  "app_state (app_drop a) = app_state a" "work_timer (app_drop a) = work_timer a" "room n (app_drop a) = room n a"
  by (simp_all add: app_drop_def)

lemma app_take_in:
  assumes "app_ok a" "n \<le> length (ring_list (rx_buffer a))"
  shows "fst (app_take n a) = take n (ring_list (rx_buffer a))"
    and "ring_list (rx_buffer (snd (app_take n a))) = drop n (ring_list (rx_buffer a))"
    and "app_ok (snd (app_take n a))"
  using assms ring.get_n_correct [of "rx_buffer a" n]
  by (auto simp: app_take_def app_ok_def Let_def split_beta)

lemma app_take_frame [simp]:
  "USARTtoUSB_Buffer (snd (app_take n a)) = USARTtoUSB_Buffer a" "worktask (snd (app_take n a)) = worktask a"
  "app_state (snd (app_take n a)) = app_state a" "work_timer (snd (app_take n a)) = work_timer a"
  "room k (snd (app_take n a)) = room k a"
  by (simp_all add: app_take_def Let_def split_beta)

section \<open>The interpreter meets its specification\<close>

lemma count_gt_44: "RingBuffer_GetCount b > 44 \<longleftrightarrow> length (ring_list b) > 44"
  by (simp add: RingBuffer_GetCount_def word_less_nat_alt)

lemma link_cmd_W:
  assumes ok: "app_ok (app m)" and r: "room 14 (app m)"
    and inp: "ring_list (rx_buffer (app m)) = CMD_W # rest" and len: "44 \<le> length rest"
  shows "link_of (cmd_W m) = load_work (clk m) (take 44 rest) ((link_of m)\<lparr>l_in := drop 44 rest\<rparr>)"
    and "app_ok (app (cmd_W m))"
proof -
  let ?a1 = "app_drop (app m)"
  let ?a2 = "snd (app_take 32 ?a1)"
  let ?a3 = "snd (app_take 12 ?a2)"
  note d = app_drop_in [OF ok inp]
  have t1: "fst (app_take 32 ?a1) = take 32 rest" "ring_list (rx_buffer ?a2) = drop 32 rest" "app_ok ?a2"
    using app_take_in [OF d(2), of 32] d(1) len by (simp_all del: length_ring_list)
  have t2: "fst (app_take 12 ?a2) = take 12 (drop 32 rest)" "ring_list (rx_buffer ?a3) = drop 44 rest" "app_ok ?a3"
    using app_take_in [OF t1(3), of 12] t1(2) len by (simp_all del: length_ring_list)
  have e: "drop 32 (take 44 rest) = take 12 (drop 32 rest)" by (simp add: drop_take)
  have r7: "room 7 (app m)" using r by (simp add: room_def)
  show "link_of (cmd_W m) = load_work (clk m) (take 44 rest) ((link_of m)\<lparr>l_in := drop 44 rest\<rparr>)"
    using t1 t2 r7 e
    by (simp add: cmd_W_def link_of_def load_work_def Let_def split_beta sendCmdReply_out)
  show "app_ok (app (cmd_W m))"
    using t2(3) r7 by (simp add: cmd_W_def Let_def split_beta sendCmdReply_out)
qed

lemma serialProcess_refines:
  assumes ok: "app_ok (app m)" and r: "room 14 (app m)"
  shows "link_of (serialProcess m) = command (clk m) (link_of m)" and "app_ok (app (serialProcess m))"
proof -
  have "link_of (serialProcess m) = command (clk m) (link_of m) \<and> app_ok (app (serialProcess m))"
  proof (cases "ring_list (rx_buffer (app m))")
    case Nil
    then show ?thesis using ok by (simp add: serialProcess_def ring_empty_iff command.simps link_of_def)
  next
    case (Cons cmd rest)
    have p: "RingBuffer_Peek (rx_buffer (app m)) = cmd" and ne: "RingBuffer_GetCount (rx_buffer (app m)) \<noteq> 0"
      using ring_Peek [of "rx_buffer (app m)"] ok Cons by (auto simp: app_ok_def ring_empty_iff)
    have r7: "room 7 (app m)" using r by (simp add: room_def)
    show ?thesis
    proof (cases "cmd = CMD_W")
      case True
      have big: "RingBuffer_GetCount (rx_buffer (app m)) > 44 \<longleftrightarrow> 44 \<le> length rest"
        by (simp only: count_gt_44 Cons) auto
      show ?thesis
      proof (cases "44 \<le> length rest")
        case len: True
        from link_cmd_W [OF ok r _ len] Cons True have
          "link_of (cmd_W m) = load_work (clk m) (take 44 rest) ((link_of m)\<lparr>l_in := drop 44 rest\<rparr>)"
          "app_ok (app (cmd_W m))" by simp_all
        moreover have "serialProcess m = cmd_W m"
          using ne p True big len by (simp add: serialProcess_def Let_def)
        ultimately show ?thesis using Cons True len by (simp add: command.simps link_of_def)
      next
        case False
        then show ?thesis using ne p True big Cons ok
          by (simp add: serialProcess_def Let_def command.simps link_of_def)
      qed
    next
      case False
      note d = app_drop_in [OF ok Cons]
      show ?thesis
        using False d r r7 ne p Cons
        by (simp add: serialProcess_def Let_def command.simps link_of_def sendCmdReply_out)
    qed
  qed
  then show "link_of (serialProcess m) = command (clk m) (link_of m)" "app_ok (app (serialProcess m))"
    by blast+
qed

section \<open>Loading a work unit\<close>

definition work_ok :: "WorkUnit \<Rightarrow> bool" where
  "work_ok w \<longleftrightarrow> length (midstate w) = 8 \<and> length (data w) = 3 \<and> length (precalc w) = 6"

lemma length_asicPrecalc [simp]: "length (asicPrecalc ms ds p) = length p"
proof -
  have "length (snd (fold (\<lambda>n. precalc_round n ds) ns (m, p))) = length p" for ns m p
    by (induction ns arbitrary: m p) (simp_all add: precalc_round_def Let_def)
  then show ?thesis by (simp add: asicPrecalc_def Let_def)
qed

text \<open>The order of the words of a work unit on the wire.\<close>

definition work_words :: "WorkUnit \<Rightarrow> u32 list" where
  "work_words w = CLOCK_CONFIG @ data w @ tl (precalc w) @ midstate w @ [hd (precalc w), 0]"

lemma emits_pushWork:
  assumes "work_ok w"
  shows "emits (work_words w) b (pushWork w b)"
proof -
  have len: "length (data w) = 3" "length (precalc w) = 6" "length (midstate w) = 8" "length CLOCK_CONFIG = 2"
    using assms by (simp_all add: work_ok_def CLOCK_CONFIG_def)
  have hd1: "take 1 (precalc w) = [hd (precalc w)]" using len(2) by (cases "precalc w") auto
  have tl5: "take 5 (drop 1 (precalc w)) = tl (precalc w)" using len(2) by (simp add: drop_Suc)
  show ?thesis
    unfolding pushWork_def Let_def
    using emits_trans [OF emits_trans [OF emits_trans [OF emits_trans [OF emits_trans [OF emits_trans [OF
        emits_asicSend [of 2 CLOCK_CONFIG b] emits_asicSend [of 3 "data w"]]
        emits_asicSend [of 5 "drop 1 (precalc w)"]] emits_asicSend [of 8 "midstate w"]]
        emits_asicSend [of 1 "precalc w"]] emits_asicSend [of 1 "[0]"]] emits_nothing(4)]
      len hd1 tl5
    by (simp add: work_words_def)
qed

lemma asic_rest_pushWork: "asic_rest (pushWork w b) = asic_rest b"
proof -
  have "asic_rest (asicIdle b) = asic_rest b" for b
    by (simp add: asicIdle_def asic_rest_def port_defs)
  then show ?thesis by (simp add: pushWork_def Let_def asic_rest_asicSend)
qed

lemma emits_load:
  assumes "work_ok w"
  shows "emits (work_words w) b (pushWork w (asicResetSpi (asicReset b)))"
  using emits_trans [OF emits_trans [OF emits_nothing(1) emits_nothing(2)] emits_pushWork [OF assms]] by simp

section \<open>What the service routine leaves alone\<close>

lemma appService_idle:
  "asicReportValid (board m) = 0 \<Longrightarrow> \<not> fst (timerExpired (clk m) (work_timer (app m))) \<Longrightarrow> appService m = m"
  using timerExpired_state [of "clk m" "work_timer (app m)"]
  by (simp add: appService_def service_report_def service_timer_def Let_def split_beta)

section \<open>Invariants\<close>

text \<open>The buffers stay inside their arrays and the work unit keeps its size, whatever arrives.\<close>

definition miner_safe :: "miner \<Rightarrow> bool" where
  "miner_safe m \<longleftrightarrow> ring_safe (USARTtoUSB_Buffer (app m)) \<and> ring_safe (rx_buffer (app m))
     \<and> length (rb_Data (USARTtoUSB_Buffer (app m))) = 256 \<and> length (rb_Data (rx_buffer (app m))) = 128
     \<and> work_ok (worktask (app m))"

lemma put_bytes_safe:
  "ring_safe q \<Longrightarrow> ring_safe (put_bytes RingBuffer_Insert bs q)
     \<and> length (rb_Data (put_bytes RingBuffer_Insert bs q)) = length (rb_Data q)"
  by (induction bs arbitrary: q) (simp_all add: ring_safe_Insert Insert_fields)

lemma get_bytes_safe:
  "ring_safe q \<Longrightarrow> ring_safe (snd (get_bytes RingBuffer_Remove n q))
     \<and> length (rb_Data (snd (get_bytes RingBuffer_Remove n q))) = length (rb_Data q)"
  by (induction n arbitrary: q) (simp_all add: ring_safe_Remove Remove_fields Let_def split_beta)

definition app_safe :: "Application \<Rightarrow> bool" where
  "app_safe a \<longleftrightarrow> ring_safe (USARTtoUSB_Buffer a) \<and> ring_safe (rx_buffer a)
     \<and> length (rb_Data (USARTtoUSB_Buffer a)) = 256 \<and> length (rb_Data (rx_buffer a)) = 128"

lemma app_safe_ops:
  "app_safe a \<Longrightarrow> app_safe (sendCmdReply c bs n a)"
  "app_safe a \<Longrightarrow> app_safe (app_drop a)"
  "app_safe a \<Longrightarrow> app_safe (snd (app_take k a))"
  "app_safe (a\<lparr>worktask := w\<rparr>) = app_safe a" "app_safe (a\<lparr>app_state := st\<rparr>) = app_safe a"
  "app_safe (a\<lparr>work_timer := t\<rparr>) = app_safe a"
  by (simp_all add: app_safe_def sendCmdReply_def usbWrite_def put_bytes_safe ring_safe_Insert Insert_fields
      app_drop_def ring_safe_Remove Remove_fields app_take_def get_bytes_safe Let_def split_beta)

lemma miner_safe_app: "miner_safe m \<longleftrightarrow> app_safe (app m) \<and> work_ok (worktask (app m))"
  by (auto simp: miner_safe_def app_safe_def)

lemma app_take_length: "length (fst (app_take n a)) = n"
  by (simp add: app_take_def Let_def split_beta)

lemma serialProcess_safe:
  assumes "miner_safe m"
  shows "miner_safe (serialProcess m)"
proof -
  have "miner_safe (cmd_W m)"
    using assms by (simp add: miner_safe_app cmd_W_def Let_def split_beta app_safe_ops work_ok_def app_take_length)
  then show ?thesis
    using assms by (simp add: serialProcess_def Let_def miner_safe_app app_safe_ops)
qed

lemma appService_safe: "miner_safe m \<Longrightarrow> miner_safe (appService m)"
  by (simp add: appService_def service_report_def service_timer_def miner_safe_app Let_def split_beta app_safe_ops)

section \<open>The service routine meets its specification\<close>

definition service :: "clock \<Rightarrow> link \<Rightarrow> link" where
  "service c l =
     (let off = (\<lambda>b. asicResetSpi (asicStop b));
          say = (\<lambda>st l. l\<lparr>l_state := st, l_timer := timerStop (l_timer l), l_out := l_out l @ CMD_S # state_bytes st\<rparr>)
      in if asicReportValid (l_board l) \<noteq> 0 then
           say \<lparr>state = STATE_RESET, nonce_valid = 1,
                nonce = u32_of_bytes (rev (bytes_of_u32 (report (l_board l)))) - 0xC0\<rparr>
             (l\<lparr>l_board := (off (l_board l))\<lparr>SPCR := SPCR (l_board l) OR BV SPIE\<rparr>\<rparr>)
         else if fst (timerExpired c (l_timer l)) then
           say \<lparr>state = STATE_RESET, nonce_valid = 0, nonce = 0\<rparr> (l\<lparr>l_board := off (l_board l)\<rparr>)
         else l)"

lemma off_after_read:
  "asicResetSpi (asicStop (snd (asicGetNonce b))) = asicResetSpi (asicStop b)"
  "SPCR (asicResetSpi (asicStop b)) = SPCR b"
  "fst (asicGetNonce b) = report b" "SPCR (snd (asicGetNonce b)) = SPCR b"
  by (simp_all add: asicGetNonce_def asicResetSpi_def asicStop_def asicEnableSpi_def asicDisableSpi_def port_defs Let_def)

lemma service_timer_stopped: "\<not> timerActive (work_timer (app m)) \<Longrightarrow> service_timer m = m"
  by (simp add: service_timer_def timer_stopped_silent Let_def)

lemma service_report_valid:
  assumes "asicReportValid (board m) \<noteq> 0"
  shows "appService m = service_report m"
  using assms by (simp add: appService_def service_timer_stopped service_report_def Let_def split_beta)

lemma appService_refines:
  assumes ok: "app_ok (app m)" and r: "room 7 (app m)"
  shows "link_of (appService m) = service (clk m) (link_of m)" and "app_ok (app (appService m))"
proof -
  have "link_of (appService m) = service (clk m) (link_of m) \<and> app_ok (app (appService m))"
  proof (cases "asicReportValid (board m) = 0")
    case True
    then have "appService m = service_timer m" by (simp add: appService_def service_report_def)
    then show ?thesis
      using True ok r timerExpired_state [of "clk m" "work_timer (app m)"]
      by (simp add: service_timer_def service_def link_of_def Let_def split_beta sendCmdReply_out)
  next
    case False
    then show ?thesis
      using ok r by (simp add: service_report_valid)
        (simp add: service_report_def service_def link_of_def Let_def split_beta sendCmdReply_out
          off_after_read reverse_nonce_rev)
  qed
  then show "link_of (appService m) = service (clk m) (link_of m)" "app_ok (app (appService m))"
    by blast+
qed

section \<open>Start-up\<close>

definition miner_off :: miner where
  "miner_off = \<lparr>board = asic_off, clk = \<lparr>clk_time = 0, TIMSK0 = 0, OCR0A = 0, TCCR0A = 0, TCCR0B = 0\<rparr>,
     app = \<lparr>USARTtoUSB_Buffer = RingBuffer_InitBuffer (replicate 256 0) 0, rx_buffer = RingBuffer_InitBuffer (replicate 128 0) 0,
       worktask = \<lparr>midstate = replicate 8 0, data = replicate 3 0, precalc = replicate 6 0\<rparr>,
       app_state = \<lparr>state = 0, nonce_valid = 0, nonce = 0\<rparr>, work_timer = \<lparr>t_active = 0, t_start = 0, t_interval = 0\<rparr>\<rparr>,
     main_timer = \<lparr>t_active = 0, t_start = 0, t_interval = 0\<rparr>\<rparr>"

lemma appInit_ok:
  assumes "length (rb_Data (USARTtoUSB_Buffer (app m))) = 256" "length (rb_Data (rx_buffer (app m))) = 128"
  shows "app_ok (app (appInit m))" "ring_list (USARTtoUSB_Buffer (app (appInit m))) = []"
    "ring_list (rx_buffer (app (appInit m))) = []"
  using assms ring_ok_init [of "rb_Data (USARTtoUSB_Buffer (app m))" 256] ring_ok_init [of "rb_Data (rx_buffer (app m))" 128]
  by (simp_all add: appInit_def Let_def app_ok_def ring_list_init ring_cap_init)

definition receive :: "u8 list \<Rightarrow> miner \<Rightarrow> miner" where
  "receive bs m = m\<lparr>app := (app m)\<lparr>rx_buffer := put_bytes RingBuffer_Insert bs (rx_buffer (app m))\<rparr>\<rparr>"

lemma receive_ok:
  assumes "app_ok (app m)" "length (ring_list (rx_buffer (app m))) + length bs \<le> 128"
  shows "app_ok (app (receive bs m))" "ring_list (rx_buffer (app (receive bs m))) = ring_list (rx_buffer (app m)) @ bs"
    "USARTtoUSB_Buffer (app (receive bs m)) = USARTtoUSB_Buffer (app m)"
  using ring.put_all_correct [of "rx_buffer (app m)" bs] assms
  by (simp_all add: receive_def app_ok_def)

definition miner_started :: miner where "miner_started = appInit miner_off"

lemma miner_started_ok:
  "app_ok (app miner_started)" "ring_list (USARTtoUSB_Buffer (app miner_started)) = []"
  "ring_list (rx_buffer (app miner_started)) = []" "room n (app miner_started) \<longleftrightarrow> n \<le> 256"
  using appInit_ok [of miner_off]
  by (simp_all add: miner_started_def miner_off_def RingBuffer_InitBuffer_def room_def del: length_ring_list)

lemma started_receive:
  assumes "length bs \<le> 128"
  shows "app_ok (app (receive bs miner_started))" "ring_list (rx_buffer (app (receive bs miner_started))) = bs"
    "room n (app (receive bs miner_started)) \<longleftrightarrow> n \<le> 256"
    "ring_list (USARTtoUSB_Buffer (app (receive bs miner_started))) = []"
  using receive_ok [of miner_started bs] miner_started_ok assms by (simp_all add: room_def)

section \<open>Properties\<close>

text \<open>C2. The command interpreter implements the abstract protocol: with its buffers in order
  and room for the longest reply, one call takes exactly the front command (and for \<open>W\<close> its 44
  payload bytes, once they are all there) off the input, does what the protocol says to board,
  status, work unit and timer, appends exactly the reply of that command to the output, and
  leaves the buffers in order.\<close>

theorem serialProcess_spec:
  assumes "app_ok (app m)" "room 14 (app m)"
  shows "link_of (serialProcess m) = command (clk m) (link_of m) \<and> app_ok (app (serialProcess m))"
  using serialProcess_refines [OF assms] by blast

theorem serialProcess_spec_witness:
  "l_out (link_of (serialProcess (receive [0x49, 0x53] miner_started)))
     = 0x49 # 1 # map of_char ''MiniOne'' @ [0, 0x12, 0x07, 0x13, 0x20]"
proof -
  have "link_of (serialProcess (receive [0x49, 0x53] miner_started))
      = command (clk (receive [0x49, 0x53] miner_started)) (link_of (receive [0x49, 0x53] miner_started))"
    using serialProcess_spec [of "receive [0x49, 0x53] miner_started"] started_receive [of "[0x49, 0x53]"]
    by simp
  then show ?thesis
    using started_receive [of "[0x49, 0x53]"]
    by (simp add: command.simps link_of_def identity_bytes_def ID_def bytes_of_u32_def)
qed

text \<open>C3. A complete work frame (\<open>W\<close>, 32 bytes of midstate, 12 bytes of data) puts exactly this
  on the two wires to the ASIC: clock configuration, the three data words, precalculated words 1
  to 5, the midstate, precalculated word 0 and a zero nonce; the reset and SPI lines move without
  disturbing the data lines, the work timer starts at 16 s, the frame is consumed and the reply
  is the working status. The buffers are in order, with room for the longest reply.\<close>

theorem work_frame_loaded:
  assumes "app_ok (app m)" "room 14 (app m)" "length (precalc (worktask (app m))) = 6"
    and "ring_list (rx_buffer (app m)) = CMD_W # ms @ ds @ rest" "length ms = 32" "length ds = 12"
  shows "let m' = serialProcess m; M = words_of_bytes ms; W = words_of_bytes ds;
             P = asicPrecalc M W (precalc (worktask (app m)))
         in wire_words (wire_bits (drop (length (pins (board m))) (pins (board m'))))
              = CLOCK_CONFIG @ W @ tl P @ M @ [hd P, 0]
            \<and> ring_list (rx_buffer (app m')) = rest
            \<and> ring_list (USARTtoUSB_Buffer (app m')) = ring_list (USARTtoUSB_Buffer (app m)) @ [CMD_W, STATE_WORKING, 0, 0, 0, 0, 0]
            \<and> work_timer (app m') = timerSet (clk m) (work_timer (app m)) 16000"
proof -
  let ?M = "words_of_bytes ms" and ?W = "words_of_bytes ds"
  let ?w = "(worktask (app m))\<lparr>midstate := ?M, data := ?W, precalc := asicPrecalc ?M ?W (precalc (worktask (app m)))\<rparr>"
  have l: "link_of (serialProcess m) = load_work (clk m) (ms @ ds) ((link_of m)\<lparr>l_in := rest\<rparr>)"
    using serialProcess_refines [OF assms(1,2)] assms(4-6) by (simp add: command.simps link_of_def)
  have "work_ok ?w" using assms(3,5,6) by (simp add: work_ok_def)
  moreover have "board (serialProcess m) = pushWork ?w (asicResetSpi (asicReset (board m)))"
    using arg_cong [OF l, of l_board] assms(5) by (simp add: load_work_def Let_def link_of_def)
  ultimately have "wire_words (wire_bits (drop (length (pins (board m))) (pins (board (serialProcess m))))) = work_words ?w"
    using emits_wire_words [OF emits_load] by simp
  then show ?thesis
    using arg_cong [OF l, of l_in] arg_cong [OF l, of l_out] arg_cong [OF l, of l_timer]
    by (simp add: work_words_def load_work_def Let_def link_of_def state_bytes_def bytes_of_u32_def)
qed

theorem work_frame_loaded_witness:
  "ring_list (rx_buffer (app (serialProcess (receive (CMD_W # replicate 32 1 @ replicate 12 2 @ [CMD_S]) miner_started)))) = [CMD_S]"
proof -
  let ?m = "receive (CMD_W # replicate 32 1 @ replicate 12 2 @ [CMD_S]) miner_started"
  have p: "length (precalc (worktask (app ?m))) = 6"
    by (simp add: receive_def miner_started_def appInit_def miner_off_def Let_def)
  note s = started_receive [of "CMD_W # replicate 32 1 @ replicate 12 2 @ [CMD_S]"]
  show ?thesis
    using work_frame_loaded [of ?m "replicate 32 1" "replicate 12 2" "[CMD_S]"] s p
    by (simp add: Let_def)
qed

text \<open>C4. The service routine implements its specification on every branch. A pending report stops
  the timer, holds the ASIC in reset, re-enables the SPI interrupt and sends the status with the
  byte-reversed report minus \<open>0xC0\<close> as nonce; otherwise an expired work timer holds the ASIC in
  reset and sends the status with no nonce; otherwise nothing changes. The buffers are in order and the
  output buffer has room for the 7 bytes of a status message.\<close>

theorem appService_spec:
  assumes "app_ok (app m)" "room 7 (app m)"
  shows "link_of (appService m) = service (clk m) (link_of m) \<and> app_ok (app (appService m))"
  using appService_refines [OF assms] by blast

theorem appService_spec_witness:
  "let m = miner_started\<lparr>board := (board miner_started)\<lparr>report := 0x12345678, report_valid := 1\<rparr>\<rparr>
   in l_out (link_of (appService m)) = [CMD_S, STATE_RESET, 1, 0x52, 0x33, 0x56, 0x78]"
proof -
  let ?m = "miner_started\<lparr>board := (board miner_started)\<lparr>report := 0x12345678, report_valid := 1\<rparr>\<rparr>"
  have "link_of (appService ?m) = service (clk ?m) (link_of ?m)"
    using appService_spec [of ?m] miner_started_ok by simp
  then show ?thesis
    using miner_started_ok
    by (simp add: service_def link_of_def asicReportValid_def Let_def state_bytes_def bytes_of_u32_def u32_of_bytes_def)
qed

end
