(* ===== verification/Descriptors.thy ===== *)
theory Descriptors
  imports Usb_Request
begin

text \<open>
  \<open>Projects/AvalonBTC/Descriptors.c\<close> and \<open>Descriptors.h\<close> (the same files in
  \<open>Projects/XilinxFpgaProg\<close>): the descriptors in flash as the bytes of the packed structures,
  and the callback that hands them to the USB stack. The structure types are those of
  \<open>LUFA/Drivers/USB/Core/StdDescriptors.h\<close> and \<open>Class/Common/CDCClassCommon.h\<close>.
\<close>

section \<open>Descriptors.h\<close>

definition CDC_NOTIFICATION_EPADDR :: u8 where "CDC_NOTIFICATION_EPADDR = ENDPOINT_DIR_IN OR 2"
definition CDC_TX_EPADDR :: u8 where "CDC_TX_EPADDR = ENDPOINT_DIR_IN OR 3"
definition CDC_RX_EPADDR :: u8 where "CDC_RX_EPADDR = ENDPOINT_DIR_OUT OR 4"
definition CDC_NOTIFICATION_EPSIZE :: u16 where "CDC_NOTIFICATION_EPSIZE = 8"
definition CDC_TXRX_EPSIZE :: u16 where "CDC_TXRX_EPSIZE = 16"

section \<open>Packed structures\<close>

definition descriptor :: "u8 \<Rightarrow> u8 list \<Rightarrow> u8 list" where
  "descriptor Type body = [of_nat (2 + length body), Type] @ body"

definition interface_descriptor :: "u8 \<Rightarrow> u8 \<Rightarrow> u8 \<Rightarrow> u8 \<Rightarrow> u8 \<Rightarrow> u8 \<Rightarrow> u8 \<Rightarrow> u8 list" where
  "interface_descriptor InterfaceNumber AlternateSetting TotalEndpoints Class SubClass Protocol InterfaceStrIndex =
     descriptor 0x04 [InterfaceNumber, AlternateSetting, TotalEndpoints, Class, SubClass, Protocol, InterfaceStrIndex]"

definition endpoint_descriptor :: "u8 \<Rightarrow> u8 \<Rightarrow> u16 \<Rightarrow> u8 \<Rightarrow> u8 list" where
  "endpoint_descriptor EndpointAddress Attributes EndpointSize PollingIntervalMS =
     descriptor 0x05 ([EndpointAddress, Attributes] @ bytes_of_u16 EndpointSize @ [PollingIntervalMS])"

section \<open>The descriptors\<close>

text \<open>
  \<open>VERSION_BCD(01.10)\<close> is \<open>0x0110\<close>. \<open>VERSION_BCD(00.01)\<close> works out its hundredths digit in
  the compiler's 32-bit \<open>double\<close>, where \<open>0.01 * 10\<close> rounds below \<open>0.1\<close>: the digit is 0, and
  the built image (\<open>XilinxFpgaProg.hex\<close>) has release number \<open>0x0000\<close>.
\<close>

definition DeviceDescriptor :: "u8 list" where
  "DeviceDescriptor = descriptor 0x01
     (bytes_of_u16 0x0110 @ [0x02, 0x00, 0x00] @ [8]
      @ bytes_of_u16 0x03EB @ bytes_of_u16 0x204B @ bytes_of_u16 0x0000
      @ [0x01, 0x02, 0xDC] @ [FIXED_NUM_CONFIGURATIONS])"

definition ConfigurationBody :: "u8 list" where
  "ConfigurationBody =
     interface_descriptor 0 0 1 0x02 0x02 0x01 0
     @ descriptor 0x24 ([0x00] @ bytes_of_u16 0x0110)
     @ descriptor 0x24 [0x02, 0x06]
     @ descriptor 0x24 [0x06, 0, 1]
     @ endpoint_descriptor CDC_NOTIFICATION_EPADDR EP_TYPE_INTERRUPT CDC_NOTIFICATION_EPSIZE 0xFF
     @ interface_descriptor 1 0 2 0x0A 0x00 0x00 0
     @ endpoint_descriptor CDC_RX_EPADDR EP_TYPE_BULK CDC_TXRX_EPSIZE 0x05
     @ endpoint_descriptor CDC_TX_EPADDR EP_TYPE_BULK CDC_TXRX_EPSIZE 0x05"

definition ConfigurationDescriptor :: "u8 list" where
  "ConfigurationDescriptor =
     descriptor 0x02 (bytes_of_u16 (of_nat (9 + length ConfigurationBody))
       @ [2, 1, 0, 0x80 OR 0x40, drop_bit 1 100])
     @ ConfigurationBody"

text \<open>
  \<open>L"..."\<close> literals are 16-bit characters; the array ends with a zero character. The size in
  the header is \<open>USB_STRING_LEN(n)\<close>.
\<close>

definition string_descriptor :: "nat \<Rightarrow> u16 list \<Rightarrow> u8 list" where
  "string_descriptor n chars = [of_nat (2 + 2 * n), 0x03] @ concat (map bytes_of_u16 chars)"

definition wide :: "string \<Rightarrow> u16 list" where
  "wide cs = map (\<lambda>c. of_char c) cs @ [0]"

definition LanguageString :: "u8 list" where
  "LanguageString = string_descriptor 1 [0x0409]"

definition ManufacturerString :: "u8 list" where
  "ManufacturerString = string_descriptor 11 (wide ''Dean Camera'')"

definition ProductString :: "u8 list" where
  "ProductString = string_descriptor 23 (wide ''LUFA USB-RS232 Adapter'')"

text \<open>\<open>NULL\<close> is the empty list; the result is the size and the object the address points to.\<close>

definition CALLBACK_USB_GetDescriptor :: "u16 \<Rightarrow> u8 \<Rightarrow> u16 \<times> u8 list" where
  "CALLBACK_USB_GetDescriptor Value Index =
     (let DescriptorType = (ucast (drop_bit 8 Value) :: u8);
          DescriptorNumber = (ucast (Value AND 0xFF) :: u8)
      in if DescriptorType = 0x01 then (18, DeviceDescriptor)
      else if DescriptorType = 0x02 then (of_nat (length ConfigurationDescriptor), ConfigurationDescriptor)
      else if DescriptorType = 0x03 then
        (if DescriptorNumber = 0 then (ucast (LanguageString ! 0), LanguageString)
         else if DescriptorNumber = 1 then (ucast (ManufacturerString ! 0), ManufacturerString)
         else if DescriptorNumber = 2 then (ucast (ProductString ! 0), ProductString)
         else (NO_DESCRIPTOR, []))
      else (NO_DESCRIPTOR, []))"

text \<open>The size the callback reports never exceeds the table it points to.\<close>

lemma callback_in_bounds:
  "unat (fst (CALLBACK_USB_GetDescriptor Value Index)) \<le> length (snd (CALLBACK_USB_GetDescriptor Value Index))"
  by (simp add: CALLBACK_USB_GetDescriptor_def Let_def DeviceDescriptor_def ConfigurationDescriptor_def ConfigurationBody_def
      interface_descriptor_def endpoint_descriptor_def descriptor_def bytes_of_u16_def LanguageString_def ManufacturerString_def
      ProductString_def string_descriptor_def wide_def)

section \<open>The tables as bytes\<close>

lemma ConfigurationDescriptor_bytes:
  "ConfigurationDescriptor =
     [9, 2, 62, 0, 2, 1, 0, 0xC0, 50] @
     [9, 4, 0, 0, 1, 2, 2, 1, 0] @ [5, 0x24, 0, 0x10, 1] @ [4, 0x24, 2, 6] @ [5, 0x24, 6, 0, 1] @ [7, 5, 0x82, 3, 8, 0, 0xFF] @
     [9, 4, 1, 0, 2, 0x0A, 0, 0, 0] @ [7, 5, 4, 2, 16, 0, 5] @ [7, 5, 0x83, 2, 16, 0, 5]"
  by (simp add: ConfigurationDescriptor_def ConfigurationBody_def interface_descriptor_def endpoint_descriptor_def
      descriptor_def bytes_of_u16_def CDC_NOTIFICATION_EPADDR_def CDC_TX_EPADDR_def CDC_RX_EPADDR_def
      CDC_NOTIFICATION_EPSIZE_def CDC_TXRX_EPSIZE_def)

text \<open>The product string counts its terminator: the descriptor announces 23 characters and the
  last one is a zero, while the manufacturer string announces exactly its 11 characters.\<close>

lemma product_string_terminator:
  "ProductString ! 0 = 48 \<and> take 2 (drop 46 ProductString) = [0, 0] \<and> length ProductString = 48
   \<and> ManufacturerString ! 0 = 24 \<and> take 22 (drop 2 ManufacturerString) = concat (map bytes_of_u16 (map of_char ''Dean Camera''))"
  by (simp add: ProductString_def ManufacturerString_def string_descriptor_def wide_def bytes_of_u16_def)

end
