(* ===== verification/Endpoint_Tap.thy ===== *)
theory Endpoint_Tap
  imports Cdc_Class Ring_Buffer
begin

text \<open>
  A tap on the endpoint data register, so that theorems can speak of the bytes that cross the USB
  data endpoints; what the class driver's functions leave in its log; the contract of the sending
  half of a main loop, shared by both firmwares; and two concrete devices.
\<close>

section \<open>Bytes on the data endpoint\<close>

text \<open>
  \<open>tap D\<close> is the device \<open>D\<close> with a tap on the endpoint data register: the second component of
  its state records every byte written to \<open>UEDATX\<close>, the third every byte read from it.
\<close>

type_synonym 'h tapped = "'h \<times> u8 list \<times> u8 list"

definition tap :: "'h io \<Rightarrow> 'h tapped io" where
  "tap D = \<lparr>io_rd = (\<lambda>r (h, w, l). let (v, h) = io_rd D r h in (v, h, w, if r = UEDATX then l @ [v] else l)),
     io_wr = (\<lambda>r v (h, w, l). (io_wr D r v h, if r = UEDATX then w @ [v] else w, l)), io_sig = io_sig D\<rparr>"

definition sent :: "'h tapped \<Rightarrow> u8 list" where "sent t = fst (snd t)"
definition taken :: "'h tapped \<Rightarrow> u8 list" where "taken t = snd (snd t)"

lemma tap_rd:
  "r \<noteq> UEDATX \<Longrightarrow> snd (snd (io_rd (tap D) r t)) = snd t"
  "sent (snd (io_rd (tap D) UEDATX t)) = sent t"
  "taken (snd (io_rd (tap D) UEDATX t)) = taken t @ [fst (io_rd (tap D) UEDATX t)]"
  by (simp_all add: tap_def sent_def taken_def Let_def split_beta)

lemma tap_wr:
  "r \<noteq> UEDATX \<Longrightarrow> snd (io_wr (tap D) r v t) = snd t"
  "snd (io_wr (tap D) UEDATX v t) = (sent t @ [v], taken t)"
  by (simp_all add: tap_def sent_def taken_def split_beta)

lemma tap_access:
  "r \<noteq> UEDATX \<Longrightarrow> snd (snd (io_test (tap D) r n t)) = snd t"
  "r \<noteq> UEDATX \<Longrightarrow> snd (io_and (tap D) r m t) = snd t"
  "r \<noteq> UEDATX \<Longrightarrow> snd (io_or (tap D) r m t) = snd t"
  by (simp_all add: io_test_def io_and_def io_or_def Let_def split_beta tap_rd tap_wr)

lemma wait_turn_tap:
  "wait_turn (tap D) (p, k, t) = Some (Inr (p', k', t')) \<Longrightarrow> snd t' = snd t"
  "wait_turn (tap D) (p, k, t) = Some (Inl (e, t')) \<Longrightarrow> snd t' = snd t"
  by (auto simp: wait_turn_def Endpoint_GetEndpointDirection_def Endpoint_IsINReady_def Endpoint_IsOUTReceived_def
      USB_DeviceState_def Endpoint_IsStalled_def USB_Device_GetFrameNumber_def Let_def split_beta tap_rd tap_access
      split: if_splits)

lemma WaitUntilReady_tap:
  assumes "Endpoint_WaitUntilReady (tap D) t = Some (e, t')"
  shows "snd t' = snd t"
proof -
  let ?g = "USB_Device_GetFrameNumber (tap D) t"
  have "loop (wait_turn (tap D)) (fst ?g, USB_STREAM_TIMEOUT_MS, snd ?g) = Some (e, t')"
    using assms by (simp add: Endpoint_WaitUntilReady_def split_beta)
  then have "snd (snd (e, t')) = snd (snd ?g)"
    by (rule loop_invariant [where I = "\<lambda>(p, k, u). snd u = snd (snd ?g)"])
      (auto dest: wait_turn_tap)
  then show ?thesis by (simp add: USB_Device_GetFrameNumber_def Let_def split_beta tap_rd)
qed

lemma hw_log:
  "snd (hw (snd (cdc_down (tap D) s))) = snd (hw s)"
  "snd (hw (hw_do (Endpoint_SelectEndpoint (tap D) a) s)) = snd (hw s)"
  "snd (hw (hw_do (Endpoint_ClearIN (tap D)) s)) = snd (hw s)"
  "snd (hw (hw_do (Endpoint_ClearOUT (tap D)) s)) = snd (hw s)"
  "snd (hw (snd (hw_get (Endpoint_IsReadWriteAllowed (tap D)) s))) = snd (hw s)"
  "snd (hw (snd (hw_get (Endpoint_IsOUTReceived (tap D)) s))) = snd (hw s)"
  "snd (hw (snd (hw_get (Endpoint_BytesInEndpoint (tap D)) s))) = snd (hw s)"
  "snd (hw (hw_do (Endpoint_Write_8 (tap D) b) s)) = (sent (hw s) @ [b], taken (hw s))"
  "hw_tryget (Endpoint_WaitUntilReady (tap D)) s = Some (e, s') \<Longrightarrow> snd (hw s') = snd (hw s)"
  by (auto simp: cdc_down_def hw_defs USB_DeviceState_def Endpoint_SelectEndpoint_def Endpoint_ClearIN_def Endpoint_ClearOUT_def
      Endpoint_IsReadWriteAllowed_def Endpoint_IsOUTReceived_def Endpoint_BytesInEndpoint_def Endpoint_Write_8_def
      Let_def split_beta tap_rd tap_wr tap_access dest!: WaitUntilReady_tap)

lemma SendByte_tap:
  assumes "CDC_Device_SendByte (tap D) b s = Some (e, s')"
  shows "sent (hw s') = sent (hw s) @ (if e = ENDPOINT_READYWAIT_NoError then [b] else [])"
proof -
  let ?s1 = "hw_do (Endpoint_SelectEndpoint (tap D) (ep_Address (DataINEndpoint (cdc (snd (cdc_down (tap D) s))))))
    (snd (cdc_down (tap D) s))"
  let ?r = "hw_get (Endpoint_IsReadWriteAllowed (tap D)) ?s1"
  let ?w = "hw_tryget (Endpoint_WaitUntilReady (tap D)) (hw_do (Endpoint_ClearIN (tap D)) (snd ?r))"
  let ?put = "\<lambda>t. Some (ENDPOINT_READYWAIT_NoError, hw_do (Endpoint_Write_8 (tap D) b) t)"
  have eq: "CDC_Device_SendByte (tap D) b s =
      (if fst (cdc_down (tap D) s) then Some (2, snd (cdc_down (tap D) s))
       else if \<not> fst ?r then ?w \<bind> (\<lambda>(e, t). if e \<noteq> 0 then Some (e, t) else ?put t)
       else ?put (snd ?r))"
    by (simp add: CDC_Device_SendByte_def Let_def split_beta)
  show ?thesis
  proof (cases "fst (cdc_down (tap D) s) \<or> fst ?r")
    case True
    then show ?thesis using assms unfolding eq
      by (auto simp: hw_log sent_def taken_def split: if_split_asm)
  next
    case False
    then obtain e1 t where w: "?w = Some (e1, t)" and r: "(if e1 \<noteq> 0 then Some (e1, t) else ?put t) = Some (e, s')"
      using assms unfolding eq by (auto simp: bind_eq_Some_conv)
    from hw_log(9) [OF w] r show ?thesis
      by (cases "e1 = 0") (auto simp: hw_log sent_def taken_def)
  qed
qed

lemma ReceiveByte_tap:
  fixes s :: "('h tapped, 'm) cdc_core_scheme" and D :: "'h io"
  defines "x \<equiv> CDC_Device_ReceiveByte (tap D) s"
  shows "taken (hw (snd x)) = taken (hw s) @ (if fst x \<ge> 0 then [word_of_int (fst x)] else [])"
proof -
  have rd: "fst (hw_get (Endpoint_Read_8 (tap D)) t) = v \<Longrightarrow> snd (snd (hw (snd (hw_get (Endpoint_Read_8 (tap D)) t)))) = taken (hw t) @ [v]"
    for t :: "('h tapped, 'm) cdc_core_scheme" and v
    using tap_rd(3) [of D "hw t"] by (auto simp: hw_defs Endpoint_Read_8_def Let_def split_beta taken_def)
  show ?thesis
    unfolding x_def
    by (simp add: CDC_Device_ReceiveByte_def Let_def split_beta hw_log taken_def rd)
qed

section \<open>Interface: sending a ring buffer\<close>

text \<open>
  \<open>send n\<close> is the loop \<open>while (BufferCount--)\<close> of a main program, \<open>tx\<close> the buffer it empties and
  \<open>pop\<close> the removal of its first byte.
\<close>

locale usb_sender =
  fixes D :: "'h io" and tx :: "('h tapped, 'm) cdc_core_scheme \<Rightarrow> RingBuffer_t"
    and pop :: "('h tapped, 'm) cdc_core_scheme \<Rightarrow> ('h tapped, 'm) cdc_core_scheme"
    and send :: "nat \<Rightarrow> ('h tapped, 'm) cdc_core_scheme \<Rightarrow> ('h tapped, 'm) cdc_core_scheme option"
  assumes send_0: "send 0 s = Some s"
    and send_Suc: "send (Suc n) s = Option.bind (CDC_Device_SendByte (tap D) (RingBuffer_Peek (tx s)) s)
          (\<lambda>(e, s). if e \<noteq> ENDPOINT_READYWAIT_NoError then Some s else send n (pop s))"
    and tx_more: "usb_core.more t = usb_core.more s \<Longrightarrow> tx t = tx s"
    and tx_pop: "tx (pop s) = snd (RingBuffer_Remove (tx s))"
    and hw_pop: "hw (pop s) = hw s"
begin

lemma send_fifo:
  assumes "send n s = Some s'" "ring_ok (tx s)" "n \<le> length (ring_list (tx s))"
  shows "\<exists>k. sent (hw s') = sent (hw s) @ take k (ring_list (tx s)) \<and> ring_list (tx s') = drop k (ring_list (tx s)) \<and> ring_ok (tx s')"
  using assms
proof (induction n arbitrary: s)
  case 0 then show ?case by (intro exI [of _ 0]) (simp add: send_0)
next
  case (Suc n)
  obtain x xs where xs: "ring_list (tx s) = x # xs" using Suc.prems(3) by (cases "ring_list (tx s)") auto
  have b: "RingBuffer_Peek (tx s) = x" using ring_Peek xs Suc.prems(2) by simp
  obtain e t where t: "CDC_Device_SendByte (tap D) x s = Some (e, t)"
    using Suc.prems(1) b by (auto simp: send_Suc bind_eq_Some_conv)
  have m: "tx t = tx s" using cdc_data_more(1) [OF t] by (rule tx_more)
  show ?case
  proof (cases "e = ENDPOINT_READYWAIT_NoError")
    case False
    then have "s' = t" using Suc.prems(1) t b by (simp add: send_Suc)
    then show ?thesis using False SendByte_tap [OF t] m Suc.prems(2) by (intro exI [of _ 0]) simp
  next
    case True
    have u: "send n (pop t) = Some s'" using Suc.prems(1) t b True by (simp add: send_Suc)
    have l: "ring_list (tx (pop t)) = xs" "ring_ok (tx (pop t))"
      using ring.remove_bytes [of "tx s"] ring.remove_ok [of "tx s"] xs Suc.prems(2) m by (auto simp: tx_pop)
    then obtain k where "sent (hw s') = sent (hw (pop t)) @ take k xs" "ring_list (tx s') = drop k xs" "ring_ok (tx s')"
      using Suc.IH [OF u] Suc.prems(3) xs by (auto simp del: length_ring_list)
    then show ?thesis using SendByte_tap [OF t] True xs by (intro exI [of _ "Suc k"]) (simp add: hw_pop)
  qed
qed

end

section \<open>Concrete devices\<close>

text \<open>\<open>quiet\<close>: the PLL locks at once and nothing else ever happens.\<close>

definition quiet :: "unit io" where
  "quiet = \<lparr>io_rd = (\<lambda>r h. (if r = PLLCSR then 1 else 0, h)), io_wr = (\<lambda>r v h. h), io_sig = (\<lambda>a. 0)\<rparr>"

text \<open>\<open>online\<close>: configured, the IN bank always writable, the state is what the OUT bank still holds.\<close>

definition online :: "u8 list io" where
  "online = \<lparr>io_rd = (\<lambda>r h. case r of PLLCSR \<Rightarrow> (1, h) | GPIOR0 \<Rightarrow> (4, h)
       | UEINTX \<Rightarrow> (if h = [] then 0x21 else 0x25, h) | UEBCLX \<Rightarrow> (of_nat (length h), h)
       | UEDATX \<Rightarrow> (hd h, tl h) | _ \<Rightarrow> (0, h)), io_wr = (\<lambda>r v h. h), io_sig = (\<lambda>a. 0)\<rparr>"

lemma EPSizeMask_8: "Endpoint_BytesToEPSizeMask 8 = Some 0"
  unfolding Endpoint_BytesToEPSizeMask_def by (rule loop_turn(1)) simp

lemma quiet_pll: "USB_PLL_wait quiet h = Some ()"
  unfolding USB_PLL_wait_def by (rule loop_turn(1)) (simp add: USB_PLL_IsReady_def io_test_bit quiet_def)

end
