(* ===== verification/Miner_Main.thy ===== *)
theory Miner_Main
  imports Application Descriptors Endpoint_Tap
begin

text \<open>
  \<open>Projects/AvalonBTC/main.c\<close> and \<open>main.h\<close>: the CDC interface, start-up, the event handlers
  the firmware gives the USB stack, and the main loop. The loop body is cut where its statements
  are, and interrupts run between them (\<open>step\<close>): the millisecond tick, the SPI interrupt while
  \<open>SPIE\<close> is set, the two USB interrupts, and any change of the peripherals of their own. Reading the
  buffer count and testing it are one step: no interrupt handler touches that buffer, and a tick between
  the two acts like a tick before the step.
\<close>

section \<open>Interface configuration\<close>

definition VirtualSerial_CDC_Interface :: USB_ClassInfo_CDC_Device_t where
  "VirtualSerial_CDC_Interface =
     \<lparr>ControlInterfaceNumber = 0,
      DataINEndpoint = \<lparr>ep_Address = CDC_TX_EPADDR, ep_Size = CDC_TXRX_EPSIZE, ep_Type = 0, ep_Banks = 1\<rparr>,
      DataOUTEndpoint = \<lparr>ep_Address = CDC_RX_EPADDR, ep_Size = CDC_TXRX_EPSIZE, ep_Type = 0, ep_Banks = 1\<rparr>,
      NotificationEndpoint = \<lparr>ep_Address = CDC_NOTIFICATION_EPADDR, ep_Size = CDC_NOTIFICATION_EPSIZE, ep_Type = 0, ep_Banks = 1\<rparr>,
      HostToDevice = 0, DeviceToHost = 0,
      LineEncoding = \<lparr>BaudRateBPS = 0, CharFormat = 0, ParityType = 0, DataBits = 0\<rparr>\<rparr>"

definition LEDMASK_USB_NOTREADY :: u8 where "LEDMASK_USB_NOTREADY = LEDS_LED1"
definition LEDMASK_USB_ENUMERATING :: u8 where "LEDMASK_USB_ENUMERATING = LEDS_LED1 OR LEDS_LED2"
definition LEDMASK_USB_READY :: u8 where "LEDMASK_USB_READY = LEDS_LED2"
definition LEDMASK_USB_ERROR :: u8 where "LEDMASK_USB_ERROR = LEDS_LED1 OR LEDS_LED3"

definition miner_do :: "(miner \<Rightarrow> miner) \<Rightarrow> 'h firmware \<Rightarrow> 'h firmware" where
  "miner_do f s = s\<lparr>miner := f (miner s)\<rparr>"

definition set_leds :: "u8 \<Rightarrow> 'h firmware \<Rightarrow> 'h firmware" where
  "set_leds m s = miner_do (\<lambda>k. k\<lparr>board := LEDs_SetAllLEDs m (board k)\<rparr>) s"

text \<open>\<open>debug\<close>, the character sink of \<open>stdout\<close>.\<close>

definition debug :: "u8 \<Rightarrow> Application \<Rightarrow> Application" where
  "debug c a =
     (let a = (if c = 10 then a\<lparr>USARTtoUSB_Buffer := RingBuffer_Insert (USARTtoUSB_Buffer a) 13\<rparr> else a)
      in a\<lparr>USARTtoUSB_Buffer := RingBuffer_Insert (USARTtoUSB_Buffer a) c\<rparr>)"

section \<open>Events\<close>

definition EVENT_USB_Device_Connect :: "'h firmware \<Rightarrow> 'h firmware option" where
  "EVENT_USB_Device_Connect s = Some (set_leds LEDMASK_USB_ENUMERATING s)"

definition EVENT_USB_Device_Disconnect :: "'h firmware \<Rightarrow> 'h firmware option" where
  "EVENT_USB_Device_Disconnect s = Some (set_leds LEDMASK_USB_NOTREADY s)"

definition EVENT_USB_Device_ConfigurationChanged :: "'h io \<Rightarrow> 'h firmware \<Rightarrow> 'h firmware option" where
  "EVENT_USB_Device_ConfigurationChanged D s =
     do {
       (ok, s) \<leftarrow> CDC_Device_ConfigureEndpoints D s;
       let ConfigSuccess = (True \<and> ok);
       Some (set_leds (if ConfigSuccess then LEDMASK_USB_READY else LEDMASK_USB_ERROR) s)
     }"

text \<open>The body of \<open>EVENT_CDC_Device_LineEncodingChanged\<close> is compiled out.\<close>

definition EVENT_CDC_Device_LineEncodingChanged :: "'h firmware \<Rightarrow> 'h firmware option" where
  "EVENT_CDC_Device_LineEncodingChanged s = Some s"

definition cdc_events :: "'h firmware cdc_app" where
  "cdc_events = \<lparr>EVENT_LineEncodingChanged = EVENT_CDC_Device_LineEncodingChanged,
     EVENT_ControLineStateChanged = Some, EVENT_BreakSent = (\<lambda>_. Some)\<rparr>"

definition EVENT_USB_Device_ControlRequest :: "'h io \<Rightarrow> 'h firmware \<Rightarrow> 'h firmware option" where
  "EVENT_USB_Device_ControlRequest D s = CDC_Device_ProcessControlRequest D cdc_events s"

definition usb_events :: "'h io \<Rightarrow> 'h firmware usb_app" where
  "usb_events D = \<lparr>EVENT_Connect = EVENT_USB_Device_Connect, EVENT_Disconnect = EVENT_USB_Device_Disconnect,
     EVENT_Reset = Some, EVENT_StartOfFrame = Some,
     EVENT_ConfigurationChanged = EVENT_USB_Device_ConfigurationChanged D,
     EVENT_ControlRequest = EVENT_USB_Device_ControlRequest D,
     CALLBACK_GetDescriptor = CALLBACK_USB_GetDescriptor\<rparr>"

section \<open>Start-up\<close>

definition SetupHardware :: "'h io \<Rightarrow> 'h firmware \<Rightarrow> 'h firmware option" where
  "SetupHardware D s =
     (let c = mcu s;
          c = c\<lparr>MCUSR := MCUSR c AND NOT (BV WDRF)\<rparr>;
          c = c\<lparr>watchdog := False\<rparr>;
          b = board (miner s);
          b = b\<lparr>DDRB := 0x0C\<rparr>;
          b = set_PORTB 0x0F b;
          b = set_DDRD 0x43 b;
          b = set_PORTD 0x40 b;
          c = c\<lparr>TCCR1A := BV COM1B0, OCR1B := 0, TCCR1B := BV WGM12 OR BV CS10, clock_div := 1\<rparr>;
          k = (miner s)\<lparr>clk := clockInit (clk (miner s)), board := LEDs_Init b\<rparr>
      in USB_Init D (s\<lparr>mcu := c, miner := k\<rparr>))"

definition main_init :: "'h io \<Rightarrow> 'h firmware \<Rightarrow> 'h firmware option" where
  "main_init D s =
     do {
       s \<leftarrow> SetupHardware D s;
       let s = miner_do appInit s;
       let s = set_leds LEDMASK_USB_NOTREADY s;
       let s = miner_do (\<lambda>k. k\<lparr>main_timer := timerSet (clk k) (main_timer k) 10\<rparr>) s;
       Some (s\<lparr>SREG_I := True\<rparr>)
     }"

section \<open>The main loop\<close>

definition main_receive :: "'h io \<Rightarrow> 'h firmware \<Rightarrow> 'h firmware option" where
  "main_receive D s =
     (let (n, s) = CDC_Device_BytesReceived D s in
      if n \<noteq> 0 then appUsbDataReceived D s else Some s)"

text \<open>\<open>while (BufferCount--)\<close>: at most \<open>BufferCount\<close> turns, left early when a byte is not sent.\<close>

primrec send_loop :: "'h io \<Rightarrow> nat \<Rightarrow> 'h firmware \<Rightarrow> 'h firmware option" where
  "send_loop D 0 s = Some s"
| "send_loop D (Suc n) s =
     do {
       (e, s) \<leftarrow> CDC_Device_SendByte D (RingBuffer_Peek (USARTtoUSB_Buffer (app (miner s)))) s;
       if e \<noteq> ENDPOINT_READYWAIT_NoError then Some s
       else send_loop D n (miner_do (\<lambda>k. k\<lparr>app := (app k)\<lparr>USARTtoUSB_Buffer :=
              snd (RingBuffer_Remove (USARTtoUSB_Buffer (app k)))\<rparr>\<rparr>) s)
     }"

definition main_send :: "'h io \<Rightarrow> 'h firmware \<Rightarrow> 'h firmware option" where
  "main_send D s =
     (let BufferCount = RingBuffer_GetCount (USARTtoUSB_Buffer (app (miner s)));
          (expired, t) = timerExpired (clk (miner s)) (main_timer (miner s));
          s = miner_do (\<lambda>k. k\<lparr>main_timer := t\<rparr>) s
      in if expired \<or> BufferCount > 0 then
           send_loop D (unat BufferCount) (miner_do (\<lambda>k. k\<lparr>main_timer := timerRestart (clk k) (main_timer k)\<rparr>) s)
         else Some s)"

definition main_service :: "'h firmware \<Rightarrow> 'h firmware" where
  "main_service s = miner_do appService s"

definition main_body :: "'h io \<Rightarrow> 'h firmware \<Rightarrow> 'h firmware option" where
  "main_body D s =
     do {
       s \<leftarrow> main_receive D s;
       s \<leftarrow> main_send D s;
       let s = main_service s;
       s \<leftarrow> CDC_Device_USBTask D s;
       USB_USBTask D (usb_events D) s
     }"

section \<open>Interleaving with interrupts\<close>

datatype pc = At_receive | At_send | At_service | At_cdc | At_usb

definition spi_interrupt :: "'h io \<Rightarrow> 'h firmware \<Rightarrow> 'h firmware" where
  "spi_interrupt D s =
     (let (h, b) = SPI_STC_vect D (hw s) (board (miner s))
      in miner_do (\<lambda>k. k\<lparr>board := b\<rparr>) (s\<lparr>hw := h\<rparr>))"

inductive step :: "'h io \<Rightarrow> pc \<times> 'h firmware \<Rightarrow> pc \<times> 'h firmware \<Rightarrow> bool" for D where
  st_receive: "main_receive D s = Some s' \<Longrightarrow> step D (At_receive, s) (At_send, s')"
| st_send: "main_send D s = Some s' \<Longrightarrow> step D (At_send, s) (At_service, s')"
| st_service: "step D (At_service, s) (At_cdc, main_service s)"
| st_cdc: "CDC_Device_USBTask D s = Some s' \<Longrightarrow> step D (At_cdc, s) (At_usb, s')"
| st_usb: "USB_USBTask D (usb_events D) s = Some s' \<Longrightarrow> step D (At_usb, s) (At_receive, s')"
| st_tick: "step D (p, s) (p, miner_do (\<lambda>k. k\<lparr>clk := TIMER0_COMPA_vect (clk k)\<rparr>) s)"
| st_spi: "bit (SPCR (board (miner s))) SPIE \<Longrightarrow> step D (p, s) (p, spi_interrupt D s)"
| st_gen: "USB_GEN_vect D (usb_events D) s = Some s' \<Longrightarrow> step D (p, s) (p, s')"
| st_com: "USB_COM_vect D (usb_events D) s = Some s' \<Longrightarrow> step D (p, s) (p, s')"
| st_hw: "step D (p, s) (p, s\<lparr>hw := h\<rparr>)"

inductive_cases step_from: "step D (p, s) (q, t)"

text \<open>Memory before \<open>main\<close>: static variables are zero or initialised, \<open>h\<close> is the hardware.\<close>

definition boot_image :: "'h \<Rightarrow> 'h firmware" where
  "boot_image h = \<lparr>hw = h, USB_IsInitialized = False,
     USB_ControlRequest = \<lparr>bmRequestType = 0, bRequest = 0, wValue = 0, wIndex = 0, wLength = 0\<rparr>,
     USB_Device_ConfigurationNumber = 0, USB_Device_CurrentlySelfPowered = False,
     USB_Device_RemoteWakeupEnabled = False, SREG_I = False,
     cdc = VirtualSerial_CDC_Interface, miner = miner_off,
     mcu = \<lparr>MCUSR = 0, watchdog = False, clock_div = 1, TCCR1A = 0, TCCR1B = 0, OCR1B = 0\<rparr>\<rparr>"

inductive reachable :: "'h io \<Rightarrow> pc \<times> 'h firmware \<Rightarrow> bool" for D where
  re_start: "main_init D (boot_image h) = Some s \<Longrightarrow> reachable D (At_receive, s)"
| re_step: "reachable D c \<Longrightarrow> step D c c' \<Longrightarrow> reachable D c'"

section \<open>The invariant\<close>

definition miner_inv :: "miner \<Rightarrow> bool" where
  "miner_inv m \<longleftrightarrow> miner_safe m
     \<and> (state (app_state (app m)) = STATE_WORKING \<or> state (app_state (app m)) = STATE_RESET)
     \<and> (state (app_state (app m)) = STATE_WORKING \<longrightarrow>
          timerActive (work_timer (app m)) \<and> t_interval (work_timer (app m)) = 16000)"

lemma miner_inv_board [simp]:
  "miner_inv (m\<lparr>board := b\<rparr>) = miner_inv m" "miner_inv (m\<lparr>clk := c\<rparr>) = miner_inv m"
  "miner_inv (m\<lparr>main_timer := t\<rparr>) = miner_inv m"
  by (simp_all add: miner_inv_def miner_safe_def)

lemma serialProcess_inv:
  assumes "miner_inv m"
  shows "miner_inv (serialProcess m)"
proof -
  have "miner_safe (serialProcess m)" using assms by (simp add: miner_inv_def serialProcess_safe)
  moreover have "state (app_state (app (cmd_W m))) = STATE_WORKING"
    "timerActive (work_timer (app (cmd_W m)))" "t_interval (work_timer (app (cmd_W m))) = 16000"
    by (simp_all add: cmd_W_def Let_def split_beta timerSet_def timerActive_def)
  ultimately show ?thesis
    using assms by (auto simp: miner_inv_def serialProcess_def Let_def split: if_splits)
qed

lemma appService_inv:
  assumes "miner_inv m"
  shows "miner_inv (appService m)"
proof -
  have rep: "miner_inv (service_report m)" if "miner_inv m" for m
    using that by (auto simp: miner_inv_def miner_safe_app service_report_def Let_def split_beta app_safe_ops)
  have "miner_inv (service_timer m)" if "miner_inv m" for m
    using that timerExpired_state [of "clk m" "work_timer (app m)"]
    by (auto simp: miner_inv_def miner_safe_app service_timer_def Let_def split_beta app_safe_ops)
  then show ?thesis using rep [OF assms] by (simp add: appService_def)
qed

lemma rx_insert_inv:
  "miner_inv m \<Longrightarrow> miner_inv (m\<lparr>app := (app m)\<lparr>rx_buffer := RingBuffer_Insert (rx_buffer (app m)) b\<rparr>\<rparr>)"
  by (simp add: miner_inv_def miner_safe_def ring_safe_Insert Insert_fields)

lemma tx_remove_inv:
  "miner_inv m \<Longrightarrow> miner_inv (m\<lparr>app := (app m)\<lparr>USARTtoUSB_Buffer := snd (RingBuffer_Remove (USARTtoUSB_Buffer (app m)))\<rparr>\<rparr>)"
  by (simp add: miner_inv_def miner_safe_def ring_safe_Remove Remove_fields)

section \<open>The USB stack keeps it\<close>

lemma miner_more: "usb_core.more t = usb_core.more s \<Longrightarrow> miner t = miner (s :: 'h firmware)"
  by (cases s; cases t) simp

lemma miner_cdc_more: "cdc_core.more t = cdc_core.more s \<Longrightarrow> miner t = miner (s :: 'h firmware)"
  by (cases s; cases t) simp

lemma miner_set_leds [simp]:
  "miner (set_leds x s) = (miner s)\<lparr>board := LEDs_SetAllLEDs x (board (miner s))\<rparr>"
  by (simp add: set_leds_def miner_do_def)

section \<open>Interface: properties the main loop keeps\<close>

text \<open>
  A property of the miner that the LED driver, the sending loop, the service routine and the SPI interrupt
  keep is kept by every step of the firmware but a reception and a tick (\<open>miner_output\<close>); with the
  reception and the interpreter, by every step but a tick (\<open>miner_operations\<close>); and by every step when the
  tick keeps it too (\<open>miner_property\<close>). The USB stack and the class driver enter through their own
  contracts.
\<close>

locale miner_output =
  fixes Q :: "miner \<Rightarrow> bool"
  assumes Q_leds: "Q m \<Longrightarrow> Q (m\<lparr>board := LEDs_SetAllLEDs x (board m)\<rparr>)"
    and Q_tx: "Q m \<Longrightarrow> Q (m\<lparr>app := (app m)\<lparr>USARTtoUSB_Buffer := snd (RingBuffer_Remove (USARTtoUSB_Buffer (app m)))\<rparr>\<rparr>)"
    and Q_service: "Q m \<Longrightarrow> Q (appService m)"
    and Q_timer: "Q m \<Longrightarrow> Q (m\<lparr>main_timer := t\<rparr>)"
    and Q_spi: "Q m \<Longrightarrow> bit (SPCR (board m)) SPIE \<Longrightarrow> report_valid b' = 1 \<Longrightarrow> Q (m\<lparr>board := b'\<rparr>)"

sublocale miner_output \<subseteq> class_driver: cdc_client D cdc_events "\<lambda>s :: 'h firmware. Q (miner s)" for D :: "'h io"
  by unfold_locales
    (auto simp: cdc_events_def EVENT_CDC_Device_LineEncodingChanged_def dest!: miner_cdc_more)

sublocale miner_output \<subseteq> stack: usb_client D "usb_events D" "\<lambda>s :: 'h firmware. Q (miner s)" for D :: "'h io"
  by unfold_locales
    (auto simp: usb_events_def EVENT_USB_Device_Connect_def EVENT_USB_Device_Disconnect_def
      EVENT_USB_Device_ConfigurationChanged_def EVENT_USB_Device_ControlRequest_def bind_eq_Some_conv
      intro!: Q_leds
      dest: miner_more class_driver.ConfigureEndpoints_keeps class_driver.ProcessControlRequest_keeps)

context miner_output
begin

lemma send_loop_keeps: "send_loop D n s = Some s' \<Longrightarrow> Q (miner s) \<Longrightarrow> Q (miner s')"
proof (induction n arbitrary: s)
  case (Suc n)
  obtain e t where t: "CDC_Device_SendByte D (RingBuffer_Peek (USARTtoUSB_Buffer (app (miner s)))) s = Some (e, t)"
    using Suc.prems(1) by (auto simp: bind_eq_Some_conv)
  have "miner t = miner s" using cdc_data_more(1) [OF t] by (rule miner_more)
  with Suc t show ?case by (auto simp: miner_do_def Q_tx split: if_splits)
qed simp

lemma main_send_keeps: "main_send D s = Some s' \<Longrightarrow> Q (miner s) \<Longrightarrow> Q (miner s')"
  by (auto simp: main_send_def Let_def split_beta miner_do_def Q_timer split: if_splits dest!: send_loop_keeps)

lemma spi_interrupt_keeps: "Q (miner s) \<Longrightarrow> bit (SPCR (board (miner s))) SPIE \<Longrightarrow> Q (miner (spi_interrupt D s))"
  by (simp add: spi_interrupt_def miner_do_def Let_def split_beta Q_spi SPI_STC_vect_frame)

lemma step_keeps_or_receives:
  assumes "step D (p, s) (q, t)" "Q (miner s)"
  shows "Q (miner t) \<or> (q, t) = (p, miner_do (\<lambda>k. k\<lparr>clk := TIMER0_COMPA_vect (clk k)\<rparr>) s)
     \<or> (p = At_receive \<and> q = At_send \<and> main_receive D s = Some t)"
  using assms(1)
proof cases
  case st_cdc
  with assms(2) show ?thesis using miner_more [OF cdc_data_more(3)] by metis
next
  case st_spi
  with assms(2) show ?thesis by (simp add: spi_interrupt_keeps)
qed (use assms(2) in \<open>auto simp: main_service_def miner_do_def Q_service
    dest: main_send_keeps stack.USBTask_keeps stack.GEN_vect_keeps stack.COM_vect_keeps\<close>)

end

locale miner_operations = miner_output +
  assumes Q_rx: "Q m \<Longrightarrow> Q (m\<lparr>app := (app m)\<lparr>rx_buffer := RingBuffer_Insert (rx_buffer (app m)) b\<rparr>\<rparr>)"
    and Q_serial: "Q m \<Longrightarrow> Q (serialProcess m)"
begin

lemma receive_loop_keeps:
  fixes t :: "'h firmware"
  assumes "loop (receive_turn D) t = Some t'" "Q (miner t)"
  shows "Q (miner t')"
  using assms
proof (rule loop_invariant [where I = "\<lambda>t. Q (miner t)"])
  fix t :: "'h firmware" assume i: "Q (miner t)"
  have k: "miner (snd (CDC_Device_ReceiveByte D t)) = miner t"
    by (rule miner_more) (simp add: cdc_data_more)
  show "receive_turn D t = Some (Inr u) \<Longrightarrow> Q (miner u)" for u
    using i k by (auto simp: receive_turn_def Let_def split_beta Q_rx split: if_splits)
  show "receive_turn D t = Some (Inl u) \<Longrightarrow> Q (miner u)" for u
    using i k by (auto simp: receive_turn_def Let_def split_beta split: if_splits)
qed

lemma main_receive_keeps:
  assumes "main_receive D s = Some s'" "Q (miner s)"
  shows "Q (miner s')"
proof -
  have "miner (snd (CDC_Device_BytesReceived D s)) = miner s"
    by (rule miner_more) (simp add: cdc_data_more)
  then show ?thesis
    using assms by (auto simp: main_receive_def appUsbDataReceived_def Let_def split_beta
        bind_eq_Some_conv Q_serial split: if_splits dest!: receive_loop_keeps)
qed

lemma step_keeps_or_ticks:
  "step D (p, s) (q, t) \<Longrightarrow> Q (miner s) \<Longrightarrow>
     Q (miner t) \<or> (q, t) = (p, miner_do (\<lambda>k. k\<lparr>clk := TIMER0_COMPA_vect (clk k)\<rparr>) s)"
  using step_keeps_or_receives [of D p s q t] main_receive_keeps [of D s t] by auto

end

locale miner_property = miner_operations +
  assumes Q_tick: "Q m \<Longrightarrow> Q (m\<lparr>clk := TIMER0_COMPA_vect (clk m)\<rparr>)"
begin

lemma step_keeps: "step D (p, s) (q, t) \<Longrightarrow> Q (miner s) \<Longrightarrow> Q (miner t)"
  using step_keeps_or_ticks [of D p s q t] Q_tick by (auto simp: miner_do_def)

lemma steps_keep: "(step D)\<^sup>*\<^sup>* c c' \<Longrightarrow> Q (miner (snd c)) \<Longrightarrow> Q (miner (snd c'))"
proof (induction rule: rtranclp_induct)
  case (step c c') then show ?case by (cases c; cases c') (auto intro: step_keeps)
qed simp

end

interpretation inv: miner_property miner_inv
  by unfold_locales (simp_all add: rx_insert_inv tx_remove_inv serialProcess_inv appService_inv)

lemma boot_inv:
  assumes "main_init D (boot_image h) = Some s"
  shows "miner_inv (miner s)"
proof -
  obtain t where t: "SetupHardware D (boot_image h) = Some t"
    and s: "miner s = (let k = appInit (miner t) in k\<lparr>board := LEDs_SetAllLEDs LEDMASK_USB_NOTREADY (board k),
      main_timer := timerSet (clk k) (main_timer k) 10\<rparr>)"
    using assms by (auto simp: main_init_def bind_eq_Some_conv miner_do_def Let_def)
  have "app (miner t) = app miner_off"
    using t by (auto simp: SetupHardware_def Let_def boot_image_def dest!: USB_Init_more [THEN miner_more])
  then have "app_safe (app (appInit (miner t)))" "work_ok (worktask (app (appInit (miner t))))"
    by (simp_all add: appInit_def miner_off_def Let_def app_safe_def work_ok_def ring_safe_def RingBuffer_InitBuffer_def)
  then show ?thesis
    by (simp add: s Let_def miner_inv_def miner_safe_app) (simp add: appInit_def Let_def)
qed

lemma reachable_inv: "reachable D c \<Longrightarrow> miner_inv (miner (snd c))"
proof (induction rule: reachable.induct)
  case (re_start h s) then show ?case by (simp add: boot_inv)
next
  case (re_step c c') then show ?case by (cases c; cases c') (auto intro: inv.step_keeps)
qed

section \<open>A lost report\<close>

text \<open>
  \<open>deaf\<close>: the SPI interrupt is off and no report is pending. Only \<open>asicInit\<close> and the report
  branch of \<open>appService\<close> switch the interrupt on, and neither runs again.
\<close>

definition deaf :: "miner \<Rightarrow> bool" where
  "deaf m \<longleftrightarrow> \<not> bit (SPCR (board m)) SPIE \<and> report_valid (board m) = 0"

lemma board_ops_SPCR [simp]:
  "SPCR (asicReset b) = SPCR b" "SPCR (asicResetSpi b) = SPCR b" "SPCR (asicStop b) = SPCR b"
  "SPCR (LEDs_SetAllLEDs x b) = SPCR b" "SPCR (LEDs_ToggleLEDs x b) = SPCR b"
  by (simp_all add: asicReset_def asicResetSpi_def asicStop_def asicEnableSpi_def asicDisableSpi_def
      led_defs port_defs Let_def)

lemma board_ops_report_valid [simp]:
  "report_valid (asicReset b) = 0" "report_valid (asicResetSpi b) = 0" "report_valid (asicStop b) = 0"
  "report_valid (LEDs_SetAllLEDs x b) = report_valid b" "report_valid (LEDs_ToggleLEDs x b) = report_valid b"
  by (simp_all add: asicReset_def asicResetSpi_def asicStop_def asicEnableSpi_def asicDisableSpi_def
      led_defs port_defs Let_def)

lemma pushWork_ctrl [simp]: "SPCR (pushWork w b) = SPCR b" "report_valid (pushWork w b) = report_valid b"
  using asic_rest_pushWork [of w b] by (simp_all add: asic_rest_def)

lemma deaf_serialProcess: "deaf m \<Longrightarrow> deaf (serialProcess m)"
  by (simp add: deaf_def serialProcess_def cmd_W_def Let_def split_beta)

lemma deaf_appService: "deaf m \<Longrightarrow> deaf (appService m)"
  by (simp add: deaf_def appService_def service_report_def service_timer_def asicReportValid_def Let_def split_beta)

lemma deaf_app [simp]: "deaf (m\<lparr>app := a\<rparr>) = deaf m" "deaf (m\<lparr>clk := c\<rparr>) = deaf m"
  "deaf (m\<lparr>main_timer := t\<rparr>) = deaf m" "deaf (m\<lparr>board := LEDs_SetAllLEDs x (board m)\<rparr>) = deaf m"
  by (simp_all add: deaf_def)

interpretation deaf: miner_property deaf
  by unfold_locales (simp_all add: deaf_serialProcess deaf_appService, simp_all add: deaf_def)

section \<open>Runs that count the ticks\<close>

text \<open>
  \<open>timed D n c c'\<close>: a run of the firmware from \<open>c\<close> to \<open>c'\<close> with \<open>n\<close> ticks of the millisecond clock
  among its steps. Every run is one (\<open>timed_exists\<close>).
\<close>

inductive timed :: "'h io \<Rightarrow> nat \<Rightarrow> pc \<times> 'h firmware \<Rightarrow> pc \<times> 'h firmware \<Rightarrow> bool" for D where
  ti_refl: "timed D 0 c c"
| ti_tick: "timed D n c (p, s) \<Longrightarrow> timed D (Suc n) c (p, miner_do (\<lambda>k. k\<lparr>clk := TIMER0_COMPA_vect (clk k)\<rparr>) s)"
| ti_step: "timed D n c (p, s) \<Longrightarrow> step D (p, s) (q, t) \<Longrightarrow> clk (miner t) = clk (miner s) \<Longrightarrow> timed D n c (q, t)"

lemma clk_ops [simp]: "clk (serialProcess m) = clk m" "clk (appService m) = clk m"
  by (simp_all add: serialProcess_def cmd_W_def appService_def service_report_def service_timer_def Let_def split_beta)

interpretation clock: miner_operations "\<lambda>m. clk m = c" for c
  by unfold_locales simp_all

lemma timed_exists: "(step D)\<^sup>*\<^sup>* c c' \<Longrightarrow> \<exists>n. timed D n c c'"
proof (induction rule: rtranclp_induct)
  case base
  show ?case using ti_refl by blast
next
  case (step d e)
  obtain p s q t where c: "d = (p, s)" "e = (q, t)" by (cases d; cases e)
  with step show ?case
    using clock.step_keeps_or_ticks [of D p s q t "clk (miner s)"] by (auto intro: ti_tick ti_step)
qed

lemma timed_clk: "timed D n c d \<Longrightarrow> clk (miner (snd d)) = (TIMER0_COMPA_vect ^^ n) (clk (miner (snd c)))"
  by (induction rule: timed.induct) (simp_all add: miner_do_def)

lemma timed_inv: "timed D n c d \<Longrightarrow> miner_inv (miner (snd c)) \<Longrightarrow> miner_inv (miner (snd d))"
  by (induction rule: timed.induct) (auto simp: miner_do_def intro: inv.step_keeps)

text \<open>Only the \<open>W\<close> command sets the work timer; the service routine stops it or leaves it alone.\<close>

lemma cmd_W_timer: "work_timer (app (cmd_W m)) = timerSet (clk (cmd_W m)) (work_timer (app m)) 16000"
  by (simp add: cmd_W_def Let_def split_beta)

lemma serialProcess_timer:
  "work_timer (app (serialProcess m)) = work_timer (app m) \<or> serialProcess m = cmd_W m"
  by (simp add: serialProcess_def Let_def)

lemma appService_timer:
  "work_timer (app (appService m)) = work_timer (app m) \<or> \<not> timerActive (work_timer (app (appService m)))"
  using timerExpired_state [of "clk m" "work_timer (app m)"]
  by (auto simp: appService_def service_report_def service_timer_def Let_def split_beta timer_stopped_silent)

lemma main_receive_timer:
  fixes s :: "'h firmware"
  assumes "main_receive D s = Some s'"
  shows "work_timer (app (miner s')) = work_timer (app (miner s)) \<or> (\<exists>m. miner s' = cmd_W m)"
proof -
  let ?I = "\<lambda>t :: 'h firmware. work_timer (app (miner t)) = work_timer (app (miner s))"
  have k: "miner (snd (CDC_Device_ReceiveByte D t)) = miner t" "miner (snd (CDC_Device_BytesReceived D t)) = miner t" for t :: "'h firmware"
    by (rule miner_more, simp add: cdc_data_more)+
  have loop: "?I t'" if "loop (receive_turn D) t = Some t'" "?I t" for t t'
    using that by (rule loop_invariant [where I = ?I]) (auto simp: receive_turn_def Let_def split_beta k split: if_splits)
  show ?thesis
    using assms k(2) [of s] serialProcess_timer
    by (auto simp: main_receive_def appUsbDataReceived_def Let_def split_beta bind_eq_Some_conv split: if_splits dest!: loop) metis+
qed

interpretation timer: miner_output "\<lambda>m. work_timer (app m) = w \<or> \<not> timerActive (work_timer (app m))" for w
proof
  fix m :: miner assume "work_timer (app m) = w \<or> \<not> timerActive (work_timer (app m))"
  then show "work_timer (app (appService m)) = w \<or> \<not> timerActive (work_timer (app (appService m)))"
    using appService_timer [of m] by auto
qed auto

text \<open>
  \<open>set_since D c n d\<close>: in a run from \<open>c\<close> that has come to \<open>d\<close> in \<open>n\<close> ticks, the work timer, if it is running, was set
  by a \<open>W\<close> command that was executed in the run, and not touched since, or it is still the one of \<open>c\<close>.
\<close>

definition set_since :: "'h io \<Rightarrow> pc \<times> 'h firmware \<Rightarrow> nat \<Rightarrow> pc \<times> 'h firmware \<Rightarrow> bool" where
  "set_since D c n d \<longleftrightarrow> (timerActive (work_timer (app (miner (snd d)))) \<longrightarrow>
     work_timer (app (miner (snd d))) = work_timer (app (miner (snd c)))
     \<or> (\<exists>k u u' m. k \<le> n \<and> timed D k c (At_receive, u) \<and> main_receive D u = Some u' \<and> miner u' = cmd_W m
          \<and> timed D (n - k) (At_send, u') d \<and> work_timer (app (miner (snd d))) = work_timer (app (miner u'))))"

lemma set_since_on:
  assumes "set_since D c n (p, s)"
    and w: "work_timer (app (miner t)) = work_timer (app (miner s)) \<or> \<not> timerActive (work_timer (app (miner t)))"
    and on: "\<And>k e. timed D k e (p, s) \<Longrightarrow> timed D (k + j) e (q, t)"
  shows "set_since D c (n + j) (q, t)"
  unfolding set_since_def snd_conv
proof
  assume act: "timerActive (work_timer (app (miner t)))"
  with w have same: "work_timer (app (miner t)) = work_timer (app (miner s))" by simp
  from assms(1) act consider "work_timer (app (miner s)) = work_timer (app (miner (snd c)))"
    | k u u' m where "k \<le> n" "timed D k c (At_receive, u)" "main_receive D u = Some u'" "miner u' = cmd_W m"
      "timed D (n - k) (At_send, u') (p, s)" "work_timer (app (miner s)) = work_timer (app (miner u'))"
    unfolding set_since_def snd_conv same by blast
  then show "work_timer (app (miner t)) = work_timer (app (miner (snd c)))
     \<or> (\<exists>k u u' m. k \<le> n + j \<and> timed D k c (At_receive, u) \<and> main_receive D u = Some u' \<and> miner u' = cmd_W m
          \<and> timed D (n + j - k) (At_send, u') (q, t) \<and> work_timer (app (miner t)) = work_timer (app (miner u')))"
  proof cases
    case 1
    with same show ?thesis by simp
  next
    case 2
    have "timed D (n + j - k) (At_send, u') (q, t)" using on [OF 2(5)] 2(1) by simp
    with 2 same show ?thesis by (intro disjI2 exI [of _ k] exI [of _ u] exI [of _ u'] exI [of _ m]) simp
  qed
qed

lemma timed_set: "timed D n c d \<Longrightarrow> set_since D c n d"
proof (induction rule: timed.induct)
  case (ti_refl c)
  show ?case by (simp add: set_since_def)
next
  case (ti_tick n c p s)
  have "set_since D c (n + 1) (p, miner_do (\<lambda>k. k\<lparr>clk := TIMER0_COMPA_vect (clk k)\<rparr>) s)"
    by (rule set_since_on [OF ti_tick.IH]) (simp add: miner_do_def, simp add: timed.ti_tick)
  then show ?case by simp
next
  case (ti_step n c p s q t)
  let ?w = "work_timer (app (miner s))"
  consider "work_timer (app (miner t)) = ?w \<or> \<not> timerActive (work_timer (app (miner t)))"
    | m where "p = At_receive" "q = At_send" "main_receive D s = Some t" "miner t = cmd_W m"
    using timer.step_keeps_or_receives [OF ti_step.hyps(2), of ?w] main_receive_timer [of D s t]
    by (auto simp: miner_do_def)
  then show ?case
  proof cases
    case 1
    have "set_since D c (n + 0) (q, t)"
      by (rule set_since_on [OF ti_step.IH 1]) (simp add: timed.ti_step [OF _ ti_step.hyps(2,3)])
    then show ?thesis by simp
  next
    case 2
    have "timed D (n - n) (At_send, t) (q, t)" using 2(2) by (simp add: timed.ti_refl)
    with 2 ti_step.hyps(1) show ?thesis unfolding set_since_def snd_conv
      by (intro impI disjI2 exI [of _ n] exI [of _ s] exI [of _ t] exI [of _ m]) simp
  qed
qed

text \<open>What the service routine leaves running has run for at most 16 s.\<close>

lemma service_deadline:
  assumes "timerActive (work_timer (app (appService m)))" "t_interval (work_timer (app m)) = 16000"
    and "clk_time (clk m) - t_start (work_timer (app m)) = of_nat n" "n < 2 ^ 32"
  shows "n \<le> 16000"
proof -
  have same: "work_timer (app (appService m)) = work_timer (app m)" using appService_timer [of m] assms(1) by auto
  have "timerStop (work_timer (app m)) \<noteq> work_timer (app m)" using assms(1) same timerStop_inactive by metis
  then have "\<not> fst (timerExpired (clk m) (work_timer (app m)))"
    using assms(1) same timerExpired_state [of "clk m" "work_timer (app m)"]
    by (auto simp: appService_def service_report_def service_timer_def Let_def split_beta timer_stopped_silent split: if_splits)
  then have "\<not> (16000 :: u32) < of_nat n" using same assms(1-3) by (simp add: timerExpired_iff)
  then show ?thesis using assms(4) unat_of_nat_u32 [of n] by (simp add: word_less_nat_alt)
qed

lemma work_accepted:
  assumes "app_ok (app m)" "ring_list (rx_buffer (app m)) = CMD_W # frame" "44 \<le> length frame"
  shows "serialProcess m = cmd_W m"
proof -
  have "RingBuffer_Peek (rx_buffer (app m)) = CMD_W" "RingBuffer_GetCount (rx_buffer (app m)) \<noteq> 0"
    "RingBuffer_GetCount (rx_buffer (app m)) > 44"
    using ring_Peek [OF _ assms(2)] assms count_gt_44 [of "rx_buffer (app m)"]
    by (auto simp: app_ok_def ring_empty_iff simp del: length_ring_list)
  then show ?thesis by (simp add: serialProcess_def Let_def)
qed

lemma timed_deadline:
  fixes s t :: "'h firmware"
  assumes "timed D n (p, s) (q, t)" "miner s = cmd_W m" "work_timer (app (miner t)) = work_timer (app (miner s))"
    and "timerActive (work_timer (app (appService (miner t))))" "n < 2 ^ 32"
  shows "n \<le> 16000"
proof (rule service_deadline [OF assms(4)])
  show "t_interval (work_timer (app (miner t))) = 16000" using assms(2,3) by (simp add: cmd_W_timer timerSet_def)
  show "clk_time (clk (miner t)) - t_start (work_timer (app (miner t))) = of_nat n"
    using timed_clk [OF assms(1)] assms(2,3) by (simp add: cmd_W_timer timerSet_def clockGetTime_def ticks_time)
qed (rule assms(5))

section \<open>Bytes on the data endpoint\<close>

definition tx_list :: "'h firmware \<Rightarrow> u8 list" where
  "tx_list s = ring_list (USARTtoUSB_Buffer (app (miner s)))"

definition tx_ok :: "'h firmware \<Rightarrow> bool" where
  "tx_ok s \<longleftrightarrow> ring_ok (USARTtoUSB_Buffer (app (miner s)))"

interpretation miner_tx: usb_sender D "\<lambda>s :: 'h tapped firmware. USARTtoUSB_Buffer (app (miner s))"
    "miner_do (\<lambda>k. k\<lparr>app := (app k)\<lparr>USARTtoUSB_Buffer := snd (RingBuffer_Remove (USARTtoUSB_Buffer (app k)))\<rparr>\<rparr>)"
    "send_loop (tap D)" for D :: "'h io"
  by unfold_locales (auto simp: miner_do_def dest: miner_more)

lemma send_loop_fifo:
  assumes "send_loop (tap D) n s = Some s'" "tx_ok s" "n \<le> length (tx_list s)"
  shows "\<exists>k. sent (hw s') = sent (hw s) @ take k (tx_list s) \<and> tx_list s' = drop k (tx_list s) \<and> tx_ok s'"
  using miner_tx.send_fifo [OF assms(1)] assms(2,3) by (simp add: tx_list_def tx_ok_def)

lemma main_send_fifo:
  assumes "main_send (tap D) s = Some s'" "tx_ok s"
  shows "\<exists>k. sent (hw s') = sent (hw s) @ take k (tx_list s) \<and> tx_list s' = drop k (tx_list s) \<and> tx_ok s'"
proof -
  let ?n = "unat (RingBuffer_GetCount (USARTtoUSB_Buffer (app (miner s))))"
  have len: "?n = length (tx_list s)" by (simp add: tx_list_def RingBuffer_GetCount_def)
  have eq: "hw (miner_do f u) = hw u" for f and u :: "'a tapped firmware" by (simp add: miner_do_def)
  show ?thesis
  proof (cases "fst (timerExpired (clk (miner s)) (main_timer (miner s))) \<or> RingBuffer_GetCount (USARTtoUSB_Buffer (app (miner s))) > 0")
    case True
    then obtain t where "send_loop (tap D) ?n t = Some s'" "tx_list t = tx_list s" "tx_ok t" "hw t = hw s"
      using assms by (auto simp: main_send_def Let_def split_beta miner_do_def tx_list_def tx_ok_def)
    then show ?thesis using send_loop_fifo [of D ?n t s'] len by auto
  next
    case False
    then show ?thesis using assms
      by (intro exI [of _ 0]) (auto simp: main_send_def Let_def split_beta miner_do_def tx_list_def tx_ok_def)
  qed
qed

lemma receive_loop_tap:
  fixes s :: "'h tapped firmware"
  assumes "loop (receive_turn (tap D)) s = Some s'"
  shows "\<exists>bs. taken (hw s') = taken (hw s) @ bs \<and> miner s' = receive bs (miner s)"
  using assms
proof (rule loop_invariant [where I = "\<lambda>t. \<exists>bs. taken (hw t) = taken (hw s) @ bs \<and> miner t = receive bs (miner s)"])
  show "\<exists>bs. taken (hw s) = taken (hw s) @ bs \<and> miner s = receive bs (miner s)"
    by (intro exI [of _ "[]"]) (simp add: receive_def)
next
  fix t :: "'h tapped firmware"
  assume "\<exists>bs. taken (hw t) = taken (hw s) @ bs \<and> miner t = receive bs (miner s)"
  then obtain bs where bs: "taken (hw t) = taken (hw s) @ bs" "miner t = receive bs (miner s)" by blast
  have k: "miner (snd (CDC_Device_ReceiveByte (tap D) t)) = miner t"
    by (rule miner_more) (simp add: cdc_data_more)
  note r = ReceiveByte_tap [of D t]
  show "\<exists>bs. taken (hw u) = taken (hw s) @ bs \<and> miner u = receive bs (miner s)"
    if "receive_turn (tap D) t = Some (Inr u)" for u
    using that bs k r
    by (intro exI [of _ "bs @ [word_of_int (fst (CDC_Device_ReceiveByte (tap D) t))]"])
      (auto simp: receive_turn_def Let_def split_beta receive_def put_bytes_append split: if_split_asm)
  show "\<exists>bs. taken (hw u) = taken (hw s) @ bs \<and> miner u = receive bs (miner s)"
    if "receive_turn (tap D) t = Some (Inl u)" for u
    using that bs k r
    by (intro exI [of _ bs]) (auto simp: receive_turn_def Let_def split_beta split: if_split_asm)
qed

section \<open>Concrete devices\<close>

lemma quiet_starts: "\<exists>s. main_init quiet (boot_image ()) = Some s"
  by (auto simp: main_init_def SetupHardware_def USB_Init_def USB_ResetInterface_def USB_Init_Device_def
      hw_try_def hw_tryget_def quiet_pll Endpoint_ConfigureEndpoint_def EPSizeMask_8 USB_Options_def Let_def split_beta)

definition talking :: "u8 list \<Rightarrow> u8 list \<Rightarrow> u8 list \<Rightarrow> u8 list tapped firmware" where
  "talking endpoint rx tx = (boot_image (endpoint, [], []))
     \<lparr>cdc := VirtualSerial_CDC_Interface\<lparr>LineEncoding := \<lparr>BaudRateBPS = 115200, CharFormat = 0, ParityType = 0, DataBits = 8\<rparr>\<rparr>,
      miner := (receive rx miner_started)\<lparr>app := usbWrite tx (of_nat (length tx)) (app (receive rx miner_started))\<rparr>\<rparr>"

lemma command_enters_deaf:
  assumes ok: "app_ok (app m)" and rx: "ring_list (rx_buffer (app m)) = cmd # rest"
    and off: "\<not> bit (SPCR (board m)) SPIE"
    and cmd: "cmd = CMD_R \<or> cmd = CMD_A \<or> (cmd = CMD_W \<and> 44 \<le> length rest)"
  shows "deaf (serialProcess m)"
proof -
  have "RingBuffer_Peek (rx_buffer (app m)) = cmd" "RingBuffer_GetCount (rx_buffer (app m)) \<noteq> 0"
    "RingBuffer_GetCount (rx_buffer (app m)) > 44 \<longleftrightarrow> 44 \<le> length rest"
    using ring_Peek [OF _ rx] ok rx count_gt_44 [of "rx_buffer (app m)"]
    by (auto simp: app_ok_def ring_empty_iff simp del: length_ring_list)
  then show ?thesis
    using cmd off by (auto simp: deaf_def serialProcess_def cmd_W_def Let_def split_beta)
qed

lemma spi_interrupt_miner:
  "app (miner (spi_interrupt D s)) = app (miner s)" "\<not> bit (SPCR (board (miner (spi_interrupt D s)))) SPIE"
  by (simp_all add: spi_interrupt_def miner_do_def Let_def split_beta SPI_STC_vect_frame bit_simps bit_BV)

section \<open>Properties\<close>

text \<open>C1. In every state the firmware can reach, with interrupts between any two statements of the
  main loop and any behaviour of the USB controller, the SPI unit and the host: both ring buffers
  stay inside their arrays, the work unit keeps its size, the status is working or reset, and
  while it is working the 16 s timer is armed.\<close>

theorem firmware_invariant:
  assumes "reachable D (p, s)"
  shows "miner_safe (miner s)
    \<and> state (app_state (app (miner s))) \<in> {STATE_WORKING, STATE_RESET}
    \<and> (state (app_state (app (miner s))) = STATE_WORKING \<longrightarrow>
         timerActive (work_timer (app (miner s))) \<and> t_interval (work_timer (app (miner s))) = 16000)"
  using reachable_inv [OF assms] by (auto simp: miner_inv_def)

theorem firmware_invariant_witness:
  "\<exists>s. reachable quiet (At_receive, s) \<and> miner_safe (miner s)"
proof -
  obtain s where "main_init quiet (boot_image ()) = Some s" using quiet_starts by blast
  then have "reachable quiet (At_receive, s)" by (rule re_start)
  with firmware_invariant [OF this] show ?thesis by blast
qed

text \<open>C12. The sending half of the main loop neither loses nor duplicates nor reorders bytes: what
  it writes into the endpoint is a prefix of the output buffer, and exactly that prefix leaves
  the buffer, however the endpoint behaves.\<close>

theorem main_send_in_order:
  assumes "main_send (tap D) s = Some s'" "tx_ok s"
  shows "\<exists>k. sent (hw s') = sent (hw s) @ take k (tx_list s) \<and> tx_list s' = drop k (tx_list s) \<and> tx_ok s'"
  using assms by (rule main_send_fifo)

lemma online_SendByte:
  "BaudRateBPS (LineEncoding (cdc s)) \<noteq> 0 \<Longrightarrow>
     \<exists>s'. CDC_Device_SendByte (tap online) b s = Some (0, s') \<and> cdc s' = cdc s"
  by (simp add: CDC_Device_SendByte_def cdc_down_def hw_defs USB_DeviceState_def Endpoint_IsReadWriteAllowed_def
      Endpoint_SelectEndpoint_def io_test_bit tap_def online_def Let_def split_beta)

lemma online_send_loop:
  "BaudRateBPS (LineEncoding (cdc s)) \<noteq> 0 \<Longrightarrow> \<exists>s'. send_loop (tap online) n s = Some s'"
proof (induction n arbitrary: s)
  case (Suc n)
  obtain t where "CDC_Device_SendByte (tap online) (RingBuffer_Peek (USARTtoUSB_Buffer (app (miner s)))) s = Some (0, t)"
    "cdc t = cdc s" using online_SendByte [OF Suc.prems] by blast
  with Suc show ?case by (simp add: miner_do_def)
qed simp

lemma online_main_send:
  "BaudRateBPS (LineEncoding (cdc s)) \<noteq> 0 \<Longrightarrow> \<exists>s'. main_send (tap online) s = Some s'"
  by (simp add: main_send_def Let_def split_beta miner_do_def online_send_loop)

lemma talking_tx: "length tx \<le> 255 \<Longrightarrow> tx_ok (talking e [] tx)" "length tx \<le> 255 \<Longrightarrow> tx_list (talking e [] tx) = tx"
proof -
  assume len: "length tx \<le> 255"
  then have n: "unat (of_nat (length tx) :: u8) = length tx" by (simp add: unat_of_nat take_bit_nat_eq_self)
  from usbWrite_out [OF started_receive(1) [of "[]"] _ n] started_receive [of "[]"] len
  show "tx_ok (talking e [] tx)" "tx_list (talking e [] tx) = tx"
    by (simp_all add: tx_ok_def tx_list_def talking_def app_ok_def)
qed

theorem main_send_in_order_witness:
  "\<exists>s' k. main_send (tap online) (talking [] [] [7, 8]) = Some s' \<and> sent (hw s') = take k [7, 8] \<and> tx_list s' = drop k [7, 8]"
proof -
  obtain s' where "main_send (tap online) (talking [] [] [7, 8]) = Some s'"
    using online_main_send [of "talking [] [] [7, 8]"] by (auto simp: talking_def)
  with main_send_in_order [OF this] talking_tx [of "[7, 8]" "[]"] show ?thesis
    by (auto simp: talking_def sent_def boot_image_def)
qed

text \<open>C13. The receiving half puts exactly the bytes it took from the endpoint, in order, at the end
  of the input buffer and then lets the interpreter handle one command.\<close>

theorem received_in_order:
  assumes "appUsbDataReceived (tap D) s = Some s'"
  shows "\<exists>bs. taken (hw s') = taken (hw s) @ bs \<and> miner s' = serialProcess (receive bs (miner s))"
proof -
  obtain t where "loop (receive_turn (tap D)) s = Some t" "s' = t\<lparr>miner := serialProcess (miner t)\<rparr>"
    using assms by (auto simp: appUsbDataReceived_def bind_eq_Some_conv)
  with receive_loop_tap [of D s t] show ?thesis by auto
qed

theorem received_in_order_witness:
  "\<exists>s' bs. appUsbDataReceived (tap online) (talking [0x53] [] []) = Some s' \<and> taken (hw s') = bs
     \<and> miner s' = serialProcess (receive bs (miner (talking [0x53] [] [])))"
proof -
  have turn1: "\<exists>u. receive_turn (tap online) (talking [0x53] [] []) = Some (Inr u) \<and> hw u = ([], [], [0x53])
      \<and> BaudRateBPS (LineEncoding (cdc u)) = 115200"
    by (simp add: receive_turn_def CDC_Device_ReceiveByte_def cdc_down_def hw_defs USB_DeviceState_def
        Endpoint_SelectEndpoint_def Endpoint_IsOUTReceived_def Endpoint_BytesInEndpoint_def Endpoint_Read_8_def
        Endpoint_ClearOUT_def io_test_bit io_and_def tap_def online_def talking_def boot_image_def VirtualSerial_CDC_Interface_def
        Let_def split_beta)
  then obtain u where u: "receive_turn (tap online) (talking [0x53] [] []) = Some (Inr u)" "hw u = ([], [], [0x53])"
    "BaudRateBPS (LineEncoding (cdc u)) = 115200" by blast
  have "\<exists>v. receive_turn (tap online) u = Some (Inl v)"
    using u(2,3) by (simp add: receive_turn_def CDC_Device_ReceiveByte_def cdc_down_def hw_defs USB_DeviceState_def
        Endpoint_SelectEndpoint_def Endpoint_IsOUTReceived_def io_test_bit tap_def online_def Let_def split_beta)
  then obtain v where "appUsbDataReceived (tap online) (talking [0x53] [] []) = Some v"
    using u(1) by (auto simp: appUsbDataReceived_def loop_turn)
  with received_in_order [OF this] show ?thesis by (auto simp: talking_def boot_image_def taken_def)
qed

text \<open>C5. A nonce report is lost for good when a reset, stop or work command is handled between the
  SPI interrupt and the service routine: the command clears the report, and the interrupt, which
  only the report branch of the service routine re-enables, stays off in every later state, so
  that no report is ever seen again.\<close>

theorem lost_report:
  assumes "app_ok (app (miner s))" "ring_list (rx_buffer (app (miner s))) = cmd # rest"
    and "cmd = CMD_R \<or> cmd = CMD_A \<or> (cmd = CMD_W \<and> 44 \<le> length rest)"
    and "(step D)\<^sup>*\<^sup>* (p, miner_do serialProcess (spi_interrupt D s)) (q, t)"
  shows "\<not> bit (SPCR (board (miner t))) SPIE \<and> asicReportValid (board (miner t)) = 0"
proof -
  have "deaf (miner (miner_do serialProcess (spi_interrupt D s)))"
    using command_enters_deaf [of "miner (spi_interrupt D s)" cmd rest] assms(1-3) spi_interrupt_miner [of D s]
    by (simp add: miner_do_def)
  with deaf.steps_keep [OF assms(4)] show ?thesis by (simp add: deaf_def asicReportValid_def)
qed

theorem lost_report_witness:
  "\<not> bit (SPCR (board (miner (miner_do serialProcess (spi_interrupt (tap online) (talking [] [CMD_R] [])))))) SPIE"
proof -
  have "app_ok (app (miner (talking [] [CMD_R] [])))" "ring_list (rx_buffer (app (miner (talking [] [CMD_R] [])))) = [CMD_R]"
    using started_receive [of "[CMD_R]"] by (simp_all add: talking_def usbWrite_def)
  then show ?thesis
    using lost_report [of "talking [] [CMD_R] []" CMD_R "[]" "tap online" At_receive At_receive
        "miner_do serialProcess (spi_interrupt (tap online) (talking [] [CMD_R] []))"] by blast
qed

text \<open>C6. No work unit runs for longer than 16 s past the next call of the service routine. Let a \<open>W\<close> frame have
  been accepted, and let the firmware run on in any way (its main loop and its interrupts in any order,
  reports and further commands included) until it is about to call the service routine, more than 16000
  and fewer than \<open>2 ^ 32\<close> ticks later. After the call, whether or not a report was waiting, the status is
  reset and the timer stopped, unless the firmware has in the meantime executed another \<open>W\<close> command, and
  that at most 16000 ticks ago.\<close>

theorem work_bounded:
  fixes D :: "'h io"
  assumes "miner_inv m" "app_ok (app m)" "ring_list (rx_buffer (app m)) = CMD_W # frame" "44 \<le> length frame"
    and "miner s = serialProcess m" "timed D n (p, s) (At_service, t)" "16000 < n" "n < 2 ^ 32"
  shows "let m' = miner (main_service t)
         in (state (app_state (app m')) = STATE_RESET \<and> \<not> timerActive (work_timer (app m')))
          \<or> (\<exists>k u u' w. k \<le> n \<and> n - k \<le> 16000 \<and> timed D k (p, s) (At_receive, u)
                 \<and> main_receive D u = Some u' \<and> miner u' = cmd_W w \<and> timed D (n - k) (At_send, u') (At_service, t))"
proof (cases "timerActive (work_timer (app (appService (miner t))))")
  case False
  have "miner_inv (appService (miner t))"
    using timed_inv [OF assms(6)] assms(1,5) by (simp add: serialProcess_inv appService_inv)
  with False show ?thesis by (auto simp: Let_def main_service_def miner_do_def miner_inv_def)
next
  case True
  then have act: "timerActive (work_timer (app (miner t)))" using appService_timer [of "miner t"] by auto
  have s: "miner s = cmd_W m" using work_accepted [OF assms(2-4)] assms(5) by simp
  have "work_timer (app (miner t)) \<noteq> work_timer (app (miner s))" using timed_deadline [OF assms(6) s _ True assms(8)] assms(7) by auto
  then obtain k u u' w where k: "k \<le> n" "timed D k (p, s) (At_receive, u)" "main_receive D u = Some u'" "miner u' = cmd_W w"
      "timed D (n - k) (At_send, u') (At_service, t)" "work_timer (app (miner t)) = work_timer (app (miner u'))"
    using timed_set [OF assms(6)] act by (auto simp: set_since_def)
  have "n - k \<le> 16000" using timed_deadline [OF k(5,4,6) True] assms(8) by simp
  with k show ?thesis by (simp add: Let_def) blast
qed

lemma receive_inv: "miner_inv m \<Longrightarrow> miner_inv (receive bs m)"
proof (induction bs arbitrary: m)
  case (Cons b bs)
  then show ?case using rx_insert_inv [OF Cons.prems, of b] by (fastforce simp: receive_def)
qed (simp add: receive_def)

lemma started_inv: "miner_inv miner_started"
  by (simp add: miner_started_def appInit_def miner_off_def Let_def miner_inv_def miner_safe_def work_ok_def ring_safe_def
      RingBuffer_InitBuffer_def)

lemma timed_ticks: "timed D n c (p, s) \<Longrightarrow> \<exists>t. timed D (n + k) c (p, t)"
  by (induction k) (auto intro: ti_tick)

theorem work_bounded_witness:
  "let s = (talking [] [] [])\<lparr>miner := serialProcess (receive (CMD_W # replicate 44 0) miner_started)\<rparr>
   in \<exists>t. timed (tap online) 16001 (At_send, s) (At_service, t)
     \<and> (let m' = miner (main_service t)
        in (state (app_state (app m')) = STATE_RESET \<and> \<not> timerActive (work_timer (app m')))
          \<or> (\<exists>k u u' w. k \<le> 16001 \<and> 16001 - k \<le> 16000 \<and> timed (tap online) k (At_send, s) (At_receive, u)
                 \<and> main_receive (tap online) u = Some u' \<and> miner u' = cmd_W w \<and> timed (tap online) (16001 - k) (At_send, u') (At_service, t)))"
proof -
  let ?m = "receive (CMD_W # replicate 44 0) miner_started"
  let ?s = "(talking [] [] [])\<lparr>miner := serialProcess ?m\<rparr>"
  obtain t where t: "main_send (tap online) ?s = Some t" using online_main_send [of ?s] by (auto simp: talking_def)
  have "timed (tap online) 0 (At_send, ?s) (At_service, t)"
    using ti_step [OF ti_refl st_send [OF t]] clock.main_send_keeps [OF t] by simp
  then obtain u where u: "timed (tap online) 16001 (At_send, ?s) (At_service, u)"
    using timed_ticks [of "tap online" 0 "(At_send, ?s)" At_service t 16001] by auto
  have "miner_inv ?m" by (rule receive_inv) (rule started_inv)
  from work_bounded [OF this _ _ _ _ u, of "replicate 44 0"] u started_receive [of "CMD_W # replicate 44 0"]
  show ?thesis by (simp add: Let_def) blast
qed

end
