(* ===== verification/Host_Driver.thy ===== *)
theory Host_Driver
  imports Prelude
begin

text \<open>
  The bfgminer driver of the device, \<open>src/bfgminer-driver/driver-miniminer1.c\<close> and \<open>.h\<close>. The
  functions of bfgminer and of the serial port it calls are not part of the repository: they are
  the fields of \<open>host\<close>, and \<open>'e\<close> is the state of the rest of the miner and of the serial line.
  Memory the C code writes past the end of is an error value (\<open>None\<close>).
\<close>

section \<open>driver-miniminer1.h\<close>

definition MMO_BAUD :: u32 where "MMO_BAUD = 115200"

record MMOIdentity =
  mmo_version :: u8
  mmo_product :: "u8 list"
  mmo_serial :: u32

record MMOState =
  mmo_state :: u8
  mmo_nonce_valid :: u8
  mmo_nonce :: u32

record MMOInfo =
  mmo_baud :: u32
  mmo_id :: MMOIdentity

record cgpu_info =
  device_path :: string
  device_fd :: int
  threads :: nat
  device_data :: MMOInfo

text \<open>The fields of bfgminer's \<open>struct work\<close> the driver uses.\<close>

record work =
  work_midstate :: "u8 list"
  work_data :: "u8 list"
  blk_nonce :: u32

record 'e host =
  serial_open :: "string \<Rightarrow> u32 \<Rightarrow> 'e \<Rightarrow> int \<times> 'e"
  serial_read :: "int \<Rightarrow> nat \<Rightarrow> 'e \<Rightarrow> u8 list \<times> 'e"
  serial_write :: "int \<Rightarrow> u8 list \<Rightarrow> 'e \<Rightarrow> 'e"
  serial_close :: "int \<Rightarrow> 'e \<Rightarrow> 'e"
  serial_claim :: "string \<Rightarrow> 'e \<Rightarrow> bool \<times> 'e"
  serial_detect :: "(string \<Rightarrow> 'e \<Rightarrow> bool \<times> 'e) \<Rightarrow> 'e \<Rightarrow> 'e"
  add_cgpu :: "cgpu_info \<Rightarrow> 'e \<Rightarrow> 'e"
  work_restart :: "'e \<Rightarrow> bool \<times> 'e"
  restart_wait :: "nat \<Rightarrow> 'e \<Rightarrow> bool \<times> 'e"
  notifier_init :: "'e \<Rightarrow> 'e"
  submit_nonce :: "work \<Rightarrow> u32 \<Rightarrow> 'e \<Rightarrow> 'e"
  swap32yes :: "u8 list \<Rightarrow> nat \<Rightarrow> u8 list"
  sha256 :: "u8 list \<Rightarrow> u8 list"

section \<open>driver-miniminer1.c\<close>

text \<open>\<open>htobe32\<close> on the little-endian host: the image in memory is big endian.\<close>

definition mmo_checkNonce :: "'e host \<Rightarrow> work \<Rightarrow> u32 \<Rightarrow> bool" where
  "mmo_checkNonce H work nonce =
     (let swap = swap32yes H (work_data work) (76 div 4) @ rev (bytes_of_u32 nonce);
          hash1 = sha256 H swap;
          hash2 = sha256 H hash1
      in u32_of_bytes (drop 28 hash2) = 0)"

text \<open>The second \<open>serial_claim\<close> is the one that asks for the owner's name.\<close>

definition mmo_detect_custom :: "'e host \<Rightarrow> string \<Rightarrow> MMOInfo \<Rightarrow> 'e \<Rightarrow> bool \<times> MMOInfo \<times> 'e" where
  "mmo_detect_custom H devpath info e =
     (let (fd, e) = serial_open H devpath (mmo_baud info) e in
      if fd < 0 then (False, info, e)
      else
        let e = serial_write H fd [0x49] e;
            (buf, e) = serial_read H fd 14 e;
            e = serial_close H fd e
        in if length buf \<noteq> 14 then (False, info, e)
        else
          let info = info\<lparr>mmo_id := \<lparr>mmo_version = buf ! 1, mmo_product = take 8 (drop 2 buf),
                       mmo_serial = u32_of_bytes (take 4 (drop 10 buf))\<rparr>\<rparr>;
              (claimed, e) = serial_claim H devpath e
          in if claimed then (False, info, snd (serial_claim H devpath e))
          else (True, info, add_cgpu H \<lparr>device_path = devpath, device_fd = -1, threads = 1, device_data = info\<rparr> e))"

text \<open>\<open>calloc\<close> gives a zeroed structure; on failure it is freed again.\<close>

definition mmo_detect_one :: "'e host \<Rightarrow> string \<Rightarrow> 'e \<Rightarrow> bool \<times> 'e" where
  "mmo_detect_one H devpath e =
     (let info = \<lparr>mmo_baud = MMO_BAUD, mmo_id = \<lparr>mmo_version = 0, mmo_product = replicate 8 0, mmo_serial = 0\<rparr>\<rparr>;
          (found, _, e) = mmo_detect_custom H devpath info e
      in (found, e))"

definition mmo_detect :: "'e host \<Rightarrow> 'e \<Rightarrow> 'e" where
  "mmo_detect H e = serial_detect H (mmo_detect_one H) e"

definition mmo_init :: "'e host \<Rightarrow> cgpu_info \<Rightarrow> 'e \<Rightarrow> bool \<times> cgpu_info \<times> 'e" where
  "mmo_init H mmo e =
     (let (fd, e) = serial_open H (device_path mmo) (mmo_baud (device_data mmo)) e in
      if fd = -1 then (False, mmo, e)
      else (True, mmo\<lparr>device_fd := fd\<rparr>, notifier_init H e))"

definition mmo_sendbuf :: "work \<Rightarrow> u8 list" where
  "mmo_sendbuf w = [0x57] @ take 32 (work_midstate w) @ take 12 (drop 64 (work_data w))"

definition mmo_parse :: "u8 list \<Rightarrow> MMOState" where
  "mmo_parse buffer = \<lparr>mmo_state = buffer ! 1, mmo_nonce_valid = buffer ! 2,
     mmo_nonce = u32_of_bytes (take 4 (drop 3 buffer))\<rparr>"

text \<open>
  One turn of the polling loop. The loop ends with the value of \<open>nonce_count\<close>; \<open>overflow\<close> is
  never set.
\<close>

definition scan_turn :: "'e host \<Rightarrow> int \<Rightarrow> work \<Rightarrow> 'e \<Rightarrow> ((u32 \<times> 'e) + 'e) option" where
  "scan_turn H fd work e =
     (let (restart, e) = work_restart H e in
      if restart then Some (Inl (0, e))
      else
        let (more, e) = restart_wait H 250 e in
        if \<not> more then Some (Inl (0, e))
        else
          let (buffer, e) = serial_read H fd 7 e;
              st = mmo_parse buffer
          in if length buffer = 7 \<and> mmo_nonce_valid st = 1 then
               Some (Inl (mmo_nonce st, submit_nonce H work (mmo_nonce st) e))
             else if length buffer = 7 \<and> mmo_state st = 0x52 then Some (Inl (0xFFFFFFFF, e))
             else let (restart, e) = work_restart H e in
               if restart then Some (Inl (0, e)) else Some (Inr e))"

definition mmo_scanhash :: "'e host \<Rightarrow> cgpu_info \<Rightarrow> work \<Rightarrow> 'e \<Rightarrow> (int \<times> work \<times> 'e) option" where
  "mmo_scanhash H board work e =
     do {
       let e = serial_write H (device_fd board) (mmo_sendbuf work) e;
       (nonce_count, e) \<leftarrow> loop (scan_turn H (device_fd board) work) e;
       Some (uint nonce_count, work\<lparr>blk_nonce := 0xFFFFFFFF\<rparr>, e)
     }"

text \<open>
  \<open>strlen(info->id.product)\<close>: the array has no terminator of its own, so the search runs on into
  the serial number that follows it in the packed structure; past that the result is undefined.
\<close>

definition product_strlen :: "MMOIdentity \<Rightarrow> nat option" where
  "product_strlen i =
     (let mem = mmo_product i @ bytes_of_u32 (mmo_serial i)
      in if 0 \<in> set mem then Some (length (takeWhile (\<lambda>c. c \<noteq> 0) mem)) else None)"

text \<open>\<open>%08X\<close>.\<close>

definition hex_digit :: "u32 \<Rightarrow> u8" where
  "hex_digit d = (if d < 10 then 48 + ucast d else 55 + ucast d)"

definition hex8 :: "u32 \<Rightarrow> u8 list" where
  "hex8 w = map (\<lambda>i. hex_digit (drop_bit (28 - 4 * i) w AND 0xF)) [0..<8]"

definition store :: "nat \<Rightarrow> u8 list \<Rightarrow> u8 list \<Rightarrow> u8 list option" where
  "store off bs buf =
     (if off + length bs \<le> length buf then Some (take off buf @ bs @ drop (off + length bs) buf) else None)"

text \<open>The text handed to \<open>tailsprintf\<close>, up to its terminator.\<close>

definition mmo_statline :: "MMOInfo option \<Rightarrow> u8 list option" where
  "mmo_statline device =
     do {
       let before = replicate 16 32 @ [0];
       before \<leftarrow> (case device of
           None \<Rightarrow> Some before
         | Some info \<Rightarrow> do {
             len \<leftarrow> product_strlen (mmo_id info);
             before \<leftarrow> store 0 (take len (mmo_product (mmo_id info) @ bytes_of_u32 (mmo_serial (mmo_id info)))) before;
             store (len + 1) (hex8 (mmo_serial (mmo_id info)) @ [0]) before
           });
       Some (takeWhile (\<lambda>c. c \<noteq> 0) before)
     }"

definition mmo_shutdown :: "'e host \<Rightarrow> cgpu_info \<Rightarrow> 'e \<Rightarrow> 'e" where
  "mmo_shutdown H cgpu e = serial_close H (device_fd cgpu) e"

record 'e device_drv =
  dname :: string
  name :: string
  drv_detect :: "'e host \<Rightarrow> 'e \<Rightarrow> 'e"
  override_statline_temp2 :: "MMOInfo option \<Rightarrow> u8 list option"
  scanhash :: "'e host \<Rightarrow> cgpu_info \<Rightarrow> work \<Rightarrow> 'e \<Rightarrow> (int \<times> work \<times> 'e) option"
  thread_init :: "'e host \<Rightarrow> cgpu_info \<Rightarrow> 'e \<Rightarrow> bool \<times> cgpu_info \<times> 'e"
  thread_shutdown :: "'e host \<Rightarrow> cgpu_info \<Rightarrow> 'e \<Rightarrow> 'e"

definition mmo_drv :: "'e device_drv" where
  "mmo_drv = \<lparr>dname = ''MiniMiner One'', name = ''MMO'', drv_detect = mmo_detect,
     override_statline_temp2 = mmo_statline, scanhash = mmo_scanhash, thread_init = mmo_init,
     thread_shutdown = mmo_shutdown\<rparr>"

section \<open>Polling\<close>

text \<open>
  \<open>watch H\<close> is the host \<open>H\<close> with a record of what the driver read from the serial port and of
  the nonces it submitted, each with the work it submitted it for.
\<close>

type_synonym 'e watched = "'e \<times> u8 list list \<times> (work \<times> u32) list"

definition watch :: "'e host \<Rightarrow> 'e watched host" where
  "watch H = \<lparr>
     serial_open = (\<lambda>p b (e, l). let (r, e) = serial_open H p b e in (r, e, l)),
     serial_read = (\<lambda>fd n (e, rs, ns). let (r, e) = serial_read H fd n e in (r, e, rs @ [r], ns)),
     serial_write = (\<lambda>fd bs (e, l). (serial_write H fd bs e, l)),
     serial_close = (\<lambda>fd (e, l). (serial_close H fd e, l)),
     serial_claim = (\<lambda>p (e, l). let (r, e) = serial_claim H p e in (r, e, l)),
     serial_detect = (\<lambda>f (e, l). (serial_detect H (\<lambda>p e. let (b, e, _) = f p (e, l) in (b, e)) e, l)),
     add_cgpu = (\<lambda>c (e, l). (add_cgpu H c e, l)),
     work_restart = (\<lambda>(e, l). let (r, e) = work_restart H e in (r, e, l)),
     restart_wait = (\<lambda>n (e, l). let (r, e) = restart_wait H n e in (r, e, l)),
     notifier_init = (\<lambda>(e, l). (notifier_init H e, l)),
     submit_nonce = (\<lambda>w n (e, rs, ns). (submit_nonce H w n e, rs, ns @ [(w, n)])),
     swap32yes = swap32yes H, sha256 = sha256 H\<rparr>"

definition reads :: "'e watched \<Rightarrow> u8 list list" where "reads t = fst (snd t)"
definition submitted :: "'e watched \<Rightarrow> (work \<times> u32) list" where "submitted t = snd (snd t)"

lemma scan_turn_watch:
  "scan_turn (watch H) fd w t = Some (Inr t') \<Longrightarrow> submitted t' = submitted t"
  "scan_turn (watch H) fd w t = Some (Inl (n, t')) \<Longrightarrow>
     submitted t' = submitted t
     \<or> (submitted t' = submitted t @ [(w, n)] \<and> reads t' \<noteq> [] \<and> length (last (reads t')) = 7
        \<and> mmo_nonce_valid (mmo_parse (last (reads t'))) = 1 \<and> n = mmo_nonce (mmo_parse (last (reads t'))))"
  by (auto simp: scan_turn_def watch_def reads_def submitted_def Let_def split_beta split: if_splits)

lemma mmo_scanhash_watch:
  assumes "mmo_scanhash (watch H) board w t = Some (r, w', t')"
  shows "submitted t' = submitted t
     \<or> (submitted t' = submitted t @ [(w, mmo_nonce (mmo_parse (last (reads t'))))] \<and> length (last (reads t')) = 7
        \<and> mmo_nonce_valid (mmo_parse (last (reads t'))) = 1 \<and> r = uint (mmo_nonce (mmo_parse (last (reads t')))))"
proof -
  let ?t = "serial_write (watch H) (device_fd board) (mmo_sendbuf w) t"
  obtain n where l: "loop (scan_turn (watch H) (device_fd board) w) ?t = Some (n, t')" and r: "r = uint n"
    using assms by (auto simp: mmo_scanhash_def Let_def bind_eq_Some_conv)
  let ?Q = "\<lambda>(n, u). submitted u = submitted t
     \<or> (submitted u = submitted t @ [(w, n)] \<and> length (last (reads u)) = 7
        \<and> mmo_nonce_valid (mmo_parse (last (reads u))) = 1 \<and> n = mmo_nonce (mmo_parse (last (reads u))))"
  have "?Q (n, t')"
    using l
  proof (rule loop_invariant [where I = "\<lambda>u. submitted u = submitted t"])
    show "submitted ?t = submitted t" by (simp add: watch_def submitted_def split_beta)
  next
    fix u u' assume "submitted u = submitted t" "scan_turn (watch H) (device_fd board) w u = Some (Inr u')"
    then show "submitted u' = submitted t" using scan_turn_watch(1) by fastforce
  next
    fix u x assume "submitted u = submitted t" "scan_turn (watch H) (device_fd board) w u = Some (Inl x)"
    then show "?Q x" using scan_turn_watch(2) [of H "device_fd board" w u "fst x" "snd x"] by (auto simp: split_beta)
  qed
  then show ?thesis using r by auto
qed

section \<open>The status line\<close>

lemma takeWhile_no_zero: "0 \<notin> set xs \<Longrightarrow> takeWhile (\<lambda>c. c \<noteq> (0 :: u8)) (xs @ 0 # ys) = xs"
  by (induction xs) auto

lemma hex_digit_nonzero: "hex_digit (w AND 0xF) \<noteq> 0"
proof -
  have "w AND 0xF = take_bit 4 w" by (simp add: take_bit_eq_mask mask_eq_exp_minus_1)
  then have "unat (w AND 0xF) < 16"
    using take_bit_nat_less_exp [of 4 "unat w"] by (simp add: unsigned_take_bit_eq)
  then have "unat (w AND 0xF) \<in> {0, 1, 2, 3, 4, 5, 6, 7, 8, 9, 10, 11, 12, 13, 14, 15}" by (simp only: insert_iff empty_iff) arith
  then have "w AND 0xF \<in> {0, 1, 2, 3, 4, 5, 6, 7, 8, 9, 10, 11, 12, 13, 14, 15}"
    by (auto simp: word_unat_eq_iff)
  then show ?thesis by (auto simp: hex_digit_def)
qed

lemma hex8_facts: "length (hex8 w) = 8" "0 \<notin> set (hex8 w)"
  using hex_digit_nonzero by (auto simp: hex8_def dest: sym)

lemma store_length: "store off bs buf = Some b \<Longrightarrow> length b = length buf"
  by (auto simp: store_def split: if_splits)

lemma statline_fits:
  assumes len: "product_strlen (mmo_id info) = Some len" and p: "length (mmo_product (mmo_id info)) = 8"
  shows "mmo_statline (Some info) =
    (if len \<le> 7 then Some (take len (mmo_product (mmo_id info)) @ [32] @ hex8 (mmo_serial (mmo_id info))) else None)"
proof -
  let ?mem = "mmo_product (mmo_id info) @ bytes_of_u32 (mmo_serial (mmo_id info))"
  have l: "len = length (takeWhile (\<lambda>c. c \<noteq> 0) ?mem)" and z: "0 \<in> set ?mem"
    using len by (auto simp: product_strlen_def Let_def split: if_splits)
  have tk: "take len ?mem = takeWhile (\<lambda>c. c \<noteq> 0) ?mem" unfolding l by (rule takeWhile_eq_take [symmetric])
  have nz: "0 \<notin> set (take len ?mem)" unfolding tk by (auto dest: set_takeWhileD)
  have le: "len \<le> 12" using length_takeWhile_le [of "\<lambda>c. c \<noteq> 0" ?mem] p by (simp add: l)
  show ?thesis
  proof (cases "len \<le> 7")
    case True
    let ?xs = "take len (mmo_product (mmo_id info))"
    have xs: "take len ?mem = ?xs" "length ?xs = len" using True p by simp_all
    have s0: "store 0 (take len ?mem) (replicate 16 32 @ [0]) = Some (?xs @ replicate (16 - len) 32 @ [0])"
      using xs True by (simp add: store_def)
    have "store (len + 1) (hex8 (mmo_serial (mmo_id info)) @ [0]) (?xs @ replicate (16 - len) 32 @ [0])
      = Some ((?xs @ [32] @ hex8 (mmo_serial (mmo_id info))) @ 0 # drop (len + 10) (?xs @ replicate (16 - len) 32 @ [0]))"
      using xs(2) True by (simp add: store_def hex8_facts Suc_diff_le take_Cons')
    then show ?thesis
      using True len s0 takeWhile_no_zero [of "?xs @ [32] @ hex8 (mmo_serial (mmo_id info))"] nz hex8_facts(2) xs(1)
      by (simp add: mmo_statline_def Let_def)
  next
    case False
    have "store (len + 1) (hex8 (mmo_serial (mmo_id info)) @ [0]) b = None"
      if "store 0 (take len ?mem) (replicate 16 32 @ [0]) = Some b" for b
      using store_length [OF that] False by (simp add: store_def hex8_facts)
    then show ?thesis
      using False len by (cases "store 0 (take len ?mem) (replicate 16 32 @ [0])") (simp_all add: mmo_statline_def Let_def)
  qed
qed

section \<open>Properties\<close>

text \<open>C17. The driver submits at most one nonce per scan: for the work it was given and no other, only
  the nonce of the last message it read, and only when that message was complete (7 bytes) and
  marked valid; the value it returns is then that nonce.\<close>

theorem scanhash_submits_valid:
  assumes "mmo_scanhash (watch H) board w t = Some (r, w', t')"
  shows "submitted t' = submitted t
     \<or> (submitted t' = submitted t @ [(w, mmo_nonce (mmo_parse (last (reads t'))))] \<and> length (last (reads t')) = 7
        \<and> mmo_nonce_valid (mmo_parse (last (reads t'))) = 1 \<and> r = uint (mmo_nonce (mmo_parse (last (reads t')))))"
  using assms by (rule mmo_scanhash_watch)

text \<open>A scripted serial line: the messages the port will deliver.\<close>

definition script_host :: "u8 list list host" where
  "script_host = \<lparr>serial_open = (\<lambda>p b e. (3, e)),
     serial_read = (\<lambda>fd n e. case e of [] \<Rightarrow> ([], []) | m # ms \<Rightarrow> (take n m, ms)),
     serial_write = (\<lambda>fd bs e. e), serial_close = (\<lambda>fd e. e), serial_claim = (\<lambda>p e. (False, e)),
     serial_detect = (\<lambda>f e. snd (f ''/dev/ttyACM0'' e)), add_cgpu = (\<lambda>c e. e),
     work_restart = (\<lambda>e. (False, e)), restart_wait = (\<lambda>n e. (e \<noteq> [], e)), notifier_init = (\<lambda>e. e),
     submit_nonce = (\<lambda>w n e. e), swap32yes = (\<lambda>bs n. take (4 * n) bs), sha256 = (\<lambda>bs. replicate 32 0)\<rparr>"

definition mmo_board :: cgpu_info where
  "mmo_board = \<lparr>device_path = ''/dev/ttyACM0'', device_fd = 3, threads = 1, device_data = \<lparr>mmo_baud = MMO_BAUD,
     mmo_id = \<lparr>mmo_version = 1, mmo_product = map of_char ''MiniOne'' @ [0], mmo_serial = 0x20130712\<rparr>\<rparr>\<rparr>"

definition mmo_work :: work where
  "mmo_work = \<lparr>work_midstate = replicate 32 0, work_data = replicate 128 0, blk_nonce = 0\<rparr>"

theorem scanhash_submits_valid_witness:
  "\<exists>t'. mmo_scanhash (watch script_host) mmo_board mmo_work
      ([[0x57, 0x57, 0, 0, 0, 0, 0], [0x53, 0x52, 1, 0x78, 0x56, 0x34, 0x12]], [], [])
      = Some (0x12345678, mmo_work\<lparr>blk_nonce := 0xFFFFFFFF\<rparr>, t') \<and> submitted t' = [(mmo_work, 0x12345678)]"
proof -
  let ?t = "([[0x57, 0x57, 0, 0, 0, 0, 0], [0x53, 0x52, 1, 0x78, 0x56, 0x34, 0x12]], [], []) :: u8 list list watched"
  have "mmo_scanhash (watch script_host) mmo_board mmo_work ?t
      = Some (0x12345678, mmo_work\<lparr>blk_nonce := 0xFFFFFFFF\<rparr>,
          ([], [[0x57, 0x57, 0, 0, 0, 0, 0], [0x53, 0x52, 1, 0x78, 0x56, 0x34, 0x12]], [(mmo_work, 0x12345678)]))"
    by (simp add: mmo_scanhash_def loop.simps scan_turn_def watch_def script_host_def mmo_parse_def u32_of_bytes_def Let_def)
  from this scanhash_submits_valid [OF this] show ?thesis by (simp add: submitted_def)
qed

text \<open>C35. The status line is the product name, a space and the serial number in hexadecimal as
  long as the name is at most 7 characters; with the 8 characters that fit the field the driver
  writes past the end of its 17-byte buffer.\<close>

theorem statline_bounds:
  assumes "product_strlen (mmo_id info) = Some len" "length (mmo_product (mmo_id info)) = 8"
  shows "mmo_statline (Some info) =
    (if len \<le> 7 then Some (take len (mmo_product (mmo_id info)) @ [32] @ hex8 (mmo_serial (mmo_id info))) else None)"
  using assms by (rule statline_fits)

theorem statline_bounds_witness:
  "mmo_statline (Some (device_data mmo_board)) = Some (map of_char ''MiniOne 20130712'')
   \<and> mmo_statline (Some \<lparr>mmo_baud = MMO_BAUD, mmo_id = \<lparr>mmo_version = 1, mmo_product = map of_char ''MiniTwoX'', mmo_serial = 0x100\<rparr>\<rparr>) = None"
proof -
  let ?i = "\<lparr>mmo_baud = MMO_BAUD, mmo_id = \<lparr>mmo_version = 1, mmo_product = map of_char ''MiniTwoX'', mmo_serial = 0x100\<rparr>\<rparr>"
  have "product_strlen (mmo_id (device_data mmo_board)) = Some 7" "product_strlen (mmo_id ?i) = Some 8"
    by (simp_all add: product_strlen_def mmo_board_def bytes_of_u32_def)
  then show ?thesis
    using statline_bounds [of "device_data mmo_board" 7] statline_bounds [of ?i 8]
    by (simp add: mmo_board_def hex8_def hex_digit_def upt_conv_Cons)
qed

end
