(* ===== verification/Host_Link.thy ===== *)
theory Host_Link
  imports Miner_Main Host_Driver
begin

text \<open>
  The bfgminer driver and the miner firmware together: what the bytes of \<open>Host_Driver\<close> make
  \<open>Application\<close> do and what its replies make the driver do, over a serial line that delivers
  whole messages in order, at any poll.
\<close>

section \<open>The line between driver and device\<close>

text \<open>
  What the driver relies on of the serial port and of bfgminer. \<open>line e\<close> is what has arrived at the
  port and the driver has not read; \<open>feed e\<close> is what will arrive during each of the next waits, as
  long as bfgminer asks for no new work: a read returns the first bytes of the line and removes
  them, and a wait lets the next bytes arrive, as many or as few as the device sent meanwhile. Once
  the feed is used up bfgminer may end the scan.
\<close>

definition serial_line :: "'e host \<Rightarrow> int \<Rightarrow> ('e \<Rightarrow> u8 list) \<Rightarrow> ('e \<Rightarrow> u8 list list) \<Rightarrow> bool" where
  "serial_line H fd line feed \<longleftrightarrow>
     (\<forall>n e. let (bs, e') = serial_read H fd n e in bs = take n (line e) \<and> line e' = drop n (line e) \<and> feed e' = feed e)
     \<and> (\<forall>e. feed e \<noteq> [] \<longrightarrow> (let (restart, e') = work_restart H e in \<not> restart \<and> line e' = line e \<and> feed e' = feed e))
     \<and> (\<forall>n e. feed e \<noteq> [] \<longrightarrow>
          (let (more, e') = restart_wait H n e in more \<and> line e' = line e @ hd (feed e) \<and> feed e' = tl (feed e)))"

text \<open>
  \<open>arrives line feed j e out\<close>: from \<open>e\<close> on the bytes \<open>out\<close> have arrived after \<open>j\<close> waits, whole
  messages of 7 bytes at a time, and the scan may then wait once more for each of them.
\<close>

definition arrives :: "('e \<Rightarrow> u8 list) \<Rightarrow> ('e \<Rightarrow> u8 list list) \<Rightarrow> nat \<Rightarrow> 'e \<Rightarrow> u8 list \<Rightarrow> bool" where
  "arrives line feed j e out \<longleftrightarrow>
     list_all (\<lambda>c. 7 dvd length c) (line e # feed e)
     \<and> line e @ concat (take j (feed e)) = out \<and> j + length out div 7 \<le> length (feed e)"

text \<open>One status message, as the device sends it and the driver reads it.\<close>

lemma parse_state_bytes:
  "mmo_parse (c # state_bytes st) = \<lparr>mmo_state = state st, mmo_nonce_valid = nonce_valid st, mmo_nonce = nonce st\<rparr>"
  using u32_bytes_roundtrip [of "nonce st"] by (simp add: mmo_parse_def state_bytes_def bytes_of_u32_def numeral_eq_Suc)

definition ends_scan :: "u8 list \<Rightarrow> bool" where
  "ends_scan m \<longleftrightarrow> length m = 7 \<and> (mmo_nonce_valid (mmo_parse m) = 1 \<or> mmo_state (mmo_parse m) = 0x52)"

lemma ends_scan_state [simp]: "ends_scan (c # state_bytes st) \<longleftrightarrow> nonce_valid st = 1 \<or> state st = 0x52"
  by (simp add: ends_scan_def parse_state_bytes)

text \<open>What the scan makes of the message that ends it.\<close>

definition scan_result :: "'e host \<Rightarrow> work \<Rightarrow> u8 list \<Rightarrow> 'e \<Rightarrow> u32 \<times> 'e" where
  "scan_result H w m e =
     (if mmo_nonce_valid (mmo_parse m) = 1 then (mmo_nonce (mmo_parse m), submit_nonce H w (mmo_nonce (mmo_parse m)) e)
      else (0xFFFFFFFF, e))"

lemma scan_poll:
  fixes H :: "'e host"
  assumes sl: "serial_line H fd line feed" and f: "feed (fst t) = c # cs"
    and go: "ends_scan (take 7 (line (fst t) @ c)) \<or> cs \<noteq> []"
  shows "\<exists>u. line (fst u) = drop 7 (line (fst t) @ c) \<and> feed (fst u) = cs \<and> submitted u = submitted t
     \<and> scan_turn (watch H) fd w t =
         Some (if ends_scan (take 7 (line (fst t) @ c)) then Inl (scan_result (watch H) w (take 7 (line (fst t) @ c)) u) else Inr u)"
proof -
  let ?e1 = "snd (work_restart H (fst t))"
  let ?e2 = "snd (restart_wait H 250 ?e1)"
  let ?r = "serial_read H fd 7 ?e2"
  let ?m = "take 7 (line (fst t) @ c)"
  have rd: "fst (serial_read H fd n e) = take n (line e)" "line (snd (serial_read H fd n e)) = drop n (line e)"
      "feed (snd (serial_read H fd n e)) = feed e" for n e
    using sl by (simp_all add: serial_line_def split_beta Let_def)
  have wr: "\<not> fst (work_restart H e)" "line (snd (work_restart H e)) = line e" "feed (snd (work_restart H e)) = feed e"
    if "feed e \<noteq> []" for e using sl that by (simp_all add: serial_line_def split_beta Let_def)
  have rw: "fst (restart_wait H n e)" "line (snd (restart_wait H n e)) = line e @ hd (feed e)"
      "feed (snd (restart_wait H n e)) = tl (feed e)" if "feed e \<noteq> []" for n e
    using sl that by (simp_all add: serial_line_def split_beta Let_def)
  have e1: "line ?e1 = line (fst t)" "feed ?e1 = c # cs" "\<not> fst (work_restart H (fst t))" using wr [of "fst t"] f by simp_all
  have e2: "line ?e2 = line (fst t) @ c" "feed ?e2 = cs" "fst (restart_wait H 250 ?e1)" using rw [of ?e1 250] e1 by simp_all
  have r: "fst ?r = ?m" "line (snd ?r) = drop 7 (line (fst t) @ c)" "feed (snd ?r) = cs" using rd e2 by simp_all
  let ?u = "(snd ?r, reads t @ [?m], submitted t)"
  let ?v = "(snd (work_restart H (snd ?r)), reads t @ [?m], submitted t)"
  show ?thesis
  proof (cases "ends_scan ?m")
    case True
    have "scan_turn (watch H) fd w t = Some (Inl (scan_result (watch H) w ?m ?u))"
      using True e1(3) e2(3) r(1)
      by (auto simp add: scan_turn_def watch_def reads_def submitted_def ends_scan_def scan_result_def Let_def split_beta)
    then show ?thesis using True r by (intro exI [of _ ?u]) (simp add: submitted_def)
  next
    case False
    note v = wr [of "snd ?r"]
    have "scan_turn (watch H) fd w t = Some (Inr ?v)"
      using False e1(3) e2(3) r(1) v(1) go r(3)
      by (auto simp add: scan_turn_def watch_def reads_def submitted_def ends_scan_def Let_def split_beta)
    then show ?thesis using False r v go by (intro exI [of _ ?v]) (simp add: submitted_def)
  qed
qed

lemma whole_messages:
  assumes "7 dvd length l" "l \<noteq> []"
  shows "take 7 (l @ r) = take 7 l" "drop 7 (l @ r) = drop 7 l @ r" "7 \<le> length l"
  using assms dvd_imp_le [of 7 "length l"] by simp_all

lemma scan_goes_on:
  fixes H :: "'e host"
  assumes sl: "serial_line H fd line feed" and f: "feed (fst t) = c # cs" "cs \<noteq> []"
    and quiet: "\<not> ends_scan (take 7 (line (fst t) @ c))"
    and rest: "\<And>u. line (fst u) = drop 7 (line (fst t) @ c) \<Longrightarrow> feed (fst u) = cs \<Longrightarrow>
      \<exists>v. submitted v = submitted u \<and> loop (scan_turn (watch H) fd w) u = Some (R v)"
  shows "\<exists>v. submitted v = submitted t \<and> loop (scan_turn (watch H) fd w) t = Some (R v)"
proof -
  obtain u where u: "line (fst u) = drop 7 (line (fst t) @ c)" "feed (fst u) = cs" "submitted u = submitted t"
      "scan_turn (watch H) fd w t = Some (Inr u)"
    using scan_poll [OF sl f(1), of w] quiet f(2) by auto
  show ?thesis using rest [OF u(1,2)] loop_turn(2) [where body = "scan_turn (watch H) fd w", OF u(4)] u(3) by simp
qed

lemma scan_messages:
  fixes H :: "'e host"
  assumes sl: "serial_line H fd line feed" and f: "ends_scan m"
  shows "list_all (\<lambda>q. length q = 7 \<and> \<not> ends_scan q) qs \<Longrightarrow>
    list_all (\<lambda>c. 7 dvd length c) (line (fst t) # feed (fst t)) \<Longrightarrow>
    line (fst t) @ concat (take j (feed (fst t))) = concat qs @ m @ rest \<Longrightarrow>
    j + length qs < length (feed (fst t)) \<Longrightarrow>
    \<exists>u. submitted u = submitted t \<and> loop (scan_turn (watch H) fd w) t = Some (scan_result (watch H) w m u)"
proof (induction "feed (fst t)" arbitrary: t qs j rest)
  case Nil
  then show ?case by simp
next
  case (Cons c cs)
  let ?l = "line (fst t) @ c"
  have m7: "length m = 7" using f by (simp add: ends_scan_def)
  have fd: "feed (fst t) = c # cs" using Cons.hyps(2) by simp
  have dvd: "7 dvd length ?l" "list_all (\<lambda>c. 7 dvd length c) cs" using Cons.prems(2) fd by simp_all
  have "\<exists>rest'. ?l @ concat (take (j - 1) cs) = concat qs @ m @ rest'"
    using Cons.prems(3) fd by (cases j) (auto intro: exI [of _ "rest @ c"])
  then obtain rest' where eq: "?l @ concat (take (j - 1) cs) = concat qs @ m @ rest'" by blast
  show ?case
  proof (cases "?l = []")
    case True
    have "j \<noteq> 0" using Cons.prems(3) True m7 by (cases j) auto
    then show ?thesis
      using eq True dvd Cons.prems(1,4) fd
      by (intro scan_goes_on [OF sl fd] Cons.hyps(1) [of _ qs "j - 1" rest']) (auto simp: ends_scan_def)
  next
    case False
    note l7 = whole_messages [OF dvd(1) False]
    show ?thesis
    proof (cases qs)
      case Nil
      have "take 7 ?l = m" using arg_cong [OF eq, of "take 7"] Nil m7 unfolding l7(1) by simp
      then obtain u where u: "submitted u = submitted t" "scan_turn (watch H) fd w t = Some (Inl (scan_result (watch H) w m u))"
        using scan_poll [OF sl fd, of w] f by auto
      show ?thesis using loop_turn(1) [where body = "scan_turn (watch H) fd w", OF u(2)] u(1) by blast
    next
      case (Cons q qs')
      have q: "length q = 7" "\<not> ends_scan q" using Cons Cons.prems(1) by simp_all
      have m: "take 7 ?l = q" using arg_cong [OF eq, of "take 7"] Cons q unfolding l7(1) by simp
      have rest: "drop 7 ?l @ concat (take (j - 1) cs) = concat qs' @ m @ rest'"
        using arg_cong [OF eq, of "drop 7"] Cons q(1) unfolding l7(2) by simp
      have d: "7 dvd length (drop 7 ?l)" unfolding length_drop using dvd(1) by (rule dvd_diff_nat) simp
      show ?thesis
      proof (rule scan_goes_on [OF sl fd])
        fix u :: "'e watched" assume u: "line (fst u) = drop 7 ?l" "feed (fst u) = cs"
        show "\<exists>v. submitted v = submitted u \<and> loop (scan_turn (watch H) fd w) u = Some (scan_result (watch H) w m v)"
          using u(2) rest [folded u(1)] d [folded u(1)] dvd(2) Cons Cons.prems(1,4) fd
          by (intro Cons.hyps(1) [of u qs' "j - 1" rest']) auto
      qed (use m q Cons Cons.prems(4) fd in auto)
    qed
  qed
qed

text \<open>The whole scan: some messages that say the device is working, then the one that ends it.\<close>

lemma scanhash_messages:
  fixes H :: "'e host"
  assumes sl: "serial_line H (device_fd b) line feed"
    and a: "arrives line feed j (serial_write H (device_fd b) (mmo_sendbuf w) (fst t)) (concat qs @ m @ rest)"
    and q: "list_all (\<lambda>q. length q = 7 \<and> \<not> ends_scan q) qs" and m: "ends_scan m"
  shows "\<exists>u. mmo_scanhash (watch H) b w t =
      Some (if mmo_nonce_valid (mmo_parse m) = 1 then uint (mmo_nonce (mmo_parse m)) else 0xFFFFFFFF, w\<lparr>blk_nonce := 0xFFFFFFFF\<rparr>, u)
     \<and> submitted u = submitted t @ (if mmo_nonce_valid (mmo_parse m) = 1 then [(w, mmo_nonce (mmo_parse m))] else [])"
proof -
  let ?t = "serial_write (watch H) (device_fd b) (mmo_sendbuf w) t"
  have t: "fst ?t = serial_write H (device_fd b) (mmo_sendbuf w) (fst t)" "submitted ?t = submitted t"
    by (simp_all add: watch_def submitted_def split_beta)
  have lq: "length (concat qs) = 7 * length qs" using q by (induction qs) auto
  have "length qs < length (concat qs @ m @ rest) div 7" using m by (simp add: lq ends_scan_def)
  then obtain u where u: "submitted u = submitted t"
      "loop (scan_turn (watch H) (device_fd b) w) ?t = Some (scan_result (watch H) w m u)"
    using scan_messages [OF sl m q, of ?t j rest w] a t by (auto simp: arrives_def)
  then show ?thesis
    by (cases "mmo_nonce_valid (mmo_parse m) = 1")
      (simp_all add: mmo_scanhash_def Let_def scan_result_def, simp add: watch_def submitted_def split_beta)
qed

text \<open>The device's half: work arrives, the reply is queued, and a report or a timeout follows.\<close>

lemma sendbuf_frame:
  assumes "length (work_midstate w) = 32" "76 \<le> length (work_data w)"
  shows "\<exists>frame. mmo_sendbuf w = CMD_W # frame \<and> length frame = 44"
  using assms by (simp add: mmo_sendbuf_def)

abbreviation "tx m \<equiv> ring_list (USARTtoUSB_Buffer (app m))"
abbreviation "given w m \<equiv> serialProcess (receive (mmo_sendbuf w) m)"

lemma work_given:
  assumes ok: "app_ok (app m)" "ring_list (rx_buffer (app m)) = []" "room 14 (app m)"
    and w: "length (work_midstate w) = 32" "76 \<le> length (work_data w)"
  shows "tx (given w m) = tx m @ CMD_W # state_bytes \<lparr>state = STATE_WORKING, nonce_valid = 0, nonce = 0\<rparr>"
    and "app_ok (app (given w m))" "work_timer (app (given w m)) = timerSet (clk m) (work_timer (app m)) 16000"
    and "asicReportValid (board (given w m)) = 0" "ring_list (rx_buffer (app (given w m))) = []"
proof -
  obtain frame where f: "mmo_sendbuf w = CMD_W # frame" "length frame = 44" using sendbuf_frame [OF w] by blast
  let ?m = "receive (mmo_sendbuf w) m"
  have r: "app_ok (app ?m)" "ring_list (rx_buffer (app ?m)) = CMD_W # frame" "USARTtoUSB_Buffer (app ?m) = USARTtoUSB_Buffer (app m)"
    using receive_ok [OF ok(1), of "mmo_sendbuf w"] ok(2) f by simp_all
  have o: "room 14 (app ?m)" using ok(3) r(3) by (simp add: room_def)
  note p = serialProcess_refines [OF r(1) o]
  have c: "clk ?m = clk m" "work_timer (app ?m) = work_timer (app m)" by (simp_all add: receive_def)
  show "tx (given w m) = tx m @ CMD_W # state_bytes \<lparr>state = STATE_WORKING, nonce_valid = 0, nonce = 0\<rparr>"
    using arg_cong [OF p(1), of l_out] r f by (simp add: command.simps link_of_def load_work_def Let_def)
  show "app_ok (app (given w m))" by (rule p(2))
  show "work_timer (app (given w m)) = timerSet (clk m) (work_timer (app m)) 16000"
    using arg_cong [OF p(1), of l_timer] r f c by (simp add: command.simps link_of_def load_work_def Let_def)
  show "asicReportValid (board (given w m)) = 0"
    using arg_cong [OF p(1), of l_board] r f
    by (simp add: command.simps link_of_def load_work_def Let_def asicReportValid_def)
  show "ring_list (rx_buffer (app (given w m))) = []"
    using arg_cong [OF p(1), of l_in] r f by (simp add: command.simps link_of_def load_work_def Let_def)
qed

lemma service_reports:
  assumes "app_ok (app m)" "room 7 (app m)" "asicReportValid (board m) \<noteq> 0"
  shows "tx (appService m) = tx m @ CMD_S # state_bytes \<lparr>state = STATE_RESET, nonce_valid = 1,
           nonce = u32_of_bytes (rev (bytes_of_u32 (report (board m)))) - 0xC0\<rparr>"
  using arg_cong [OF appService_refines(1) [OF assms(1,2)], of l_out] assms(3)
  by (simp add: service_def link_of_def Let_def)

lemma service_times_out:
  assumes "app_ok (app m)" "room 7 (app m)" "asicReportValid (board m) = 0" "fst (timerExpired (clk m) (work_timer (app m)))"
  shows "tx (appService m) = tx m @ CMD_S # state_bytes \<lparr>state = STATE_RESET, nonce_valid = 0, nonce = 0\<rparr>"
  using arg_cong [OF appService_refines(1) [OF assms(1,2)], of l_out] assms(3,4)
  by (simp add: service_def link_of_def Let_def)

text \<open>The messages of the device over the life of one work unit.\<close>

abbreviation "working_msg \<equiv> CMD_W # state_bytes \<lparr>state = STATE_WORKING, nonce_valid = 0, nonce = 0\<rparr>"
abbreviation "done_msg \<equiv> CMD_S # state_bytes \<lparr>state = STATE_RESET, nonce_valid = 0, nonce = 0\<rparr>"
abbreviation "found_msg n \<equiv> CMD_S # state_bytes \<lparr>state = STATE_RESET, nonce_valid = 1, nonce = n\<rparr>"

lemma room_tx: "tx m = out \<Longrightarrow> length out + n \<le> 127 \<Longrightarrow> room n (app m)"
  by (simp add: room_def del: length_ring_list)

lemma nonce_found:
  fixes D :: "'h io"
  assumes m: "app_ok (app m)" "ring_list (rx_buffer (app m)) = []" "tx m = []"
    and w: "length (work_midstate w) = 32" "76 \<le> length (work_data w)"
    and spi: "io_rd D SPDR h = (b0, h0)" "spi_delivers D [b1, b2, b3] k h0 h'"
    and asic: "SPI_STC_vect D h (board (given w m)) = (h', brd)"
  shows "tx (appService ((given w m)\<lparr>board := brd, clk := c\<rparr>)) = working_msg @ found_msg (u32_of_bytes [b0, b1, b2, b3] - 0xC0)"
    and "app_ok (app (appService ((given w m)\<lparr>board := brd, clk := c\<rparr>)))"
    and "ring_list (rx_buffer (app (appService ((given w m)\<lparr>board := brd, clk := c\<rparr>)))) = []"
proof -
  let ?m = "(given w m)\<lparr>board := brd, clk := c\<rparr>"
  note g = work_given [OF m(1,2) room_tx [OF m(3)] w]
  have brd: "report brd = u32_of_bytes [b3, b2, b1, b0]" "asicReportValid brd \<noteq> 0"
    using SPI_delivered [OF spi, of "board (given w m)"] asic by (simp_all add: asicReportValid_def)
  have ok: "app_ok (app ?m)" "room 7 (app ?m)" using g m(3) by (simp_all add: room_tx)
  show "tx (appService ?m) = working_msg @ found_msg (u32_of_bytes [b0, b1, b2, b3] - 0xC0)"
    using g brd m(3) ok by (simp add: service_reports bytes_u32_roundtrip)
  show "app_ok (app (appService ?m))" "ring_list (rx_buffer (app (appService ?m))) = []"
    using appService_refines(2) [OF ok] arg_cong [OF appService_refines(1) [OF ok], of l_in] g(5) brd
    by (simp_all add: service_def link_of_def Let_def)
qed

lemma nothing_found:
  assumes m: "app_ok (app m)" "ring_list (rx_buffer (app m)) = []" "tx m = []"
    and w: "length (work_midstate w) = 32" "76 \<le> length (work_data w)"
    and n: "16000 < n" "n < 2 ^ 32"
  shows "tx (appService ((given w m)\<lparr>clk := (TIMER0_COMPA_vect ^^ n) (clk m)\<rparr>)) = working_msg @ done_msg"
proof -
  let ?m = "(given w m)\<lparr>clk := (TIMER0_COMPA_vect ^^ n) (clk m)\<rparr>"
  note g = work_given [OF m(1,2) room_tx [OF m(3)] w]
  have "room 7 (app ?m)" using g m(3) by (simp add: room_tx)
  moreover have "fst (timerExpired (clk ?m) (work_timer (app ?m)))"
    using g(3) timer_fires_iff [OF n(2), of "clk m" "work_timer (app m)" 16000] n(1) by simp
  ultimately show ?thesis using g m(3) by (simp add: service_times_out)
qed

text \<open>C7. The whole path of a golden nonce. The driver sends a work unit to a device whose buffers are
  empty, the device accepts it, the ASIC shifts out the four bytes of a report, each in time, and
  the service routine runs at any later clock, with no other command in between. What the device has
  sent then reaches the driver in its order, at any of its polls, in whole messages of 7 bytes (a
  message in pieces is dropped by the driver), while bfgminer asks for no new work: the scan ends
  with exactly one nonce submitted, for that very work: the number whose little-endian bytes are the
  report, less \<open>0xC0\<close>.\<close>

theorem golden_nonce_submitted:
  fixes H :: "'e host" and D :: "'h io"
  assumes m: "app_ok (app m)" "ring_list (rx_buffer (app m)) = []" "tx m = []"
    and w: "length (work_midstate w) = 32" "76 \<le> length (work_data w)"
    and spi: "io_rd D SPDR h = (b0, h0)" "spi_delivers D [b1, b2, b3] k h0 h'"
    and asic: "SPI_STC_vect D h (board (given w m)) = (h', brd)"
    and sl: "serial_line H (device_fd b) line feed"
    and a: "arrives line feed j (serial_write H (device_fd b) (mmo_sendbuf w) (fst t))
              (tx (appService ((given w m)\<lparr>board := brd, clk := c\<rparr>)))"
  shows "let n = u32_of_bytes [b0, b1, b2, b3] - 0xC0
         in \<exists>u. mmo_scanhash (watch H) b w t = Some (uint n, w\<lparr>blk_nonce := 0xFFFFFFFF\<rparr>, u)
              \<and> submitted u = submitted t @ [(w, n)]"
  using scanhash_messages [OF sl, where qs = "[working_msg]" and m = "found_msg (u32_of_bytes [b0, b1, b2, b3] - 0xC0)"
      and rest = "[]"] a nonce_found(1) [OF m w spi asic]
  by (simp add: parse_state_bytes Let_def)

text \<open>
  \<open>patient chunks\<close>: a host whose state is the line and the bytes of the coming waits; a write is
  answered with \<open>chunks\<close>. \<open>in_parts out\<close> are two messages with waits before and between them in
  which nothing arrives.
\<close>

definition patient :: "u8 list list \<Rightarrow> (u8 list \<times> u8 list list) host" where
  "patient chunks = \<lparr>serial_open = (\<lambda>p b e. (3, e)), serial_read = (\<lambda>fd n (l, f). (take n l, drop n l, f)),
     serial_write = (\<lambda>fd bs (l, f). (l, f @ chunks)), serial_close = (\<lambda>fd e. e), serial_claim = (\<lambda>p e. (False, e)),
     serial_detect = (\<lambda>f e. snd (f ''ttyACM0'' e)), add_cgpu = (\<lambda>c e. e), work_restart = (\<lambda>(l, f). (f = [], l, f)),
     restart_wait = (\<lambda>n (l, f). case f of [] \<Rightarrow> (False, l, []) | c # cs \<Rightarrow> (True, l @ c, cs)), notifier_init = (\<lambda>e. e),
     submit_nonce = (\<lambda>w n e. e), swap32yes = (\<lambda>bs n. bs), sha256 = (\<lambda>bs. bs)\<rparr>"

definition in_parts :: "u8 list \<Rightarrow> u8 list list" where
  "in_parts out = [[], take 7 out, [], drop 7 out] @ replicate (length out div 7) []"

definition some_work :: work where
  "some_work = \<lparr>work_midstate = replicate 32 1, work_data = replicate 80 2, blk_nonce = 0\<rparr>"

definition other_work :: work where
  "other_work = \<lparr>work_midstate = replicate 32 3, work_data = replicate 80 4, blk_nonce = 0\<rparr>"

definition some_board :: cgpu_info where
  "some_board = \<lparr>device_path = ''ttyACM0'', device_fd = 3, threads = 1,
     device_data = \<lparr>mmo_baud = MMO_BAUD, mmo_id = \<lparr>mmo_version = 1, mmo_product = map of_char ''MiniOne'' @ [0], mmo_serial = 0\<rparr>\<rparr>\<rparr>"

lemma patient_line: "serial_line (patient chunks) fd fst snd" "serial_write (patient chunks) fd bs (l, f) = (l, f @ chunks)"
  by (simp_all add: serial_line_def patient_def split: list.splits)

lemma patient_arrives:
  assumes "7 dvd length out"
  shows "arrives fst snd 4 ([], in_parts out) out"
proof -
  have "7 dvd length (take 7 out)" using assms by (cases "out = []") (auto dest: dvd_imp_le)
  moreover have "7 dvd length (drop 7 out)" unfolding length_drop using assms by (rule dvd_diff_nat) simp
  moreover have "list_all (\<lambda>c. 7 dvd length c) (replicate n [])" for n by (simp add: list_all_iff)
  ultimately show ?thesis by (simp add: arrives_def in_parts_def del: length_take length_drop)
qed

lemma some_work_ok: "length (work_midstate some_work) = 32" "76 \<le> length (work_data some_work)"
  "length (work_midstate other_work) = 32" "76 \<le> length (work_data other_work)"
  by (simp_all add: some_work_def other_work_def)

text \<open>The miner in which the ASIC has reported \<open>0x12345678\<close> for \<open>some_work\<close>.\<close>

definition some_report :: miner where
  "some_report = appService ((given some_work miner_started)
     \<lparr>board := snd (SPI_STC_vect spi_script [Some 0x12, Some 0x34, Some 0x56, Some 0x78] (board (given some_work miner_started))),
      clk := clk miner_started\<rparr>)"

lemma some_spi:
  "io_rd spi_script SPDR [Some 0x12, Some 0x34, Some 0x56, Some 0x78] = (0x12, [Some 0x34, Some 0x56, Some 0x78])"
  "spi_delivers spi_script [0x34, 0x56, 0x78] 0 [Some 0x34, Some 0x56, Some 0x78] []"
  "SPI_STC_vect spi_script [Some 0x12, Some 0x34, Some 0x56, Some 0x78] b =
     ([], snd (SPI_STC_vect spi_script [Some 0x12, Some 0x34, Some 0x56, Some 0x78] b))"
proof -
  show r: "io_rd spi_script SPDR [Some 0x12, Some 0x34, Some 0x56, Some 0x78] = (0x12, [Some 0x34, Some 0x56, Some 0x78])"
    by simp
  show d: "spi_delivers spi_script [0x34, 0x56, 0x78] 0 [Some 0x34, Some 0x56, Some 0x78] []"
    by (rule spi_script_simps spi_byte [OF spi_script_simps(2,4)] spi_none | simp)+
  have "fst (SPI_STC_vect spi_script [Some 0x12, Some 0x34, Some 0x56, Some 0x78] b) = []"
    using SPI_delivered [OF r d, of b] by simp
  then show "SPI_STC_vect spi_script [Some 0x12, Some 0x34, Some 0x56, Some 0x78] b =
     ([], snd (SPI_STC_vect spi_script [Some 0x12, Some 0x34, Some 0x56, Some 0x78] b))" by (metis prod.collapse)
qed

lemmas some_report_sent = nonce_found [OF miner_started_ok(1,3,2) some_work_ok(1,2) some_spi, of "clk miner_started", folded some_report_def]

theorem golden_nonce_submitted_witness:
  "\<exists>u. mmo_scanhash (watch (patient (in_parts (tx some_report)))) some_board some_work (([], []), [], [])
        = Some (0x78563352, some_work\<lparr>blk_nonce := 0xFFFFFFFF\<rparr>, u)
      \<and> submitted u = [(some_work, 0x78563352)]"
proof -
  have "7 dvd length (tx some_report)" unfolding some_report_sent(1) by simp
  from golden_nonce_submitted [where b = some_board and t = "(([], []), [], [])" and j = 4 and c = "clk miner_started",
      OF miner_started_ok(1,3,2) some_work_ok(1,2) some_spi patient_line(1), folded some_report_def] patient_arrives [OF this]
  show ?thesis by (simp add: patient_line(2) Let_def u32_of_bytes_def submitted_def)
qed

text \<open>C8. When the ASIC finds nothing, the device says so once its 16 seconds are over and the driver books
  the work as completely searched: the scan returns \<open>0xFFFFFFFF\<close> and submits nothing. As above, the
  device's buffers are empty when the work arrives, its messages reach the driver in order and whole,
  at any of its polls, bfgminer asks for no new work meanwhile, and no report comes before the
  service routine runs, more than 16000 and fewer than \<open>2 ^ 32\<close> clock ticks after the work.\<close>

theorem exhausted_work_reported:
  fixes H :: "'e host"
  assumes m: "app_ok (app m)" "ring_list (rx_buffer (app m)) = []" "tx m = []"
    and w: "length (work_midstate w) = 32" "76 \<le> length (work_data w)"
    and n: "16000 < n" "n < 2 ^ 32"
    and sl: "serial_line H (device_fd b) line feed"
    and a: "arrives line feed j (serial_write H (device_fd b) (mmo_sendbuf w) (fst t))
              (tx (appService ((given w m)\<lparr>clk := (TIMER0_COMPA_vect ^^ n) (clk m)\<rparr>)))"
  shows "\<exists>u. mmo_scanhash (watch H) b w t = Some (0xFFFFFFFF, w\<lparr>blk_nonce := 0xFFFFFFFF\<rparr>, u) \<and> submitted u = submitted t"
  using scanhash_messages [OF sl, where qs = "[working_msg]" and m = done_msg and rest = "[]"] a nothing_found [OF m w n]
  by (simp add: parse_state_bytes)

theorem exhausted_work_reported_witness:
  "let out = tx (appService ((given some_work miner_started)\<lparr>clk := (TIMER0_COMPA_vect ^^ 16001) (clk miner_started)\<rparr>))
   in \<exists>u. mmo_scanhash (watch (patient (in_parts out))) some_board some_work (([], []), [], [])
          = Some (0xFFFFFFFF, some_work\<lparr>blk_nonce := 0xFFFFFFFF\<rparr>, u) \<and> submitted u = []"
proof -
  let ?out = "tx (appService ((given some_work miner_started)\<lparr>clk := (TIMER0_COMPA_vect ^^ 16001) (clk miner_started)\<rparr>))"
  have "?out = working_msg @ done_msg" using nothing_found [OF miner_started_ok(1,3,2) some_work_ok(1,2), of 16001] by simp
  then have "7 dvd length ?out" by (simp only:) simp
  from exhausted_work_reported [where b = some_board and t = "(([], []), [], [])" and j = 4 and n = 16001,
      OF miner_started_ok(1,3,2) some_work_ok(1,2) _ _ patient_line(1)] patient_arrives [OF this]
  show ?thesis by (simp add: patient_line(2) Let_def submitted_def)
qed

text \<open>C10. A nonce is credited to the wrong work when the driver has turned to the next work before it
  read the report of the last: the device is given \<open>w0\<close>, its ASIC reports and the service routine
  queues the report; then the driver scans \<open>w\<close>. The status messages carry no work identifier and the
  report is still in front of the reply to \<open>w\<close>, so the driver submits, for \<open>w\<close> and without checking
  it, the nonce that was found for \<open>w0\<close>. The line is as before.\<close>

theorem stale_nonce_submitted:
  fixes H :: "'e host" and D :: "'h io"
  assumes m: "app_ok (app m)" "ring_list (rx_buffer (app m)) = []" "tx m = []"
    and w0: "length (work_midstate w0) = 32" "76 \<le> length (work_data w0)"
    and w: "length (work_midstate w) = 32" "76 \<le> length (work_data w)"
    and spi: "io_rd D SPDR h = (b0, h0)" "spi_delivers D [b1, b2, b3] k h0 h'"
    and asic: "SPI_STC_vect D h (board (given w0 m)) = (h', brd)"
    and sl: "serial_line H (device_fd b) line feed"
    and a: "arrives line feed j (serial_write H (device_fd b) (mmo_sendbuf w) (fst t))
              (tx (given w (appService ((given w0 m)\<lparr>board := brd, clk := c\<rparr>))))"
  shows "let n = u32_of_bytes [b0, b1, b2, b3] - 0xC0
         in \<exists>u. mmo_scanhash (watch H) b w t = Some (uint n, w\<lparr>blk_nonce := 0xFFFFFFFF\<rparr>, u)
              \<and> submitted u = submitted t @ [(w, n)]"
proof -
  note f = nonce_found [OF m w0 spi asic, of c]
  have "tx (given w (appService ((given w0 m)\<lparr>board := brd, clk := c\<rparr>)))
      = working_msg @ found_msg (u32_of_bytes [b0, b1, b2, b3] - 0xC0) @ working_msg"
    using work_given(1) [OF f(2,3) room_tx [OF f(1)] w] f(1) by simp
  then show ?thesis
    using scanhash_messages [OF sl, where qs = "[working_msg]" and m = "found_msg (u32_of_bytes [b0, b1, b2, b3] - 0xC0)"
      and rest = working_msg] a
    by (simp add: parse_state_bytes Let_def)
qed

theorem stale_nonce_submitted_witness:
  "\<exists>u. mmo_scanhash (watch (patient (in_parts (tx (given other_work some_report))))) some_board other_work (([], []), [], [])
        = Some (0x78563352, other_work\<lparr>blk_nonce := 0xFFFFFFFF\<rparr>, u)
      \<and> submitted u = [(other_work, 0x78563352)]"
proof -
  have "7 dvd length (tx (given other_work some_report))"
    using work_given(1) [OF some_report_sent(2,3) room_tx [OF some_report_sent(1)] some_work_ok(3,4)]
    unfolding some_report_sent(1) by (simp del: length_ring_list)
  from stale_nonce_submitted [where b = some_board and t = "(([], []), [], [])" and j = 4 and c = "clk miner_started",
      OF miner_started_ok(1,3,2) some_work_ok some_spi patient_line(1), folded some_report_def]
    patient_arrives [OF this]
  show ?thesis by (simp add: patient_line(2) Let_def u32_of_bytes_def submitted_def)
qed

text \<open>C9. The driver's probe recognises the device: the reply of the firmware to the identify command is
  decoded into version 1, the product name and the serial number the firmware holds, and the status
  line the driver makes of them is "MiniOne 20130712".\<close>

theorem device_detected:
  fixes H :: "'e host"
  assumes m: "app_ok (app m)" "room 14 (app m)" "ring_list (rx_buffer (app m)) = [CMD_I]" "tx m = []"
    and opn: "serial_open H path (mmo_baud info) e = (fd, e1)" "0 \<le> fd"
    and rd: "serial_read H fd 14 (serial_write H fd [0x49] e1) = (tx (serialProcess m), e2)"
    and cl: "serial_claim H path (serial_close H fd e2) = (False, e3)"
  shows "\<exists>info' e'. mmo_detect_custom H path info e = (True, info', e')
     \<and> mmo_id info' = \<lparr>mmo_version = version ID, mmo_product = product ID, mmo_serial = serial ID\<rparr>
     \<and> mmo_baud info' = mmo_baud info
     \<and> mmo_statline (Some info') = Some (map of_char ''MiniOne 20130712'')"
proof -
  have "tx (serialProcess m) = CMD_I # identity_bytes ID"
    using arg_cong [OF serialProcess_refines(1) [OF m(1,2)], of l_out] m(3,4) by (simp add: command.simps link_of_def)
  then have buf: "tx (serialProcess m) = CMD_I # 1 # map of_char ''MiniOne'' @ [0, 0x12, 0x07, 0x13, 0x20]"
    by (simp add: identity_bytes_def ID_def bytes_of_u32_def)
  let ?i = "info\<lparr>mmo_id := \<lparr>mmo_version = 1, mmo_product = map of_char ''MiniOne'' @ [0], mmo_serial = 0x20130712\<rparr>\<rparr>"
  have "mmo_detect_custom H path info e = (True, ?i,
      add_cgpu H \<lparr>device_path = path, device_fd = -1, threads = 1, device_data = ?i\<rparr> e3)"
    using opn rd cl by (simp add: mmo_detect_custom_def buf u32_of_bytes_def Let_def)
  moreover have "mmo_statline (Some ?i) = Some (map of_char ''MiniOne 20130712'')"
    by (subst statline_fits [where len = 7])
      (simp_all add: product_strlen_def hex8_def hex_digit_def bytes_of_u32_def upt_rec)
  ultimately show ?thesis by (simp add: ID_def)
qed

theorem device_detected_witness:
  "\<exists>info' e'. mmo_detect_custom (patient []) ''ttyACM0'' (device_data some_board)
         (tx (serialProcess (receive [CMD_I] miner_started)), [])
       = (True, info', e') \<and> mmo_statline (Some info') = Some (map of_char ''MiniOne 20130712'')"
proof -
  let ?m = "receive [CMD_I] miner_started"
  let ?H = "patient []" and ?out = "tx (serialProcess (receive [CMD_I] miner_started))"
  have m: "app_ok (app ?m)" "room 14 (app ?m)" "ring_list (rx_buffer (app ?m)) = [CMD_I]" "tx ?m = []"
    using started_receive [of "[CMD_I]"] by simp_all
  have "length (tx (serialProcess ?m)) = 14"
    using arg_cong [OF serialProcess_refines(1) [OF m(1,2)], of l_out] m(3,4)
    by (simp add: command.simps link_of_def del: length_ring_list)
  then have h: "serial_open ?H ''ttyACM0'' (mmo_baud (device_data some_board)) (?out, []) = (3, ?out, [])" "0 \<le> (3 :: int)"
    "serial_read ?H 3 14 (serial_write ?H 3 [0x49] (?out, [])) = (tx (serialProcess ?m), [], [])"
    "serial_claim ?H ''ttyACM0'' (serial_close ?H 3 ([], [])) = (False, [], [])"
    by (simp_all add: patient_def del: length_ring_list)
  show ?thesis using device_detected [OF m h] by blast
qed

end
