(* ===== verification/Spi_Usart.thy ===== *)
theory Spi_Usart
  imports Ports
begin

text \<open>
  LUFA's drivers for the two serial peripherals of the FPGA board: the SPI master of
  \<open>LUFA/Drivers/Peripheral/AVR8/SPI_AVR8.h\<close> and the USART of \<open>Serial_AVR8.h\<close> and
  \<open>Serial_AVR8.c\<close>. \<open>SPDR\<close>, \<open>SPSR\<close>, \<open>UDR1\<close> and \<open>UCSR1A\<close> are registers of the
  peripherals; the configuration registers are latches beside the port latches. The busy-waits
  end only when the peripheral sets its flag, so the blocking functions are partial.
\<close>

section \<open>SPI\_AVR8.h\<close>

definition SPI_USE_DOUBLESPEED :: u8 where "SPI_USE_DOUBLESPEED = BV SPE"
definition SPI_SPEED_FCPU_DIV_8 :: u8 where "SPI_SPEED_FCPU_DIV_8 = SPI_USE_DOUBLESPEED OR BV SPR0"
definition SPI_MODE_MASTER :: u8 where "SPI_MODE_MASTER = BV MSTR"

definition SPI_Init :: "'h io \<Rightarrow> u8 \<Rightarrow> 'h \<times> 'a ports_scheme \<Rightarrow> 'h \<times> 'a ports_scheme" where
  "SPI_Init D SPIOptions = (\<lambda>(h, b).
     let b = b\<lparr>DDRB := DDRB b OR BV 0\<rparr>;
         b = set_PORTB (PORTB b OR BV 0) b;
         b = b\<lparr>DDRB := DDRB b OR (BV 1 OR BV 2)\<rparr>;
         b = b\<lparr>DDRB := DDRB b AND NOT (BV 3)\<rparr>;
         b = set_PORTB (PORTB b OR BV 3) b;
         h = (if SPIOptions AND SPI_USE_DOUBLESPEED \<noteq> 0 then io_or D SPSR (BV SPI2X) h
              else io_and D SPSR (NOT (BV SPI2X)) h);
         b = b\<lparr>DDRB := DDRB b AND NOT (BV 0)\<rparr>
     in (h, b\<lparr>SPCR := BV SPE OR SPIOptions\<rparr>))"

definition SPI_Disable :: "'h io \<Rightarrow> 'h \<times> 'a ports_scheme \<Rightarrow> 'h \<times> 'a ports_scheme" where
  "SPI_Disable D = (\<lambda>(h, b).
     let b = b\<lparr>DDRB := DDRB b AND NOT (BV 1 OR BV 2)\<rparr>;
         b = set_PORTB (PORTB b AND NOT (BV 0 OR BV 3)) b;
         b = b\<lparr>SPCR := 0\<rparr>
     in (io_wr D SPSR 0 h, b))"

definition SPI_GetCurrentMode :: "'a ports_scheme \<Rightarrow> u8" where
  "SPI_GetCurrentMode b = SPCR b AND SPI_MODE_MASTER"

definition SPI_SendByte :: "'h io \<Rightarrow> u8 \<Rightarrow> 'h \<Rightarrow> 'h option" where
  "SPI_SendByte D Byte h = io_wait D SPSR SPIF (io_wr D SPDR Byte h)"

definition SPI_TransferByte :: "'h io \<Rightarrow> u8 \<Rightarrow> 'h \<Rightarrow> (u8 \<times> 'h) option" where
  "SPI_TransferByte D Byte h = map_option (io_rd D SPDR) (io_wait D SPSR SPIF (io_wr D SPDR Byte h))"

definition SPI_ReceiveByte :: "'h io \<Rightarrow> 'h \<Rightarrow> (u8 \<times> 'h) option" where
  "SPI_ReceiveByte D h = map_option (io_rd D SPDR) (io_wait D SPSR SPIF (io_wr D SPDR 0 h))"

section \<open>Serial\_AVR8.h\<close>

record usart = ports +
  UCSR1B :: u8
  UCSR1C :: u8
  UBRR1 :: u16

definition F_CPU :: u32 where "F_CPU = 16000000"

text \<open>
  The baud rate divisors, in the 32-bit unsigned arithmetic of the macros; a zero rate divides by
  zero, which C leaves undefined: no value.
\<close>

definition SERIAL_UBBRVAL :: "u32 \<Rightarrow> u32 option" where
  "SERIAL_UBBRVAL Baud = (if Baud = 0 then None else Some ((F_CPU div 16 + Baud div 2) div Baud - 1))"

definition SERIAL_2X_UBBRVAL :: "u32 \<Rightarrow> u32 option" where
  "SERIAL_2X_UBBRVAL Baud = (if Baud = 0 then None else Some ((F_CPU div 8 + Baud div 2) div Baud - 1))"

definition Serial_Init :: "'h io \<Rightarrow> u32 \<Rightarrow> bool \<Rightarrow> 'h \<times> 'a usart_scheme \<Rightarrow> ('h \<times> 'a usart_scheme) option" where
  "Serial_Init D BaudRate DoubleSpeed = (\<lambda>(h, b).
     do {
       v \<leftarrow> (if DoubleSpeed then SERIAL_2X_UBBRVAL BaudRate else SERIAL_UBBRVAL BaudRate);
       let b = b\<lparr>UBRR1 := ucast v\<rparr>;
       let b = b\<lparr>UCSR1C := BV UCSZ11 OR BV UCSZ10\<rparr>;
       let h = io_wr D UCSR1A (if DoubleSpeed then BV U2X1 else 0) h;
       let b = b\<lparr>UCSR1B := BV TXEN1 OR BV RXEN1\<rparr>;
       let b = set_DDRD (DDRD b OR BV 3) b;
       Some (h, set_PORTD (PORTD b OR BV 2) b)
     })"

definition Serial_Disable :: "'h io \<Rightarrow> 'h \<times> 'a usart_scheme \<Rightarrow> 'h \<times> 'a usart_scheme" where
  "Serial_Disable D = (\<lambda>(h, b).
     let b = b\<lparr>UCSR1B := 0\<rparr>;
         h = io_wr D UCSR1A 0 h;
         b = b\<lparr>UCSR1C := 0\<rparr>;
         b = b\<lparr>UBRR1 := 0\<rparr>;
         b = set_DDRD (DDRD b AND NOT (BV 3)) b
     in (h, set_PORTD (PORTD b AND NOT (BV 2)) b))"

definition Serial_IsCharReceived :: "'h io \<Rightarrow> 'h \<Rightarrow> bool \<times> 'h" where
  "Serial_IsCharReceived D h = io_test D UCSR1A RXC1 h"

definition Serial_SendByte :: "'h io \<Rightarrow> u8 \<Rightarrow> 'h \<Rightarrow> 'h option" where
  "Serial_SendByte D DataByte h = map_option (io_wr D UDR1 DataByte) (io_wait D UCSR1A UDRE1 h)"

definition Serial_ReceiveByte :: "'h io \<Rightarrow> 'h \<Rightarrow> int \<times> 'h" where
  "Serial_ReceiveByte D h =
     (let (b, h) = Serial_IsCharReceived D h in
      if \<not> b then (-1, h) else let (v, h) = io_rd D UDR1 h in (uint v, h))"

section \<open>Serial\_AVR8.c\<close>

definition Serial_putchar :: "'h io \<Rightarrow> u8 \<Rightarrow> 'h \<Rightarrow> (int \<times> 'h) option" where
  "Serial_putchar D DataByte h = map_option (\<lambda>h. (0, h)) (Serial_SendByte D DataByte h)"

text \<open>\<open>_FDEV_EOF\<close> is \<open>-2\<close>.\<close>

definition Serial_getchar :: "'h io \<Rightarrow> 'h \<Rightarrow> int \<times> 'h" where
  "Serial_getchar D h =
     (let (b, h) = Serial_IsCharReceived D h in if \<not> b then (-2, h) else Serial_ReceiveByte D h)"

definition Serial_getchar_Blocking :: "'h io \<Rightarrow> 'h \<Rightarrow> (int \<times> 'h) option" where
  "Serial_getchar_Blocking D h = map_option (Serial_ReceiveByte D) (io_wait D UCSR1A RXC1 h)"

text \<open>A zero-terminated string is its list of bytes from the pointer on.\<close>

fun Serial_SendString :: "'h io \<Rightarrow> u8 list \<Rightarrow> 'h \<Rightarrow> 'h option" where
  "Serial_SendString D (c # cs) h =
     (if c = 0 then Some h else Option.bind (Serial_SendByte D c h) (Serial_SendString D cs))"
| "Serial_SendString D [] h = Some h"

fun Serial_SendString_P :: "'h io \<Rightarrow> u8 list \<Rightarrow> 'h \<Rightarrow> 'h option" where
  "Serial_SendString_P D (c # cs) h =
     (if c = 0 then Some h else Option.bind (Serial_SendByte D c h) (Serial_SendString_P D cs))"
| "Serial_SendString_P D [] h = Some h"

text \<open>\<open>while (Length--)\<close> over the buffer from the pointer on.\<close>

primrec Serial_SendData :: "'h io \<Rightarrow> u8 list \<Rightarrow> nat \<Rightarrow> 'h \<Rightarrow> 'h option" where
  "Serial_SendData D Buffer 0 h = Some h"
| "Serial_SendData D Buffer (Suc n) h =
     Option.bind (Serial_SendByte D (hd Buffer) h) (Serial_SendData D (tl Buffer) n)"

definition Serial_CreateStream :: "'h io \<Rightarrow> (u8 \<Rightarrow> 'h \<Rightarrow> (int \<times> 'h) option) \<times> ('h \<Rightarrow> (int \<times> 'h) option)" where
  "Serial_CreateStream D = (Serial_putchar D, \<lambda>h. Some (Serial_getchar D h))"

definition Serial_CreateBlockingStream :: "'h io \<Rightarrow> (u8 \<Rightarrow> 'h \<Rightarrow> (int \<times> 'h) option) \<times> ('h \<Rightarrow> (int \<times> 'h) option)" where
  "Serial_CreateBlockingStream D = (Serial_putchar D, Serial_getchar_Blocking D)"

section \<open>Baud rates\<close>

text \<open>In double-speed mode the divisor is the nearest one: for a rate of 1 to 4 million baud the
  register value plus one, times the rate, is within half a rate of \<open>F_CPU / 8\<close>. Faster requests
  wrap to the largest divisor, which is the slowest rate.\<close>

theorem baud_divisor:
  assumes "SERIAL_2X_UBBRVAL Baud = Some v"
  shows "if unat Baud \<le> 4000000
         then 2 * \<bar>2000000 - (int (unat v) + 1) * int (unat Baud)\<bar> \<le> int (unat Baud)
         else v = 0xFFFFFFFF"
proof -
  have b: "0 < unat Baud" and v: "v = (2000000 + Baud div 2) div Baud - 1"
    using assms by (auto simp: SERIAL_2X_UBBRVAL_def F_CPU_def unat_gt_0 split: if_splits)
  let ?q = "(2000000 + unat Baud div 2) div unat Baud"
  have "unat (2000000 + Baud div 2) = 2000000 + unat Baud div 2"
    using unat_bounds(3) [of Baud] by (simp add: unat_word_ariths unat_div)
  then have q: "unat ((2000000 + Baud div 2) div Baud) = ?q" by (simp add: unat_div)
  show ?thesis
  proof (cases "unat Baud \<le> 4000000")
    case True
    then have "1 \<le> ?q" using b by (simp add: div_greater_zero_iff Suc_le_eq)
    then have "unat v + 1 = ?q" using q v unat_minus_one [of "(2000000 + Baud div 2) div Baud"] by force
    then obtain m where m: "m = (unat v + 1) * unat Baud" "m = ?q * unat Baud" by metis
    have "m \<le> 2000000 + unat Baud div 2" "2000000 + unat Baud div 2 < m + unat Baud"
      using b m(2) div_mult_mod_eq [of "2000000 + unat Baud div 2" "unat Baud"]
        mod_less_divisor [of "unat Baud" "2000000 + unat Baud div 2"] by linarith+
    then have "2 * m \<le> 4000000 + unat Baud" "4000000 \<le> 2 * m + unat Baud" by linarith+
    moreover have "2 * \<bar>2000000 - int k\<bar> \<le> int n" if "2 * k \<le> 4000000 + n" "4000000 \<le> 2 * k + n" for k n
      using that by (cases "2000000 \<le> int k") (simp_all add: abs_if)
    ultimately have "2 * \<bar>2000000 - int m\<bar> \<le> int (unat Baud)" by blast
    moreover have "int m = (int (unat v) + 1) * int (unat Baud)" using m(1) by (simp add: algebra_simps)
    ultimately show ?thesis using True by simp
  next
    case False
    then have "?q = 0" by (simp add: div_eq_0_iff)
    then have "(2000000 + Baud div 2) div Baud = 0" using q by (simp add: unat_eq_0)
    then show ?thesis using False v by simp
  qed
qed

theorem baud_divisor_witness: "SERIAL_2X_UBBRVAL 38400 = Some 51 \<and> 2 * \<bar>2000000 - (51 + 1) * 38400\<bar> \<le> (38400 :: int)"
proof -
  have "SERIAL_2X_UBBRVAL 38400 = Some 51" by (simp add: SERIAL_2X_UBBRVAL_def F_CPU_def)
  with baud_divisor [OF this] show ?thesis by simp
qed

end
