(* ===== verification/Xilinx.thy ===== *)
theory Xilinx
  imports Spi_Usart Ring_Buffer Clock_Timer Cdc_Class
begin

text \<open>
  The FPGA programmer of \<open>Projects/XilinxFpgaProg\<close> without its main loop: the slave-serial
  configuration port of \<open>XilinxProtocol.c\<close>, the command frames of \<open>serial.c\<close> and the
  application of \<open>application.c\<close>. A frame is a command byte, a length byte and the payload;
  \<open>serialAddByte\<close> says when one is complete, \<open>serialProcess\<close> executes it. Names shared with
  the miner firmware carry the prefix \<open>X_\<close>.
\<close>

section \<open>State\<close>

record X_Application =
  X_USARTtoUSB_Buffer :: RingBuffer_t
  serial_timeout :: Timer
  serial_rx_buffer :: RingBuffer_t

text \<open>All static variables and latches of the program; \<open>x_timer\<close> is the local of \<open>main\<close>.\<close>

record xilinx =
  x_board :: usart
  x_clk :: clock
  ser_buffer :: RingBuffer_t
  ser_frame_size :: u8
  x_app :: X_Application
  x_timer :: Timer

record 'h xfirmware = "'h cdc_core" +
  xil :: xilinx
  x_mcu :: mcu

section \<open>XilinxProtocol\<close>

definition clearProgramB :: "'a ports_scheme \<Rightarrow> 'a ports_scheme" where
  "clearProgramB b = set_PORTB (PORTB b AND NOT (BV 5)) b"

definition setProgramB :: "'a ports_scheme \<Rightarrow> 'a ports_scheme" where
  "setProgramB b = set_PORTB (PORTB b OR BV 5) b"

definition isSetInitB :: "'h io \<Rightarrow> 'h \<Rightarrow> bool \<times> 'h" where
  "isSetInitB D h = io_test D PINB 4 h"

definition isSetDone :: "'h io \<Rightarrow> 'h \<Rightarrow> bool \<times> 'h" where
  "isSetDone D h = io_test D PIND 6 h"

definition xilinxInit :: "'h io \<Rightarrow> 'h \<times> 'a ports_scheme \<Rightarrow> 'h \<times> 'a ports_scheme" where
  "xilinxInit D s =
     (let (h, b) = SPI_Init D (SPI_SPEED_FCPU_DIV_8 OR SPI_MODE_MASTER) s;
          b = b\<lparr>DDRB := DDRB b OR BV 0\<rparr>
      in (h, set_PORTB (PORTB b OR BV 0) b))"

text \<open>
  \<open>while (!isSetInitB() && timeout)\<close>: the pin is read before the counter is tested. The result
  is what is left of \<open>timeout\<close>.
\<close>

fun init_wait :: "'h io \<Rightarrow> nat \<Rightarrow> 'h \<times> 'a ports_scheme \<Rightarrow> nat \<times> 'h \<times> 'a ports_scheme" where
  "init_wait D 0 (h, b) = (let (i, h) = isSetInitB D h in (0, h, b))"
| "init_wait D (Suc timeout) (h, b) =
     (let (i, h) = isSetInitB D h in
      if i then (Suc timeout, h, b) else init_wait D timeout (h, delay_us 1000 b))"

definition xilinxSetupConfiguration :: "'h io \<Rightarrow> 'h \<times> 'a ports_scheme \<Rightarrow> bool \<times> 'h \<times> 'a ports_scheme" where
  "xilinxSetupConfiguration D = (\<lambda>(h, b).
     let b = clearProgramB b;
         b = delay_us 5 b;
         b = setProgramB b;
         b = delay_us 5 b;
         (timeout, h, b) = init_wait D 1000 (h, b)
     in (timeout \<noteq> 0, h, b))"

definition xilinxSend :: "'h io \<Rightarrow> u8 \<Rightarrow> 'h \<Rightarrow> 'h option" where
  "xilinxSend D buffer h = SPI_SendByte D buffer h"

section \<open>serial.c\<close>

definition SERIAL_START_CONFIG :: u8 where "SERIAL_START_CONFIG = 0x01"
definition SERIAL_DOWNLOAD_DATA :: u8 where "SERIAL_DOWNLOAD_DATA = 0x02"
definition SERIAL_SPI_DATA :: u8 where "SERIAL_SPI_DATA = 0x03"
definition SERIAL_SPI_SELECT :: u8 where "SERIAL_SPI_SELECT = 0x04"
definition SERIAL_USART_DATA :: u8 where "SERIAL_USART_DATA = 0x05"
definition SERIAL_USE_USART :: u8 where "SERIAL_USE_USART = 0x06"
definition SERIAL_USE_SPI :: u8 where "SERIAL_USE_SPI = 0x07"
definition SERIAL_FPGA_RESET :: u8 where "SERIAL_FPGA_RESET = 0x08"
definition SERIAL_FPGA_START :: u8 where "SERIAL_FPGA_START = 0x09"
definition SERIAL_END_COMMANDS :: u8 where "SERIAL_END_COMMANDS = 0x0a"
definition SERIAL_ACK :: u8 where "SERIAL_ACK = 0x80"
definition SERIAL_NAK :: u8 where "SERIAL_NAK = 0x81"

lemmas serial_codes = SERIAL_START_CONFIG_def SERIAL_DOWNLOAD_DATA_def SERIAL_SPI_DATA_def
  SERIAL_SPI_SELECT_def SERIAL_USART_DATA_def SERIAL_USE_USART_def SERIAL_USE_SPI_def
  SERIAL_FPGA_RESET_def SERIAL_FPGA_START_def SERIAL_END_COMMANDS_def SERIAL_ACK_def SERIAL_NAK_def

definition serialInit :: "xilinx \<Rightarrow> xilinx" where
  "serialInit x = x\<lparr>ser_buffer := RingBuffer_InitBuffer (rb_Data (ser_buffer x)) 128, ser_frame_size := 0\<rparr>"

definition serialAddByte :: "u8 \<Rightarrow> xilinx \<Rightarrow> bool \<times> xilinx" where
  "serialAddByte byte x =
     (let size = RingBuffer_GetCount (ser_buffer x) in
      if size = 0 \<and> byte \<ge> SERIAL_END_COMMANDS then (False, x)
      else
        let x = (if size = 1 then x\<lparr>ser_frame_size := byte + 2\<rparr> else x);
            x = x\<lparr>ser_buffer := RingBuffer_Insert (ser_buffer x) byte\<rparr>;
            size = RingBuffer_GetCount (ser_buffer x)
        in if size = ucast (ser_frame_size x) then (True, x\<lparr>ser_frame_size := 0\<rparr>) else (False, x))"

text \<open>\<open>RingBuffer_Remove(&buffer_)\<close>.\<close>

definition buffer_take :: "xilinx \<Rightarrow> u8 \<times> xilinx" where
  "buffer_take x = (let (v, r) = RingBuffer_Remove (ser_buffer x) in (v, x\<lparr>ser_buffer := r\<rparr>))"

text \<open>\<open>for(i=0; i<size; i++) send(RingBuffer_Remove(&buffer_));\<close>\<close>

fun send_payload :: "(u8 \<Rightarrow> 'h \<Rightarrow> 'h option) \<Rightarrow> nat \<Rightarrow> 'h \<times> xilinx \<Rightarrow> ('h \<times> xilinx) option" where
  "send_payload send 0 s = Some s"
| "send_payload send (Suc n) (h, x) =
     do {
       let (v, x) = buffer_take x;
       h \<leftarrow> send v h;
       send_payload send n (h, x)
     }"

text \<open>A step on the latches and the peripherals, and one on the latches alone.\<close>

definition x_io :: "('h \<times> usart \<Rightarrow> 'h \<times> usart) \<Rightarrow> 'h \<times> xilinx \<Rightarrow> 'h \<times> xilinx" where
  "x_io f = (\<lambda>(h, x). let (h, b) = f (h, x_board x) in (h, x\<lparr>x_board := b\<rparr>))"

definition x_out :: "(usart \<Rightarrow> usart) \<Rightarrow> xilinx \<Rightarrow> xilinx" where
  "x_out f x = x\<lparr>x_board := f (x_board x)\<rparr>"

definition X_serialProcess :: "'h io \<Rightarrow> 'h \<times> xilinx \<Rightarrow> (bool \<times> 'h \<times> xilinx) option" where
  "X_serialProcess D = (\<lambda>(h, x).
     let (cmd, x) = buffer_take x;
         (size, x) = buffer_take x
     in
     if cmd = SERIAL_START_CONFIG then
       let (ret, h, b) = xilinxSetupConfiguration D (h, x_board x) in Some (ret, h, x\<lparr>x_board := b\<rparr>)
     else if cmd = SERIAL_DOWNLOAD_DATA then
       do {
         let x = x_out (X_LEDs_ToggleLEDs X_LEDS_LED1) x;
         (h, x) \<leftarrow> send_payload (xilinxSend D) (unat size) (h, x);
         let (d, h) = isSetDone D h;
         if d then Some (True, h, x)
         else let (i, h) = isSetInitB D h in if \<not> i then Some (False, h, x) else Some (True, h, x)
       }
     else if cmd = SERIAL_USE_SPI then
       let (h, x) = x_io (SPI_Init D (SPI_SPEED_FCPU_DIV_8 OR SPI_MODE_MASTER)) (h, x);
           x = x_out (\<lambda>b. b\<lparr>DDRB := DDRB b OR BV 0\<rparr>) x;
           x = x_out (\<lambda>b. set_PORTB (PORTB b OR BV 0) b) x
       in Some (True, h, x)
     else if cmd = SERIAL_SPI_DATA then
       do {
         let x = x_out (X_LEDs_ToggleLEDs X_LEDS_LED2) x;
         (h, x) \<leftarrow> send_payload (SPI_SendByte D) (unat size) (h, x);
         Some (True, h, x)
       }
     else if cmd = SERIAL_SPI_SELECT then
       let (prop, x) = buffer_take x;
           x = x_out (\<lambda>b. set_PORTD (if prop \<noteq> 0 then PORTD b AND NOT (BV 3) else PORTD b OR BV 3) b) x
       in Some (True, h, x)
     else if cmd = SERIAL_USE_USART then
       let (h, x) = x_io (SPI_Disable D) (h, x);
           x = x_out (\<lambda>b. set_PORTB (PORTB b AND NOT (BV 1 OR BV 2)) b) x;
           x = x_out (\<lambda>b. b\<lparr>DDRB := DDRB b OR (BV 1 OR BV 2)\<rparr>) x
       in Some (True, h, x)
     else if cmd = SERIAL_USART_DATA then
       do {
         (h, x) \<leftarrow> send_payload (Serial_SendByte D) (unat size) (h, x);
         Some (True, h, x)
       }
     else if cmd = SERIAL_FPGA_RESET then
       let x = x_out (\<lambda>b. set_PORTB (PORTB b OR BV 1) b) x;
           x = x_out (delay_us 5) x;
           x = x_out (\<lambda>b. set_PORTB (PORTB b AND NOT (BV 1)) b) x
       in Some (True, h, x)
     else if cmd = SERIAL_FPGA_START then
       let x = x_out (\<lambda>b. set_PORTB (PORTB b OR BV 2) b) x;
           x = x_out (delay_us 5) x;
           x = x_out (\<lambda>b. set_PORTB (PORTB b AND NOT (BV 2)) b) x
       in Some (True, h, x)
     else
       Some (False, h, ((\<lambda>x. snd (buffer_take x)) ^^ unat size) x))"

section \<open>application.c\<close>

definition app_put :: "u8 \<Rightarrow> xilinx \<Rightarrow> xilinx" where
  "app_put v x = x\<lparr>x_app := (x_app x)\<lparr>X_USARTtoUSB_Buffer := RingBuffer_Insert (X_USARTtoUSB_Buffer (x_app x)) v\<rparr>\<rparr>"

definition X_appInit :: "xilinx \<Rightarrow> xilinx" where
  "X_appInit x =
     (let a = x_app x;
          a = a\<lparr>X_USARTtoUSB_Buffer := RingBuffer_InitBuffer (rb_Data (X_USARTtoUSB_Buffer a)) 128\<rparr>;
          a = a\<lparr>serial_rx_buffer := RingBuffer_InitBuffer (rb_Data (serial_rx_buffer a)) 64\<rparr>;
          a = a\<lparr>serial_timeout := timerSet (x_clk x) (serial_timeout a) 100\<rparr>
      in x\<lparr>x_app := a\<rparr>)"

text \<open>\<open>RingBuffer_Insert(&app->USARTtoUSB_Buffer, RingBuffer_Remove(&app->serial_rx_buffer))\<close>.\<close>

definition forward_byte :: "xilinx \<Rightarrow> xilinx" where
  "forward_byte x =
     (let (v, r) = RingBuffer_Remove (serial_rx_buffer (x_app x))
      in app_put v (x\<lparr>x_app := (x_app x)\<lparr>serial_rx_buffer := r\<rparr>\<rparr>))"

definition X_appService :: "xilinx \<Rightarrow> xilinx" where
  "X_appService x =
     (let (expired, t) = timerExpired (x_clk x) (serial_timeout (x_app x));
          x = x\<lparr>x_app := (x_app x)\<lparr>serial_timeout := t\<rparr>\<rparr>
      in if expired then
           let count = (ucast (RingBuffer_GetCount (serial_rx_buffer (x_app x))) :: u8);
               x = (if count > 0 then (forward_byte ^^ unat count) (app_put count (app_put SERIAL_USART_DATA x)) else x)
           in x\<lparr>x_app := (x_app x)\<lparr>serial_timeout := timerRestart (x_clk x) (serial_timeout (x_app x))\<rparr>\<rparr>
         else x)"

definition appSerialDataReceived :: "u8 \<Rightarrow> xilinx \<Rightarrow> xilinx" where
  "appSerialDataReceived data x =
     x\<lparr>x_app := (x_app x)\<lparr>serial_rx_buffer := RingBuffer_Insert (serial_rx_buffer (x_app x)) data,
        serial_timeout := timerRestart (x_clk x) (serial_timeout (x_app x))\<rparr>\<rparr>"

text \<open>A complete frame is executed and answered with \<open>SERIAL_ACK\<close> or \<open>SERIAL_NAK\<close> and a zero.\<close>

definition x_serve :: "'h io \<Rightarrow> 'h \<times> xilinx \<Rightarrow> ('h \<times> xilinx) option" where
  "x_serve D s =
     do {
       (ok, h, x) \<leftarrow> X_serialProcess D s;
       let x = app_put (if ok then SERIAL_ACK else SERIAL_NAK) x;
       Some (h, app_put 0 x)
     }"

text \<open>The body of the receive loop for one byte.\<close>

definition x_receive :: "'h io \<Rightarrow> u8 \<Rightarrow> 'h \<times> xilinx \<Rightarrow> ('h \<times> xilinx) option" where
  "x_receive D byte = (\<lambda>(h, x).
     let (complete, x) = serialAddByte byte x in if complete then x_serve D (h, x) else Some (h, x))"

definition X_receive_turn :: "'h io \<Rightarrow> 'h xfirmware \<Rightarrow> ('h xfirmware + 'h xfirmware) option" where
  "X_receive_turn D s =
     (let (received_byte, s) = CDC_Device_ReceiveByte D s in
      if received_byte \<ge> 0 then
        map_option (\<lambda>(h, x). Inr (s\<lparr>hw := h, xil := x\<rparr>)) (x_receive D (word_of_int received_byte) (hw s, xil s))
      else Some (Inl s))"

definition X_appUsbDataReceived :: "'h io \<Rightarrow> 'h xfirmware \<Rightarrow> 'h xfirmware option" where
  "X_appUsbDataReceived D s = loop (X_receive_turn D) s"

end
