(* ===== verification/Xilinx_Frames.thy ===== *)
theory Xilinx_Frames
  imports Xilinx
begin

text \<open>
  What the FPGA programmer does with the frames it receives. \<open>frame_action\<close> is the protocol
  without its byte-wise reception and ring buffer; \<open>frame_stream_spec\<close> shows that the code
  implements it on streams of well-formed frames, and the last section what happens on frames that
  are not. The configuration port is characterised by \<open>setup_configuration\<close>.
\<close>

section \<open>Frames\<close>

text \<open>The ring buffer of the frame under construction, as the list it holds.\<close>

definition frame_ok :: "xilinx \<Rightarrow> u8 list \<Rightarrow> bool" where
  "frame_ok x bs \<longleftrightarrow> ring_ok (ser_buffer x) \<and> ring_cap (ser_buffer x) = 128 \<and> ring_list (ser_buffer x) = bs"

text \<open>Between two frames.\<close>

definition serial_idle :: "xilinx \<Rightarrow> bool" where
  "serial_idle x \<longleftrightarrow> frame_ok x [] \<and> ser_frame_size x = 0"

lemma frame_ok_count: "frame_ok x bs \<Longrightarrow> RingBuffer_GetCount (ser_buffer x) = word_of_nat (length bs) \<and> length bs \<le> 128"
  using length_ring_list [of "ser_buffer x"]
  by (auto simp: frame_ok_def RingBuffer_GetCount_def ring_cap_def ring_ok_def word_le_nat_alt)

lemma frame_ok_insert:
  "frame_ok x bs \<Longrightarrow> length bs < 128 \<Longrightarrow> frame_ok (x\<lparr>ser_buffer := RingBuffer_Insert (ser_buffer x) b\<rparr>) (bs @ [b])"
  by (simp add: frame_ok_def ring.insert_ok ring.insert_bytes ring.insert_cap)

lemma frame_ok_fields [simp]:
  "frame_ok (x\<lparr>ser_frame_size := f\<rparr>) bs = frame_ok x bs" "frame_ok (x\<lparr>x_board := b\<rparr>) bs = frame_ok x bs"
  "frame_ok (x\<lparr>x_app := a\<rparr>) bs = frame_ok x bs" "frame_ok (x_out g x) bs = frame_ok x bs"
  "frame_ok (x\<lparr>ser_frame_size := f, ser_buffer := r\<rparr>) bs = frame_ok (x\<lparr>ser_buffer := r\<rparr>) bs"
  by (simp_all add: frame_ok_def x_out_def)

lemma frame_ok_take:
  "frame_ok x (b # bs) \<Longrightarrow> fst (buffer_take x) = b \<and> frame_ok (snd (buffer_take x)) bs"
  using ring.remove_bytes [of "ser_buffer x"]
  by (simp add: frame_ok_def buffer_take_def Let_def split_beta ring.remove_ok ring.remove_cap)

lemma buffer_take_keeps [simp]:
  "ser_frame_size (snd (buffer_take x)) = ser_frame_size x" "x_board (snd (buffer_take x)) = x_board x"
  "x_app (snd (buffer_take x)) = x_app x" "x_clk (snd (buffer_take x)) = x_clk x"
  by (simp_all add: buffer_take_def Let_def split_beta)

lemma ucast_u8_eq: "k < 65536 \<Longrightarrow> (word_of_nat k :: u16) = ucast (m :: u8) \<longleftrightarrow> k = unat m"
  using unat_bounds(1) [of m] by (auto simp: word_unat_eq_iff unsigned_ucast_eq unsigned_of_nat take_bit_nat_eq_self)

lemma unat_frame_size: "length p \<le> 253 \<Longrightarrow> unat (word_of_nat (length p) + 2 :: u8) = length p + 2"
  by (simp add: unat_word_ariths unsigned_of_nat take_bit_nat_eq_self)

text \<open>The three positions of a byte in a frame: command, length, payload.\<close>

lemma add_command:
  assumes "serial_idle x" "cmd < SERIAL_END_COMMANDS"
  shows "\<exists>x'. serialAddByte cmd x = (False, x') \<and> frame_ok x' [cmd] \<and> ser_frame_size x' = 0 \<and> x_app x' = x_app x \<and> x_board x' = x_board x"
proof -
  have ok: "frame_ok x []" and f: "ser_frame_size x = 0" using assms(1) by (simp_all add: serial_idle_def)
  let ?x = "x\<lparr>ser_buffer := RingBuffer_Insert (ser_buffer x) cmd\<rparr>"
  have i: "frame_ok ?x [cmd]" using frame_ok_insert [OF ok, of cmd] by simp
  then have c: "RingBuffer_GetCount (ser_buffer ?x) = 1" using frame_ok_count [OF i] by simp
  have "serialAddByte cmd x = (False, ?x)"
    using frame_ok_count [OF ok] c f assms(2) by (simp add: serialAddByte_def Let_def)
  with i f show ?thesis by auto
qed

lemma add_length:
  assumes "frame_ok x [cmd]"
  shows "\<exists>x'. serialAddByte n x = (n = 0, x') \<and> frame_ok x' [cmd, n]
    \<and> ser_frame_size x' = (if n = 0 then 0 else n + 2) \<and> x_app x' = x_app x \<and> x_board x' = x_board x"
proof -
  let ?x = "x\<lparr>ser_frame_size := n + 2, ser_buffer := RingBuffer_Insert (ser_buffer x) n\<rparr>"
  have i: "frame_ok ?x [cmd, n]"
    using frame_ok_insert [of "x\<lparr>ser_frame_size := n + 2\<rparr>" "[cmd]" n] assms by simp
  then have c: "RingBuffer_GetCount (ser_buffer ?x) = 2" using frame_ok_count [OF i] by simp
  have "(2 :: u16) = ucast (n + 2) \<longleftrightarrow> n = 0"
    using ucast_u8_eq [of 2 "n + 2"] word_unat_eq_iff [of "n + 2" 2] by auto
  then have "serialAddByte n x = (if n = 0 then (True, ?x\<lparr>ser_frame_size := 0\<rparr>) else (False, ?x))"
    using frame_ok_count [OF assms] c by (simp add: serialAddByte_def Let_def)
  with i show ?thesis by auto
qed

lemma add_payload_byte:
  assumes "frame_ok x bs" "2 \<le> length bs" "length bs < 128"
  shows "\<exists>x'. serialAddByte b x = (Suc (length bs) = unat (ser_frame_size x), x') \<and> frame_ok x' (bs @ [b])
    \<and> ser_frame_size x' = (if Suc (length bs) = unat (ser_frame_size x) then 0 else ser_frame_size x)
    \<and> x_app x' = x_app x \<and> x_board x' = x_board x"
proof -
  let ?x = "x\<lparr>ser_buffer := RingBuffer_Insert (ser_buffer x) b\<rparr>"
  have i: "frame_ok ?x (bs @ [b])" using frame_ok_insert [OF assms(1,3)] .
  then have c: "RingBuffer_GetCount (ser_buffer ?x) = word_of_nat (Suc (length bs))"
    using frame_ok_count [OF i] by simp
  have n: "(word_of_nat (length bs) :: u16) \<noteq> 0" "(word_of_nat (length bs) :: u16) \<noteq> 1"
    using assms(2,3) by (auto simp: word_unat_eq_iff unsigned_of_nat take_bit_nat_eq_self)
  have "serialAddByte b x = (if Suc (length bs) = unat (ser_frame_size x) then (True, ?x\<lparr>ser_frame_size := 0\<rparr>) else (False, ?x))"
    using frame_ok_count [OF assms(1)] c n assms(3) ucast_u8_eq [of "Suc (length bs)" "ser_frame_size x"]
    by (simp add: serialAddByte_def Let_def del: of_nat_Suc)
  with i show ?thesis by auto
qed

text \<open>
  The receive loop on a sequence of bytes. Each byte comes with what happened to the peripherals
  since the previous one: fetching it from the endpoint, interrupts, the world outside.
\<close>

type_synonym 'h arrival = "('h \<Rightarrow> 'h) \<times> u8"

primrec x_receive_all :: "'h io \<Rightarrow> 'h arrival list \<Rightarrow> 'h \<times> xilinx \<Rightarrow> ('h \<times> xilinx) option" where
  "x_receive_all D [] s = Some s"
| "x_receive_all D (e # es) s = Option.bind (x_receive D (snd e) (fst e (fst s), snd s)) (x_receive_all D es)"

definition passed :: "'h arrival list \<Rightarrow> 'h \<Rightarrow> 'h" where
  "passed es h = fold fst es h"

lemma passed_simps [simp]: "passed [] h = h" "passed (e # es) h = passed es (fst e h)"
  by (simp_all add: passed_def)

lemma x_receive_all_Nil [simp]: "x_receive_all D [] = Some"
  by (rule ext) simp

lemma x_receive_all_append:
  "x_receive_all D (es @ es') s = Option.bind (x_receive_all D es s) (x_receive_all D es')"
  by (induction es arbitrary: s) (simp_all split: bind_splits)

text \<open>What a frame leaves untouched while it is collected.\<close>

definition collected :: "xilinx \<Rightarrow> xilinx \<Rightarrow> u8 list \<Rightarrow> bool" where
  "collected x x' bs \<longleftrightarrow> frame_ok x' bs \<and> ser_frame_size x' = 0 \<and> x_app x' = x_app x \<and> x_board x' = x_board x"

lemma receive_payload:
  assumes "frame_ok x bs" "2 \<le> length bs" "length bs + length es \<le> 128" "es \<noteq> []"
    and "unat (ser_frame_size x) = length bs + length es"
  shows "\<exists>x'. x_receive_all D es (h, x) = x_serve D (passed es h, x') \<and> collected x x' (bs @ map snd es)"
  using assms
proof (induction es arbitrary: x bs h)
  case (Cons e es)
  then have l: "length bs < 128" by simp
  from add_payload_byte [OF Cons.prems(1,2) l, of "snd e"] Cons.prems(5) obtain x' where
    x': "serialAddByte (snd e) x = (es = [], x')" "frame_ok x' (bs @ [snd e])" "x_app x' = x_app x" "x_board x' = x_board x"
    "ser_frame_size x' = (if es = [] then 0 else ser_frame_size x)" by auto
  show ?case
  proof (cases "es = []")
    case True
    with x' show ?thesis by (auto simp: x_receive_def collected_def)
  next
    case False
    with Cons.IH [of x' "bs @ [snd e]" "fst e h"] x' Cons.prems show ?thesis by (auto simp: x_receive_def collected_def)
  qed
qed simp

lemma receive_frame:
  assumes "serial_idle x" "cmd < SERIAL_END_COMMANDS" "length p \<le> 126" "map snd es = cmd # word_of_nat (length p) # p"
  shows "\<exists>x'. x_receive_all D es (h, x) = x_serve D (passed es h, x') \<and> collected x x' (cmd # word_of_nat (length p) # p)"
proof -
  let ?n = "word_of_nat (length p) :: u8"
  obtain g1 g2 ps where es: "es = (g1, cmd) # (g2, ?n) # ps" "map snd ps = p"
    using assms(4) by (auto simp: map_eq_Cons_conv)
  obtain x1 where x1: "serialAddByte cmd x = (False, x1)" "frame_ok x1 [cmd]" "x_app x1 = x_app x" "x_board x1 = x_board x"
    using add_command [OF assms(1,2)] by blast
  obtain x2 where x2: "serialAddByte ?n x1 = (?n = 0, x2)" "frame_ok x2 [cmd, ?n]" "x_app x2 = x_app x1"
    "x_board x2 = x_board x1" "ser_frame_size x2 = (if ?n = 0 then 0 else ?n + 2)"
    using add_length [OF x1(2), of ?n] by blast
  have z: "?n = 0 \<longleftrightarrow> p = []"
    using assms(3) by (auto simp: word_unat_eq_iff unsigned_of_nat take_bit_nat_eq_self)
  have lp: "length ps = length p" using es(2) by auto
  show ?thesis
  proof (cases "p = []")
    case True
    with x1 x2 es show ?thesis by (auto simp: x_receive_def collected_def)
  next
    case False
    then have "ps \<noteq> []" using lp by auto
    moreover have "unat (ser_frame_size x2) = length [cmd, ?n] + length ps"
      using False z x2(5) assms(3) unat_frame_size [of p] lp by simp
    ultimately obtain x' where "x_receive_all D ps (g2 (g1 h), x2) = x_serve D (passed ps (g2 (g1 h)), x')"
      "collected x2 x' ([cmd, ?n] @ map snd ps)"
      using receive_payload [OF x2(2), of ps D "g2 (g1 h)"] assms(3) lp by auto
    with False x1 x2 z es show ?thesis by (auto simp: x_receive_def collected_def)
  qed
qed

section \<open>What a frame does\<close>

primrec send_all :: "(u8 \<Rightarrow> 'h \<Rightarrow> 'h option) \<Rightarrow> u8 list \<Rightarrow> 'h \<Rightarrow> 'h option" where
  "send_all send [] h = Some h"
| "send_all send (b # bs) h = Option.bind (send b h) (send_all send bs)"

text \<open>
  The protocol without its buffer: the effect of a command on the peripherals and the latches,
  given the whole payload, and whether it is acknowledged.
\<close>

definition pulse :: "nat \<Rightarrow> 'a ports_scheme \<Rightarrow> 'a ports_scheme" where
  "pulse n b = (let b = delay_us 5 (set_PORTB (PORTB b OR BV n) b) in set_PORTB (PORTB b AND NOT (BV n)) b)"

definition frame_action :: "'h io \<Rightarrow> u8 \<times> u8 list \<Rightarrow> 'h \<times> usart \<Rightarrow> (bool \<times> 'h \<times> usart) option" where
  "frame_action D = (\<lambda>(cmd, p) (h, b).
     if cmd = SERIAL_START_CONFIG then Some (xilinxSetupConfiguration D (h, b))
     else if cmd = SERIAL_DOWNLOAD_DATA then
       map_option (\<lambda>h. let (done, h) = isSetDone D h;
                           (init, h) = (if done then (True, h) else isSetInitB D h)
                       in (init, h, X_LEDs_ToggleLEDs X_LEDS_LED1 b))
         (send_all (SPI_SendByte D) p h)
     else if cmd = SERIAL_SPI_DATA then
       map_option (\<lambda>h. (True, h, X_LEDs_ToggleLEDs X_LEDS_LED2 b)) (send_all (SPI_SendByte D) p h)
     else if cmd = SERIAL_USART_DATA then
       map_option (\<lambda>h. (True, h, b)) (send_all (Serial_SendByte D) p h)
     else if cmd = SERIAL_USE_SPI then Some (True, xilinxInit D (h, b))
     else if cmd = SERIAL_USE_USART then
       let (h, b) = SPI_Disable D (h, b);
           b = set_PORTB (PORTB b AND NOT (BV 1 OR BV 2)) b
       in Some (True, h, b\<lparr>DDRB := DDRB b OR (BV 1 OR BV 2)\<rparr>)
     else if cmd = SERIAL_SPI_SELECT then
       Some (True, h, set_PORTD (if p = [0] then PORTD b OR BV 3 else PORTD b AND NOT (BV 3)) b)
     else if cmd = SERIAL_FPGA_RESET then Some (True, h, pulse 1 b)
     else if cmd = SERIAL_FPGA_START then Some (True, h, pulse 2 b)
     else Some (False, h, b))"

text \<open>The lengths a host has to use: no payload for the parameterless commands, one byte for the select.\<close>

definition well_formed :: "u8 \<times> u8 list \<Rightarrow> bool" where
  "well_formed = (\<lambda>(cmd, p). cmd < SERIAL_END_COMMANDS \<and>
     (if cmd \<in> {SERIAL_START_CONFIG, SERIAL_USE_SPI, SERIAL_USE_USART, SERIAL_FPGA_RESET, SERIAL_FPGA_START} then p = []
      else if cmd = SERIAL_SPI_SELECT then length p = 1 else length p \<le> 126))"

definition encode :: "u8 \<times> u8 list \<Rightarrow> u8 list" where
  "encode = (\<lambda>(cmd, p). cmd # word_of_nat (length p) # p)"

lemma send_payload_bytes:
  "frame_ok x (p @ q) \<Longrightarrow> \<exists>x'. send_payload send (length p) (h, x) = map_option (\<lambda>h'. (h', x')) (send_all send p h)
     \<and> frame_ok x' q \<and> ser_frame_size x' = ser_frame_size x \<and> x_app x' = x_app x \<and> x_board x' = x_board x"
proof (induction p arbitrary: x h)
  case (Cons b p)
  obtain x1 where t: "buffer_take x = (b, x1)" "frame_ok x1 (p @ q)"
    using frame_ok_take [of x b "p @ q"] Cons.prems by (cases "buffer_take x") auto
  have f: "ser_frame_size x1 = ser_frame_size x" "x_app x1 = x_app x" "x_board x1 = x_board x"
    using buffer_take_keeps(1-3) [of x] t(1) by simp_all
  show ?case
  proof (cases "send b h")
    case None
    then show ?thesis using t f Cons.IH [OF t(2), of undefined] by auto
  next
    case (Some h1)
    then show ?thesis using t f Cons.IH [OF t(2), of h1] by auto
  qed
qed auto

lemma drain_bytes:
  "frame_ok x (p @ q) \<Longrightarrow> frame_ok (((\<lambda>x. snd (buffer_take x)) ^^ length p) x) q
     \<and> ser_frame_size (((\<lambda>x. snd (buffer_take x)) ^^ length p) x) = ser_frame_size x
     \<and> x_app (((\<lambda>x. snd (buffer_take x)) ^^ length p) x) = x_app x
     \<and> x_board (((\<lambda>x. snd (buffer_take x)) ^^ length p) x) = x_board x"
proof (induction p arbitrary: x)
  case (Cons b p)
  with frame_ok_take [of x b "p @ q"] show ?case by (simp add: funpow_Suc_right del: funpow.simps)
qed simp

lemma taken_header:
  assumes "collected x x' (cmd # n # p)"
  obtains x1 x2 where "buffer_take x' = (cmd, x1)" "buffer_take x1 = (n, x2)" "collected x x2 p"
proof -
  obtain x1 where x1: "buffer_take x' = (cmd, x1)" "collected x x1 (n # p)"
    using frame_ok_take [of x' cmd "n # p"] buffer_take_keeps [of x'] assms
    by (cases "buffer_take x'") (auto simp: collected_def)
  moreover obtain x2 where "buffer_take x1 = (n, x2)" "collected x x2 p"
    using frame_ok_take [of x1 n p] buffer_take_keeps [of x1] x1(2)
    by (cases "buffer_take x1") (auto simp: collected_def)
  ultimately show thesis using that by blast
qed

lemma less_ten: "(cmd :: u8) < 10 \<Longrightarrow> cmd \<in> {0, 1, 2, 3, 4, 5, 6, 7, 8, 9}"
proof -
  assume "cmd < 10"
  then have "unat cmd \<in> set [0..<10]" by (simp add: word_less_nat_alt)
  then have "(word_of_nat (unat cmd) :: u8) \<in> word_of_nat ` set [0..<10]" by (rule imageI)
  then show ?thesis by (simp add: upt_conv_Cons)
qed

lemma payload_sent:
  assumes "collected x x2 p"
  obtains x3 where "send_payload send (length p) (h, x2\<lparr>x_board := b\<rparr>) = map_option (\<lambda>h'. (h', x3\<lparr>x_board := b\<rparr>)) (send_all send p h)"
    and "collected x x3 []"
proof -
  obtain y where "send_payload send (length p) (h, x2\<lparr>x_board := b\<rparr>) = map_option (\<lambda>h'. (h', y)) (send_all send p h)"
    "frame_ok y []" "ser_frame_size y = 0" "x_app y = x_app x" "x_board y = b"
    using send_payload_bytes [of "x2\<lparr>x_board := b\<rparr>" p "[]" send h] assms by (auto simp: collected_def)
  then show thesis by (intro that [of "y\<lparr>x_board := x_board x\<rparr>"]) (auto simp: collected_def)
qed

text \<open>
  Executing a frame that is in the buffer: the buffered interpreter does what the payload-level
  action says and leaves the buffer empty.
\<close>

definition executes :: "'h io \<Rightarrow> u8 \<times> u8 list \<Rightarrow> 'h \<Rightarrow> xilinx \<Rightarrow> xilinx \<Rightarrow> bool" where
  "executes D f h x x' \<longleftrightarrow> (\<exists>x2. X_serialProcess D (h, x') =
       map_option (\<lambda>(ok, h, b). (ok, h, x2\<lparr>x_board := b\<rparr>)) (frame_action D f (h, x_board x))
     \<and> collected x x2 [])"

lemma process_data:
  assumes t: "buffer_take x' = (cmd, x1)" "buffer_take x1 = (word_of_nat (length p), x2)" "collected x x2 p"
    and "length p \<le> 126" "cmd \<in> {SERIAL_DOWNLOAD_DATA, SERIAL_SPI_DATA, SERIAL_USART_DATA}"
  shows "executes D (cmd, p) h x x'"
proof -
  have n: "unat (word_of_nat (length p) :: u8) = length p"
    using assms(4) by (simp add: unsigned_of_nat take_bit_nat_eq_self)
  have b: "x_board x2 = x_board x" using t(3) by (simp add: collected_def)
  have xs: "xilinxSend D = SPI_SendByte D" by (simp add: fun_eq_iff xilinxSend_def)
  note step = executes_def X_serialProcess_def Let_def t(1,2) frame_action_def serial_codes split_beta n xs x_out_def b
  consider (down) "cmd = SERIAL_DOWNLOAD_DATA" | (spi) "cmd = SERIAL_SPI_DATA" | (usart) "cmd = SERIAL_USART_DATA"
    using assms(5) by blast
  then show ?thesis
  proof cases
    case down
    obtain x3 where s3: "send_payload (SPI_SendByte D) (length p) (h, x2\<lparr>x_board := X_LEDs_ToggleLEDs X_LEDS_LED1 (x_board x)\<rparr>)
        = map_option (\<lambda>h'. (h', x3\<lparr>x_board := X_LEDs_ToggleLEDs X_LEDS_LED1 (x_board x)\<rparr>)) (send_all (SPI_SendByte D) p h)"
      "collected x x3 []" by (rule payload_sent [OF t(3)])
    with down show ?thesis by (cases "send_all (SPI_SendByte D) p h") (auto simp: step)
  next
    case spi
    obtain x3 where "send_payload (SPI_SendByte D) (length p) (h, x2\<lparr>x_board := X_LEDs_ToggleLEDs X_LEDS_LED2 (x_board x)\<rparr>)
        = map_option (\<lambda>h'. (h', x3\<lparr>x_board := X_LEDs_ToggleLEDs X_LEDS_LED2 (x_board x)\<rparr>)) (send_all (SPI_SendByte D) p h)"
      "collected x x3 []" by (rule payload_sent [OF t(3)])
    with spi show ?thesis by (cases "send_all (SPI_SendByte D) p h") (auto simp: step)
  next
    case usart
    obtain x3 where "send_payload (Serial_SendByte D) (length p) (h, x2\<lparr>x_board := x_board x\<rparr>)
        = map_option (\<lambda>h'. (h', x3\<lparr>x_board := x_board x\<rparr>)) (send_all (Serial_SendByte D) p h)"
      "collected x x3 []" by (rule payload_sent [OF t(3)])
    moreover have "x2\<lparr>x_board := x_board x\<rparr> = x2" using b by (cases x2) simp
    ultimately show ?thesis using usart by (cases "send_all (Serial_SendByte D) p h") (auto simp: step)
  qed
qed

lemma process_select:
  assumes t: "buffer_take x' = (SERIAL_SPI_SELECT, x1)" "buffer_take x1 = (n, x2)" "collected x x2 [v]"
  shows "executes D (SERIAL_SPI_SELECT, [v]) h x x'"
proof -
  obtain x3 where "buffer_take x2 = (v, x3)" "collected x x3 []"
    using frame_ok_take [of x2 v "[]"] buffer_take_keeps [of x2] t(3)
    by (cases "buffer_take x2") (auto simp: collected_def)
  with t show ?thesis
    by (auto simp: executes_def X_serialProcess_def Let_def frame_action_def serial_codes x_out_def collected_def)
qed

lemma process_frame:
  assumes c: "collected x x' (encode (cmd, p))" and w: "well_formed (cmd, p)"
  shows "executes D (cmd, p) h x x'"
proof -
  obtain x1 x2 where t: "buffer_take x' = (cmd, x1)" "buffer_take x1 = (word_of_nat (length p), x2)" "collected x x2 p"
    using taken_header [of x x' cmd "word_of_nat (length p)" p] c by (auto simp: encode_def)
  consider (plain) "cmd \<in> {SERIAL_START_CONFIG, SERIAL_USE_SPI, SERIAL_USE_USART, SERIAL_FPGA_RESET, SERIAL_FPGA_START}" "p = []"
    | (dat) "cmd \<in> {SERIAL_DOWNLOAD_DATA, SERIAL_SPI_DATA, SERIAL_USART_DATA}" "length p \<le> 126"
    | (select) v where "cmd = SERIAL_SPI_SELECT" "p = [v]"
    | (unknown) "cmd = 0" "unat (word_of_nat (length p) :: u8) = length p"
    using w less_ten [of cmd]
    by (auto simp: well_formed_def serial_codes length_Suc_conv unsigned_of_nat take_bit_nat_eq_self)
  then show ?thesis
  proof cases
    case plain
    with t show ?thesis
      by (auto simp: executes_def X_serialProcess_def Let_def frame_action_def serial_codes collected_def split_beta
          x_io_def x_out_def pulse_def xilinxInit_def port_defs)
  next
    case unknown
    with t drain_bytes [of x2 p "[]"] show ?thesis
      by (auto simp: executes_def X_serialProcess_def Let_def frame_action_def serial_codes collected_def
          intro!: exI [of _ "((\<lambda>x. snd (buffer_take x)) ^^ length p) x2"])
  next
    case dat
    then show ?thesis by (intro process_data [OF t])
  next
    case select
    with t show ?thesis by (auto intro: process_select)
  qed
qed

section \<open>Streams of frames\<close>

text \<open>Each frame comes with what happened to the peripherals until its last byte arrived.\<close>

primrec run_frames :: "'h io \<Rightarrow> ((u8 \<times> u8 list) \<times> ('h \<Rightarrow> 'h)) list \<Rightarrow> 'h \<times> usart \<Rightarrow> (bool list \<times> 'h \<times> usart) option" where
  "run_frames D [] s = (case s of (h, b) \<Rightarrow> Some ([], h, b))"
| "run_frames D (fg # fgs) s =
     do {
       (ok, s) \<leftarrow> frame_action D (fst fg) (snd fg (fst s), snd s);
       (oks, s) \<leftarrow> run_frames D fgs s;
       Some (ok # oks, s)
     }"

definition answers :: "bool list \<Rightarrow> u8 list" where
  "answers oks = concat (map (\<lambda>ok. [if ok then SERIAL_ACK else SERIAL_NAK, 0]) oks)"

text \<open>The buffer of bytes to the host.\<close>

definition reply_ok :: "xilinx \<Rightarrow> u8 list \<Rightarrow> bool" where
  "reply_ok x bs \<longleftrightarrow> ring_ok (X_USARTtoUSB_Buffer (x_app x)) \<and> ring_cap (X_USARTtoUSB_Buffer (x_app x)) = 128
     \<and> ring_list (X_USARTtoUSB_Buffer (x_app x)) = bs"

lemma reply_ok_put: "reply_ok x bs \<Longrightarrow> length bs < 128 \<Longrightarrow> reply_ok (app_put v x) (bs @ [v])"
  by (simp add: reply_ok_def app_put_def ring.insert_ok ring.insert_bytes ring.insert_cap)

lemma app_put_frame [simp]:
  "frame_ok (app_put v x) bs = frame_ok x bs" "ser_frame_size (app_put v x) = ser_frame_size x"
  "x_board (app_put v x) = x_board x" "serial_idle (app_put v x) = serial_idle x"
  by (simp_all add: app_put_def serial_idle_def)

lemma serve_frame:
  assumes "serial_idle x" "well_formed f" "map snd es = encode f" "reply_ok x out" "length out \<le> 126"
  shows "case frame_action D f (passed es h, x_board x) of
      None \<Rightarrow> x_receive_all D es (h, x) = None
    | Some (ok, h', b) \<Rightarrow> \<exists>x'. x_receive_all D es (h, x) = Some (h', x') \<and> serial_idle x'
        \<and> reply_ok x' (out @ answers [ok]) \<and> x_board x' = b"
proof -
  obtain cmd p where f: "f = (cmd, p)" by (cases f)
  have w: "cmd < SERIAL_END_COMMANDS" "length p \<le> 126" "map snd es = cmd # word_of_nat (length p) # p"
    using assms(2,3) by (auto simp: f well_formed_def encode_def split: if_splits)
  obtain x' where r: "x_receive_all D es (h, x) = x_serve D (passed es h, x')" and c: "collected x x' (encode f)"
    using receive_frame [OF assms(1) w, of D h] by (auto simp: encode_def f)
  obtain x2 where x2: "X_serialProcess D (passed es h, x') =
       map_option (\<lambda>(ok, h, b). (ok, h, x2\<lparr>x_board := b\<rparr>)) (frame_action D f (passed es h, x_board x))" "collected x x2 []"
    using process_frame [of x x' cmd p D "passed es h"] c assms(2) by (auto simp: f executes_def)
  have "reply_ok (x2\<lparr>x_board := b\<rparr>) out" for b
    using x2(2) assms(4) by (simp add: collected_def reply_ok_def)
  then have "reply_ok (app_put 0 (app_put v (x2\<lparr>x_board := b\<rparr>))) (out @ [v, 0])" for v b
    using reply_ok_put [OF reply_ok_put, of "x2\<lparr>x_board := b\<rparr>" out v 0] assms(5) by simp
  with r x2 show ?thesis
    by (auto simp: x_serve_def answers_def serial_idle_def collected_def split: option.split)
qed

lemma serve_frames:
  assumes "serial_idle x" "list_all well_formed fs" "map (map snd) ess = map encode fs"
    and "reply_ok x out" "length out + 2 * length fs \<le> 128"
  shows "case run_frames D (zip fs (map passed ess)) (h, x_board x) of
      None \<Rightarrow> x_receive_all D (concat ess) (h, x) = None
    | Some (oks, h', b) \<Rightarrow> \<exists>x'. x_receive_all D (concat ess) (h, x) = Some (h', x') \<and> serial_idle x'
        \<and> reply_ok x' (out @ answers oks) \<and> x_board x' = b"
  using assms
proof (induction fs arbitrary: x out h ess)
  case (Cons f fs)
  obtain es ess' where e: "ess = es # ess'" "map snd es = encode f" "map (map snd) ess' = map encode fs"
    using Cons.prems(3) by (auto simp: map_eq_Cons_conv)
  note one = serve_frame [OF Cons.prems(1) _ e(2) Cons.prems(4), of D h]
  show ?case
  proof (cases "frame_action D f (passed es h, x_board x)")
    case None
    with one Cons.prems e show ?thesis by (simp add: x_receive_all_append)
  next
    case (Some r)
    obtain ok h1 b where r: "r = (ok, h1, b)" by (cases r)
    obtain x1 where x1: "x_receive_all D es (h, x) = Some (h1, x1)" "serial_idle x1"
      "reply_ok x1 (out @ answers [ok])" "x_board x1 = b"
      using one Some Cons.prems by (auto simp: r)
    have "length (out @ answers [ok]) + 2 * length fs \<le> 128" using Cons.prems(5) by (simp add: answers_def)
    from Cons.IH [OF x1(2) _ e(3) x1(3) this, of h1] Cons.prems(2) Some r x1 e show ?thesis
      by (cases "run_frames D (zip fs (map passed ess')) (h1, b)") (auto simp: x_receive_all_append answers_def)
  qed
qed (auto simp: answers_def)

section \<open>The configuration port\<close>

definition poll_init :: "'h io \<Rightarrow> nat \<Rightarrow> 'h \<Rightarrow> 'h" where
  "poll_init D k h = ((\<lambda>h. snd (isSetInitB D h)) ^^ k) h"

lemma init_wait_ends:
  "fst (init_wait D n (h, b)) \<noteq> 0 \<longleftrightarrow> (\<exists>k<n. fst (isSetInitB D (poll_init D k h)))"
proof (induction n arbitrary: h b)
  case (Suc n)
  show ?case
  proof (cases "fst (isSetInitB D h)")
    case True
    then show ?thesis by (auto simp: split_beta Let_def poll_init_def intro!: exI [of _ 0])
  next
    case False
    have "(\<exists>k<Suc n. fst (isSetInitB D (poll_init D k h)))
        \<longleftrightarrow> (\<exists>k<n. fst (isSetInitB D (poll_init D (Suc k) h)))"
      using False by (auto simp: poll_init_def less_Suc_eq_0_disj)
    with Suc False show ?thesis
      by (simp add: split_beta Let_def poll_init_def funpow_Suc_right del: funpow.simps)
  qed
qed (simp add: split_beta)

lemma init_wait_pins:
  "\<exists>k\<le>n. snd (snd (init_wait D n (h, b))) = b\<lparr>pins := pins b @ replicate k (Delay_us 1000)\<rparr>"
proof (induction n arbitrary: h b)
  case 0
  then show ?case by (simp add: split_beta)
next
  case (Suc n)
  have ?case if "fst (isSetInitB D h)"
    using that by (auto simp: split_beta Let_def intro!: exI [of _ 0])
  moreover obtain k where "k \<le> n" "snd (snd (init_wait D n (snd (isSetInitB D h), delay_us 1000 b)))
      = (delay_us 1000 b)\<lparr>pins := pins (delay_us 1000 b) @ replicate k (Delay_us 1000)\<rparr>"
    using Suc by blast
  then have ?case if "\<not> fst (isSetInitB D h)"
    using that by (auto simp: split_beta Let_def delay_us_def intro!: exI [of _ "Suc k"])
  ultimately show ?case by blast
qed

text \<open>C33. Starting a configuration pulses \<open>PROGRAM_B\<close> low for 5 us, waits in steps of 1 ms and
  always returns; it reports success exactly when \<open>INIT_B\<close> is high at one of the first 1000
  polls. The 1001st poll, which the loop still makes, does not count.\<close>

theorem setup_configuration:
  "let (ok, h', b') = xilinxSetupConfiguration D (h, b)
   in (ok \<longleftrightarrow> (\<exists>k<1000. fst (isSetInitB D (poll_init D k h))))
    \<and> (\<exists>k\<le>1000. pins b' = pins b @ [Out_B (PORTB b AND NOT (BV 5)), Delay_us 5,
         Out_B (PORTB b AND NOT (BV 5) OR BV 5), Delay_us 5] @ replicate k (Delay_us 1000))"
proof -
  let ?b = "delay_us 5 (setProgramB (delay_us 5 (clearProgramB b)))"
  have r: "xilinxSetupConfiguration D (h, b) = (fst (init_wait D 1000 (h, ?b)) \<noteq> 0, snd (init_wait D 1000 (h, ?b)))"
    by (simp add: xilinxSetupConfiguration_def Let_def split_beta del: init_wait.simps)
  obtain k where "k \<le> 1000" "snd (snd (init_wait D 1000 (h, ?b))) = ?b\<lparr>pins := pins ?b @ replicate k (Delay_us 1000)\<rparr>"
    using init_wait_pins [of 1000 D h ?b] by blast
  then show ?thesis
    unfolding r using init_wait_ends [of D 1000 h ?b]
    by (auto simp: Let_def split_beta clearProgramB_def setProgramB_def port_defs)
qed

section \<open>A concrete board\<close>

text \<open>A peripheral that is always ready and logs what is written to the SPI data register, and the
  programmer after \<open>serialInit\<close> and \<open>appInit\<close>.\<close>

definition fpga_io :: "u8 list io" where
  "fpga_io = \<lparr>io_rd = (\<lambda>r h. (0xFF, h)), io_wr = (\<lambda>r v h. if r = SPDR then h @ [v] else h), io_sig = (\<lambda>_. 0)\<rparr>"

definition x_off :: xilinx where
  "x_off = \<lparr>x_board = \<lparr>PORTB = 0, DDRB = 0, PORTC = 0, DDRC = 0, PORTD = 0, DDRD = 0, SPCR = 0, pins = [],
       UCSR1B = 0, UCSR1C = 0, UBRR1 = 0\<rparr>,
     x_clk = \<lparr>clk_time = 0, TIMSK0 = 0, OCR0A = 0, TCCR0A = 0, TCCR0B = 0\<rparr>,
     ser_buffer = RingBuffer_InitBuffer (replicate 128 0) 128, ser_frame_size = 0,
     x_app = \<lparr>X_USARTtoUSB_Buffer = RingBuffer_InitBuffer (replicate 128 0) 128,
       serial_timeout = \<lparr>t_active = 0, t_start = 0, t_interval = 0\<rparr>,
       serial_rx_buffer = RingBuffer_InitBuffer (replicate 64 0) 64\<rparr>,
     x_timer = \<lparr>t_active = 0, t_start = 0, t_interval = 0\<rparr>\<rparr>"

definition x_started :: xilinx where
  "x_started = X_appInit (serialInit x_off)"

lemma x_started_idle: "serial_idle x_started" "reply_ok x_started []"
  by (simp_all add: x_started_def x_off_def serial_idle_def frame_ok_def reply_ok_def X_appInit_def serialInit_def
      Let_def ring_simps)

lemma fpga_SendByte: "SPI_SendByte fpga_io b h = Some (h @ [b])"
  unfolding SPI_SendByte_def io_wait_def
  by (rule loop_turn(1)) (simp add: fpga_io_def io_test_bit)

lemma fpga_send_all: "send_all (SPI_SendByte fpga_io) p h = Some (h @ p)"
  by (induction p arbitrary: h) (simp_all add: fpga_SendByte)

section \<open>The protocol\<close>

text \<open>C18. On a stream of well-formed frames the programmer, which sees one byte at a time through
  its ring buffer, does exactly what the frames say, one after the other: the same bytes reach the
  SPI and USART data registers, the latches end in the same state, every frame is answered with
  \<open>SERIAL_ACK\<close> or \<open>SERIAL_NAK\<close> and a zero, in order, and it is ready for the next frame. It
  blocks exactly when sending a payload byte blocks. The peripherals may change in any way between
  two bytes. The answers, two bytes a frame, must fit into the 128-byte buffer to the host with what is
  still in it, so that at most 64 frames go by before it is drained.\<close>

theorem frame_stream_spec:
  assumes "serial_idle x" "list_all well_formed fs" "map (map snd) ess = map encode fs"
    and "reply_ok x out" "length out + 2 * length fs \<le> 128"
  shows "case run_frames D (zip fs (map passed ess)) (h, x_board x) of
      None \<Rightarrow> x_receive_all D (concat ess) (h, x) = None
    | Some (oks, h', b) \<Rightarrow> \<exists>x'. x_receive_all D (concat ess) (h, x) = Some (h', x') \<and> serial_idle x'
        \<and> reply_ok x' (out @ answers oks) \<and> x_board x' = b"
  using assms by (rule serve_frames)

theorem frame_stream_spec_witness:
  "\<exists>x'. x_receive_all fpga_io (map (Pair id) [3, 2, 0xAA, 0x55, 8, 0, 0, 1, 7]) ([], x_started) = Some ([0xAA, 0x55], x')
     \<and> serial_idle x' \<and> reply_ok x' [SERIAL_ACK, 0, SERIAL_ACK, 0, SERIAL_NAK, 0]"
proof -
  let ?fs = "[(3, [0xAA, 0x55]), (8, []), (0, [7])] :: (u8 \<times> u8 list) list"
  let ?ess = "[map (Pair id) [3, 2, 0xAA, 0x55], map (Pair id) [8, 0], map (Pair id) [0, 1, 7]]"
  have w: "list_all well_formed ?fs" by (simp add: well_formed_def serial_codes)
  have e: "map (map snd) ?ess = map encode ?fs" by (simp add: encode_def)
  have "\<exists>b. run_frames fpga_io (zip ?fs (map passed ?ess)) ([], x_board x_started) = Some ([True, True, False], [0xAA, 0x55], b)"
    by (simp add: frame_action_def serial_codes fpga_send_all)
  then show ?thesis
    using frame_stream_spec [OF x_started_idle(1) w e x_started_idle(2), of fpga_io "[]"]
    by (auto simp: answers_def simp del: x_receive_all.simps)
qed

section \<open>Frames that break the protocol\<close>

lemma swallow_byte:
  assumes "RingBuffer_GetCount (ser_buffer x) = word_of_nat k" "ring_safe (ser_buffer x)" "unat (ser_frame_size x) \<le> 1"
    and "2 \<le> k" "k < 65535"
  shows "\<exists>x'. serialAddByte b x = (False, x') \<and> RingBuffer_GetCount (ser_buffer x') = word_of_nat (Suc k)
    \<and> ring_safe (ser_buffer x') \<and> ser_frame_size x' = ser_frame_size x \<and> x_app x' = x_app x \<and> x_board x' = x_board x"
proof -
  have "(word_of_nat k :: u16) \<noteq> 0" "(word_of_nat k :: u16) \<noteq> 1" "(word_of_nat (Suc k) :: u16) \<noteq> ucast (ser_frame_size x)"
    using assms(3-5) ucast_u8_eq [of k 0] ucast_u8_eq [of k 1] ucast_u8_eq [of "Suc k" "ser_frame_size x"] by auto
  then show ?thesis
    using assms(1,2) by (auto simp: serialAddByte_def Let_def Insert_count ring_safe_Insert add.commute)
qed

lemma swallow_bytes:
  assumes "RingBuffer_GetCount (ser_buffer x) = word_of_nat k" "ring_safe (ser_buffer x)" "unat (ser_frame_size x) \<le> 1"
    and "2 \<le> k" "k + length es \<le> 65535"
  shows "\<exists>x'. x_receive_all D es (h, x) = Some (passed es h, x') \<and> x_app x' = x_app x \<and> x_board x' = x_board x"
  using assms
proof (induction es arbitrary: x k h)
  case (Cons e es)
  obtain x' where x': "serialAddByte (snd e) x = (False, x')" "RingBuffer_GetCount (ser_buffer x') = word_of_nat (Suc k)"
    "ring_safe (ser_buffer x')" "ser_frame_size x' = ser_frame_size x" "x_app x' = x_app x" "x_board x' = x_board x"
    using swallow_byte [OF Cons.prems(1-4)] Cons.prems(5) by auto
  from Cons.IH [OF x'(2,3)] x' Cons.prems show ?case by (auto simp: x_receive_def)
qed auto

text \<open>C39. A length byte of 254 or 255 wraps the 8-bit frame size to 0 or 1: the frame never
  completes. The programmer swallows the payload and everything after it, up to 65533 bytes,
  without an answer.\<close>

theorem oversized_frame_wedges:
  assumes "serial_idle x" "cmd < SERIAL_END_COMMANDS" "254 \<le> n" "length es \<le> 65533"
  shows "\<exists>x'. x_receive_all D ((g1, cmd) # (g2, n) # es) (h, x) = Some (passed es (g2 (g1 h)), x') \<and> x_app x' = x_app x \<and> x_board x' = x_board x"
proof -
  obtain x1 where x1: "serialAddByte cmd x = (False, x1)" "frame_ok x1 [cmd]" "x_app x1 = x_app x" "x_board x1 = x_board x"
    using add_command [OF assms(1,2)] by blast
  have "254 \<le> unat n" using assms(3) by (simp add: word_le_nat_alt)
  moreover have "unat n < 256" using unat_bounds(1) [of n] by simp
  ultimately have un: "unat n = 254 \<or> unat n = 255" by linarith
  then have n0: "n \<noteq> 0" by auto
  obtain x2 where x2: "serialAddByte n x1 = (False, x2)" "frame_ok x2 [cmd, n]" "x_app x2 = x_app x1"
    "x_board x2 = x_board x1" "ser_frame_size x2 = n + 2"
    using add_length [OF x1(2), of n] n0 by auto
  have "unat (n + 2) \<le> 1" using un by (auto simp: unat_word_ariths)
  moreover have "RingBuffer_GetCount (ser_buffer x2) = word_of_nat 2" "ring_safe (ser_buffer x2)"
    using frame_ok_count [OF x2(2)] x2(2) by (auto simp: frame_ok_def ring_ok_def)
  ultimately show ?thesis
    using swallow_bytes [of x2 2 es D "g2 (g1 h)"] x1 x2 assms(4) by (auto simp: x_receive_def)
qed

theorem oversized_frame_wedges_witness:
  "\<exists>x'. x_receive_all fpga_io ((id, 2) # (id, 254) # replicate 254 (id, 0xAA)) ([], x_started) = Some ([], x') \<and> x_app x' = x_app x_started"
proof -
  have "passed (replicate n (id, b)) h = h" for n and b :: u8 and h :: "u8 list" by (induction n) simp_all
  then show ?thesis
    using oversized_frame_wedges [OF x_started_idle(1), of 2 254 "replicate 254 (id, 0xAA)" fpga_io id id "[]"]
    by (auto simp: serial_codes simp del: x_receive_all.simps replicate.simps)
qed

text \<open>A select command with an empty payload takes its parameter from an empty buffer: the
  16-bit count wraps to 65535, and the very next byte, whatever it is, completes a frame.\<close>

theorem empty_select_underflow:
  assumes "serial_idle x"
  shows "\<exists>x'. x_receive_all D [(g1, SERIAL_SPI_SELECT), (g2, 0)] (h, x) = Some (g2 (g1 h), x')
    \<and> RingBuffer_GetCount (ser_buffer x') = 65535 \<and> fst (serialAddByte b x')"
proof -
  obtain x' where r: "x_receive_all D [(g1, SERIAL_SPI_SELECT), (g2, 0)] (h, x) = x_serve D (g2 (g1 h), x')"
    and c: "collected x x' [SERIAL_SPI_SELECT, 0]"
    using receive_frame [OF assms, of SERIAL_SPI_SELECT "[]" "[(g1, SERIAL_SPI_SELECT), (g2, 0)]" D h]
    by (auto simp: serial_codes simp del: x_receive_all.simps)
  obtain x1 x2 where t: "buffer_take x' = (SERIAL_SPI_SELECT, x1)" "buffer_take x1 = (0, x2)" "collected x x2 []"
    using taken_header [OF c] by metis
  let ?r = "snd (RingBuffer_Remove (ser_buffer x2))"
  have s: "ring_safe (ser_buffer x2)" and z: "RingBuffer_GetCount (ser_buffer x2) = 0"
    using t(3) frame_ok_count [of x2 "[]"] by (auto simp: collected_def frame_ok_def ring_ok_def)
  have "RingBuffer_GetCount ?r = 65535" using Remove_count [OF s] z by simp
  moreover have "RingBuffer_GetCount (RingBuffer_Insert ?r b) = 0"
    using Insert_count [OF ring_safe_Remove [OF s]] Remove_count [OF s] z by simp
  moreover have "ser_frame_size x2 = 0" using t(3) by (simp add: collected_def)
  ultimately show ?thesis
    unfolding r using t
    by (auto simp: x_serve_def X_serialProcess_def Let_def serial_codes buffer_take_def split_beta x_out_def
        app_put_def serialAddByte_def)
qed

theorem empty_select_underflow_witness:
  "\<exists>x'. x_receive_all fpga_io [(id, SERIAL_SPI_SELECT), (id, 0)] ([], x_started) = Some (id (id []), x')
    \<and> RingBuffer_GetCount (ser_buffer x') = 65535 \<and> fst (serialAddByte 0xFF x')"
  by (rule empty_select_underflow [OF x_started_idle(1)])

text \<open>The commands without a parameter do not consume a payload: it stays in the buffer as
  the beginning of the next frame, and the stream of frames is out of step.\<close>

theorem stray_payload:
  assumes "serial_idle x" "length p \<le> 126" "map snd es = encode (cmd, p)"
    and "cmd \<in> {SERIAL_START_CONFIG, SERIAL_USE_SPI, SERIAL_USE_USART, SERIAL_FPGA_RESET, SERIAL_FPGA_START}"
  shows "\<exists>h' x'. x_receive_all D es (h, x) = Some (h', x') \<and> ring_list (ser_buffer x') = p"
proof -
  have "cmd < SERIAL_END_COMMANDS" using assms(4) by (auto simp: serial_codes)
  then obtain x' where r: "x_receive_all D es (h, x) = x_serve D (passed es h, x')" and c: "collected x x' (encode (cmd, p))"
    using receive_frame [OF assms(1) _ assms(2), of cmd es D h] assms(3) by (auto simp: encode_def)
  obtain x1 x2 where t: "buffer_take x' = (cmd, x1)" "buffer_take x1 = (word_of_nat (length p), x2)" "collected x x2 p"
    using taken_header [of x x' cmd "word_of_nat (length p)" p] c by (auto simp: encode_def)
  then have "ring_list (ser_buffer x2) = p" by (simp add: collected_def frame_ok_def)
  then show ?thesis
    unfolding r using t assms(4)
    by (auto simp: x_serve_def X_serialProcess_def Let_def serial_codes split_beta x_io_def x_out_def app_put_def)
qed

theorem stray_payload_witness:
  "\<exists>h' x'. x_receive_all fpga_io (map (Pair id) (encode (SERIAL_FPGA_RESET, [1, 2]))) ([], x_started) = Some (h', x')
     \<and> ring_list (ser_buffer x') = [1, 2]"
  by (rule stray_payload [OF x_started_idle(1), where cmd = SERIAL_FPGA_RESET]) (simp_all add: comp_def)

end
