(* ===== verification/Xilinx_Main.thy ===== *)
theory Xilinx_Main
  imports Xilinx_Frames Descriptors Endpoint_Tap
begin

text \<open>
  \<open>Projects/XilinxFpgaProg/XilinxFpgaProg.c\<close>: start-up, events, the USART interrupt and the main
  loop of the FPGA programmer, with interrupts between the statements of the loop as in the miner
  firmware. The descriptors, the clock and the timers are the files of the miner project. Reading the
  count of the host buffer and testing it are one step: the USART interrupt fills another buffer.
\<close>

section \<open>Interface configuration\<close>

definition X_VirtualSerial_CDC_Interface :: USB_ClassInfo_CDC_Device_t where
  "X_VirtualSerial_CDC_Interface =
     \<lparr>ControlInterfaceNumber = 0,
      DataINEndpoint = \<lparr>ep_Address = CDC_TX_EPADDR, ep_Size = CDC_TXRX_EPSIZE, ep_Type = 0, ep_Banks = 1\<rparr>,
      DataOUTEndpoint = \<lparr>ep_Address = CDC_RX_EPADDR, ep_Size = CDC_TXRX_EPSIZE, ep_Type = 0, ep_Banks = 1\<rparr>,
      NotificationEndpoint = \<lparr>ep_Address = CDC_NOTIFICATION_EPADDR, ep_Size = CDC_NOTIFICATION_EPSIZE, ep_Type = 0, ep_Banks = 1\<rparr>,
      HostToDevice = 0, DeviceToHost = 0,
      LineEncoding = \<lparr>BaudRateBPS = 0, CharFormat = 0, ParityType = 0, DataBits = 0\<rparr>\<rparr>"

text \<open>\<open>LEDS_LED3\<close> is the empty mask on this board as well.\<close>

definition X_LEDMASK_USB_NOTREADY :: u8 where "X_LEDMASK_USB_NOTREADY = X_LEDS_LED1"
definition X_LEDMASK_USB_ENUMERATING :: u8 where "X_LEDMASK_USB_ENUMERATING = X_LEDS_LED1 OR X_LEDS_LED2"
definition X_LEDMASK_USB_READY :: u8 where "X_LEDMASK_USB_READY = X_LEDS_LED2"
definition X_LEDMASK_USB_ERROR :: u8 where "X_LEDMASK_USB_ERROR = X_LEDS_LED1 OR LEDS_LED3"

definition x_do :: "(xilinx \<Rightarrow> xilinx) \<Rightarrow> 'h xfirmware \<Rightarrow> 'h xfirmware" where
  "x_do f s = s\<lparr>xil := f (xil s)\<rparr>"

definition x_set_leds :: "u8 \<Rightarrow> 'h xfirmware \<Rightarrow> 'h xfirmware" where
  "x_set_leds m s = x_do (x_out (X_LEDs_SetAllLEDs m)) s"

definition X_debug :: "u8 \<Rightarrow> xilinx \<Rightarrow> xilinx" where
  "X_debug c x = app_put c (if c = 10 then app_put 13 x else x)"

section \<open>Interrupts and events\<close>

definition USART1_RX_vect :: "'h io \<Rightarrow> 'h xfirmware \<Rightarrow> 'h xfirmware" where
  "USART1_RX_vect D s =
     (let (ReceivedByte, s) = hw_get (io_rd D UDR1) s;
          (st, s) = hw_get (USB_DeviceState D) s
      in if st = DEVICE_STATE_Configured then x_do (appSerialDataReceived ReceivedByte) s else s)"

definition X_EVENT_Connect :: "'h xfirmware \<Rightarrow> 'h xfirmware option" where
  "X_EVENT_Connect s = Some (x_set_leds X_LEDMASK_USB_ENUMERATING s)"

definition X_EVENT_Disconnect :: "'h xfirmware \<Rightarrow> 'h xfirmware option" where
  "X_EVENT_Disconnect s = Some (x_set_leds X_LEDMASK_USB_NOTREADY s)"

definition X_EVENT_ConfigurationChanged :: "'h io \<Rightarrow> 'h xfirmware \<Rightarrow> 'h xfirmware option" where
  "X_EVENT_ConfigurationChanged D s =
     do {
       (ok, s) \<leftarrow> CDC_Device_ConfigureEndpoints D s;
       let ConfigSuccess = (True \<and> ok);
       Some (x_set_leds (if ConfigSuccess then X_LEDMASK_USB_READY else X_LEDMASK_USB_ERROR) s)
     }"

abbreviation (input) "CDC_LINEENCODING_TwoStopBits \<equiv> 2 :: u8"
abbreviation (input) "CDC_PARITY_Odd \<equiv> 1 :: u8"
abbreviation (input) "CDC_PARITY_Even \<equiv> 2 :: u8"

definition line_config :: "CDC_LineEncoding_t \<Rightarrow> u8" where
  "line_config e =
     (let ConfigMask = (if ParityType e = CDC_PARITY_Odd then BV UPM11 OR BV UPM10
                        else if ParityType e = CDC_PARITY_Even then BV UPM11 else 0);
          ConfigMask = (if CharFormat e = CDC_LINEENCODING_TwoStopBits then ConfigMask OR BV USBS1 else ConfigMask)
      in if DataBits e = 6 then ConfigMask OR BV UCSZ10
         else if DataBits e = 7 then ConfigMask OR BV UCSZ11
         else if DataBits e = 8 then ConfigMask OR (BV UCSZ11 OR BV UCSZ10)
         else ConfigMask)"

text \<open>A zero baud rate is a division by zero: no defined outcome.\<close>

definition X_EVENT_LineEncodingChanged :: "'h io \<Rightarrow> 'h xfirmware \<Rightarrow> 'h xfirmware option" where
  "X_EVENT_LineEncodingChanged D s =
     do {
       let ConfigMask = line_config (LineEncoding (cdc s));
       let s = x_do (x_out (\<lambda>b. b\<lparr>UCSR1B := 0\<rparr>)) s;
       let s = hw_do (io_wr D UCSR1A 0) s;
       let s = x_do (x_out (\<lambda>b. b\<lparr>UCSR1C := 0\<rparr>)) s;
       v \<leftarrow> SERIAL_2X_UBBRVAL (BaudRateBPS (LineEncoding (cdc s)));
       let s = x_do (x_out (\<lambda>b. b\<lparr>UBRR1 := ucast v\<rparr>)) s;
       let s = x_do (x_out (\<lambda>b. b\<lparr>UCSR1C := ConfigMask\<rparr>)) s;
       let s = hw_do (io_wr D UCSR1A (BV U2X1)) s;
       Some (x_do (x_out (\<lambda>b. b\<lparr>UCSR1B := BV RXCIE1 OR BV TXEN1 OR BV RXEN1\<rparr>)) s)
     }"

definition x_cdc_events :: "'h io \<Rightarrow> 'h xfirmware cdc_app" where
  "x_cdc_events D = \<lparr>EVENT_LineEncodingChanged = X_EVENT_LineEncodingChanged D,
     EVENT_ControLineStateChanged = Some, EVENT_BreakSent = (\<lambda>_. Some)\<rparr>"

definition X_EVENT_ControlRequest :: "'h io \<Rightarrow> 'h xfirmware \<Rightarrow> 'h xfirmware option" where
  "X_EVENT_ControlRequest D s = CDC_Device_ProcessControlRequest D (x_cdc_events D) s"

definition x_usb_events :: "'h io \<Rightarrow> 'h xfirmware usb_app" where
  "x_usb_events D = \<lparr>EVENT_Connect = X_EVENT_Connect, EVENT_Disconnect = X_EVENT_Disconnect,
     EVENT_Reset = Some, EVENT_StartOfFrame = Some,
     EVENT_ConfigurationChanged = X_EVENT_ConfigurationChanged D,
     EVENT_ControlRequest = X_EVENT_ControlRequest D,
     CALLBACK_GetDescriptor = CALLBACK_USB_GetDescriptor\<rparr>"

section \<open>Start-up\<close>

definition X_SetupHardware :: "'h io \<Rightarrow> 'h xfirmware \<Rightarrow> 'h xfirmware option" where
  "X_SetupHardware D s =
     (let c = x_mcu s;
          c = c\<lparr>MCUSR := MCUSR c AND NOT (BV WDRF)\<rparr>;
          c = c\<lparr>watchdog := False\<rparr>;
          b = x_board (xil s);
          b = b\<lparr>DDRB := 0x27\<rparr>;
          b = set_PORTB 0x38 b;
          b = b\<lparr>DDRC := 0x20, PORTC := 0\<rparr>;
          b = set_DDRD 0x08 b;
          b = set_PORTD 0x44 b;
          c = c\<lparr>TCCR1A := BV COM1B0, OCR1B := 0, TCCR1B := BV WGM12 OR BV CS10, clock_div := 1\<rparr>;
          x = (xil s)\<lparr>x_clk := clockInit (x_clk (xil s)), x_board := X_LEDs_Init b\<rparr>
      in do {
        s \<leftarrow> USB_Init D (s\<lparr>x_mcu := c, xil := x\<rparr>);
        let s = x_do serialInit s;
        let (h, x) = x_io (xilinxInit D) (hw s, xil s);
        Some (s\<lparr>hw := h, xil := x\<rparr>)
      })"

definition X_main_init :: "'h io \<Rightarrow> 'h xfirmware \<Rightarrow> 'h xfirmware option" where
  "X_main_init D s =
     do {
       s \<leftarrow> X_SetupHardware D s;
       let s = x_do X_appInit s;
       let s = x_set_leds X_LEDMASK_USB_NOTREADY s;
       let s = x_do (\<lambda>x. x\<lparr>x_timer := timerSet (x_clk x) (x_timer x) 10\<rparr>) s;
       Some (s\<lparr>SREG_I := True\<rparr>)
     }"

section \<open>The main loop\<close>

definition X_main_receive :: "'h io \<Rightarrow> 'h xfirmware \<Rightarrow> 'h xfirmware option" where
  "X_main_receive D s =
     (let (n, s) = CDC_Device_BytesReceived D s in
      if n \<noteq> 0 then X_appUsbDataReceived D s else Some s)"

definition x_pop :: "xilinx \<Rightarrow> xilinx" where
  "x_pop x = x\<lparr>x_app := (x_app x)\<lparr>X_USARTtoUSB_Buffer := snd (RingBuffer_Remove (X_USARTtoUSB_Buffer (x_app x)))\<rparr>\<rparr>"

primrec X_send_loop :: "'h io \<Rightarrow> nat \<Rightarrow> 'h xfirmware \<Rightarrow> 'h xfirmware option" where
  "X_send_loop D 0 s = Some s"
| "X_send_loop D (Suc n) s =
     do {
       (e, s) \<leftarrow> CDC_Device_SendByte D (RingBuffer_Peek (X_USARTtoUSB_Buffer (x_app (xil s)))) s;
       if e \<noteq> ENDPOINT_READYWAIT_NoError then Some s else X_send_loop D n (x_do x_pop s)
     }"

definition X_main_send :: "'h io \<Rightarrow> 'h xfirmware \<Rightarrow> 'h xfirmware option" where
  "X_main_send D s =
     (let BufferCount = RingBuffer_GetCount (X_USARTtoUSB_Buffer (x_app (xil s)));
          (expired, t) = timerExpired (x_clk (xil s)) (x_timer (xil s));
          s = x_do (\<lambda>x. x\<lparr>x_timer := t\<rparr>) s
      in if expired \<or> BufferCount > 0 then
           X_send_loop D (unat BufferCount) (x_do (\<lambda>x. x\<lparr>x_timer := timerRestart (x_clk x) (x_timer x)\<rparr>) s)
         else Some s)"

definition X_main_body :: "'h io \<Rightarrow> 'h xfirmware \<Rightarrow> 'h xfirmware option" where
  "X_main_body D s =
     do {
       s \<leftarrow> X_main_receive D s;
       s \<leftarrow> X_main_send D s;
       let s = x_do X_appService s;
       s \<leftarrow> CDC_Device_USBTask D s;
       USB_USBTask D (x_usb_events D) s
     }"

section \<open>Interleaving with interrupts\<close>

datatype x_pc = XAt_receive | XAt_send | XAt_service | XAt_cdc | XAt_usb

inductive x_step :: "'h io \<Rightarrow> x_pc \<times> 'h xfirmware \<Rightarrow> x_pc \<times> 'h xfirmware \<Rightarrow> bool" for D where
  xs_receive: "X_main_receive D s = Some s' \<Longrightarrow> x_step D (XAt_receive, s) (XAt_send, s')"
| xs_send: "X_main_send D s = Some s' \<Longrightarrow> x_step D (XAt_send, s) (XAt_service, s')"
| xs_service: "x_step D (XAt_service, s) (XAt_cdc, x_do X_appService s)"
| xs_cdc: "CDC_Device_USBTask D s = Some s' \<Longrightarrow> x_step D (XAt_cdc, s) (XAt_usb, s')"
| xs_usb: "USB_USBTask D (x_usb_events D) s = Some s' \<Longrightarrow> x_step D (XAt_usb, s) (XAt_receive, s')"
| xs_tick: "x_step D (p, s) (p, x_do (\<lambda>x. x\<lparr>x_clk := TIMER0_COMPA_vect (x_clk x)\<rparr>) s)"
| xs_usart: "bit (UCSR1B (x_board (xil s))) RXCIE1 \<Longrightarrow> x_step D (p, s) (p, USART1_RX_vect D s)"
| xs_gen: "USB_GEN_vect D (x_usb_events D) s = Some s' \<Longrightarrow> x_step D (p, s) (p, s')"
| xs_com: "USB_COM_vect D (x_usb_events D) s = Some s' \<Longrightarrow> x_step D (p, s) (p, s')"
| xs_hw: "x_step D (p, s) (p, s\<lparr>hw := h\<rparr>)"

definition x_boot_image :: "'h \<Rightarrow> 'h xfirmware" where
  "x_boot_image h = \<lparr>hw = h, USB_IsInitialized = False,
     USB_ControlRequest = \<lparr>bmRequestType = 0, bRequest = 0, wValue = 0, wIndex = 0, wLength = 0\<rparr>,
     USB_Device_ConfigurationNumber = 0, USB_Device_CurrentlySelfPowered = False,
     USB_Device_RemoteWakeupEnabled = False, SREG_I = False,
     cdc = X_VirtualSerial_CDC_Interface, xil = x_off,
     x_mcu = \<lparr>MCUSR = 0, watchdog = False, clock_div = 1, TCCR1A = 0, TCCR1B = 0, OCR1B = 0\<rparr>\<rparr>"

inductive x_reachable :: "'h io \<Rightarrow> x_pc \<times> 'h xfirmware \<Rightarrow> bool" for D where
  xr_start: "X_main_init D (x_boot_image h) = Some s \<Longrightarrow> x_reachable D (XAt_receive, s)"
| xr_step: "x_reachable D c \<Longrightarrow> x_step D c c' \<Longrightarrow> x_reachable D c'"

section \<open>The three ring buffers stay inside their arrays\<close>

definition sized_ring :: "nat \<Rightarrow> RingBuffer_t \<Rightarrow> bool" where
  "sized_ring n r \<longleftrightarrow> ring_safe r \<and> length (rb_Data r) = n"

lemma sized_ring_ops:
  "sized_ring n r \<Longrightarrow> sized_ring n (RingBuffer_Insert r b)"
  "sized_ring n r \<Longrightarrow> sized_ring n (snd (RingBuffer_Remove r))"
  by (simp_all add: sized_ring_def ring_safe_Insert ring_safe_Remove Insert_fields Remove_fields)

definition x_safe :: "xilinx \<Rightarrow> bool" where
  "x_safe x \<longleftrightarrow> sized_ring 128 (ser_buffer x) \<and> sized_ring 128 (X_USARTtoUSB_Buffer (x_app x))
     \<and> sized_ring 64 (serial_rx_buffer (x_app x))"

lemma x_safe_ops:
  "x_safe x \<Longrightarrow> x_safe (x_out f x)" "x_safe x \<Longrightarrow> x_safe (app_put v x)" "x_safe x \<Longrightarrow> x_safe (snd (buffer_take x))"
  "x_safe x \<Longrightarrow> x_safe (forward_byte x)" "x_safe x \<Longrightarrow> x_safe (x\<lparr>x_board := b\<rparr>)" "x_safe x \<Longrightarrow> x_safe (snd (serialAddByte v x))"
  "x_safe x \<Longrightarrow> x_safe (x\<lparr>x_app := (x_app x)\<lparr>serial_timeout := t\<rparr>\<rparr>)" "x_safe x \<Longrightarrow> x_safe (appSerialDataReceived v x)"
  "x_safe x \<Longrightarrow> x_safe (x_pop x)" "x_safe x \<Longrightarrow> x_safe (x\<lparr>x_timer := t\<rparr>)" "x_safe x \<Longrightarrow> x_safe (x\<lparr>x_clk := c\<rparr>)"
  "x_safe x \<Longrightarrow> x_safe (snd (x_io g (h, x)))"
  by (auto simp: x_safe_def sized_ring_ops x_out_def app_put_def buffer_take_def forward_byte_def serialAddByte_def
      appSerialDataReceived_def x_pop_def x_io_def Let_def split_beta)

lemma x_safe_funpow: "(\<And>y. x_safe y \<Longrightarrow> x_safe (f y)) \<Longrightarrow> x_safe x \<Longrightarrow> x_safe ((f ^^ n) x)"
  by (induction n) auto

lemma x_safe_payload: "send_payload send n (h, x) = Some (h', x') \<Longrightarrow> x_safe x \<Longrightarrow> x_safe x'"
proof (induction n arbitrary: h x)
  case (Suc n)
  then show ?case by (auto simp: split_beta bind_eq_Some_conv x_safe_ops)
qed simp

lemma x_safe_process:
  assumes "X_serialProcess D (h, x) = Some (ok, h', x')" "x_safe x"
  shows "x_safe x'"
proof -
  let ?x = "snd (buffer_take (snd (buffer_take x)))"
  have "x_safe ?x" using assms(2) by (simp add: x_safe_ops)
  moreover note x_safe_payload [of "xilinxSend D"] x_safe_payload [of "SPI_SendByte D"] x_safe_payload [of "Serial_SendByte D"]
  ultimately show ?thesis
    using assms(1) unfolding X_serialProcess_def Let_def split_beta
    by (auto simp: bind_eq_Some_conv x_safe_ops intro!: x_safe_funpow split: if_split_asm dest: x_safe_ops)
qed

lemma x_safe_service: "x_safe x \<Longrightarrow> x_safe (X_appService x)"
  by (simp add: X_appService_def Let_def split_beta x_safe_ops x_safe_funpow)

lemma x_safe_receive: "x_receive D b (h, x) = Some (h', x') \<Longrightarrow> x_safe x \<Longrightarrow> x_safe x'"
  by (auto simp: x_receive_def x_serve_def Let_def split_beta bind_eq_Some_conv split: if_split_asm
      intro!: x_safe_ops dest!: x_safe_process)

lemma xil_more: "usb_core.more t = usb_core.more s \<Longrightarrow> xil t = xil (s :: 'h xfirmware)"
  by (cases s; cases t) simp

lemma xil_cdc_more: "cdc_core.more t = cdc_core.more s \<Longrightarrow> xil t = xil (s :: 'h xfirmware)"
  by (cases s; cases t) simp

interpretation x_class: cdc_client D "x_cdc_events D" "\<lambda>s :: 'h xfirmware. x_safe (xil s)" for D :: "'h io"
  by unfold_locales
    (auto simp: x_cdc_events_def X_EVENT_LineEncodingChanged_def x_do_def hw_do_def bind_eq_Some_conv Let_def x_safe_ops
      dest!: xil_cdc_more)

interpretation x_stack: usb_client D "x_usb_events D" "\<lambda>s :: 'h xfirmware. x_safe (xil s)" for D :: "'h io"
  by unfold_locales
    (auto simp: x_usb_events_def X_EVENT_Connect_def X_EVENT_Disconnect_def X_EVENT_ConfigurationChanged_def
      X_EVENT_ControlRequest_def bind_eq_Some_conv x_set_leds_def x_do_def intro!: x_safe_ops
      dest: xil_more x_class.ConfigureEndpoints_keeps x_class.ProcessControlRequest_keeps)

lemma x_receive_loop_safe:
  fixes t :: "'h xfirmware"
  assumes "loop (X_receive_turn D) t = Some t'" "x_safe (xil t)"
  shows "x_safe (xil t')"
  using assms
proof (rule loop_invariant [where I = "\<lambda>t. x_safe (xil t)"])
  fix t :: "'h xfirmware" assume i: "x_safe (xil t)"
  have k: "xil (snd (CDC_Device_ReceiveByte D t)) = xil t"
    by (rule xil_more) (simp add: cdc_data_more)
  show "X_receive_turn D t = Some (Inr u) \<Longrightarrow> x_safe (xil u)" for u
    using i k by (auto simp: X_receive_turn_def Let_def split_beta split: if_splits dest!: x_safe_receive)
  show "X_receive_turn D t = Some (Inl u) \<Longrightarrow> x_safe (xil u)" for u
    using i k by (auto simp: X_receive_turn_def Let_def split_beta split: if_splits)
qed

lemma x_main_receive_safe: "X_main_receive D s = Some s' \<Longrightarrow> x_safe (xil s) \<Longrightarrow> x_safe (xil s')"
  using xil_more [of "snd (CDC_Device_BytesReceived D s)" s]
  by (auto simp: X_main_receive_def X_appUsbDataReceived_def Let_def split_beta cdc_data_more
      split: if_splits dest!: x_receive_loop_safe)

lemma x_send_loop_safe: "X_send_loop D n s = Some s' \<Longrightarrow> x_safe (xil s) \<Longrightarrow> x_safe (xil s')"
proof (induction n arbitrary: s)
  case (Suc n)
  obtain e t where t: "CDC_Device_SendByte D (RingBuffer_Peek (X_USARTtoUSB_Buffer (x_app (xil s)))) s = Some (e, t)"
    using Suc.prems(1) by (auto simp: bind_eq_Some_conv)
  have "xil t = xil s" using cdc_data_more(1) [OF t] by (rule xil_more)
  with Suc t show ?case by (auto simp: x_do_def x_safe_ops split: if_splits)
qed simp

lemma x_main_send_safe: "X_main_send D s = Some s' \<Longrightarrow> x_safe (xil s) \<Longrightarrow> x_safe (xil s')"
  by (auto simp: X_main_send_def Let_def split_beta x_do_def x_safe_ops split: if_splits dest!: x_send_loop_safe)

lemma x_usart_safe: "x_safe (xil s) \<Longrightarrow> x_safe (xil (USART1_RX_vect D s))"
  by (simp add: USART1_RX_vect_def Let_def split_beta x_do_def x_safe_ops hw_get_def)

lemma x_step_safe:
  assumes "x_step D (p, s) (q, t)" "x_safe (xil s)"
  shows "x_safe (xil t)"
  using assms(1)
proof cases
  case xs_cdc
  with assms(2) show ?thesis using xil_more [OF cdc_data_more(3)] by metis
qed (use assms(2) in \<open>auto simp: x_do_def x_safe_service x_safe_ops x_usart_safe
    dest: x_main_receive_safe x_main_send_safe x_stack.USBTask_keeps x_stack.GEN_vect_keeps x_stack.COM_vect_keeps\<close>)

lemma x_boot_safe:
  assumes "X_main_init D (x_boot_image h) = Some s"
  shows "x_safe (xil s)"
proof -
  obtain t u where u: "X_SetupHardware D (x_boot_image h) = Some t" "x_safe (xil (x_do X_appInit t)) \<Longrightarrow> x_safe (xil s)"
    using assms by (auto simp: X_main_init_def bind_eq_Some_conv x_set_leds_def x_do_def Let_def x_safe_ops)
  then have "ser_buffer (xil t) = RingBuffer_InitBuffer (replicate 128 0) 128" "x_app (xil t) = x_app x_off"
    by (auto simp: X_SetupHardware_def Let_def split_beta x_boot_image_def x_off_def bind_eq_Some_conv x_do_def serialInit_def
        x_io_def ring_simps dest!: USB_Init_more [THEN xil_more])
  then have "x_safe (xil (x_do X_appInit t))"
    by (simp add: x_do_def X_appInit_def Let_def x_safe_def sized_ring_def x_off_def ring_simps ring_safe_init)
  with u show ?thesis by blast
qed

lemma x_reachable_safe: "x_reachable D c \<Longrightarrow> x_safe (xil (snd c))"
proof (induction rule: x_reachable.induct)
  case (xr_start h s) then show ?case by (simp add: x_boot_safe)
next
  case (xr_step c c') then show ?case by (cases c; cases c') (auto intro: x_step_safe)
qed

lemma x_quiet_starts: "\<exists>s. X_main_init quiet (x_boot_image ()) = Some s"
  by (auto simp: X_main_init_def X_SetupHardware_def USB_Init_def USB_ResetInterface_def USB_Init_Device_def
      hw_try_def hw_tryget_def quiet_pll Endpoint_ConfigureEndpoint_def EPSizeMask_8 USB_Options_def Let_def split_beta)

section \<open>Bytes on the data endpoint\<close>

interpretation x_tx: usb_sender D "\<lambda>s :: 'h tapped xfirmware. X_USARTtoUSB_Buffer (x_app (xil s))" "x_do x_pop"
    "X_send_loop (tap D)" for D :: "'h io"
  by unfold_locales (auto simp: x_do_def x_pop_def dest: xil_more)

section \<open>Properties\<close>

text \<open>C19. In every state the FPGA programmer can reach, with interrupts between any two statements
  of its main loop, any frames from the host and any behaviour of the peripherals, its three ring
  buffers stay inside their arrays of 128, 128 and 64 bytes, even when frames are malformed.\<close>

theorem programmer_invariant:
  assumes "x_reachable D (p, s)"
  shows "ring_safe (ser_buffer (xil s)) \<and> length (rb_Data (ser_buffer (xil s))) = 128
    \<and> ring_safe (X_USARTtoUSB_Buffer (x_app (xil s))) \<and> length (rb_Data (X_USARTtoUSB_Buffer (x_app (xil s)))) = 128
    \<and> ring_safe (serial_rx_buffer (x_app (xil s))) \<and> length (rb_Data (serial_rx_buffer (x_app (xil s)))) = 64"
  using x_reachable_safe [OF assms] by (simp add: x_safe_def sized_ring_def)

theorem programmer_invariant_witness:
  "\<exists>s. x_reachable quiet (XAt_receive, s) \<and> ring_safe (ser_buffer (xil s))"
proof -
  obtain s where "X_main_init quiet (x_boot_image ()) = Some s" using x_quiet_starts by blast
  then have "x_reachable quiet (XAt_receive, s)" by (rule xr_start)
  with programmer_invariant [OF this] show ?thesis by blast
qed

text \<open>The bytes of the USART and of the host in the programmer's buffers, as lists.\<close>

definition usart_ok :: "xilinx \<Rightarrow> u8 list \<Rightarrow> bool" where
  "usart_ok x bs \<longleftrightarrow> ring_ok (serial_rx_buffer (x_app x)) \<and> ring_cap (serial_rx_buffer (x_app x)) = 64
     \<and> ring_list (serial_rx_buffer (x_app x)) = bs"

lemma forward_byte_moves:
  assumes "usart_ok x (b # bs)" "reply_ok x out" "length out < 128"
  shows "usart_ok (forward_byte x) bs \<and> reply_ok (forward_byte x) (out @ [b])
    \<and> serial_timeout (x_app (forward_byte x)) = serial_timeout (x_app x) \<and> x_clk (forward_byte x) = x_clk x"
  using assms ring.remove_bytes [of "serial_rx_buffer (x_app x)"]
  by (simp add: forward_byte_def app_put_def usart_ok_def reply_ok_def Let_def split_beta ring.remove_ok ring.remove_cap
      ring.insert_ok ring.insert_bytes ring.insert_cap)

lemma forward_bytes_move:
  "usart_ok x bs \<Longrightarrow> reply_ok x out \<Longrightarrow> length out + length bs \<le> 128 \<Longrightarrow>
     usart_ok ((forward_byte ^^ length bs) x) [] \<and> reply_ok ((forward_byte ^^ length bs) x) (out @ bs)
     \<and> serial_timeout (x_app ((forward_byte ^^ length bs) x)) = serial_timeout (x_app x) \<and> x_clk ((forward_byte ^^ length bs) x) = x_clk x"
proof (induction bs arbitrary: x out)
  case (Cons b bs)
  then have "usart_ok (forward_byte x) bs \<and> reply_ok (forward_byte x) (out @ [b])
      \<and> serial_timeout (x_app (forward_byte x)) = serial_timeout (x_app x) \<and> x_clk (forward_byte x) = x_clk x"
    by (intro forward_byte_moves) auto
  with Cons.IH [of "forward_byte x" "out @ [b]"] Cons.prems(3) show ?case
    by (simp add: funpow_Suc_right del: funpow.simps)
qed simp

lemma service_forwards:
  assumes "usart_ok x bs" "reply_ok x out" "length out + length bs \<le> 126"
    and "fst (timerExpired (x_clk x) (serial_timeout (x_app x)))"
  shows "let x' = X_appService x
         in usart_ok x' [] \<and> timerActive (serial_timeout (x_app x')) \<and> t_start (serial_timeout (x_app x')) = clk_time (x_clk x)
          \<and> reply_ok x' (out @ (if bs = [] then [] else SERIAL_USART_DATA # word_of_nat (length bs) # bs))"
proof -
  let ?x = "x\<lparr>x_app := (x_app x)\<lparr>serial_timeout := snd (timerExpired (x_clk x) (serial_timeout (x_app x)))\<rparr>\<rparr>"
  let ?n = "word_of_nat (length bs) :: u8"
  have l: "length bs \<le> 64"
    using assms(1) length_ring_list [of "serial_rx_buffer (x_app x)"]
    by (auto simp: usart_ok_def ring_ok_def ring_cap_def word_le_nat_alt)
  then have n: "unat ?n = length bs" "0 < ?n \<longleftrightarrow> bs \<noteq> []"
    by (auto simp: word_less_nat_alt unsigned_of_nat take_bit_nat_eq_self)
  have "unat (RingBuffer_GetCount (serial_rx_buffer (x_app ?x))) = length bs"
    using assms(1) length_ring_list [of "serial_rx_buffer (x_app x)"] by (simp add: usart_ok_def RingBuffer_GetCount_def)
  then have c: "(ucast (RingBuffer_GetCount (serial_rx_buffer (x_app ?x))) :: u8) = ?n"
    by (metis of_nat_unat)
  have h: "usart_ok ?x bs" "reply_ok ?x out" using assms(1,2) by (simp_all add: usart_ok_def reply_ok_def)
  let ?y = "app_put ?n (app_put SERIAL_USART_DATA ?x)"
  have y: "usart_ok ?y bs" "reply_ok ?y (out @ [SERIAL_USART_DATA, ?n])"
    using h assms(3) reply_ok_put [OF reply_ok_put, of ?x out SERIAL_USART_DATA ?n] by (simp_all add: usart_ok_def app_put_def)
  then have "usart_ok ((forward_byte ^^ length bs) ?y) [] \<and> reply_ok ((forward_byte ^^ length bs) ?y) (out @ SERIAL_USART_DATA # ?n # bs)
      \<and> x_clk ((forward_byte ^^ length bs) ?y) = x_clk x"
    using forward_bytes_move [OF y] assms(3) by (simp add: app_put_def)
  moreover have "X_appService x = (let z = if bs = [] then ?x else (forward_byte ^^ length bs) ?y
      in z\<lparr>x_app := (x_app z)\<lparr>serial_timeout := timerRestart (x_clk z) (serial_timeout (x_app z))\<rparr>\<rparr>)"
    using assms(4) n c by (simp add: X_appService_def Let_def split_beta)
  ultimately show ?thesis
    using h by (auto simp: Let_def usart_ok_def reply_ok_def timerRestart_def timerActive_def clockGetTime_def)
qed

text \<open>The receive interrupt, \<open>k\<close> ticks later and with the peripherals in state \<open>h\<close>.\<close>

definition x_ticks :: "nat \<Rightarrow> xilinx \<Rightarrow> xilinx" where
  "x_ticks k x = x\<lparr>x_clk := (TIMER0_COMPA_vect ^^ k) (x_clk x)\<rparr>"

definition usart_byte :: "'h io \<Rightarrow> nat \<times> 'h \<Rightarrow> 'h xfirmware \<Rightarrow> 'h xfirmware" where
  "usart_byte D = (\<lambda>(k, h) s. USART1_RX_vect D (x_do (x_ticks k) (s\<lparr>hw := h\<rparr>)))"

definition configured :: "'h io \<Rightarrow> 'h \<Rightarrow> bool" where
  "configured D h \<longleftrightarrow> fst (USB_DeviceState D (snd (io_rd D UDR1 h))) = DEVICE_STATE_Configured"

lemma usart_byte_received:
  assumes "usart_ok (xil s) bs" "reply_ok (xil s) out" "length bs < 64" "configured D h"
  shows "usart_ok (xil (usart_byte D (k, h) s)) (bs @ [fst (io_rd D UDR1 h)]) \<and> reply_ok (xil (usart_byte D (k, h) s)) out
    \<and> serial_timeout (x_app (xil (usart_byte D (k, h) s)))
        = timerRestart (x_clk (xil (usart_byte D (k, h) s))) (serial_timeout (x_app (xil s)))"
  using assms
  by (simp add: usart_byte_def USART1_RX_vect_def hw_get_def x_do_def x_ticks_def configured_def appSerialDataReceived_def
      usart_ok_def reply_ok_def Let_def split_beta ring.insert_ok ring.insert_bytes ring.insert_cap)

lemma usart_bytes_received:
  "usart_ok (xil s) bs \<Longrightarrow> reply_ok (xil s) out \<Longrightarrow> length bs + length evs \<le> 64 \<Longrightarrow> list_all (configured D \<circ> snd) evs \<Longrightarrow>
   usart_ok (xil (fold (usart_byte D) evs s)) (bs @ map (fst \<circ> io_rd D UDR1 \<circ> snd) evs) \<and> reply_ok (xil (fold (usart_byte D) evs s)) out
   \<and> t_interval (serial_timeout (x_app (xil (fold (usart_byte D) evs s)))) = t_interval (serial_timeout (x_app (xil s)))
   \<and> (evs \<noteq> [] \<longrightarrow> timerActive (serial_timeout (x_app (xil (fold (usart_byte D) evs s))))
        \<and> t_start (serial_timeout (x_app (xil (fold (usart_byte D) evs s)))) = clk_time (x_clk (xil (fold (usart_byte D) evs s))))"
proof (induction evs arbitrary: s bs)
  case (Cons ev evs)
  obtain k h where ev: "ev = (k, h)" by (cases ev)
  let ?s = "usart_byte D (k, h) s"
  note b = usart_byte_received [OF Cons.prems(1,2), of D h k]
  have "usart_ok (xil ?s) (bs @ [fst (io_rd D UDR1 h)])" "reply_ok (xil ?s) out"
    and t: "serial_timeout (x_app (xil ?s)) = timerRestart (x_clk (xil ?s)) (serial_timeout (x_app (xil s)))"
    using b Cons.prems ev by simp_all
  from Cons.IH [OF this(1,2)] t show ?case
    using Cons.prems ev by (cases "evs = []") (simp_all add: timerRestart_def timerActive_def clockGetTime_def)
qed simp

text \<open>C32. What the USART receives reaches the host. While the device is configured the receive
  interrupt takes each byte, at any distance from the last; when the line has then been silent for
  more than the 100 ticks of the timeout (and fewer than \<open>2 ^ 32\<close>), the service routine appends all
  of it, in order and in one frame headed by \<open>SERIAL_USART_DATA\<close> and the number of bytes, to the
  host buffer, empties the receive buffer and restarts the timeout. The receive buffer must have
  room for the bytes (64 in all, those already in it included), the host buffer for the frame (128
  bytes in all, those not yet sent included), and the service routine is not run in between.\<close>

theorem usart_forwarded:
  assumes "usart_ok (xil s) bs" "reply_ok (xil s) out" "evs \<noteq> []" "list_all (configured D \<circ> snd) evs"
    and "length bs + length evs \<le> 64" "length out + length bs + length evs \<le> 126"
    and "t_interval (serial_timeout (x_app (xil s))) = 100" "100 < n" "n < 2 ^ 32"
  shows "let data = bs @ map (fst \<circ> io_rd D UDR1 \<circ> snd) evs;
             x = x_ticks n (xil (fold (usart_byte D) evs s));
             x' = X_appService x
         in usart_ok x' [] \<and> reply_ok x' (out @ SERIAL_USART_DATA # word_of_nat (length data) # data)
          \<and> timerActive (serial_timeout (x_app x')) \<and> t_start (serial_timeout (x_app x')) = clk_time (x_clk x)"
proof -
  let ?x = "xil (fold (usart_byte D) evs s)"
  let ?t = "serial_timeout (x_app ?x)"
  note r = usart_bytes_received [OF assms(1,2,5,4)]
  have "clk_time (x_clk (x_ticks n ?x)) - t_start ?t = of_nat n" using r assms(3) by (simp add: x_ticks_def ticks_time)
  then have "fst (timerExpired (x_clk (x_ticks n ?x)) ?t)"
    using r assms(3,7,8) unat_of_nat_u32 [OF assms(9)] by (simp add: timerExpired_iff word_less_nat_alt)
  then show ?thesis
    using service_forwards [of "x_ticks n ?x" "bs @ map (fst \<circ> io_rd D UDR1 \<circ> snd) evs" out] r assms(3,6)
    by (simp add: x_ticks_def usart_ok_def reply_ok_def Let_def)
qed

text \<open>\<open>usart_io\<close>: a configured device whose USART holds the head of a list.\<close>

definition usart_io :: "u8 list io" where
  "usart_io = \<lparr>io_rd = (\<lambda>r h. if r = UDR1 then (hd (h @ [0]), tl h) else if r = GPIOR0 then (DEVICE_STATE_Configured, h) else (0, h)),
     io_wr = (\<lambda>r v h. h), io_sig = (\<lambda>v. v)\<rparr>"

theorem usart_forwarded_witness:
  "let s = (x_boot_image [0x41, 0x42])\<lparr>xil := x_started\<rparr>
   in reply_ok (X_appService (x_ticks 101 (xil (fold (usart_byte usart_io) [(5, [0x41]), (70, [0x42])] s))))
        [SERIAL_USART_DATA, 2, 0x41, 0x42]"
proof -
  let ?s = "(x_boot_image [0x41, 0x42])\<lparr>xil := x_started\<rparr> :: u8 list xfirmware"
  have "usart_ok (xil ?s) []" "t_interval (serial_timeout (x_app (xil ?s))) = 100"
    by (simp_all add: usart_ok_def x_started_def X_appInit_def serialInit_def x_off_def Let_def timerSet_def
        ring_simps)
  moreover have "list_all (configured usart_io \<circ> snd) [(5, [0x41]), (70, [0x42])]"
    by (simp add: configured_def USB_DeviceState_def usart_io_def)
  ultimately show ?thesis
    using usart_forwarded [of ?s "[]" "[]" "[(5, [0x41]), (70, [0x42])]" usart_io 101] x_started_idle(2)
    by (simp add: Let_def usart_io_def)
qed

section \<open>From the endpoint to the frames\<close>

lemma io_wait_tap:
  fixes D :: "'h io"
  assumes "r \<noteq> UEDATX" "io_wait (tap D) r n t = Some t'"
  shows "snd t' = snd t"
  using assms(2) unfolding io_wait_def
proof (rule loop_invariant [where I = "\<lambda>u. snd u = snd t"])
  let ?turn = "\<lambda>h. let (b, h) = io_test (tap D) r n h in if b then Some (Inl h) else Some (Inr h)"
  fix u :: "'h tapped" assume i: "snd u = snd t"
  have "v = snd (io_test (tap D) r n u)" if "?turn u = Some (Inr v) \<or> ?turn u = Some (Inl v)" for v
    using that by (simp add: Let_def split_beta split: if_split_asm)
  then show "?turn u = Some (Inr v) \<Longrightarrow> snd v = snd t" "?turn u = Some (Inl v) \<Longrightarrow> snd v = snd t" for v
    using tap_access(1) [OF assms(1)] i by metis+
qed simp

lemma port_tap:
  "SPI_SendByte (tap D) b t = Some t1 \<Longrightarrow> snd t1 = snd t" "Serial_SendByte (tap D) b t = Some t2 \<Longrightarrow> snd t2 = snd t"
  "snd (fst (SPI_Init (tap D) opts (t, p))) = snd t" "snd (fst (SPI_Disable (tap D) (t, p))) = snd t"
  "snd (snd (isSetInitB (tap D) t)) = snd t" "snd (snd (isSetDone (tap D) t)) = snd t"
  by (auto simp: SPI_SendByte_def Serial_SendByte_def SPI_Init_def SPI_Disable_def isSetInitB_def isSetDone_def
      Let_def split_beta tap_wr tap_access dest!: io_wait_tap [rotated])

lemma init_wait_tap: "snd (fst (snd (init_wait (tap D) n (t, p)))) = snd t"
  by (induction n arbitrary: t p) (simp_all add: Let_def split_beta port_tap)

lemma send_payload_tap:
  assumes "\<And>b u u'. send b u = Some u' \<Longrightarrow> snd u' = snd u"
  shows "send_payload send n (t, x) = Some (t', x') \<Longrightarrow> snd t' = snd t"
proof (induction n arbitrary: t x)
  case (Suc n)
  then show ?case by (auto simp: split_beta bind_eq_Some_conv dest!: assms)
qed simp

lemma payload_tap:
  assumes "send = SPI_SendByte (tap D) \<or> send = Serial_SendByte (tap D)" "send_payload send n (t, x) = Some (t', x')"
  shows "snd t' = snd t"
proof (rule send_payload_tap [OF _ assms(2)])
  show "snd u' = snd u" if "send b u = Some u'" for b u u'
    using that assms(1) port_tap(1,2) by metis
qed

lemma process_tap:
  assumes "X_serialProcess (tap D) (t, x) = Some (ok, t', x')"
  shows "snd t' = snd t"
proof -
  let ?x = "snd (buffer_take (snd (buffer_take x)))"
  have xs: "xilinxSend (tap D) = SPI_SendByte (tap D)" by (simp add: fun_eq_iff xilinxSend_def)
  consider (pay) send n y u y' where "send = SPI_SendByte (tap D) \<or> send = Serial_SendByte (tap D)"
      "send_payload send n (t, y) = Some (u, y')" "snd t' = snd u"
    | (other) "snd t' = snd t"
    using assms unfolding X_serialProcess_def Let_def split_beta xs
    by (force simp: bind_eq_Some_conv port_tap init_wait_tap xilinxSetupConfiguration_def x_io_def Let_def split_beta
        split: if_split_asm)
  then show ?thesis
  proof cases
    case pay
    with payload_tap [OF pay(1,2)] show ?thesis by simp
  qed
qed

lemma x_receive_tap: "x_receive (tap D) b (t, x) = Some (t', x') \<Longrightarrow> snd t' = snd t"
  by (auto simp: x_receive_def x_serve_def Let_def split_beta bind_eq_Some_conv split: if_split_asm dest!: process_tap)

text \<open>C31. What the programmer takes from the USB endpoint it hands to the frame decoder byte by
  byte, completely and in order; its state afterwards is the one the decoder reaches on exactly
  those bytes.\<close>

theorem endpoint_to_frames:
  fixes s :: "'h tapped xfirmware"
  assumes "X_appUsbDataReceived (tap D) s = Some s'"
  shows "\<exists>es h. taken (hw s') = taken (hw s) @ map snd es \<and> x_receive_all (tap D) es (hw s, xil s) = Some (h, xil s')"
  using assms unfolding X_appUsbDataReceived_def
proof (rule loop_invariant [where I = "\<lambda>t. \<exists>es h. taken (hw t) = taken (hw s) @ map snd es
    \<and> x_receive_all (tap D) es (hw s, xil s) = Some (h, xil t)"])
  show "\<exists>es h. taken (hw s) = taken (hw s) @ map snd es \<and> x_receive_all (tap D) es (hw s, xil s) = Some (h, xil s)"
    by (intro exI [of _ "[]"] exI [of _ "hw s"]) simp
next
  fix t :: "'h tapped xfirmware"
  assume "\<exists>es h. taken (hw t) = taken (hw s) @ map snd es \<and> x_receive_all (tap D) es (hw s, xil s) = Some (h, xil t)"
  then obtain es h where es: "taken (hw t) = taken (hw s) @ map snd es" "x_receive_all (tap D) es (hw s, xil s) = Some (h, xil t)"
    by blast
  let ?r = "CDC_Device_ReceiveByte (tap D) t"
  have k: "xil (snd ?r) = xil t" by (rule xil_more) (simp add: cdc_data_more)
  show "\<exists>es h. taken (hw u) = taken (hw s) @ map snd es \<and> x_receive_all (tap D) es (hw s, xil s) = Some (h, xil u)"
    if turn: "X_receive_turn (tap D) t = Some (Inr u)" for u
  proof -
    let ?b = "word_of_int (fst ?r) :: u8"
    have "0 \<le> fst ?r" using turn by (auto simp: X_receive_turn_def Let_def split_beta split: if_splits)
    moreover from this obtain h' x' where x: "x_receive (tap D) ?b (hw (snd ?r), xil t) = Some (h', x')"
      and u: "u = (snd ?r)\<lparr>hw := h', xil := x'\<rparr>"
      using turn k by (auto simp: X_receive_turn_def Let_def split_beta split: if_splits)
    moreover have "taken h' = taken (hw (snd ?r))" using x_receive_tap [OF x] by (simp add: taken_def)
    ultimately show ?thesis
      using es ReceiveByte_tap [of D t]
      by (intro exI [of _ "es @ [(\<lambda>_. hw (snd ?r), ?b)]"] exI [of _ h']) (simp add: x_receive_all_append)
  qed
  show "\<exists>es h. taken (hw u) = taken (hw s) @ map snd es \<and> x_receive_all (tap D) es (hw s, xil s) = Some (h, xil u)"
    if "X_receive_turn (tap D) t = Some (Inl u)" for u
    using that es k ReceiveByte_tap [of D t]
    by (intro exI [of _ es] exI [of _ h]) (auto simp: X_receive_turn_def Let_def split_beta split: if_splits)
qed

definition x_talking :: "u8 list \<Rightarrow> u8 list tapped xfirmware" where
  "x_talking endpoint = (x_boot_image (endpoint, [], []))
     \<lparr>cdc := X_VirtualSerial_CDC_Interface\<lparr>LineEncoding := \<lparr>BaudRateBPS = 38400, CharFormat = 0, ParityType = 0, DataBits = 8\<rparr>\<rparr>,
      xil := x_started\<rparr>"

theorem endpoint_to_frames_witness:
  "\<exists>s' es h. X_appUsbDataReceived (tap online) (x_talking [0x08]) = Some s' \<and> taken (hw s') = map snd es
     \<and> x_receive_all (tap online) es (hw (x_talking [0x08]), x_started) = Some (h, xil s')"
proof -
  note access = CDC_Device_ReceiveByte_def cdc_down_def hw_defs USB_DeviceState_def
    Endpoint_SelectEndpoint_def Endpoint_IsOUTReceived_def Endpoint_BytesInEndpoint_def Endpoint_Read_8_def
    Endpoint_ClearOUT_def io_test_bit io_and_def tap_def online_def Let_def split_beta
  have "\<exists>x'. serialAddByte 8 x_started = (False, x')"
    using add_command [OF x_started_idle(1), of 8] by (auto simp: serial_codes)
  then obtain u where u: "X_receive_turn (tap online) (x_talking [0x08]) = Some (Inr u)" "hw u = ([], [], [0x08])"
    "BaudRateBPS (LineEncoding (cdc u)) = 38400"
    by (auto simp: X_receive_turn_def x_receive_def x_talking_def x_boot_image_def X_VirtualSerial_CDC_Interface_def access)
  have "\<exists>v. X_receive_turn (tap online) u = Some (Inl v)"
    using u(2,3) by (simp add: X_receive_turn_def access)
  then obtain v where "X_appUsbDataReceived (tap online) (x_talking [0x08]) = Some v"
    using u(1) by (auto simp: X_appUsbDataReceived_def loop_turn)
  with endpoint_to_frames [OF this] show ?thesis
    by (auto simp: x_talking_def x_boot_image_def taken_def)
qed

end
