(* ===== verification/Byte_Stream.thy ===== *)
theory Byte_Stream
  imports Usb_Stream
begin

text \<open>
  The resumable transfer that the endpoint and the pipe streams share, \<open>Template_Endpoint_RW.c\<close> and
  \<open>Template_Pipe_RW.c\<close> with a byte counter: a contract for one turn of the loop and, under it, what a
  whole call has written. \<open>Usb_Transfers\<close> and \<open>Pipe_Stream\<close> interpret it.
\<close>

text \<open>The bytes a stream reads from its buffer: \<open>n\<close> of them from index \<open>p\<close> on, up or down.\<close>

definition stream_bytes :: "int \<Rightarrow> int \<Rightarrow> u8 list \<Rightarrow> nat \<Rightarrow> u8 list" where
  "stream_bytes move p Buf n = map (\<lambda>i. Buf ! nat (p + move * int i)) [0..<n]"

lemma stream_bytes_0 [simp]: "stream_bytes move p Buf 0 = []"
  by (simp add: stream_bytes_def)

lemma stream_bytes_Suc: "stream_bytes move p Buf (Suc n) = Buf ! nat p # stream_bytes move (p + move) Buf n"
  by (simp add: stream_bytes_def map_upt_Suc algebra_simps del: upt_Suc)

lemma stream_bytes_add: "stream_bytes move p Buf (m + n) = stream_bytes move p Buf m @ stream_bytes move (p + move * int m) Buf n"
  by (induction m arbitrary: p) (simp_all add: stream_bytes_Suc algebra_simps)

lemma stream_bytes_LE: "m + n \<le> length Buf \<Longrightarrow> stream_bytes 1 (int m) Buf n = take n (drop m Buf)"
  by (rule nth_equalityI) (simp_all add: stream_bytes_def nat_add_distrib)

lemma stream_bytes_BE:
  assumes "m + n \<le> N" "N \<le> length Buf"
  shows "stream_bytes (- 1) (int N - 1 - int m) Buf n = take n (drop m (rev (take N Buf)))"
proof (rule nth_equalityI)
  fix i assume "i < length (stream_bytes (- 1) (int N - 1 - int m) Buf n)"
  then have i: "i < n" by (simp add: stream_bytes_def)
  then have "nat (int N - 1 - int m - int i) = N - Suc (m + i)" "m + i < N" using assms(1) by linarith+
  with i assms show "stream_bytes (- 1) (int N - 1 - int m) Buf n ! i = take n (drop m (rev (take N Buf))) ! i"
    by (simp add: stream_bytes_def rev_nth)
qed (use assms in \<open>simp add: stream_bytes_def\<close>)

lemma unat_pred: "(n :: u16) \<noteq> 0 \<Longrightarrow> unat n = Suc (unat (n - 1))"
  using unat_minus_one [of n] by (cases "unat n") (simp_all add: unat_eq_0)

text \<open>
  A transfer with a byte counter, as endpoints and pipes have it: \<open>allowed\<close> asks whether the bank takes
  another byte, \<open>put\<close> writes one, \<open>clear\<close> hands the bank over, and \<open>log\<close> is what has been written. One
  turn of the loop ends the transfer when nothing is left, ends it incomplete at the first full bank
  with the counter moved on, and writes one byte otherwise.
\<close>

locale byte_stream =
  fixes turn :: "int \<Rightarrow> u16 option \<Rightarrow> u16 \<times> int \<times> u16 \<times> u8 list \<times> 't
      \<Rightarrow> ((u8 \<times> u16 option \<times> u8 list \<times> 't) + (u16 \<times> int \<times> u16 \<times> u8 list \<times> 't)) option"
    and allowed :: "'t \<Rightarrow> bool \<times> 't" and clear :: "'t \<Rightarrow> 't" and put :: "u8 \<Rightarrow> 't \<Rightarrow> 't" and log :: "'t \<Rightarrow> u8 list"
  assumes turn_stop: "turn move bp (0, p, n, Buf, t) = Some (Inl (0, bp, Buf, t))"
    and turn_full: "L \<noteq> 0 \<Longrightarrow> \<not> fst (allowed t) \<Longrightarrow>
      turn move (Some b) (L, p, n, Buf, t) = Some (Inl (5, Some (b + n), Buf, clear (snd (allowed t))))"
    and turn_put: "L \<noteq> 0 \<Longrightarrow> fst (allowed t) \<Longrightarrow>
      turn move bp (L, p, n, Buf, t) = Some (Inr (L - 1, p + move, n + 1, Buf, put (Buf ! nat p) (snd (allowed t))))"
    and log_allowed: "log (snd (allowed t)) = log t" and log_clear: "log (clear t) = log t" and log_put: "log (put v t) = log t @ [v]"
begin

lemma resume:
  "\<exists>k e m t'. loop (turn move (Some b)) (L, p, n, Buf, t) = Some (e, Some m, Buf, t')
     \<and> log t' = log t @ stream_bytes move p Buf k
     \<and> (e = 0 \<and> k = unat L \<and> m = b \<or> e = 5 \<and> k < unat L \<and> m = b + n + of_nat k)"
    (is "\<exists>k e m t'. ?P L p n t k e m t'")
proof (induction "unat L" arbitrary: L p n t)
  case 0
  then have "L = 0" by (simp add: unat_eq_0)
  moreover have "loop (turn move (Some b)) (0, p, n, Buf, t) = Some (0, Some b, Buf, t)"
    by (rule loop_turn(1)) (rule turn_stop)
  ultimately have "?P L p n t 0 0 b t" by simp
  then show ?case by blast
next
  case (Suc j)
  then have L: "L \<noteq> 0" by auto
  show ?case
  proof (cases "fst (allowed t)")
    case False
    then have "loop (turn move (Some b)) (L, p, n, Buf, t) = Some (5, Some (b + n), Buf, clear (snd (allowed t)))"
      using L by (intro loop_turn(1) turn_full)
    then have "?P L p n t 0 5 (b + n) (clear (snd (allowed t)))"
      using L by (simp add: unat_gt_0 log_clear log_allowed)
    then show ?thesis by blast
  next
    case True
    let ?u = "put (Buf ! nat p) (snd (allowed t))"
    have turn: "loop (turn move (Some b)) (L, p, n, Buf, t) = loop (turn move (Some b)) (L - 1, p + move, n + 1, Buf, ?u)"
      using True L by (intro loop_turn(2) turn_put)
    have u: "log ?u = log t @ [Buf ! nat p]" by (simp add: log_put log_allowed)
    have "j = unat (L - 1)" using Suc.hyps(2) unat_pred [OF L] by simp
    from Suc.hyps(1) [OF this] obtain k e m t' where IH: "?P (L - 1) (p + move) (n + 1) ?u k e m t'" by blast
    then have "?P L p n t (Suc k) e m t'"
      unfolding turn u stream_bytes_Suc unat_pred [OF L] by (simp add: add.assoc)
    then show ?thesis by blast
  qed
qed

text \<open>Both directions, from where the counter says.\<close>

lemma resume_piece:
  fixes Length :: u16 and be :: bool
  assumes "n \<le> Length" "unat Length \<le> length Buf"
  defines "offset \<equiv> if be then offset_BE else offset_LE" and "move \<equiv> if be then - 1 else 1 :: int"
  shows "\<exists>k e m t'. loop (turn move (Some n)) (Length - n, offset Length + move * uint n, 0, Buf, t) = Some (e, Some m, Buf, t')
     \<and> log t' = log t @ take k (drop (unat n) ((if be then rev else id) (take (unat Length) Buf)))
     \<and> (e = 0 \<and> k = unat Length - unat n \<or> e = 5 \<and> k < unat Length - unat n \<and> m = n + of_nat k)"
proof -
  obtain k e m t' where r: "loop (turn move (Some n)) (Length - n, offset Length + move * uint n, 0, Buf, t) = Some (e, Some m, Buf, t')"
    and s: "log t' = log t @ stream_bytes move (offset Length + move * uint n) Buf k"
    and o: "e = 0 \<and> k = unat Length - unat n \<and> m = n \<or> e = 5 \<and> k < unat Length - unat n \<and> m = n + of_nat k"
    using resume [of move n "Length - n" "offset Length + move * uint n" 0 Buf t] unat_sub [OF assms(1)] by auto
  have k: "unat n + k \<le> unat Length" using o assms(1) by (auto simp: word_le_nat_alt)
  have "stream_bytes move (offset Length + move * uint n) Buf k
      = take k (drop (unat n) ((if be then rev else id) (take (unat Length) Buf)))"
    using stream_bytes_BE [OF k assms(2)] stream_bytes_LE [of "unat n" k Buf] k assms(2)
    by (simp add: offset_def move_def offset_BE_def offset_LE_def take_drop min_def algebra_simps)
  with r s o show ?thesis by (intro exI [of _ k] exI [of _ e] exI [of _ m] exI [of _ t']) auto
qed

end

end
