(* ===== verification/Usb_Transfers.thy ===== *)
theory Usb_Transfers
  imports Endpoint_Tap Byte_Stream Descriptors
begin

text \<open>
  What multi-byte transfers put on the bus: the resumable write streams and the control write streams
  of \<open>Usb_Stream\<close> through a tapped endpoint, the descriptor request of \<open>Usb_Request\<close> on the tables of
  \<open>Descriptors\<close>, the state that selecting a configuration leads to, and the line encoding of
  \<open>Cdc_Class\<close>.
\<close>

section \<open>Streams through a tapped endpoint\<close>

lemma stream_tap [simp]:
  "snd (snd (Endpoint_IsReadWriteAllowed (tap D) t)) = snd t" "snd (Endpoint_ClearIN (tap D) t) = snd t"
  "snd (Endpoint_ClearOUT (tap D) t) = snd t" "snd (snd (USB_DeviceState (tap D) t)) = snd t"
  "snd (snd (Endpoint_IsSETUPReceived (tap D) t)) = snd t" "snd (snd (Endpoint_IsOUTReceived (tap D) t)) = snd t"
  "snd (snd (Endpoint_IsINReady (tap D) t)) = snd t" "snd (snd (Endpoint_BytesInEndpoint (tap D) t)) = snd t"
  "snd (Endpoint_ClearSETUP (tap D) t) = snd t"
  by (simp_all add: Endpoint_IsReadWriteAllowed_def Endpoint_ClearIN_def Endpoint_ClearOUT_def USB_DeviceState_def
      Endpoint_IsSETUPReceived_def Endpoint_IsOUTReceived_def Endpoint_IsINReady_def Endpoint_BytesInEndpoint_def
      Endpoint_ClearSETUP_def Let_def split_beta tap_rd tap_access tap_wr)

lemma stream_sent [simp]:
  "sent (snd (Endpoint_IsReadWriteAllowed (tap D) t)) = sent t" "sent (Endpoint_ClearIN (tap D) t) = sent t"
  "sent (Endpoint_ClearOUT (tap D) t) = sent t" "sent (snd (USB_DeviceState (tap D) t)) = sent t"
  "sent (snd (Endpoint_IsSETUPReceived (tap D) t)) = sent t" "sent (snd (Endpoint_IsOUTReceived (tap D) t)) = sent t"
  "sent (snd (Endpoint_IsINReady (tap D) t)) = sent t" "sent (snd (Endpoint_BytesInEndpoint (tap D) t)) = sent t"
  "sent (Endpoint_ClearSETUP (tap D) t) = sent t"
  by (simp_all add: sent_def)

lemma sent_snd: "snd t' = snd t \<Longrightarrow> sent t' = sent t"
  by (simp add: sent_def)

lemma write_byte_tap [simp]:
  "fst (write_byte E p Buf h) = Buf" "sent (snd (write_byte (tap D) p Buf t)) = sent t @ [Buf ! nat p]"
  by (simp_all add: write_byte_def Endpoint_Write_8_def sent_def tap_wr)

lemma rw_turn_steps:
  "rw_turn D clear move xfer bp (0, p, n, Buf, h) = Some (Inl (ENDPOINT_RWSTREAM_NoError, bp, Buf, h))"
  "L \<noteq> 0 \<Longrightarrow> \<not> fst (Endpoint_IsReadWriteAllowed D h) \<Longrightarrow> rw_turn D clear move xfer (Some b) (L, p, n, Buf, h)
     = Some (Inl (ENDPOINT_RWSTREAM_IncompleteTransfer, Some (b + n), Buf, clear (snd (Endpoint_IsReadWriteAllowed D h))))"
  "L \<noteq> 0 \<Longrightarrow> fst (Endpoint_IsReadWriteAllowed D h) \<Longrightarrow> rw_turn D clear move (write_byte D) bp (L, p, n, Buf, h)
     = Some (Inr (L - 1, p + move, n + 1, Buf, snd (write_byte D p Buf (snd (Endpoint_IsReadWriteAllowed D h)))))"
  by (simp_all add: rw_turn_def split_beta)

text \<open>The endpoint streams are resumable transfers.\<close>

interpretation ep_stream: byte_stream "\<lambda>move. rw_turn (tap D) (Endpoint_ClearIN (tap D)) move (write_byte (tap D))"
    "Endpoint_IsReadWriteAllowed (tap D)" "Endpoint_ClearIN (tap D)" "Endpoint_Write_8 (tap D)" sent for D
  by unfold_locales (simp_all add: rw_turn_steps write_byte_def Endpoint_Write_8_def tap_wr sent_def)

text \<open>C24. A stream that is given a byte counter is resumable. Once the wait for the endpoint that every
  call begins with has succeeded, and however the endpoint then fills up, one call returns, writes a contiguous piece of the buffer (backwards from the end for the big-endian
  variant) that begins where the counter says, and ends either with all of it sent and no error, or
  with an incomplete transfer and the counter moved past exactly the bytes written, so that calling
  again until there is no error sends every byte once and in order.\<close>

theorem write_stream_resumes:
  assumes "Endpoint_WaitUntilReady (tap D) t = Some (0, u)" "n \<le> Length" "unat Length \<le> length Buf"
  shows "\<exists>k e m t'. (if be then Endpoint_Write_Stream_BE else Endpoint_Write_Stream_LE) (tap D) Buf Length (Some n) t
       = Some (e, Some m, Buf, t')
     \<and> sent t' = sent t @ take k (drop (unat n) ((if be then rev else id) (take (unat Length) Buf)))
     \<and> (e = ENDPOINT_RWSTREAM_NoError \<and> k = unat Length - unat n
        \<or> e = ENDPOINT_RWSTREAM_IncompleteTransfer \<and> k < unat Length - unat n \<and> m = n + of_nat k)"
proof -
  have "sent u = sent t" using WaitUntilReady_tap [OF assms(1)] by (rule sent_snd)
  then show ?thesis using ep_stream.resume_piece [OF assms(2,3), of D be u] assms(1)
    by (cases be) (auto simp: Endpoint_Write_Stream_BE_def Endpoint_Write_Stream_LE_def Template_Endpoint_RW_def)
qed

section \<open>Control transfers\<close>

lemma control_fill_tap:
  "case control_fill move (write_byte (tap D)) L p b Buf t of (L', p', b', Buf', t') \<Rightarrow>
     Buf' = Buf \<and> (\<exists>k. k + unat L' = unat L \<and> p' = p + move * int k \<and> sent t' = sent t @ stream_bytes move p Buf k)"
proof (induction move "write_byte (tap D)" L p b Buf t rule: control_fill.induct)
  case (1 move L p b Buf t)
  show ?case
  proof (cases "L \<noteq> 0 \<and> b < USB_Device_ControlEndpointSize")
    case True
    let ?u = "snd (write_byte (tap D) p Buf t)"
    obtain L' p' b' Buf' t' where c: "control_fill move (write_byte (tap D)) (L - 1) (p + move) (b + 1) Buf ?u = (L', p', b', Buf', t')"
      by (cases "control_fill move (write_byte (tap D)) (L - 1) (p + move) (b + 1) Buf ?u") auto
    have "(Buf, ?u) = write_byte (tap D) p Buf t" by (simp add: write_byte_def)
    from 1 [OF True this refl] c obtain k where k: "Buf' = Buf" "k + unat L' = unat (L - 1)" "p' = p + move + move * int k"
      "sent t' = sent t @ Buf ! nat p # stream_bytes move (p + move) Buf k" by auto
    have "control_fill move (write_byte (tap D)) L p b Buf t = (L', p', b', Buf', t')"
      using True c by (subst control_fill.simps) (simp add: write_byte_def)
    with k True show ?thesis
      by (auto intro!: exI [of _ "Suc k"] simp: unat_pred stream_bytes_Suc algebra_simps)
  next
    case False
    then have "control_fill move (write_byte (tap D)) L p b Buf t = (L, p, b, Buf, t)"
      by (subst control_fill.simps) auto
    then show ?thesis by (auto intro!: exI [of _ 0])
  qed
qed

lemma control_status_tap:
  fixes D :: "'h io"
  assumes "control_status (tap D) ready Buf t = Some (e, Buf', t')" "\<And>t. sent (snd (ready (tap D) t)) = sent t"
  shows "Buf' = Buf \<and> sent t' = sent t"
proof -
  have "case (e, Buf', t') of (e, B, u) \<Rightarrow> B = Buf \<and> sent u = sent t"
    using assms(1) unfolding control_status_def
  proof (rule loop_invariant [where I = "\<lambda>u. sent u = sent t"])
    let ?turn = "\<lambda>h. let (r, h) = ready (tap D) h in
       if r then Some (Inl (ENDPOINT_RWCSTREAM_NoError, Buf, h))
       else let (st, h) = USB_DeviceState (tap D) h in
         if st = DEVICE_STATE_Unattached then Some (Inl (ENDPOINT_RWCSTREAM_DeviceDisconnected, Buf, h))
         else if st = DEVICE_STATE_Suspended then Some (Inl (ENDPOINT_RWCSTREAM_BusSuspended, Buf, h))
         else Some (Inr h)"
    fix u u' :: "'h tapped" and r :: "u8 \<times> u8 list \<times> 'h tapped" assume u: "sent u = sent t"
    show "?turn u = Some (Inr u') \<Longrightarrow> sent u' = sent t"
      using u assms(2) [of u] by (simp add: Let_def split_beta split: if_split_asm) (metis stream_sent(4))
    show "?turn u = Some (Inl r) \<Longrightarrow> case r of (e, B, u) \<Rightarrow> B = Buf \<and> sent u = sent t"
      using u assms(2) [of u] by (simp add: Let_def split_beta split: if_split_asm) (metis stream_sent(4) fst_conv snd_conv)+
  qed simp
  then show ?thesis by simp
qed

text \<open>The data stage: after \<open>k\<close> of \<open>N\<close> bytes the stream is \<open>k\<close> positions further.\<close>

definition stage :: "int \<Rightarrow> int \<Rightarrow> u8 list \<Rightarrow> nat \<Rightarrow> 'h tapped \<Rightarrow> u16 \<times> int \<times> bool \<times> u8 list \<times> 'h tapped \<Rightarrow> bool" where
  "stage move p0 Buf N t0 = (\<lambda>(L, p, full, B, t). B = Buf
     \<and> (\<exists>k. k + unat L = N \<and> p = p0 + move * int k \<and> sent t = sent t0 @ stream_bytes move p0 Buf k))"

lemma control_w_turn_tap:
  assumes "stage move p0 Buf N t0 x"
  shows "control_w_turn (tap D) move (write_byte (tap D)) x = Some (Inr x') \<Longrightarrow> stage move p0 Buf N t0 x'"
    and "control_w_turn (tap D) move (write_byte (tap D)) x = Some (Inl (c, B, t')) \<Longrightarrow>
      B = Buf \<and> (\<exists>k \<le> N. sent t' = sent t0 @ stream_bytes move p0 Buf k)"
proof -
  obtain L p full t where x: "x = (L, p, full, Buf, t)" using assms by (cases x) (auto simp: stage_def)
  obtain k where k: "k + unat L = N" "p = p0 + move * int k" "sent t = sent t0 @ stream_bytes move p0 Buf k"
    using assms by (auto simp: x stage_def)
  let ?t4 = "snd (Endpoint_IsINReady (tap D) (snd (Endpoint_IsOUTReceived (tap D) (snd (Endpoint_IsSETUPReceived (tap D) (snd (USB_DeviceState (tap D) t)))))))"
  let ?n = "Endpoint_BytesInEndpoint (tap D) ?t4"
  obtain L' p' b' B' t' where c: "control_fill move (write_byte (tap D)) L p (fst ?n) Buf (snd ?n) = (L', p', b', B', t')"
    by (metis prod_cases5)
  from control_fill_tap [where move = move and D = D and L = L and p = p and b = "fst ?n" and Buf = Buf and t = "snd ?n"] c obtain j where
    j: "B' = Buf" "j + unat L' = unat L" "p' = p + move * int j" "sent t' = sent t @ stream_bytes move p Buf j" by auto
  have filled: "stage move p0 Buf N t0 (L', p', f, B', Endpoint_ClearIN (tap D) t')" for f
    unfolding stage_def using j k stream_bytes_add [of move p0 Buf k j]
    by (auto intro!: exI [of _ "k + j"] simp: distrib_left)
  have here: "\<exists>k \<le> N. sent t = sent t0 @ stream_bytes move p0 Buf k" using k by (auto intro!: exI [of _ k])
  have kept: "sent u = sent t \<Longrightarrow> stage move p0 Buf N t0 (L, p, f, Buf, u)" for u f
    using assms by (simp add: x stage_def)
  show "control_w_turn (tap D) move (write_byte (tap D)) x = Some (Inr x') \<Longrightarrow> stage move p0 Buf N t0 x'"
    unfolding x control_w_turn_def by (auto simp: Let_def split_beta c filled kept split: if_splits)
  show "control_w_turn (tap D) move (write_byte (tap D)) x = Some (Inl (c, B, t')) \<Longrightarrow>
      B = Buf \<and> (\<exists>k \<le> N. sent t' = sent t0 @ stream_bytes move p0 Buf k)" for t'
    unfolding x control_w_turn_def using here by (auto simp: Let_def split_beta split: if_splits)
qed

lemma control_write_tap:
  assumes "Template_Endpoint_Control_W (tap D) offset move (write_byte (tap D)) wL Buf Length t = Some (e, Buf', t')"
  shows "Buf' = Buf \<and> (\<exists>k \<le> min (unat Length) (unat wL). sent t' = sent t @ stream_bytes move (offset Length) Buf k)"
proof -
  let ?L = "if Length > wL then wL else Length"
  let ?h = "if \<not> Length > wL \<and> Length = 0 then Endpoint_ClearIN (tap D) t else t"
  obtain c B u where l: "loop (control_w_turn (tap D) move (write_byte (tap D))) (?L, offset Length, False, Buf, ?h) = Some (c, B, u)"
    and r: "(case c of Some e \<Rightarrow> Some (e, B, u) | None \<Rightarrow> control_status (tap D) Endpoint_IsOUTReceived B u) = Some (e, Buf', t')"
    using assms by (auto simp: Template_Endpoint_Control_W_def bind_eq_Some_conv split: if_splits)
  have N: "min (unat Length) (unat wL) = unat ?L" by (auto simp: word_less_nat_alt)
  have "case (c, B, u) of (c, B, u) \<Rightarrow> B = Buf \<and> (\<exists>k \<le> unat ?L. sent u = sent ?h @ stream_bytes move (offset Length) Buf k)"
    using l
  proof (rule loop_invariant [where I = "stage move (offset Length) Buf (unat ?L) ?h"])
    show "stage move (offset Length) Buf (unat ?L) ?h (?L, offset Length, False, Buf, ?h)"
      by (auto simp: stage_def intro!: exI [of _ 0])
  qed (use control_w_turn_tap in \<open>blast+\<close>)
  then obtain k where B: "B = Buf" and k: "k \<le> unat ?L" "sent u = sent t @ stream_bytes move (offset Length) Buf k"
    by (auto split: if_splits)
  have "Buf' = B \<and> sent t' = sent u"
    using r control_status_tap [of D Endpoint_IsOUTReceived B u e Buf' t'] by (auto split: option.splits)
  with B k show ?thesis unfolding N by auto
qed

lemma control_stream_LE:
  assumes "f \<in> {Endpoint_Write_Control_Stream_LE, Endpoint_Write_Control_PStream_LE}"
    and "control_write f (tap D) Buf Length s = Some (e, s')" "unat Length \<le> length Buf"
  shows "\<exists>k \<le> unat (wLength (USB_ControlRequest s)). sent (hw s') = sent (hw s) @ take k (take (unat Length) Buf)"
proof -
  from assms(1,2) obtain B h where "s' = s\<lparr>hw := h\<rparr>"
    and "Template_Endpoint_Control_W (tap D) offset_LE 1 (write_byte (tap D)) (wLength (USB_ControlRequest s)) Buf Length (hw s)
       = Some (e, B, h)"
    by (auto simp: control_write_def Endpoint_Write_Control_Stream_LE_def Endpoint_Write_Control_PStream_LE_def)
  with control_write_tap [OF this(2)] stream_bytes_LE [of 0 _ Buf] assms(3) show ?thesis
    by (auto simp: offset_LE_def min_def split: if_splits)
qed

lemma length_serial_chars: "length (serial_chars D n i a) = n"
  by (induction n arbitrary: i a) (simp_all add: Let_def split_beta)

lemma length_Signature: "length (SignatureDescriptor D) = 42"
proof -
  have "length (concat (map bytes_of_u16 cs)) = 2 * length cs" for cs :: "u16 list"
    by (induction cs) (simp_all add: bytes_of_u16_def)
  then show ?thesis by (simp add: SignatureDescriptor_def USB_Device_GetSerialString_def length_serial_chars)
qed

lemma more_sent:
  "sent (hw (hw_do (Endpoint_ClearSETUP (tap D)) s)) = sent (hw s)" "sent (hw (hw_do (Endpoint_ClearOUT (tap D)) s)) = sent (hw s)"
  "USB_ControlRequest (hw_do f s) = USB_ControlRequest s"
  by (simp_all add: hw_do_def)

text \<open>The object a request names: the serial number built from the signature row, or a table of the
  application.\<close>

definition requested :: "'h io \<Rightarrow> u16 \<Rightarrow> u8 \<Rightarrow> u8 list" where
  "requested D Value Index =
     (if Value = 0x03DC then SignatureDescriptor D
      else take (unat (fst (CALLBACK_USB_GetDescriptor Value Index))) (snd (CALLBACK_USB_GetDescriptor Value Index)))"

text \<open>C22. A descriptor request never discloses anything but the descriptor it names: for every request,
  every host behaviour (early status stage, new set-up packet, suspension, disconnection) and every
  answer of the controller, what the device puts on the control endpoint is a prefix of that
  descriptor, no longer than the length the host asked for.\<close>

theorem descriptor_request_sends_prefix:
  assumes "CALLBACK_GetDescriptor A = CALLBACK_USB_GetDescriptor" "USB_Device_GetDescriptor (tap D) A s = Some s'"
  shows "\<exists>k \<le> unat (wLength (USB_ControlRequest s)).
     sent (hw s') = sent (hw s) @ take k (requested (tap D) (wValue (USB_ControlRequest s)) (ucast (wIndex (USB_ControlRequest s))))"
proof -
  let ?r = "USB_ControlRequest s" and ?s = "hw_do (Endpoint_ClearSETUP (tap D)) s"
  let ?d = "requested (tap D) (wValue ?r) (ucast (wIndex ?r))"
  have "s' = s \<or> (\<exists>f Buf Length e u. f \<in> {Endpoint_Write_Control_Stream_LE, Endpoint_Write_Control_PStream_LE}
      \<and> control_write f (tap D) Buf Length ?s = Some (e, u) \<and> unat Length \<le> length Buf \<and> take (unat Length) Buf = ?d
      \<and> s' = hw_do (Endpoint_ClearOUT (tap D)) u)"
  proof (cases "wValue ?r = 0x03DC")
    case True
    then obtain e u where "control_write Endpoint_Write_Control_Stream_LE (tap D) (SignatureDescriptor (tap D)) 42 ?s = Some (e, u)"
      "s' = hw_do (Endpoint_ClearOUT (tap D)) u" using assms(2)
      by (auto simp: USB_Device_GetDescriptor_def USB_Device_GetInternalSerialDescriptor_def length_Signature bind_eq_Some_conv)
    then show ?thesis using True
      by (intro disjI2 exI [of _ Endpoint_Write_Control_Stream_LE] exI [of _ "SignatureDescriptor (tap D)"] exI [of _ 42]
          exI [of _ e] exI [of _ u]) (simp add: requested_def length_Signature)
  next
    case False
    let ?c = "CALLBACK_USB_GetDescriptor (wValue ?r) (ucast (wIndex ?r))"
    have "s' = s \<or> (\<exists>e u. control_write Endpoint_Write_Control_PStream_LE (tap D) (snd ?c) (fst ?c) ?s = Some (e, u)
        \<and> s' = hw_do (Endpoint_ClearOUT (tap D)) u)" using False assms
      by (auto simp: USB_Device_GetDescriptor_def bind_eq_Some_conv split_beta Let_def split: if_splits)
    then show ?thesis using False callback_in_bounds [of "wValue ?r" "ucast (wIndex ?r)"]
      by (elim disjE exE conjE, blast, intro disjI2 exI [of _ Endpoint_Write_Control_PStream_LE] exI [of _ "snd ?c"] exI [of _ "fst ?c"])
        (auto simp: requested_def)
  qed
  then show ?thesis
  proof (elim disjE exE conjE)
    fix f Buf Length e u
    assume f: "f \<in> {Endpoint_Write_Control_Stream_LE, Endpoint_Write_Control_PStream_LE}"
      "control_write f (tap D) Buf Length ?s = Some (e, u)" "unat Length \<le> length Buf"
      and d: "take (unat Length) Buf = ?d" "s' = hw_do (Endpoint_ClearOUT (tap D)) u"
    from control_stream_LE [OF f] d show ?thesis by (simp add: more_sent)
  qed (auto intro!: exI [of _ 0])
qed

text \<open>\<open>reader\<close>: a host that takes as many IN packets as the state says and then sends the status stage.\<close>

definition reader :: "nat io" where
  "reader = \<lparr>io_rd = (\<lambda>r h. (if r = GPIOR0 then 4 else if r = UEINTX then if h = 0 then 0x04 else 0x01 else 0, h)),
     io_wr = (\<lambda>r v h. if r = UEINTX then h - 1 else h), io_sig = (\<lambda>a. 0)\<rparr>"

definition asked :: "'h \<Rightarrow> u8 \<Rightarrow> u8 \<Rightarrow> u16 \<Rightarrow> u16 \<Rightarrow> 'h usb_core" where
  "asked h ty rq v l = \<lparr>hw = h, USB_IsInitialized = True,
     USB_ControlRequest = \<lparr>bmRequestType = ty, bRequest = rq, wValue = v, wIndex = 0, wLength = l\<rparr>,
     USB_Device_ConfigurationNumber = 0, USB_Device_CurrentlySelfPowered = False,
     USB_Device_RemoteWakeupEnabled = False, SREG_I = False\<rparr>"

definition no_events :: "'s usb_app" where
  "no_events = \<lparr>EVENT_Connect = Some, EVENT_Disconnect = Some, EVENT_Reset = Some, EVENT_StartOfFrame = Some,
     EVENT_ConfigurationChanged = Some, EVENT_ControlRequest = Some, CALLBACK_GetDescriptor = CALLBACK_USB_GetDescriptor\<rparr>"

lemmas control_reads = USB_DeviceState_def Endpoint_IsSETUPReceived_def Endpoint_IsOUTReceived_def Endpoint_IsINReady_def
  Endpoint_BytesInEndpoint_def Endpoint_ClearIN_def Endpoint_ClearSETUP_def io_test_bit io_and_def tap_def reader_def

lemma reader_turns:
  "\<exists>w. control_w_turn (tap reader) 1 (write_byte (tap reader)) (8, 0, False, DeviceDescriptor, (2, [], l))
     = Some (Inr (0, 8, True, DeviceDescriptor, (1, w, l)))"
  "control_w_turn (tap reader) 1 (write_byte (tap reader)) (0, 8, True, DeviceDescriptor, (1, w, l))
     = Some (Inr (0, 8, False, DeviceDescriptor, (0, w, l)))"
  "control_w_turn (tap reader) 1 (write_byte (tap reader)) (0, 8, False, DeviceDescriptor, (0, w, l))
     = Some (Inl (None, DeviceDescriptor, (0, w, l)))"
  by (simp_all add: control_w_turn_def control_reads control_fill.simps write_byte_def Endpoint_Write_8_def Let_def)

lemma reader_status: "control_status (tap reader) Endpoint_IsOUTReceived Buf (0, w, l) = Some (0, Buf, (0, w, l))"
  unfolding control_status_def by (rule loop_turn(1)) (simp add: control_reads Let_def)

lemma reader_loop:
  "\<exists>w. loop (control_w_turn (tap reader) 1 (write_byte (tap reader))) (8, 0, False, DeviceDescriptor, (2, [], l))
     = Some (None, DeviceDescriptor, (0, w, l))"
proof -
  let ?turn = "control_w_turn (tap reader) 1 (write_byte (tap reader))"
  obtain w where "?turn (8, 0, False, DeviceDescriptor, (2, [], l)) = Some (Inr (0, 8, True, DeviceDescriptor, (1, w, l)))"
    using reader_turns(1) by blast
  then have "loop ?turn (8, 0, False, DeviceDescriptor, (2, [], l)) = loop ?turn (0, 8, True, DeviceDescriptor, (1, w, l))"
    by (rule loop_turn(2))
  also have "\<dots> = loop ?turn (0, 8, False, DeviceDescriptor, (0, w, l))" by (rule loop_turn(2)) (rule reader_turns)
  also have "\<dots> = Some (None, DeviceDescriptor, (0, w, l))" by (rule loop_turn(1)) (rule reader_turns)
  finally show ?thesis by blast
qed

theorem descriptor_request_sends_prefix_witness:
  "\<exists>s' k. USB_Device_GetDescriptor (tap reader) no_events (asked (3, [], []) 0x80 6 0x0100 8) = Some s'
     \<and> k \<le> 8 \<and> sent (hw s') = take k DeviceDescriptor"
proof -
  let ?s = "asked (3, [], []) 0x80 6 0x0100 8 :: nat tapped usb_core"
  have c: "CALLBACK_USB_GetDescriptor 0x0100 0 = (18, DeviceDescriptor)"
    by (simp add: CALLBACK_USB_GetDescriptor_def DeviceDescriptor_def descriptor_def bytes_of_u16_def)
  obtain w where w: "loop (control_w_turn (tap reader) 1 (write_byte (tap reader))) (8, 0, False, DeviceDescriptor, (2, [], []))
     = Some (None, DeviceDescriptor, (0, w, []))" using reader_loop by blast
  have s: "hw (hw_do (Endpoint_ClearSETUP (tap reader)) ?s) = (2, [], [])"
    by (simp add: hw_do_def asked_def control_reads Let_def)
  have "\<exists>s'. USB_Device_GetDescriptor (tap reader) no_events ?s = Some s'"
    using s by (simp add: USB_Device_GetDescriptor_def no_events_def asked_def c control_write_def hw_do_def
        Endpoint_Write_Control_PStream_LE_def Template_Endpoint_Control_W_def offset_LE_def w reader_status)
  then obtain s' where "USB_Device_GetDescriptor (tap reader) no_events ?s = Some s'" by blast
  with descriptor_request_sends_prefix [of no_events reader ?s s'] c show ?thesis
    by (auto simp: no_events_def asked_def requested_def sent_def DeviceDescriptor_def descriptor_def bytes_of_u16_def)
qed

theorem write_stream_resumes_witness:
  "\<exists>k e m t'. Endpoint_Write_Stream_BE (tap online) [1, 2, 3] 3 (Some 1) ([7], [], []) = Some (e, Some m, [1, 2, 3], t')
     \<and> sent t' = take k [2, 1] \<and> (e = 0 \<and> k = 2 \<or> e = 5 \<and> k < 2 \<and> m = 1 + of_nat k)"
proof -
  have "wait_turn (tap online) (f, 100, [7], [], []) = Some (Inl (0, [7], [], []))" for f
    by (simp add: wait_turn_def Endpoint_GetEndpointDirection_def Endpoint_IsOUTReceived_def io_test_bit tap_def online_def Let_def)
  then have "loop (wait_turn (tap online)) (f, 100, [7], [], []) = Some (0, [7], [], [])" for f
    by (rule loop_turn(1))
  moreover have "snd (USB_Device_GetFrameNumber (tap online) ([7], [], [])) = ([7], [], [])"
    by (simp add: USB_Device_GetFrameNumber_def tap_def online_def Let_def)
  ultimately have "Endpoint_WaitUntilReady (tap online) ([7], [], []) = Some (0, [7], [], [])"
    by (simp add: Endpoint_WaitUntilReady_def split_beta)
  from write_stream_resumes [OF this, of 1 3 "[1, 2, 3]" True] show ?thesis
    by (simp add: sent_def)
qed

text \<open>C26. Selecting a configuration records its number, answers the status stage and hands the device over
  to the application in state Configured - also when the number is 0 and the device only has an
  address, where the state should be Addressed. A number above 1 is not accepted.\<close>

theorem set_configuration_state:
  fixes D :: "'h io" and s :: "('h, 'm) usb_core_scheme"
  defines "n \<equiv> ucast (wValue (USB_ControlRequest s)) :: u8"
  assumes law: "\<And>v h. fst (io_rd D GPIOR0 (io_wr D GPIOR0 v h)) = v"
    and st: "ClearStatusStage D ((hw_do (Endpoint_ClearSETUP D) s)\<lparr>USB_Device_ConfigurationNumber := n\<rparr>) = Some s2"
  shows "if n > 1 then USB_Device_SetConfiguration D A s = Some s
    else \<exists>t. USB_Device_SetConfiguration D A s = EVENT_ConfigurationChanged A t \<and> USB_Device_ConfigurationNumber t = n
       \<and> fst (USB_DeviceState D (hw t)) = (if n \<noteq> 0 \<or> fst (USB_Device_IsAddressSet D (hw s2))
            then DEVICE_STATE_Configured else DEVICE_STATE_Powered)"
proof -
  have n: "USB_Device_ConfigurationNumber s2 = n"
    using st by (auto simp: ClearStatusStage_def hw_try_def)
  have r: "wValue (USB_ControlRequest (hw_do f s)) = wValue (USB_ControlRequest s)" for f by (simp add: hw_do_def)
  show ?thesis
  proof (cases "n > 1")
    case True
    then show ?thesis by (simp add: USB_Device_SetConfiguration_def n_def)
  next
    case False
    let ?a = "USB_Device_IsAddressSet D (hw s2)"
    let ?t = "if n \<noteq> 0 then hw_do (set_USB_DeviceState D DEVICE_STATE_Configured) s2
      else hw_do (set_USB_DeviceState D (if fst ?a then DEVICE_STATE_Configured else DEVICE_STATE_Powered)) (s2\<lparr>hw := snd ?a\<rparr>)"
    have "USB_Device_SetConfiguration D A s = EVENT_ConfigurationChanged A ?t"
      using False st n by (simp add: USB_Device_SetConfiguration_def n_def [symmetric] r hw_get_def Let_def split_beta)
    moreover have "fst (USB_DeviceState D (hw ?t)) = (if n \<noteq> 0 \<or> fst ?a then DEVICE_STATE_Configured else DEVICE_STATE_Powered)"
      by (simp add: USB_DeviceState_def hw_do_def set_USB_DeviceState_def law)
    moreover have "USB_Device_ConfigurationNumber ?t = n" by (simp add: hw_do_def n)
    ultimately show ?thesis using False by (auto simp del: if_split_asm)
  qed
qed

text \<open>\<open>addressed\<close>: keeps \<open>GPIOR0\<close>, has an address and takes the status stage at once.\<close>

definition addressed :: "u8 io" where
  "addressed = \<lparr>io_rd = (\<lambda>r h. (if r = GPIOR0 then h else if r = UEINTX then 0x01 else if r = UDADDR then 0x85 else 0, h)),
     io_wr = (\<lambda>r v h. if r = GPIOR0 then v else h), io_sig = (\<lambda>a. 0)\<rparr>"

theorem set_configuration_state_witness:
  "\<exists>t. USB_Device_SetConfiguration addressed no_events (asked 3 0x00 9 0 0) = Some t
     \<and> USB_Device_ConfigurationNumber t = 0 \<and> fst (USB_DeviceState addressed (hw t)) = DEVICE_STATE_Configured"
proof -
  let ?s = "asked 3 0x00 9 0 0 :: u8 usb_core"
  have "ClearStatusStage addressed ((hw_do (Endpoint_ClearSETUP addressed) ?s)\<lparr>USB_Device_ConfigurationNumber := 0\<rparr>) = Some ?s"
    unfolding ClearStatusStage_def hw_try_def Endpoint_ClearStatusStage_def
    by (simp add: asked_def hw_do_def Endpoint_ClearSETUP_def io_and_def addressed_def Let_def)
      (rule loop_turn(1), simp add: Endpoint_IsINReady_def Endpoint_ClearIN_def io_test_bit io_and_def addressed_def)
  with set_configuration_state [of addressed ?s ?s no_events] show ?thesis
    by (simp add: asked_def addressed_def no_events_def USB_Device_IsAddressSet_def io_test_bit)
qed

section \<open>Line encoding\<close>

text \<open>A wait that polls an endpoint flag until it is set or the device is unplugged transfers nothing.\<close>

lemma poll_tap:
  fixes D :: "'h io" and r :: 'r
  assumes run: "loop (\<lambda>h. let (b, h) = ready h in if b then Some (Inl (fin h))
      else let (st, h) = USB_DeviceState (tap D) h in if st = DEVICE_STATE_Unattached then Some (Inl (gone h)) else Some (Inr h)) t = Some r"
    and ready: "\<And>u. snd (snd (ready u)) = snd u" and fin: "\<And>u. log (fin u) = snd u" "\<And>u. log (gone u) = snd u"
  shows "log r = snd t"
  using run
proof (rule loop_invariant [where I = "\<lambda>u. snd u = snd t"])
  let ?turn = "\<lambda>h. let (b, h) = ready h in if b then Some (Inl (fin h))
      else let (st, h) = USB_DeviceState (tap D) h in if st = DEVICE_STATE_Unattached then Some (Inl (gone h)) else Some (Inr h)"
  fix u u' :: "'h tapped" and r :: 'r assume u: "snd u = snd t"
  show "?turn u = Some (Inr u') \<Longrightarrow> snd u' = snd t"
    using u ready [of u] by (auto simp: Let_def split_beta split: if_split_asm)
  show "?turn u = Some (Inl r) \<Longrightarrow> log r = snd t"
    using u ready [of u] by (auto simp: Let_def split_beta fin split: if_split_asm)
qed simp

lemma wait_tap:
  fixes t :: "'h tapped"
  assumes run: "loop (\<lambda>h. let (b, h) = ready h in if b then Some (Inl h) else Some (Inr h)) t = Some r"
    and ready: "\<And>u. snd (snd (ready u)) = snd u"
  shows "snd r = snd t"
  using run
proof (rule loop_invariant [where I = "\<lambda>u. snd u = snd t"])
  let ?turn = "\<lambda>h. let (b, h) = ready h in if b then Some (Inl h) else Some (Inr h)"
  fix u v :: "'h tapped" assume u: "snd u = snd t"
  show "?turn u = Some (Inr v) \<Longrightarrow> snd v = snd t" "?turn u = Some (Inl v) \<Longrightarrow> snd v = snd t"
    using u ready [of u] by (auto simp: Let_def split_beta split: if_split_asm)
qed simp

lemma status_stage_tap:
  assumes "ClearStatusStage (tap D) s = Some s'"
  shows "\<exists>h. s' = s\<lparr>hw := h\<rparr> \<and> snd h = snd (hw s)"
proof -
  obtain h where h: "s' = s\<lparr>hw := h\<rparr>" "Endpoint_ClearStatusStage (tap D) (bmRequestType (USB_ControlRequest s)) (hw s) = Some h"
    using assms by (auto simp: ClearStatusStage_def hw_try_def)
  have "snd h = snd (hw s)"
  proof (cases "bmRequestType (USB_ControlRequest s) AND 0x80 = 0")
    case True
    then show ?thesis using h(2) poll_tap [where D = D and ready = "Endpoint_IsINReady (tap D)" and fin = "Endpoint_ClearIN (tap D)"
        and gone = "\<lambda>h. h" and log = snd] by (simp add: Endpoint_ClearStatusStage_def)
  next
    case False
    then show ?thesis using h(2) poll_tap [where D = D and ready = "Endpoint_IsOUTReceived (tap D)" and fin = "Endpoint_ClearOUT (tap D)"
        and gone = "\<lambda>h. h" and log = snd] by (simp add: Endpoint_ClearStatusStage_def)
  qed
  with h(1) show ?thesis by blast
qed

lemma read_8_tap:
  "snd (snd (Endpoint_Read_8 (tap D) t)) = (sent t, taken t @ [fst (Endpoint_Read_8 (tap D) t)])"
  by (simp add: Endpoint_Read_8_def tap_def sent_def taken_def Let_def split_beta)

lemma read_32_tap:
  "\<exists>bs. length bs = 4 \<and> fst (Endpoint_Read_32_LE (tap D) t) = u32_of_bytes bs
     \<and> snd (snd (Endpoint_Read_32_LE (tap D) t)) = (sent t, taken t @ bs)"
  using read_8_tap [unfolded Endpoint_Read_8_def, of D]
  by (simp add: Endpoint_Read_32_LE_def Let_def split_beta sent_def taken_def)

lemma low_byte: "(ucast ((w :: u32) AND 0xFF) :: u8) = ucast w"
proof -
  have "w AND 0xFF = take_bit 8 w" by (simp add: take_bit_eq_mask mask_eq_exp_minus_1)
  then show ?thesis by (simp add: bit_eq_iff bit_simps)
qed

lemma write_32_tap: "snd (Endpoint_Write_32_LE (tap D) w t) = (sent t @ bytes_of_u32 w, taken t)"
  by (simp add: Endpoint_Write_32_LE_def Let_def sent_def taken_def tap_def split_beta bytes_of_u32_def low_byte)

lemma hw_log_control:
  "snd (hw (hw_do (Endpoint_ClearSETUP (tap D)) s)) = snd (hw s)"
  "snd (hw (hw_do (Endpoint_Write_32_LE (tap D) w) s)) = (sent (hw s) @ bytes_of_u32 w, taken (hw s))"
  by (simp_all add: hw_do_def write_32_tap)

text \<open>What a handler for the change of the encoding must leave alone, as the ones of both firmwares do.\<close>

definition keeps_encoding :: "('h tapped, 'm) cdc_core_scheme cdc_app \<Rightarrow> bool" where
  "keeps_encoding C \<longleftrightarrow> (\<forall>t t'. EVENT_LineEncodingChanged C t = Some t' \<longrightarrow> cdc t' = cdc t \<and> taken (hw t') = taken (hw t))"

lemma get_encoding_tap:
  assumes "cdc_GetLineEncoding (tap D) s = Some s'"
  shows "sent (hw s') = sent (hw s) @ bytes_of_u32 (BaudRateBPS (LineEncoding (cdc s)))
    @ [CharFormat (LineEncoding (cdc s)), ParityType (LineEncoding (cdc s)), DataBits (LineEncoding (cdc s))]"
proof -
  let ?s = "hw_do (Endpoint_ClearSETUP (tap D)) s"
  let ?turn = "\<lambda>h. let (b, h) = Endpoint_IsINReady (tap D) h in if b then Some (Inl h) else Some (Inr h)"
  obtain h s2 where h: "loop ?turn (hw ?s) = Some h" and s2: "ClearStatusStage (tap D) s2 = Some s'"
    "snd (hw s2) = (sent h @ bytes_of_u32 (BaudRateBPS (LineEncoding (cdc s)))
    @ [CharFormat (LineEncoding (cdc s)), ParityType (LineEncoding (cdc s)), DataBits (LineEncoding (cdc s))], taken h)"
    using assms
    by (auto simp: cdc_GetLineEncoding_def hw_try_def hw_do_def bind_eq_Some_conv Let_def write_32_tap Endpoint_Write_8_def tap_wr sent_def taken_def)
  have "snd h = snd (hw ?s)"
    using h by (rule wait_tap) simp
  with status_stage_tap [OF s2(1)] s2(2) show ?thesis
    by (auto simp: hw_log_control sent_def)
qed

text \<open>C27. The serial line settings survive the round trip through the class driver, with an application
  whose event handler neither changes them nor takes bytes from the endpoint: the bytes that a
  get-line-encoding request sends back are the seven bytes that the last set-line-encoding request
  took from the host, in the same order, whatever they are; a set request that ends because the
  device was unplugged takes no byte and changes nothing.\<close>

theorem line_encoding_roundtrip:
  fixes D :: "'h io" and s :: "('h tapped, 'm) cdc_core_scheme"
  assumes "keeps_encoding C" "cdc_SetLineEncoding (tap D) C s = Some s1"
    and "cdc s2 = cdc s1" "cdc_GetLineEncoding (tap E) s2 = Some s3"
  shows "\<exists>bs. taken (hw s1) = taken (hw s) @ bs
     \<and> (bs = [] \<and> cdc s1 = cdc s \<or> length bs = 7 \<and> sent (hw s3) = sent (hw s2) @ bs)"
proof -
  let ?wait = "loop (\<lambda>h. let (b, h) = Endpoint_IsOUTReceived (tap D) h in
           if b then Some (Inl (True, h))
           else let (st, h) = USB_DeviceState (tap D) h in
             if st = DEVICE_STATE_Unattached then Some (Inl (False, h)) else Some (Inr h))"
  let ?s = "hw_do (Endpoint_ClearSETUP (tap D)) s"
  obtain rx h where w: "?wait (hw ?s) = Some (rx, h)"
    using assms(2) by (auto simp: cdc_SetLineEncoding_def hw_tryget_def hw_do_def bind_eq_Some_conv Let_def)
  have h: "snd h = snd (hw s)"
    using poll_tap [where log = "\<lambda>p. snd (snd p)", OF w] by (simp add: hw_log_control)
  show ?thesis
  proof (cases rx)
    case False
    then have "s1 = ?s\<lparr>hw := h\<rparr>"
      using assms(2) w by (simp add: cdc_SetLineEncoding_def hw_tryget_def Let_def)
    with h show ?thesis by (intro exI [of _ "[]"]) (simp add: taken_def hw_do_def)
  next
    case True
    let ?r0 = "Endpoint_Read_32_LE (tap D) h"
    let ?r1 = "Endpoint_Read_8 (tap D) (snd ?r0)"
    let ?r2 = "Endpoint_Read_8 (tap D) (snd ?r1)"
    let ?r3 = "Endpoint_Read_8 (tap D) (snd ?r2)"
    let ?le = "\<lparr>BaudRateBPS = fst ?r0, CharFormat = fst ?r1, ParityType = fst ?r2, DataBits = fst ?r3\<rparr>"
    obtain t where t: "ClearStatusStage (tap D) ((?s\<lparr>cdc := (cdc s)\<lparr>LineEncoding := ?le\<rparr>\<rparr>)\<lparr>hw := Endpoint_ClearOUT (tap D) (snd ?r3)\<rparr>) = Some t"
      and ev: "EVENT_LineEncodingChanged C t = Some s1"
      using assms(2) w True
      by (auto simp: cdc_SetLineEncoding_def hw_tryget_def hw_get_def hw_do_def bind_eq_Some_conv Let_def split_beta)
    obtain bs where bs: "length bs = 4" "fst ?r0 = u32_of_bytes bs" "snd (snd ?r0) = (sent h, taken h @ bs)"
      using read_32_tap by blast
    have "taken (hw t) = taken (snd ?r3)" "cdc t = (cdc s)\<lparr>LineEncoding := ?le\<rparr>"
      using status_stage_tap [OF t] by (auto simp: taken_def)
    then have s1: "taken (hw s1) = taken h @ bs @ [fst ?r1, fst ?r2, fst ?r3]" "LineEncoding (cdc s1) = ?le"
      using assms(1) ev bs(3) read_8_tap [of D] by (auto simp: keeps_encoding_def taken_def)
    then show ?thesis
      using get_encoding_tap [OF assms(4)] assms(3) bs h
      by (intro exI [of _ "bs @ [fst ?r1, fst ?r2, fst ?r3]"]) (simp add: bytes_u32_roundtrip taken_def)
  qed
qed

definition line_state :: "'h \<Rightarrow> u8 \<Rightarrow> 'h cdc_core" where
  "line_state h ty = \<lparr>hw = h, USB_IsInitialized = True,
     USB_ControlRequest = \<lparr>bmRequestType = ty, bRequest = 0, wValue = 0, wIndex = 0, wLength = 7\<rparr>,
     USB_Device_ConfigurationNumber = 1, USB_Device_CurrentlySelfPowered = False,
     USB_Device_RemoteWakeupEnabled = False, SREG_I = False,
     cdc = \<lparr>ControlInterfaceNumber = 0, DataINEndpoint = \<lparr>ep_Address = 0x83, ep_Size = 16, ep_Type = 2, ep_Banks = 1\<rparr>,
       DataOUTEndpoint = \<lparr>ep_Address = 4, ep_Size = 16, ep_Type = 2, ep_Banks = 1\<rparr>,
       NotificationEndpoint = \<lparr>ep_Address = 0x82, ep_Size = 8, ep_Type = 3, ep_Banks = 1\<rparr>,
       HostToDevice = 0, DeviceToHost = 0, LineEncoding = \<lparr>BaudRateBPS = 0, CharFormat = 0, ParityType = 0, DataBits = 0\<rparr>\<rparr>\<rparr>"

definition no_cdc_events :: "'s cdc_app" where
  "no_cdc_events = \<lparr>EVENT_LineEncodingChanged = Some, EVENT_ControLineStateChanged = Some, EVENT_BreakSent = (\<lambda>_. Some)\<rparr>"

lemma online_flags:
  "Endpoint_IsOUTReceived (tap online) (x # xs, l) = (True, x # xs, l)" "Endpoint_IsINReady (tap online) (xs, l) = (True, xs, l)"
  "Endpoint_ClearIN (tap online) (xs, l) = (xs, l)" "Endpoint_ClearOUT (tap online) (xs, l) = (xs, l)"
  "Endpoint_ClearSETUP (tap online) (xs, l) = (xs, l)"
  by (cases l; simp add: Endpoint_IsOUTReceived_def Endpoint_IsINReady_def Endpoint_ClearIN_def Endpoint_ClearOUT_def
      Endpoint_ClearSETUP_def io_test_bit io_and_def tap_def online_def Let_def)+

lemma online_status:
  "ClearStatusStage (tap online) (s\<lparr>hw := (x # xs, w, r)\<rparr>) = Some (s\<lparr>hw := (x # xs, w, r)\<rparr>)"
  "bmRequestType (USB_ControlRequest s) = 0x21 \<Longrightarrow> ClearStatusStage (tap online) (s\<lparr>hw := (xs, w, r)\<rparr>) = Some (s\<lparr>hw := (xs, w, r)\<rparr>)"
  by (auto simp: ClearStatusStage_def hw_try_def Endpoint_ClearStatusStage_def loop_turn(1) online_flags)

lemma online_read:
  "Endpoint_Read_8 (tap online) (x # xs, w, r) = (x, xs, w, r @ [x])"
  "Endpoint_Read_32_LE (tap online) (a # b # c # d # xs, w, r) = (u32_of_bytes [a, b, c, d], xs, w, r @ [a, b, c, d])"
  by (simp_all add: Endpoint_Read_8_def Endpoint_Read_32_LE_def tap_def online_def)

lemma online_put:
  "Endpoint_Write_8 (tap online) v (xs, w, r) = (xs, w @ [v], r)"
  "Endpoint_Write_32_LE (tap online) u (xs, w, r) = (xs, w @ bytes_of_u32 u, r)"
  by (simp_all add: Endpoint_Write_8_def Endpoint_Write_32_LE_def tap_def online_def Let_def bytes_of_u32_def low_byte)

theorem line_encoding_roundtrip_witness:
  "\<exists>s1 s3 bs. cdc_SetLineEncoding (tap online) no_cdc_events (line_state ([0, 0xC2, 1, 0, 0, 0, 8], [], []) 0x21) = Some s1
     \<and> cdc_GetLineEncoding (tap online) (s1\<lparr>hw := ([1], [], [])\<rparr>) = Some s3
     \<and> taken (hw s1) = bs \<and> (bs = [] \<or> length bs = 7 \<and> sent (hw s3) = bs)"
proof -
  let ?s = "line_state ([0, 0xC2, 1, 0, 0, 0, 8], [], []) 0x21 :: u8 list tapped cdc_core"
  have w: "loop (\<lambda>h. case Endpoint_IsOUTReceived (tap online) h of (b, h) \<Rightarrow>
      if b then Some (Inl (True, h)) else let (st, h) = USB_DeviceState (tap online) h in
        if st = DEVICE_STATE_Unattached then Some (Inl (False, h)) else Some (Inr h)) (x # xs, l) = Some (True, x # xs, l)" for x xs l
    by (rule loop_turn(1)) (simp add: online_flags)
  have g: "loop (\<lambda>h. case Endpoint_IsINReady (tap online) h of (b, h) \<Rightarrow> if b then Some (Inl h) else Some (Inr h)) (xs, l) = Some (xs, l)" for xs l
    by (rule loop_turn(1)) (simp add: online_flags)
  have "\<exists>s1. cdc_SetLineEncoding (tap online) no_cdc_events ?s = Some s1"
    using online_status(2) [of "?s\<lparr>cdc := c\<rparr>" for c]
    by (simp add: cdc_SetLineEncoding_def hw_tryget_def hw_get_def hw_do_def online_flags w online_read no_cdc_events_def line_state_def)
  then obtain s1 where s1: "cdc_SetLineEncoding (tap online) no_cdc_events ?s = Some s1" by blast
  have "\<exists>s3. cdc_GetLineEncoding (tap online) (s1\<lparr>hw := ([1], [], [])\<rparr>) = Some s3"
    by (simp add: cdc_GetLineEncoding_def hw_try_def hw_do_def online_flags g online_put online_status) (simp add: Let_def)
  then obtain s3 where s3: "cdc_GetLineEncoding (tap online) (s1\<lparr>hw := ([1], [], [])\<rparr>) = Some s3" by blast
  have "keeps_encoding (no_cdc_events :: u8 list tapped cdc_core cdc_app)" by (simp add: keeps_encoding_def no_cdc_events_def)
  from line_encoding_roundtrip [OF this s1 _ s3] s1 s3 show ?thesis
    by (fastforce simp: taken_def sent_def line_state_def)
qed

end
