(* ===== verification/Ring_Interrupts.thy ===== *)
theory Ring_Interrupts
  imports Ring_Buffer
begin

text \<open>
  The ring buffer of \<open>LUFA/Drivers/Misc/RingBuffer.h\<close> below the level of its operations: each
  operation as the sequence of its statements, the interrupt mask saved, cleared and restored as in
  the source, and interrupts that may run between any two statements while they are enabled.
  Without interrupts the sequences compute the operations of \<open>Ring_Buffer\<close>; with them, every run of
  the statements has the result of the whole operation before or after the interrupts.
\<close>

section \<open>Statements that interrupts can separate\<close>

text \<open>
  The machine state a ring buffer operation works on: the buffer, the global interrupt flag and the
  local variables of the operation. \<open>rc_count\<close> is the register that holds \<open>Count\<close> between its load
  and its store, \<open>rc_taken\<close> what an interrupt has removed.
\<close>

record ring_cpu =
  rc_buf :: RingBuffer_t
  rc_I :: bool
  rc_saved :: bool
  rc_count :: u16
  rc_data :: u8
  rc_taken :: "u8 list"

type_synonym 's prog = "('s \<Rightarrow> 's) list"

definition buf_do :: "(RingBuffer_t \<Rightarrow> RingBuffer_t) \<Rightarrow> ring_cpu \<Rightarrow> ring_cpu" where
  "buf_do f s = s\<lparr>rc_buf := f (rc_buf s)\<rparr>"

definition save_mask :: "ring_cpu \<Rightarrow> ring_cpu" where "save_mask s = s\<lparr>rc_saved := rc_I s\<rparr>"
definition disable :: "ring_cpu \<Rightarrow> ring_cpu" where "disable s = s\<lparr>rc_I := False\<rparr>"
definition restore_mask :: "ring_cpu \<Rightarrow> ring_cpu" where "restore_mask s = s\<lparr>rc_I := rc_saved s\<rparr>"
definition load_count :: "ring_cpu \<Rightarrow> ring_cpu" where "load_count s = s\<lparr>rc_count := rb_Count (rc_buf s)\<rparr>"
definition store_count :: "(u16 \<Rightarrow> u16) \<Rightarrow> ring_cpu \<Rightarrow> ring_cpu" where
  "store_count f s = buf_do (\<lambda>b. b\<lparr>rb_Count := f (rc_count s)\<rparr>) s"

text \<open>The three operations of the header that take the lock, statement by statement.\<close>

definition locked_update :: "(u16 \<Rightarrow> u16) \<Rightarrow> ring_cpu prog" where
  "locked_update f = [save_mask, disable, load_count, store_count f, restore_mask]"

definition Insert_prog :: "u8 \<Rightarrow> ring_cpu prog" where
  "Insert_prog d =
     [buf_do (\<lambda>b. b\<lparr>rb_Data := (rb_Data b)[rb_In b := d]\<rparr>),
      buf_do (\<lambda>b. b\<lparr>rb_In := Suc (rb_In b)\<rparr>),
      buf_do (\<lambda>b. if rb_In b = rb_End b then b\<lparr>rb_In := rb_Start b\<rparr> else b)]
     @ locked_update (\<lambda>c. c + 1)"

definition Remove_prog :: "ring_cpu prog" where
  "Remove_prog =
     [\<lambda>s. s\<lparr>rc_data := rb_Data (rc_buf s) ! rb_Out (rc_buf s)\<rparr>,
      buf_do (\<lambda>b. b\<lparr>rb_Out := Suc (rb_Out b)\<rparr>),
      buf_do (\<lambda>b. if rb_Out b = rb_End b then b\<lparr>rb_Out := rb_Start b\<rparr> else b)]
     @ locked_update (\<lambda>c. c - 1)"

definition GetCount_prog :: "ring_cpu prog" where
  "GetCount_prog = [save_mask, disable, load_count, restore_mask]"

primrec exec :: "'s prog \<Rightarrow> 's \<Rightarrow> 's" where
  "exec [] s = s"
| "exec (p # ps) s = exec ps (p s)"

lemma exec_append [simp]: "exec (ps @ qs) s = exec qs (exec ps s)"
  by (induction ps arbitrary: s) simp_all

lemmas ring_micro = buf_do_def save_mask_def disable_def restore_mask_def load_count_def store_count_def locked_update_def

lemma exec_Insert:
  "exec (Insert_prog d) s = s\<lparr>rc_buf := RingBuffer_Insert (rc_buf s) d, rc_saved := rc_I s, rc_count := rb_Count (rc_buf s)\<rparr>"
  by (simp add: Insert_prog_def ring_micro RingBuffer_Insert_def Let_def)

lemma exec_Remove:
  "exec Remove_prog s = s\<lparr>rc_buf := snd (RingBuffer_Remove (rc_buf s)), rc_data := fst (RingBuffer_Remove (rc_buf s)),
     rc_saved := rc_I s, rc_count := rb_Count (rc_buf s)\<rparr>"
  by (simp add: Remove_prog_def ring_micro RingBuffer_Remove_def Let_def)

lemma exec_GetCount: "exec GetCount_prog s = s\<lparr>rc_saved := rc_I s, rc_count := RingBuffer_GetCount (rc_buf s)\<rparr>"
  by (simp add: GetCount_prog_def ring_micro RingBuffer_GetCount_def)

section \<open>Running with interrupts\<close>

text \<open>
  Between two statements, while interrupts are enabled, an interrupt may run; it is not interrupted
  itself and leaves the flag as it was.
\<close>

inductive irq_run :: "('s \<Rightarrow> bool) \<Rightarrow> ('e \<Rightarrow> 's \<Rightarrow> 's) \<Rightarrow> 's prog \<Rightarrow> 's \<Rightarrow> 'e list \<Rightarrow> 's \<Rightarrow> bool" for enabled isr where
  irq_done: "irq_run enabled isr [] s [] s"
| irq_step: "irq_run enabled isr ps (p s) es t \<Longrightarrow> irq_run enabled isr (p # ps) s es t"
| irq_fire: "enabled s \<Longrightarrow> irq_run enabled isr ps (isr e s) es t \<Longrightarrow> irq_run enabled isr ps s (e # es) t"

inductive_cases irq_run_Nil: "irq_run enabled isr [] s es t"
inductive_cases irq_run_Cons: "irq_run enabled isr (p # ps) s es t"

lemma irq_run_append:
  "irq_run enabled isr (ps @ qs) s es t \<Longrightarrow>
     \<exists>es1 es2 u. es = es1 @ es2 \<and> irq_run enabled isr ps s es1 u \<and> irq_run enabled isr qs u es2 t"
proof (induction "ps @ qs" s es t arbitrary: ps rule: irq_run.induct)
  case (irq_done s)
  then show ?case by (auto intro: irq_run.intros)
next
  case (irq_step ps' p s es t)
  show ?case
  proof (cases ps)
    case Nil
    have "irq_run enabled isr (p # ps') s es t" using irq_step.hyps(1) by (rule irq_run.irq_step)
    with Nil irq_step.hyps(3) show ?thesis by (auto intro: irq_run.irq_done)
  next
    case (Cons q ps'')
    then have "p = q" "ps' = ps'' @ qs" using irq_step.hyps(3) by auto
    with irq_step.hyps(2) Cons show ?thesis by (metis irq_run.irq_step)
  qed
next
  case (irq_fire s e es t)
  from irq_fire.hyps(3) irq_fire.hyps(1) show ?case
    by (metis append_Cons irq_run.irq_fire)
qed

text \<open>While interrupts are disabled nothing comes between two statements.\<close>

lemma irq_run_masked: "irq_run enabled isr (p # ps) s es t \<Longrightarrow> \<not> enabled s \<Longrightarrow> irq_run enabled isr ps (p s) es t"
  by (erule irq_run_Cons) auto

text \<open>Interrupts that commute with every statement can be thought of as coming after them.\<close>

lemma irq_run_commute:
  assumes "irq_run enabled isr ps s es t" "P s es"
    and step: "\<And>p s es. p \<in> set ps \<Longrightarrow> P s es \<Longrightarrow> P (p s) es"
    and fire: "\<And>s e es. P s (e # es) \<Longrightarrow> P (isr e s) es"
    and comm: "\<And>p s e es. p \<in> set ps \<Longrightarrow> P s (e # es) \<Longrightarrow> p (isr e s) = isr e (p s)"
  shows "t = fold isr es (exec ps s)"
  using assms(1) assms(2-)
proof (induction rule: irq_run.induct)
  case (irq_step ps p s es t)
  then show ?case by simp
next
  case (irq_fire s ps e es t)
  have "exec ps' (isr e s) = isr e (exec ps' s)" if "set ps' \<subseteq> set ps" "P s (e # es)" for ps' s
    using that by (induction ps' arbitrary: s) (simp_all add: irq_fire.prems)
  with irq_fire show ?case by simp
qed simp

section \<open>One side in the main program, the other in an interrupt\<close>

definition rx_isr :: "u8 \<Rightarrow> ring_cpu \<Rightarrow> ring_cpu" where
  "rx_isr d = buf_do (\<lambda>b. RingBuffer_Insert b d)"

definition tx_isr :: "unit \<Rightarrow> ring_cpu \<Rightarrow> ring_cpu" where
  "tx_isr _ s = (let (d, b) = RingBuffer_Remove (rc_buf s) in s\<lparr>rc_buf := b, rc_taken := rc_taken s @ [d]\<rparr>)"

lemma rx_isr_fields [simp]:
  "rc_buf (rx_isr d s) = RingBuffer_Insert (rc_buf s) d" "rc_I (rx_isr d s) = rc_I s" "rc_saved (rx_isr d s) = rc_saved s"
  "rc_data (rx_isr d s) = rc_data s" "rc_taken (rx_isr d s) = rc_taken s" "rc_count (rx_isr d s) = rc_count s"
  by (simp_all add: rx_isr_def buf_do_def)

lemma fold_rx_isr [simp]:
  "rc_count (fold rx_isr es s) = rc_count s" "rc_buf (fold rx_isr es s) = put_bytes RingBuffer_Insert es (rc_buf s)" "rc_I (fold rx_isr es s) = rc_I s"
  "rc_data (fold rx_isr es s) = rc_data s" "rc_taken (fold rx_isr es s) = rc_taken s"
  "rc_saved (fold rx_isr es s) = rc_saved s"
  by (induction es arbitrary: s) simp_all

text \<open>The end of a locked section: interrupts are off until the mask is restored.\<close>

lemma masked_tail:
  assumes "irq_run rc_I isr [load_count, store_count f, restore_mask] s es t" "\<not> rc_I s"
  shows "t = fold isr es (restore_mask (store_count f (load_count s)))"
proof -
  have "irq_run rc_I isr [] (restore_mask (store_count f (load_count s))) es t"
    using assms by (auto dest!: irq_run_masked simp: ring_micro)
  then show ?thesis using irq_run_commute [where P = "\<lambda>_ _. True" and ps = "[]"] by fastforce
qed

lemma Insert_update_count:
  "RingBuffer_Insert (b\<lparr>rb_Count := rb_Count b - 1\<rparr>) d = (RingBuffer_Insert b d)\<lparr>rb_Count := rb_Count (RingBuffer_Insert b d) - 1\<rparr>"
  by (simp add: RingBuffer_Insert_def Let_def)

lemma put_update_count:
  "put_bytes RingBuffer_Insert es (b\<lparr>rb_Count := rb_Count b - 1\<rparr>)
     = (put_bytes RingBuffer_Insert es b)\<lparr>rb_Count := rb_Count (put_bytes RingBuffer_Insert es b) - 1\<rparr>"
  by (induction es arbitrary: b) (simp_all add: Insert_update_count)

lemma ring_In_neq_Out: "ring_ok b \<Longrightarrow> 0 < rb_Count b \<Longrightarrow> rb_Count b < rb_Size b \<Longrightarrow> rb_In b \<noteq> rb_Out b"
  using mod_index_neq [of 0 "unat (rb_Count b)" "length (rb_Data b)" "rb_Out b"]
  by (auto simp: ring_ok_def ring_safe_def word_less_nat_alt)

definition advance_out :: "RingBuffer_t \<Rightarrow> RingBuffer_t" where
  "advance_out b = (let b = b\<lparr>rb_Out := Suc (rb_Out b)\<rparr> in if rb_Out b = rb_End b then b\<lparr>rb_Out := rb_Start b\<rparr> else b)"

lemma advance_out_Insert: "advance_out (RingBuffer_Insert b d) = RingBuffer_Insert (advance_out b) d"
  by (cases b) (simp add: advance_out_def RingBuffer_Insert_def Let_def)

lemma advance_out_put: "advance_out (put_bytes RingBuffer_Insert xs b) = put_bytes RingBuffer_Insert xs (advance_out b)"
  by (induction xs arbitrary: b) (simp_all add: advance_out_Insert)

lemma Remove_interrupted:
  assumes run: "irq_run rc_I rx_isr Remove_prog s es t"
    and ok: "ring_ok (rc_buf s)" "0 < rb_Count (rc_buf s)" "unat (rb_Count (rc_buf s)) + length es \<le> unat (rb_Size (rc_buf s))"
  shows "rc_data t = fst (RingBuffer_Remove (rc_buf s))"
    and "rc_buf t = put_bytes RingBuffer_Insert es (snd (RingBuffer_Remove (rc_buf s)))" and "rc_I t = rc_I s"
    and "rc_taken t = rc_taken s"
proof -
  let ?load = "\<lambda>s. s\<lparr>rc_data := rb_Data (rc_buf s) ! rb_Out (rc_buf s)\<rparr>"
  let ?incr = "buf_do (\<lambda>b. b\<lparr>rb_Out := Suc (rb_Out b)\<rparr>)"
  let ?wrap = "buf_do (\<lambda>b. if rb_Out b = rb_End b then b\<lparr>rb_Out := rb_Start b\<rparr> else b)"
  have "irq_run rc_I rx_isr ([?load] @ [?incr, ?wrap, save_mask, disable] @ [load_count, store_count (\<lambda>c. c - 1), restore_mask]) s es t"
    using run by (simp add: Remove_prog_def locked_update_def)
  from irq_run_append [OF this] obtain es1 es' u where es': "es = es1 @ es'" and r1: "irq_run rc_I rx_isr [?load] s es1 u"
    and r': "irq_run rc_I rx_isr ([?incr, ?wrap, save_mask, disable] @ [load_count, store_count (\<lambda>c. c - 1), restore_mask]) u es' t"
    by blast
  from irq_run_append [OF r'] obtain es2 es3 v where es: "es = es1 @ es2 @ es3"
    and r2: "irq_run rc_I rx_isr [?incr, ?wrap, save_mask, disable] u es2 v"
    and r3: "irq_run rc_I rx_isr [load_count, store_count (\<lambda>c. c - 1), restore_mask] v es3 t"
    using es' by blast
  let ?P = "\<lambda>s es. ring_ok (rc_buf s) \<and> 0 < rb_Count (rc_buf s) \<and> unat (rb_Count (rc_buf s)) + length es \<le> unat (rb_Size (rc_buf s))"
  have u: "u = fold rx_isr es1 (exec [?load] s)"
    using r1
  proof (rule irq_run_commute [where P = ?P])
    show "?P s es1" using ok es by simp
  next
    fix s :: ring_cpu and e :: u8 and es :: "u8 list" assume P: "?P s (e # es)"
    then have room: "rb_Count (rc_buf s) < rb_Size (rc_buf s)" by (simp add: word_less_nat_alt)
    with P show "?P (rx_isr e s) es"
      using ring_Insert(1) [of "rc_buf s" e] unat_Suc_count [OF room]
      by (auto simp: ring_ok_def Insert_fields word_less_nat_alt)
    fix p :: "ring_cpu \<Rightarrow> ring_cpu" assume "p \<in> set [?load]"
    then show "p (rx_isr e s) = rx_isr e (p s)"
      using ring_In_neq_Out [of "rc_buf s"] P room
      by (auto simp: rx_isr_def buf_do_def ring_ok_def Insert_fields)
  qed auto
  have v: "v = fold rx_isr es2 (exec [?incr, ?wrap, save_mask, disable] u)"
    using r2 by (rule irq_run_commute [where P = "\<lambda>_ _. True"])
      (auto simp: rx_isr_def ring_micro RingBuffer_Insert_def Let_def)
  have "exec [?incr, ?wrap, save_mask, disable] u = u\<lparr>rc_buf := advance_out (rc_buf u), rc_saved := rc_I u, rc_I := False\<rparr>"
    by (simp add: ring_micro advance_out_def Let_def)
  with v have vb: "rc_buf v = put_bytes RingBuffer_Insert (es1 @ es2) (advance_out (rc_buf s))"
    "rc_data v = rb_Data (rc_buf s) ! rb_Out (rc_buf s)" "\<not> rc_I v" "rc_saved v = rc_I s" "rc_taken v = rc_taken s"
    by (simp_all add: u advance_out_put put_bytes_append)
  have t: "t = fold rx_isr es3 (restore_mask (store_count (\<lambda>c. c - 1) (load_count v)))"
    using masked_tail [OF r3] vb(3) by simp
  show "rc_data t = fst (RingBuffer_Remove (rc_buf s))" "rc_I t = rc_I s" "rc_taken t = rc_taken s"
    by (simp_all add: t ring_micro vb RingBuffer_Remove_def Let_def)
  have "rc_buf t = put_bytes RingBuffer_Insert es3 ((rc_buf v)\<lparr>rb_Count := rb_Count (rc_buf v) - 1\<rparr>)"
    by (simp add: t ring_micro)
  also have "\<dots> = put_bytes RingBuffer_Insert es ((advance_out (rc_buf s))\<lparr>rb_Count := rb_Count (advance_out (rc_buf s)) - 1\<rparr>)"
    unfolding vb(1) es put_update_count [symmetric] by (simp add: put_bytes_append)
  also have "(advance_out (rc_buf s))\<lparr>rb_Count := rb_Count (advance_out (rc_buf s)) - 1\<rparr> = snd (RingBuffer_Remove (rc_buf s))"
    by (simp add: RingBuffer_Remove_def advance_out_def Let_def)
  finally show "rc_buf t = put_bytes RingBuffer_Insert es (snd (RingBuffer_Remove (rc_buf s)))" .
qed

lemma get_bytes_add:
  "get_bytes get (m + n) q = (fst (get_bytes get m q) @ fst (get_bytes get n (snd (get_bytes get m q))),
     snd (get_bytes get n (snd (get_bytes get m q))))"
  by (induction m arbitrary: q) (simp_all add: Let_def split_beta)

lemma get_bytes_commute:
  assumes "\<And>q. get (f q) = (fst (get q), f (snd (get q)))"
  shows "get_bytes get n (f q) = (fst (get_bytes get n q), f (snd (get_bytes get n q)))"
  by (induction n arbitrary: q) (simp_all add: assms Let_def split_beta)

lemma fold_tx_isr:
  "fold tx_isr es s = s\<lparr>rc_buf := snd (get_bytes RingBuffer_Remove (length es) (rc_buf s)),
     rc_taken := rc_taken s @ fst (get_bytes RingBuffer_Remove (length es) (rc_buf s))\<rparr>"
  by (induction es arbitrary: s) (simp_all add: tx_isr_def Let_def split_beta)

definition advance_in :: "RingBuffer_t \<Rightarrow> RingBuffer_t" where
  "advance_in b = (let b = b\<lparr>rb_In := Suc (rb_In b)\<rparr> in if rb_In b = rb_End b then b\<lparr>rb_In := rb_Start b\<rparr> else b)"

lemma Remove_commutes:
  "RingBuffer_Remove (advance_in b) = (fst (RingBuffer_Remove b), advance_in (snd (RingBuffer_Remove b)))"
  "RingBuffer_Remove (b\<lparr>rb_Count := rb_Count b + 1\<rparr>) =
     (fst (RingBuffer_Remove b), (snd (RingBuffer_Remove b))\<lparr>rb_Count := rb_Count (snd (RingBuffer_Remove b)) + 1\<rparr>)"
  by (cases b, simp add: advance_in_def RingBuffer_Remove_def Let_def)+

lemma Insert_interrupted:
  assumes run: "irq_run rc_I tx_isr (Insert_prog d) s es t"
    and ok: "ring_ok (rc_buf s)" "rb_Count (rc_buf s) < rb_Size (rc_buf s)" "length es \<le> unat (rb_Count (rc_buf s))"
  shows "rc_buf t = snd (get_bytes RingBuffer_Remove (length es) (RingBuffer_Insert (rc_buf s) d))"
    and "rc_taken t = rc_taken s @ fst (get_bytes RingBuffer_Remove (length es) (RingBuffer_Insert (rc_buf s) d))" and "rc_I t = rc_I s"
proof -
  let ?store = "buf_do (\<lambda>b. b\<lparr>rb_Data := (rb_Data b)[rb_In b := d]\<rparr>)"
  let ?incr = "buf_do (\<lambda>b. b\<lparr>rb_In := Suc (rb_In b)\<rparr>)"
  let ?wrap = "buf_do (\<lambda>b. if rb_In b = rb_End b then b\<lparr>rb_In := rb_Start b\<rparr> else b)"
  have "irq_run rc_I tx_isr ([?store] @ [?incr, ?wrap, save_mask, disable] @ [load_count, store_count (\<lambda>c. c + 1), restore_mask]) s es t"
    using run by (simp add: Insert_prog_def locked_update_def)
  from irq_run_append [OF this] obtain es1 es' u where es': "es = es1 @ es'" and r1: "irq_run rc_I tx_isr [?store] s es1 u"
    and r': "irq_run rc_I tx_isr ([?incr, ?wrap, save_mask, disable] @ [load_count, store_count (\<lambda>c. c + 1), restore_mask]) u es' t"
    by blast
  from irq_run_append [OF r'] obtain es2 es3 v where es: "es = es1 @ es2 @ es3"
    and r2: "irq_run rc_I tx_isr [?incr, ?wrap, save_mask, disable] u es2 v"
    and r3: "irq_run rc_I tx_isr [load_count, store_count (\<lambda>c. c + 1), restore_mask] v es3 t"
    using es' by blast
  let ?P = "\<lambda>s es. ring_ok (rc_buf s) \<and> rb_Count (rc_buf s) < rb_Size (rc_buf s) \<and> length es \<le> unat (rb_Count (rc_buf s))"
  have u: "u = fold tx_isr es1 (exec [?store] s)"
    using r1
  proof (rule irq_run_commute [where P = ?P])
    show "?P s es1" using ok es by simp
  next
    fix s :: ring_cpu and e :: unit and es :: "unit list" assume P: "?P s (e # es)"
    then have some: "0 < rb_Count (rc_buf s)" by (auto simp: word_less_nat_alt)
    with P show "?P (tx_isr e s) es"
      using ring_Remove(1) [of "rc_buf s"] unat_pred_count [OF some]
      by (auto simp: ring_ok_def Remove_fields tx_isr_def Let_def split_beta word_less_nat_alt)
    fix p :: "ring_cpu \<Rightarrow> ring_cpu" assume "p \<in> set [?store]"
    then show "p (tx_isr e s) = tx_isr e (p s)"
      using ring_In_neq_Out [of "rc_buf s"] P some
      by (cases "rc_buf s") (auto simp: tx_isr_def buf_do_def RingBuffer_Remove_def Let_def)
  qed (auto simp: buf_do_def ring_ok_def ring_safe_def)
  have v: "v = fold tx_isr es2 (exec [?incr, ?wrap, save_mask, disable] u)"
    using r2 by (rule irq_run_commute [where P = "\<lambda>_ _. True"])
      (auto simp: tx_isr_def ring_micro RingBuffer_Remove_def Let_def)
  have adv: "exec [?incr, ?wrap, save_mask, disable] u = u\<lparr>rc_buf := advance_in (rc_buf u), rc_saved := rc_I u, rc_I := False\<rparr>"
    by (simp add: ring_micro advance_in_def Let_def)
  note v = v [unfolded adv]
  have "\<not> rc_I v" by (simp add: v fold_tx_isr)
  from masked_tail [OF r3 this]
  have t: "t = fold tx_isr es3 (restore_mask (store_count (\<lambda>c. c + 1) (load_count v)))" .
  let ?b = "(rc_buf s)\<lparr>rb_Data := (rb_Data (rc_buf s))[rb_In (rc_buf s) := d]\<rparr>"
  let ?up = "\<lambda>b. b\<lparr>rb_Count := rb_Count b + 1\<rparr>"
  note comm = get_bytes_commute [of RingBuffer_Remove advance_in, OF Remove_commutes(1)]
    get_bytes_commute [of RingBuffer_Remove ?up, OF Remove_commutes(2)]
  have "RingBuffer_Insert (rc_buf s) d = ?up (advance_in ?b)"
    by (simp add: RingBuffer_Insert_def advance_in_def Let_def)
  then show "rc_buf t = snd (get_bytes RingBuffer_Remove (length es) (RingBuffer_Insert (rc_buf s) d))"
    and "rc_taken t = rc_taken s @ fst (get_bytes RingBuffer_Remove (length es) (RingBuffer_Insert (rc_buf s) d))"
    and "rc_I t = rc_I s"
    by (simp_all add: es t fold_tx_isr ring_micro v u get_bytes_add comm)
qed

text \<open>The counter that is read is the one at some moment of the call.\<close>

lemma GetCount_interrupted:
  assumes "irq_run rc_I rx_isr GetCount_prog s es t"
  shows "\<exists>es1 es2. es = es1 @ es2 \<and> rc_count t = RingBuffer_GetCount (put_bytes RingBuffer_Insert es1 (rc_buf s))
     \<and> rc_buf t = put_bytes RingBuffer_Insert es (rc_buf s) \<and> rc_I t = rc_I s"
proof -
  from irq_run_append [of rc_I rx_isr "[save_mask, disable]" "[load_count, restore_mask]" s es t] assms
  obtain es1 es2 u where es: "es = es1 @ es2" and r1: "irq_run rc_I rx_isr [save_mask, disable] s es1 u"
    and r2: "irq_run rc_I rx_isr [load_count, restore_mask] u es2 t" by (auto simp: GetCount_prog_def)
  have u: "u = fold rx_isr es1 (exec [save_mask, disable] s)"
    using r1 by (rule irq_run_commute [where P = "\<lambda>_ _. True"]) (auto simp: rx_isr_def ring_micro)
  then have "\<not> rc_I u" by (simp add: ring_micro)
  with r2 have "irq_run rc_I rx_isr [] (restore_mask (load_count u)) es2 t"
    by (auto dest!: irq_run_masked simp: ring_micro)
  then have "t = fold rx_isr es2 (restore_mask (load_count u))"
    using irq_run_commute [where P = "\<lambda>_ _. True" and ps = "[]"] by fastforce
  then show ?thesis using es u
    by (intro exI [of _ es1] exI [of _ es2]) (simp add: ring_micro put_bytes_append RingBuffer_GetCount_def)
qed

section \<open>Properties\<close>

text \<open>A loop that takes bytes out, as in the service routine of the programmer, and one that puts bytes in.\<close>

definition take_prog :: "nat \<Rightarrow> ring_cpu prog" where
  "take_prog n = concat (replicate n (Remove_prog @ [\<lambda>s. s\<lparr>rc_taken := rc_taken s @ [rc_data s]\<rparr>]))"

definition put_prog :: "u8 list \<Rightarrow> ring_cpu prog" where
  "put_prog ds = concat (map Insert_prog ds)"

lemma keep_interrupted:
  assumes "irq_run rc_I rx_isr [\<lambda>s. s\<lparr>rc_taken := rc_taken s @ [rc_data s]\<rparr>] s es t"
  shows "t = fold rx_isr es (s\<lparr>rc_taken := rc_taken s @ [rc_data s]\<rparr>)"
  using irq_run_commute [OF assms, where P = "\<lambda>_ _. True"] by (simp add: rx_isr_def buf_do_def)

lemma Remove_once:
  assumes run: "irq_run rc_I rx_isr (Remove_prog @ [\<lambda>s. s\<lparr>rc_taken := rc_taken s @ [rc_data s]\<rparr>]) s es t"
    and ok: "ring_ok (rc_buf s)" "ring_list (rc_buf s) = x # xs" "Suc (length xs) + length es \<le> ring_cap (rc_buf s)"
  shows "rc_taken t = rc_taken s @ [x] \<and> ring_ok (rc_buf t) \<and> ring_list (rc_buf t) = xs @ es
     \<and> ring_cap (rc_buf t) = ring_cap (rc_buf s) \<and> rc_I t = rc_I s"
proof -
  from irq_run_append [OF run] obtain es1 es2 u where es: "es = es1 @ es2" and r1: "irq_run rc_I rx_isr Remove_prog s es1 u"
    and r2: "irq_run rc_I rx_isr [\<lambda>s. s\<lparr>rc_taken := rc_taken s @ [rc_data s]\<rparr>] u es2 t" by blast
  have len: "unat (rb_Count (rc_buf s)) = Suc (length xs)" using ok(2) length_ring_list [of "rc_buf s"] by simp
  then have some: "0 < rb_Count (rc_buf s)" by (auto simp: word_less_nat_alt)
  note u = Remove_interrupted [OF r1 ok(1) some]
  have r: "ring_ok (snd (RingBuffer_Remove (rc_buf s)))" "fst (RingBuffer_Remove (rc_buf s)) = x"
    "ring_list (snd (RingBuffer_Remove (rc_buf s))) = xs" "ring_cap (snd (RingBuffer_Remove (rc_buf s))) = ring_cap (rc_buf s)"
    using ring.remove_ok [OF ok(1)] ring.remove_bytes [OF ok(1)] ring.remove_cap [OF ok(1)] ok(2) by auto
  show ?thesis
    using u keep_interrupted [OF r2] ring.put_all_correct [OF r(1), of "es1 @ es2"] r ok(3) len
    by (auto simp: es ring_cap_def put_bytes_append)
qed

text \<open>A machine with the bytes 1 and 2 in a buffer of four.\<close>

definition two_bytes :: ring_cpu where
  "two_bytes = \<lparr>rc_buf = put_bytes RingBuffer_Insert [1, 2] (RingBuffer_InitBuffer [0, 0, 0, 0] 4),
     rc_I = True, rc_saved = False, rc_count = 0, rc_data = 0, rc_taken = []\<rparr>"

lemma two_bytes_ok: "ring_ok (rc_buf two_bytes)" "ring_list (rc_buf two_bytes) = [1, 2]" "ring_cap (rc_buf two_bytes) = 4"
  using ring.put_all_correct [of "RingBuffer_InitBuffer [0, 0, 0, 0] 4" "[1, 2]"]
  by (simp_all add: two_bytes_def ring_simps del: length_ring_list)

lemma irq_run_exec: "irq_run enabled isr ps s [] (exec ps s)"
  by (induction ps arbitrary: s) (auto intro: irq_run.intros)

lemma irq_run_once:
  assumes "enabled (exec ps s)"
  shows "irq_run enabled isr (ps @ qs) s [e] (exec qs (isr e (exec ps s)))"
  using assms
  by (induction ps arbitrary: s) (auto intro: irq_run.intros irq_run_exec)

text \<open>Without the lock an interrupt between load and store of the counter is lost: two bytes, one taken,
  one put in, and the counter says that one is left.\<close>

lemma lock_needed:
  "\<exists>t. irq_run rc_I rx_isr ((take 3 Remove_prog) @ [load_count, store_count (\<lambda>c. c - 1)]) two_bytes [9] t
     \<and> rb_Count (rc_buf t) = 1 \<and> rb_Count (snd (RingBuffer_Remove (RingBuffer_Insert (rc_buf two_bytes) 9))) = 2"
proof -
  let ?ps = "take 3 Remove_prog @ [load_count]" and ?st = "store_count (\<lambda>c. c - 1)"
  have b: "rc_buf two_bytes = \<lparr>rb_Data = [1, 2, 0, 0], rb_In = 2, rb_Out = 0, rb_Start = 0, rb_End = 4, rb_Size = 4, rb_Count = 2\<rparr>"
    by (simp add: two_bytes_def RingBuffer_Insert_def RingBuffer_InitBuffer_def Let_def)
  have u: "rc_count (exec ?ps two_bytes) = 2" "rc_I (exec ?ps two_bytes)"
    by (simp_all add: Remove_prog_def ring_micro b numeral_3_eq_3) (simp add: two_bytes_def)
  have "irq_run rc_I rx_isr (?ps @ [?st]) two_bytes [9] (exec [?st] (rx_isr 9 (exec ?ps two_bytes)))"
    using u(2) by (rule irq_run_once)
  moreover have "rb_Count (rc_buf (exec [?st] (rx_isr 9 (exec ?ps two_bytes)))) = 1"
    using u(1) by (simp add: store_count_def buf_do_def del: exec_append)
  moreover have "rb_Count (snd (RingBuffer_Remove (RingBuffer_Insert (rc_buf two_bytes) 9))) = 2"
    by (simp add: b RingBuffer_Insert_def RingBuffer_Remove_def Let_def)
  ultimately show ?thesis by auto
qed

text \<open>C28. The interrupt lock makes the ring buffer safe between a main program that takes bytes out and an
  interrupt that puts bytes in, as the USART receive interrupt of the programmer does: wherever
  between two statements of the removals the interrupts arrive, the main program gets the bytes in
  order, none lost or doubled, and the bytes of the interrupts follow behind them. The bytes taken are
  in the buffer at the start, and the buffer has room for those that arrive.\<close>

theorem removals_interrupted:
  assumes "irq_run rc_I rx_isr (take_prog n) s es t"
    and "ring_ok (rc_buf s)" "n \<le> length (ring_list (rc_buf s))"
    and "length (ring_list (rc_buf s)) + length es \<le> ring_cap (rc_buf s)"
  shows "rc_taken t = rc_taken s @ take n (ring_list (rc_buf s)) \<and> ring_ok (rc_buf t)
     \<and> ring_list (rc_buf t) = drop n (ring_list (rc_buf s)) @ es \<and> rc_I t = rc_I s"
  using assms
proof (induction n arbitrary: s es)
  case 0
  then have "t = fold rx_isr es s"
    using irq_run_commute [where P = "\<lambda>_ _. True" and ps = "[]"] by (fastforce simp: take_prog_def)
  then show ?case using 0 ring.put_all_correct [of "rc_buf s" es] by simp
next
  case (Suc n)
  let ?l = "ring_list (rc_buf s)"
  obtain x xs where l: "?l = x # xs" using Suc.prems(3) by (cases ?l) auto
  from irq_run_append [of rc_I rx_isr "Remove_prog @ [\<lambda>s. s\<lparr>rc_taken := rc_taken s @ [rc_data s]\<rparr>]" "take_prog n" s es t] Suc.prems(1)
  obtain es1 es2 u where es: "es = es1 @ es2"
    and r1: "irq_run rc_I rx_isr (Remove_prog @ [\<lambda>s. s\<lparr>rc_taken := rc_taken s @ [rc_data s]\<rparr>]) s es1 u"
    and r2: "irq_run rc_I rx_isr (take_prog n) u es2 t" by (auto simp: take_prog_def)
  have u: "rc_taken u = rc_taken s @ [x]" "ring_ok (rc_buf u)" "ring_list (rc_buf u) = xs @ es1"
    "ring_cap (rc_buf u) = ring_cap (rc_buf s)" "rc_I u = rc_I s"
    using Remove_once [OF r1 Suc.prems(2) l] Suc.prems(4) l es by (auto simp del: length_ring_list)
  have "n \<le> length xs" "length (ring_list (rc_buf u)) + length es2 \<le> ring_cap (rc_buf u)"
    using Suc.prems(3,4) l u es by (auto simp del: length_ring_list)
  with Suc.IH [OF r2 u(2)] u l es show ?case by (simp del: length_ring_list)
qed

theorem removals_interrupted_witness:
  "\<exists>t. irq_run rc_I rx_isr (take_prog 1) two_bytes [9] t \<and> rc_taken t = [1] \<and> ring_list (rc_buf t) = [2, 9]"
proof -
  let ?p = "[\<lambda>s. s\<lparr>rc_data := rb_Data (rc_buf s) ! rb_Out (rc_buf s)\<rparr>]"
  let ?qs = "tl (take_prog 1)"
  have e: "?p @ ?qs = take_prog 1" by (simp add: take_prog_def Remove_prog_def)
  have "irq_run rc_I rx_isr (?p @ ?qs) two_bytes [9] (exec ?qs (rx_isr 9 (exec ?p two_bytes)))"
    by (rule irq_run_once) (simp add: two_bytes_def)
  note r = this [unfolded e]
  with removals_interrupted [OF r] two_bytes_ok show ?thesis
    by (intro exI [of _ "exec ?qs (rx_isr 9 (exec ?p two_bytes))"]) (simp add: two_bytes_def del: length_ring_list)
qed

text \<open>The other direction: a main program that puts bytes in and an interrupt that takes some of the
  bytes already there out. Wherever the interrupts arrive, they get the oldest bytes in order, and
  the new bytes end up behind the rest, in order.\<close>

theorem insertions_interrupted:
  assumes "irq_run rc_I tx_isr (put_prog ds) s es t"
    and "ring_ok (rc_buf s)" "length (ring_list (rc_buf s)) + length ds \<le> ring_cap (rc_buf s)"
    and "length es \<le> length (ring_list (rc_buf s))"
  shows "rc_taken t = rc_taken s @ take (length es) (ring_list (rc_buf s)) \<and> ring_ok (rc_buf t)
     \<and> ring_list (rc_buf t) = drop (length es) (ring_list (rc_buf s)) @ ds \<and> rc_I t = rc_I s"
  using assms
proof (induction ds arbitrary: s es)
  case Nil
  then have "t = fold tx_isr es s"
    using irq_run_commute [where P = "\<lambda>_ _. True" and ps = "[]"] by (fastforce simp: put_prog_def)
  then show ?case using Nil ring.get_n_correct [of "rc_buf s" "length es"] by (simp add: fold_tx_isr del: length_ring_list)
next
  case (Cons d ds)
  let ?l = "ring_list (rc_buf s)" and ?b = "RingBuffer_Insert (rc_buf s) d"
  from irq_run_append [of rc_I tx_isr "Insert_prog d" "put_prog ds" s es t] Cons.prems(1)
  obtain es1 es2 u where es: "es = es1 @ es2" and r1: "irq_run rc_I tx_isr (Insert_prog d) s es1 u"
    and r2: "irq_run rc_I tx_isr (put_prog ds) u es2 t" by (auto simp: put_prog_def)
  have room: "length ?l < ring_cap (rc_buf s)" and lt: "rb_Count (rc_buf s) < rb_Size (rc_buf s)"
    and k: "length es1 \<le> unat (rb_Count (rc_buf s))"
    using Cons.prems(3,4) es by (auto simp: ring_cap_def word_less_nat_alt)
  note i = ring.insert_ok [OF Cons.prems(2) room, of d] ring.insert_bytes [OF Cons.prems(2) room, of d]
    ring.insert_cap [OF Cons.prems(2) room, of d]
  have k': "length es1 \<le> length (ring_list ?b)" using Cons.prems(4) es i(2) by (simp del: length_ring_list)
  note g = ring.get_n_correct [OF i(1) k']
  note b = Insert_interrupted [OF r1 Cons.prems(2) lt k]
  have u: "rc_taken u = rc_taken s @ take (length es1) ?l" "ring_ok (rc_buf u)"
    "ring_list (rc_buf u) = drop (length es1) ?l @ [d]" "ring_cap (rc_buf u) = ring_cap (rc_buf s)" "rc_I u = rc_I s"
    using b g i Cons.prems(4) es by (auto simp del: length_ring_list)
  have "length (ring_list (rc_buf u)) + length ds \<le> ring_cap (rc_buf u)" "length es2 \<le> length (ring_list (rc_buf u))"
    using Cons.prems(3,4) u es by (auto simp del: length_ring_list)
  from Cons.IH [OF r2 u(2) this] u es Cons.prems(4) show ?case
    by (simp add: take_add add.commute del: length_ring_list)
qed

theorem insertions_interrupted_witness:
  "\<exists>t. irq_run rc_I tx_isr (put_prog [7]) two_bytes [()] t \<and> rc_taken t = [1] \<and> ring_list (rc_buf t) = [2, 7]"
proof -
  have r: "irq_run rc_I tx_isr ([] @ put_prog [7]) two_bytes [()] (exec (put_prog [7]) (tx_isr () (exec [] two_bytes)))"
    by (rule irq_run_once) (simp add: two_bytes_def)
  with insertions_interrupted [of "[7]" two_bytes "[()]"] two_bytes_ok show ?thesis
    by (intro exI [of _ "exec (put_prog [7]) (tx_isr () two_bytes)"]) (simp add: two_bytes_def del: length_ring_list)
qed

end
