(* ===== verification/Usb_Pipe.thy ===== *)
theory Usb_Pipe
  imports Usb_Endpoint
begin

text \<open>
  The pipe primitives of the USB host side, \<open>LUFA/Drivers/USB/Core/AVR8/Pipe_AVR8.h\<close> and
  \<open>Pipe_AVR8.c\<close>, for the AT90USB1287 (the MCU of the host project \<open>Projects/MissileLauncher\<close>):
  the counterpart of \<open>Usb_Endpoint\<close>, again as accesses to the parameter \<open>D\<close>. \<open>USB_HostState\<close> is
  the register \<open>GPIOR0\<close> (\<open>HOST_STATE_AS_GPIOR = 0\<close> in that project's configuration).
\<close>

section \<open>Constants\<close>

abbreviation (input) "PIPE_ERRORFLAG_OVERFLOW \<equiv> BV 6 :: u8"
abbreviation (input) "PIPE_ERRORFLAG_UNDERFLOW \<equiv> BV 5 :: u8"
abbreviation (input) "PIPE_ERRORFLAG_CRC16 \<equiv> BV 4 :: u8"
abbreviation (input) "PIPE_ERRORFLAG_TIMEOUT \<equiv> BV 3 :: u8"
abbreviation (input) "PIPE_ERRORFLAG_PID \<equiv> BV 2 :: u8"
abbreviation (input) "PIPE_ERRORFLAG_DATAPID \<equiv> BV 1 :: u8"
abbreviation (input) "PIPE_ERRORFLAG_DATATGL \<equiv> BV 0 :: u8"

definition PIPE_TOKEN_SETUP :: u8 where "PIPE_TOKEN_SETUP = push_bit PTOKEN0 0"
definition PIPE_TOKEN_IN :: u8 where "PIPE_TOKEN_IN = push_bit PTOKEN0 1"
definition PIPE_TOKEN_OUT :: u8 where "PIPE_TOKEN_OUT = push_bit PTOKEN0 2"

abbreviation (input) "PIPE_CONTROLPIPE \<equiv> 0 :: u8"
abbreviation (input) "PIPE_CONTROLPIPE_DEFAULT_SIZE \<equiv> 64 :: u8"
abbreviation (input) "PIPE_TOTAL_PIPES \<equiv> 7 :: u8"
abbreviation (input) "PIPE_MAX_SIZE \<equiv> 256 :: u16"
abbreviation (input) "PIPE_PIPENUM_MASK \<equiv> 0x0F :: u8"
abbreviation (input) "PIPE_EPNUM_MASK \<equiv> 0x0F :: u8"
abbreviation (input) "PIPE_DIR_OUT \<equiv> 0x00 :: u8"
abbreviation (input) "PIPE_DIR_IN \<equiv> 0x80 :: u8"

abbreviation (input) "PIPE_READYWAIT_NoError \<equiv> 0 :: u8"
abbreviation (input) "PIPE_READYWAIT_PipeStalled \<equiv> 1 :: u8"
abbreviation (input) "PIPE_READYWAIT_DeviceDisconnected \<equiv> 2 :: u8"
abbreviation (input) "PIPE_READYWAIT_Timeout \<equiv> 3 :: u8"

abbreviation (input) "HOST_STATE_WaitForDevice \<equiv> 0 :: u8"
abbreviation (input) "HOST_STATE_Unattached \<equiv> 1 :: u8"
abbreviation (input) "HOST_STATE_Powered \<equiv> 2 :: u8"
abbreviation (input) "HOST_STATE_Powered_WaitForDeviceSettle \<equiv> 3 :: u8"
abbreviation (input) "HOST_STATE_Powered_WaitForConnect \<equiv> 4 :: u8"
abbreviation (input) "HOST_STATE_Powered_DoReset \<equiv> 5 :: u8"
abbreviation (input) "HOST_STATE_Powered_ConfigPipe \<equiv> 6 :: u8"
abbreviation (input) "HOST_STATE_Default \<equiv> 7 :: u8"
abbreviation (input) "HOST_STATE_Default_PostReset \<equiv> 8 :: u8"
abbreviation (input) "HOST_STATE_Default_PostAddressSet \<equiv> 9 :: u8"
abbreviation (input) "HOST_STATE_Addressed \<equiv> 10 :: u8"
abbreviation (input) "HOST_STATE_Configured \<equiv> 11 :: u8"

definition USB_HostState :: "'h io \<Rightarrow> 'h \<Rightarrow> u8 \<times> 'h" where
  "USB_HostState D h = io_rd D GPIOR0 h"

definition set_USB_HostState :: "'h io \<Rightarrow> u8 \<Rightarrow> 'h \<Rightarrow> 'h" where
  "set_USB_HostState D v h = io_wr D GPIOR0 v h"

section \<open>Pipe\_AVR8.h\<close>

definition Pipe_BytesInPipe :: "'h io \<Rightarrow> 'h \<Rightarrow> u16 \<times> 'h" where
  "Pipe_BytesInPipe D h =
     (let (l, h) = io_rd D UPBCLX h; (u, h) = io_rd D UPBCHX h in (u16_of_bytes [l, u], h))"

definition Pipe_GetPipeDirection :: "'h io \<Rightarrow> 'h \<Rightarrow> u8 \<times> 'h" where
  "Pipe_GetPipeDirection D h =
     (let (b, h) = io_test D UPCFG0X EPDIR h in (if b then PIPE_DIR_IN else PIPE_DIR_OUT, h))"

definition Pipe_GetCurrentPipe :: "'h io \<Rightarrow> 'h \<Rightarrow> u8 \<times> 'h" where
  "Pipe_GetCurrentPipe D h =
     (let (v, h) = io_rd D UPNUM h; (d, h) = Pipe_GetPipeDirection D h
      in ((v AND PIPE_PIPENUM_MASK) OR d, h))"

definition Pipe_SelectPipe :: "'h io \<Rightarrow> u8 \<Rightarrow> 'h \<Rightarrow> 'h" where
  "Pipe_SelectPipe D Address h = io_wr D UPNUM (Address AND PIPE_PIPENUM_MASK) h"

definition Pipe_ResetPipe :: "'h io \<Rightarrow> u8 \<Rightarrow> 'h \<Rightarrow> 'h" where
  "Pipe_ResetPipe D Address h =
     (let h = io_wr D UPRST (BV (unat (Address AND PIPE_PIPENUM_MASK))) h in io_wr D UPRST 0 h)"

definition Pipe_EnablePipe :: "'h io \<Rightarrow> 'h \<Rightarrow> 'h" where
  "Pipe_EnablePipe D h = io_or D UPCONX (BV PEN) h"

definition Pipe_DisablePipe :: "'h io \<Rightarrow> 'h \<Rightarrow> 'h" where
  "Pipe_DisablePipe D h = io_and D UPCONX (NOT (BV PEN)) h"

definition Pipe_IsEnabled :: "'h io \<Rightarrow> 'h \<Rightarrow> bool \<times> 'h" where
  "Pipe_IsEnabled D h = io_test D UPCONX PEN h"

definition Pipe_GetPipeToken :: "'h io \<Rightarrow> 'h \<Rightarrow> u8 \<times> 'h" where
  "Pipe_GetPipeToken D h = (let (v, h) = io_rd D UPCFG0X h in (v AND push_bit PTOKEN0 0x03, h))"

definition Pipe_SetPipeToken :: "'h io \<Rightarrow> u8 \<Rightarrow> 'h \<Rightarrow> 'h" where
  "Pipe_SetPipeToken D Token h =
     (let (v, h) = io_rd D UPCFG0X h in io_wr D UPCFG0X ((v AND NOT (push_bit PTOKEN0 0x03)) OR Token) h)"

definition Pipe_SetInfiniteINRequests :: "'h io \<Rightarrow> 'h \<Rightarrow> 'h" where
  "Pipe_SetInfiniteINRequests D h = io_or D UPCONX (BV INMODE) h"

definition Pipe_SetFiniteINRequests :: "'h io \<Rightarrow> u8 \<Rightarrow> 'h \<Rightarrow> 'h" where
  "Pipe_SetFiniteINRequests D TotalINRequests h =
     (let h = io_and D UPCONX (NOT (BV INMODE)) h in io_wr D UPINRQX TotalINRequests h)"

definition Pipe_IsConfigured :: "'h io \<Rightarrow> 'h \<Rightarrow> bool \<times> 'h" where
  "Pipe_IsConfigured D h = io_test D UPSTAX CFGOK h"

text \<open>The mask in the second operand is the bit number \<open>PEPNUM1\<close> itself.\<close>

definition Pipe_GetBoundEndpointAddress :: "'h io \<Rightarrow> 'h \<Rightarrow> u8 \<times> 'h" where
  "Pipe_GetBoundEndpointAddress D h =
     (let (UPCFG0X_Temp, h) = io_rd D UPCFG0X h
      in ((drop_bit PEPNUM0 UPCFG0X_Temp AND PIPE_EPNUM_MASK)
          OR (if UPCFG0X_Temp AND of_nat PEPNUM1 \<noteq> 0 then ENDPOINT_DIR_OUT else ENDPOINT_DIR_IN), h))"

definition Pipe_SetInterruptPeriod :: "'h io \<Rightarrow> u8 \<Rightarrow> 'h \<Rightarrow> 'h" where
  "Pipe_SetInterruptPeriod D Milliseconds h = io_wr D UPCFG2X Milliseconds h"

definition Pipe_GetPipeInterrupts :: "'h io \<Rightarrow> 'h \<Rightarrow> u8 \<times> 'h" where
  "Pipe_GetPipeInterrupts D h = io_rd D UPINT h"

definition Pipe_HasPipeInterrupted :: "'h io \<Rightarrow> u8 \<Rightarrow> 'h \<Rightarrow> bool \<times> 'h" where
  "Pipe_HasPipeInterrupted D Address h =
     (let (v, h) = io_rd D UPINT h
      in (ucast v AND (BV (unat (Address AND PIPE_PIPENUM_MASK)) :: u16) \<noteq> 0, h))"

definition Pipe_Unfreeze :: "'h io \<Rightarrow> 'h \<Rightarrow> 'h" where
  "Pipe_Unfreeze D h = io_and D UPCONX (NOT (BV PFREEZE)) h"

definition Pipe_Freeze :: "'h io \<Rightarrow> 'h \<Rightarrow> 'h" where
  "Pipe_Freeze D h = io_or D UPCONX (BV PFREEZE) h"

definition Pipe_IsFrozen :: "'h io \<Rightarrow> 'h \<Rightarrow> bool \<times> 'h" where
  "Pipe_IsFrozen D h = io_test D UPCONX PFREEZE h"

definition Pipe_ClearError :: "'h io \<Rightarrow> 'h \<Rightarrow> 'h" where
  "Pipe_ClearError D h = (let h = io_wr D UPERRX 0 h in io_and D UPINTX (NOT (BV PERRI)) h)"

definition Pipe_IsError :: "'h io \<Rightarrow> 'h \<Rightarrow> bool \<times> 'h" where
  "Pipe_IsError D h = io_test D UPINTX PERRI h"

definition Pipe_GetErrorFlags :: "'h io \<Rightarrow> 'h \<Rightarrow> u8 \<times> 'h" where
  "Pipe_GetErrorFlags D h =
     (let (e, h) = io_rd D UPERRX h; (s, h) = io_rd D UPSTAX h
      in ((e AND (PIPE_ERRORFLAG_CRC16 OR PIPE_ERRORFLAG_TIMEOUT OR PIPE_ERRORFLAG_PID
                  OR PIPE_ERRORFLAG_DATAPID OR PIPE_ERRORFLAG_DATATGL))
          OR (s AND (PIPE_ERRORFLAG_OVERFLOW OR PIPE_ERRORFLAG_UNDERFLOW)), h))"

definition Pipe_GetBusyBanks :: "'h io \<Rightarrow> 'h \<Rightarrow> u8 \<times> 'h" where
  "Pipe_GetBusyBanks D h = (let (v, h) = io_rd D UPSTAX h in (v AND push_bit NBUSYBK0 0x03, h))"

definition Pipe_IsReadWriteAllowed :: "'h io \<Rightarrow> 'h \<Rightarrow> bool \<times> 'h" where
  "Pipe_IsReadWriteAllowed D h = io_test D UPINTX RWAL h"

definition Pipe_IsINReceived :: "'h io \<Rightarrow> 'h \<Rightarrow> bool \<times> 'h" where
  "Pipe_IsINReceived D h = io_test D UPINTX RXINI h"

definition Pipe_IsOUTReady :: "'h io \<Rightarrow> 'h \<Rightarrow> bool \<times> 'h" where
  "Pipe_IsOUTReady D h = io_test D UPINTX TXOUTI h"

definition Pipe_IsSETUPSent :: "'h io \<Rightarrow> 'h \<Rightarrow> bool \<times> 'h" where
  "Pipe_IsSETUPSent D h = io_test D UPINTX TXSTPI h"

definition Pipe_ClearSETUP :: "'h io \<Rightarrow> 'h \<Rightarrow> 'h" where
  "Pipe_ClearSETUP D h = io_and D UPINTX (NOT (BV TXSTPI OR BV FIFOCON)) h"

definition Pipe_ClearIN :: "'h io \<Rightarrow> 'h \<Rightarrow> 'h" where
  "Pipe_ClearIN D h = io_and D UPINTX (NOT (BV RXINI OR BV FIFOCON)) h"

definition Pipe_ClearOUT :: "'h io \<Rightarrow> 'h \<Rightarrow> 'h" where
  "Pipe_ClearOUT D h = io_and D UPINTX (NOT (BV TXOUTI OR BV FIFOCON)) h"

definition Pipe_IsNAKReceived :: "'h io \<Rightarrow> 'h \<Rightarrow> bool \<times> 'h" where
  "Pipe_IsNAKReceived D h = io_test D UPINTX NAKEDI h"

definition Pipe_ClearNAKReceived :: "'h io \<Rightarrow> 'h \<Rightarrow> 'h" where
  "Pipe_ClearNAKReceived D h = io_and D UPINTX (NOT (BV NAKEDI)) h"

definition Pipe_IsStalled :: "'h io \<Rightarrow> 'h \<Rightarrow> bool \<times> 'h" where
  "Pipe_IsStalled D h = io_test D UPINTX RXSTALLI h"

definition Pipe_ClearStall :: "'h io \<Rightarrow> 'h \<Rightarrow> 'h" where
  "Pipe_ClearStall D h = io_and D UPINTX (NOT (BV RXSTALLI)) h"

definition Pipe_Read_8 :: "'h io \<Rightarrow> 'h \<Rightarrow> u8 \<times> 'h" where
  "Pipe_Read_8 D h = io_rd D UPDATX h"

definition Pipe_Write_8 :: "'h io \<Rightarrow> u8 \<Rightarrow> 'h \<Rightarrow> 'h" where
  "Pipe_Write_8 D Data h = io_wr D UPDATX Data h"

definition Pipe_Discard_8 :: "'h io \<Rightarrow> 'h \<Rightarrow> 'h" where
  "Pipe_Discard_8 D h = snd (io_rd D UPDATX h)"

definition Pipe_Read_16_LE :: "'h io \<Rightarrow> 'h \<Rightarrow> u16 \<times> 'h" where
  "Pipe_Read_16_LE D h =
     (let (b0, h) = io_rd D UPDATX h; (b1, h) = io_rd D UPDATX h in (u16_of_bytes [b0, b1], h))"

definition Pipe_Read_16_BE :: "'h io \<Rightarrow> 'h \<Rightarrow> u16 \<times> 'h" where
  "Pipe_Read_16_BE D h =
     (let (b1, h) = io_rd D UPDATX h; (b0, h) = io_rd D UPDATX h in (u16_of_bytes [b0, b1], h))"

definition Pipe_Write_16_LE :: "'h io \<Rightarrow> u16 \<Rightarrow> 'h \<Rightarrow> 'h" where
  "Pipe_Write_16_LE D Data h =
     (let h = io_wr D UPDATX (ucast (Data AND 0xFF)) h in io_wr D UPDATX (ucast (drop_bit 8 Data)) h)"

definition Pipe_Write_16_BE :: "'h io \<Rightarrow> u16 \<Rightarrow> 'h \<Rightarrow> 'h" where
  "Pipe_Write_16_BE D Data h =
     (let h = io_wr D UPDATX (ucast (drop_bit 8 Data)) h in io_wr D UPDATX (ucast (Data AND 0xFF)) h)"

definition Pipe_Discard_16 :: "'h io \<Rightarrow> 'h \<Rightarrow> 'h" where
  "Pipe_Discard_16 D h = (let h = snd (io_rd D UPDATX h) in snd (io_rd D UPDATX h))"

definition Pipe_Read_32_LE :: "'h io \<Rightarrow> 'h \<Rightarrow> u32 \<times> 'h" where
  "Pipe_Read_32_LE D h =
     (let (b0, h) = io_rd D UPDATX h; (b1, h) = io_rd D UPDATX h;
          (b2, h) = io_rd D UPDATX h; (b3, h) = io_rd D UPDATX h
      in (u32_of_bytes [b0, b1, b2, b3], h))"

definition Pipe_Read_32_BE :: "'h io \<Rightarrow> 'h \<Rightarrow> u32 \<times> 'h" where
  "Pipe_Read_32_BE D h =
     (let (b3, h) = io_rd D UPDATX h; (b2, h) = io_rd D UPDATX h;
          (b1, h) = io_rd D UPDATX h; (b0, h) = io_rd D UPDATX h
      in (u32_of_bytes [b0, b1, b2, b3], h))"

definition Pipe_Write_32_LE :: "'h io \<Rightarrow> u32 \<Rightarrow> 'h \<Rightarrow> 'h" where
  "Pipe_Write_32_LE D Data h =
     (let h = io_wr D UPDATX (ucast (Data AND 0xFF)) h;
          h = io_wr D UPDATX (ucast (drop_bit 8 Data)) h;
          h = io_wr D UPDATX (ucast (drop_bit 16 Data)) h
      in io_wr D UPDATX (ucast (drop_bit 24 Data)) h)"

definition Pipe_Write_32_BE :: "'h io \<Rightarrow> u32 \<Rightarrow> 'h \<Rightarrow> 'h" where
  "Pipe_Write_32_BE D Data h =
     (let h = io_wr D UPDATX (ucast (drop_bit 24 Data)) h;
          h = io_wr D UPDATX (ucast (drop_bit 16 Data)) h;
          h = io_wr D UPDATX (ucast (drop_bit 8 Data)) h
      in io_wr D UPDATX (ucast (Data AND 0xFF)) h)"

definition Pipe_Discard_32 :: "'h io \<Rightarrow> 'h \<Rightarrow> 'h" where
  "Pipe_Discard_32 D h =
     (let h = snd (io_rd D UPDATX h); h = snd (io_rd D UPDATX h); h = snd (io_rd D UPDATX h)
      in snd (io_rd D UPDATX h))"

text \<open>Bounded by \<open>PIPE_MAX_SIZE\<close>, so the loop always ends.\<close>

definition Pipe_BytesToEPSizeMask :: "u16 \<Rightarrow> u8 option" where
  "Pipe_BytesToEPSizeMask Bytes =
     loop (\<lambda>(MaskVal :: u8, CheckBytes :: u16).
        if CheckBytes < Bytes \<and> CheckBytes < PIPE_MAX_SIZE then Some (Inr (MaskVal + 1, push_bit 1 CheckBytes))
        else Some (Inl (push_bit EPSIZE0 MaskVal)))
       (0, 8)"

section \<open>Pipe\_AVR8.c\<close>

definition USB_Host_GetFrameNumber :: "'h io \<Rightarrow> 'h \<Rightarrow> u16 \<times> 'h" where
  "USB_Host_GetFrameNumber D h =
     (let (l, h) = io_rd D UHFNUML h; (u, h) = io_rd D UHFNUMH h in (u16_of_bytes [l, u], h))"

function Pipe_ConfigurePipe_loop :: "'h io \<Rightarrow> u8 \<Rightarrow> u8 \<Rightarrow> u8 \<Rightarrow> u8 \<Rightarrow> 'h \<Rightarrow> bool \<times> 'h" where
  "Pipe_ConfigurePipe_loop D Number UPCFG0XData UPCFG1XData PNum h =
     (if PNum < PIPE_TOTAL_PIPES then
        let h = Pipe_SelectPipe D PNum h;
            (cfg0, cfg1, cfg2, ien, h) =
              (if PNum = Number then (UPCFG0XData, UPCFG1XData, 0, 0, h)
               else let (a, h) = io_rd D UPCFG0X h; (b, h) = io_rd D UPCFG1X h;
                        (c, h) = io_rd D UPCFG2X h; (d, h) = io_rd D UPIENX h
                 in (a, b, c, d, h))
        in if cfg1 AND BV ALLOC = 0 then
             Pipe_ConfigurePipe_loop D Number UPCFG0XData UPCFG1XData (PNum + 1) h
           else
             let h = Pipe_DisablePipe D h;
                 h = io_and D UPCFG1X (NOT (BV ALLOC)) h;
                 h = Pipe_EnablePipe D h;
                 h = io_wr D UPCFG0X cfg0 h;
                 h = io_wr D UPCFG1X cfg1 h;
                 h = io_wr D UPCFG2X cfg2 h;
                 h = io_wr D UPIENX ien h;
                 h = Pipe_SetInfiniteINRequests D h;
                 (ok, h) = Pipe_IsConfigured D h
             in if \<not> ok then (False, h)
                else Pipe_ConfigurePipe_loop D Number UPCFG0XData UPCFG1XData (PNum + 1) h
      else (True, Pipe_SelectPipe D Number h))"
  by pat_completeness auto

lemma u8_pipe_less: "e < (7 :: u8) \<Longrightarrow> 7 - unat (e + 1) < 7 - unat e"
  by (simp add: unat_word_ariths word_less_nat_alt)

termination Pipe_ConfigurePipe_loop
  by (relation "measure (\<lambda>(D, n, a, b, e, h). 7 - unat e)") (simp_all add: u8_pipe_less)

declare Pipe_ConfigurePipe_loop.simps [simp del]

definition Pipe_ConfigurePipe :: "'h io \<Rightarrow> u8 \<Rightarrow> u8 \<Rightarrow> u8 \<Rightarrow> u16 \<Rightarrow> u8 \<Rightarrow> 'h \<Rightarrow> (bool \<times> 'h) option" where
  "Pipe_ConfigurePipe D Address Type EndpointAddress Size Banks h =
     (let Number = Address AND PIPE_EPNUM_MASK;
          Token = (if Address AND PIPE_DIR_IN \<noteq> 0 then PIPE_TOKEN_IN else PIPE_TOKEN_OUT)
      in if Number \<ge> PIPE_TOTAL_PIPES then Some (False, h)
      else
        let Token = (if Type = EP_TYPE_CONTROL then PIPE_TOKEN_SETUP else Token)
        in do {
          szmask \<leftarrow> Pipe_BytesToEPSizeMask Size;
          Some (Pipe_ConfigurePipe_loop D Number
            (push_bit EPTYPE0 Type OR Token OR push_bit PEPNUM0 (EndpointAddress AND PIPE_EPNUM_MASK))
            (BV ALLOC OR Banks OR szmask) Number h) })"

record USB_Pipe_Table_t =
  pi_Address :: u8
  pi_Size :: u16
  pi_EndpointAddress :: u8
  pi_Type :: u8
  pi_Banks :: u8

primrec Pipe_ConfigurePipeTable :: "'h io \<Rightarrow> USB_Pipe_Table_t list \<Rightarrow> 'h \<Rightarrow> (bool \<times> 'h) option" where
  "Pipe_ConfigurePipeTable D [] h = Some (True, h)"
| "Pipe_ConfigurePipeTable D (p # ps) h =
     (if pi_Address p = 0 then Pipe_ConfigurePipeTable D ps h
      else do {
        (ok, h) \<leftarrow> Pipe_ConfigurePipe D (pi_Address p) (pi_Type p) (pi_EndpointAddress p) (pi_Size p) (pi_Banks p) h;
        if \<not> ok then Some (False, h) else Pipe_ConfigurePipeTable D ps h })"

definition Pipe_ClearPipes :: "'h io \<Rightarrow> 'h \<Rightarrow> 'h" where
  "Pipe_ClearPipes D h =
     fold (\<lambda>PNum h.
        let h = Pipe_SelectPipe D PNum h;
            h = io_wr D UPIENX 0 h;
            h = io_wr D UPINTX 0 h;
            h = io_wr D UPCFG1X 0 h
        in Pipe_DisablePipe D h)
       [0, 1, 2, 3, 4, 5, 6] (io_wr D UPINT 0 h)"

primrec bound_loop :: "'h io \<Rightarrow> u8 \<Rightarrow> u8 \<Rightarrow> u8 list \<Rightarrow> 'h \<Rightarrow> bool \<times> 'h" where
  "bound_loop D EndpointAddress PrevPipeNumber [] h = (False, Pipe_SelectPipe D PrevPipeNumber h)"
| "bound_loop D EndpointAddress PrevPipeNumber (PNum # PNums) h =
     (let h = Pipe_SelectPipe D PNum h;
          (ok, h) = Pipe_IsConfigured D h
      in if \<not> ok then bound_loop D EndpointAddress PrevPipeNumber PNums h
      else let (a, h) = Pipe_GetBoundEndpointAddress D h in
        if a = EndpointAddress then (True, h)
        else bound_loop D EndpointAddress PrevPipeNumber PNums h)"

definition Pipe_IsEndpointBound :: "'h io \<Rightarrow> u8 \<Rightarrow> 'h \<Rightarrow> bool \<times> 'h" where
  "Pipe_IsEndpointBound D EndpointAddress h =
     (let (PrevPipeNumber, h) = Pipe_GetCurrentPipe D h
      in bound_loop D EndpointAddress PrevPipeNumber [0, 1, 2, 3, 4, 5, 6] h)"

definition pipe_wait_turn :: "'h io \<Rightarrow> u16 \<times> u8 \<times> 'h \<Rightarrow> ((u8 \<times> 'h) + (u16 \<times> u8 \<times> 'h)) option" where
  "pipe_wait_turn D = (\<lambda>(PreviousFrameNumber, TimeoutMSRem, h).
     let (tok, h) = Pipe_GetPipeToken D h;
         (ready, h) = (if tok = PIPE_TOKEN_IN then Pipe_IsINReceived D h else Pipe_IsOUTReady D h)
     in if ready then Some (Inl (PIPE_READYWAIT_NoError, h))
     else let (stalled, h) = Pipe_IsStalled D h in
       if stalled then Some (Inl (PIPE_READYWAIT_PipeStalled, h))
       else let (st, h) = USB_HostState D h in
         if st = HOST_STATE_Unattached then Some (Inl (PIPE_READYWAIT_DeviceDisconnected, h))
         else let (CurrentFrameNumber, h) = USB_Host_GetFrameNumber D h in
           if CurrentFrameNumber \<noteq> PreviousFrameNumber then
             (if TimeoutMSRem = 0 then Some (Inl (PIPE_READYWAIT_Timeout, h))
              else Some (Inr (CurrentFrameNumber, TimeoutMSRem - 1, h)))
           else Some (Inr (PreviousFrameNumber, TimeoutMSRem, h)))"

definition Pipe_WaitUntilReady :: "'h io \<Rightarrow> 'h \<Rightarrow> (u8 \<times> 'h) option" where
  "Pipe_WaitUntilReady D h =
     (let (PreviousFrameNumber, h) = USB_Host_GetFrameNumber D h
      in loop (pipe_wait_turn D) (PreviousFrameNumber, USB_STREAM_TIMEOUT_MS, h))"

section \<open>The endpoint of a pipe\<close>

text \<open>
  The value a pipe's \<open>UPCFG0X\<close> gets when the pipe is configured for an endpoint, and what the code
  makes of it when it asks which endpoint the pipe is bound to.
\<close>

definition pipe_cfg0 :: "u8 \<Rightarrow> u8 \<Rightarrow> u8 \<Rightarrow> u8" where
  "pipe_cfg0 Type Token EndpointAddress =
     push_bit EPTYPE0 Type OR Token OR push_bit PEPNUM0 (EndpointAddress AND PIPE_EPNUM_MASK)"

lemma u8_eq_bits:
  "bit (a :: u8) 0 = bit b 0 \<Longrightarrow> bit a 1 = bit b 1 \<Longrightarrow> bit a 2 = bit b 2 \<Longrightarrow> bit a 3 = bit b 3 \<Longrightarrow>
   bit a 4 = bit b 4 \<Longrightarrow> bit a 5 = bit b 5 \<Longrightarrow> bit a 6 = bit b 6 \<Longrightarrow> bit a 7 = bit b 7 \<Longrightarrow> a = b"
proof (rule bit_word_eqI)
  fix n assume *: "bit a 0 = bit b 0" "bit a 1 = bit b 1" "bit a 2 = bit b 2" "bit a 3 = bit b 3"
    "bit a 4 = bit b 4" "bit a 5 = bit b 5" "bit a 6 = bit b 6" "bit a 7 = bit b 7" "n < LENGTH(8)"
  then have "n \<in> {0, 1, 2, 3, 4, 5, 6, 7}" by auto
  with * show "bit a n = bit b n" by auto
qed

lemma bound_address_value:
  assumes "io_rd D UPCFG0X h = (v, h')"
  shows "fst (Pipe_GetBoundEndpointAddress D h) = (v AND 0x0F) OR (if bit v 0 then 0 else 0x80)"
  using assms and_BV_eq_0 [of v 0] by (simp add: Pipe_GetBoundEndpointAddress_def BV_def)

text \<open>With the direction decided by the lowest bit of the endpoint number, half of the addresses come out with the wrong one.\<close>

lemma bound_direction_value:
  assumes "io_rd D UPCFG0X h = (pipe_cfg0 Type Token EndpointAddress, h')"
    and "Token \<in> {PIPE_TOKEN_SETUP, PIPE_TOKEN_IN, PIPE_TOKEN_OUT}" "EndpointAddress AND 0x70 = 0"
  shows "fst (Pipe_GetBoundEndpointAddress D h) =
     (if bit EndpointAddress 0 \<longleftrightarrow> bit EndpointAddress 7 then EndpointAddress XOR 0x80 else EndpointAddress)"
proof -
  let ?v = "pipe_cfg0 Type Token EndpointAddress" and ?a = EndpointAddress
  have mid: "\<not> bit ?a 4" "\<not> bit ?a 5" "\<not> bit ?a 6"
    using arg_cong [OF assms(3), of "\<lambda>w. bit w 4"] arg_cong [OF assms(3), of "\<lambda>w. bit w 5"] arg_cong [OF assms(3), of "\<lambda>w. bit w 6"]
    by (simp_all add: bit_and_iff)
  have low: "bit ?v 0 = bit ?a 0" "bit ?v 1 = bit ?a 1" "bit ?v 2 = bit ?a 2" "bit ?v 3 = bit ?a 3"
    using assms(2)
    by (auto simp: pipe_cfg0_def bit_or_iff bit_and_iff bit_push_bit_iff PIPE_TOKEN_SETUP_def PIPE_TOKEN_IN_def PIPE_TOKEN_OUT_def)
  show ?thesis
    unfolding bound_address_value [OF assms(1)]
    by (rule u8_eq_bits) (simp_all add: bit_or_iff bit_and_iff bit_xor_iff mid low low(2) [unfolded One_nat_def])
qed

lemma pipe_wait_turn_cases:
  "(\<exists>e h'. pipe_wait_turn D (p, k, h) = Some (Inl (e, h')) \<and> e \<le> 3)
   \<or> (\<exists>h'. pipe_wait_turn D (p, k, h) = Some (Inr (p, k, h')))
   \<or> (\<exists>p' h'. pipe_wait_turn D (p, k, h) = Some (Inr (p', k - 1, h')) \<and> k \<noteq> 0)"
  by (simp add: pipe_wait_turn_def Let_def split_beta)

lemma pipe_wait_turn_code: "pipe_wait_turn D s = Some (Inl r) \<Longrightarrow> fst r \<le> 3"
  using pipe_wait_turn_cases [of D "fst s" "fst (snd s)" "snd (snd s)"] by auto

text \<open>Waiting for a pipe ends under the same condition as waiting for an endpoint: the frame number of the
  host controller does not stand still.\<close>

lemma pipe_wait_returns:
  fixes rank :: "u16 \<Rightarrow> 'h \<Rightarrow> nat"
  assumes "\<And>p k h u. pipe_wait_turn D (p, k, h) = Some (Inr (p, k, u)) \<Longrightarrow> rank p u < rank p h"
  shows "\<exists>e h'. Pipe_WaitUntilReady D h = Some (e, h') \<and> e \<le> PIPE_READYWAIT_Timeout"
proof -
  obtain p h1 where p: "USB_Host_GetFrameNumber D h = (p, h1)" by (cases "USB_Host_GetFrameNumber D h")
  let ?R = "(\<lambda>(p, k, h). unat k) <*mlex*> measure (\<lambda>(p, k :: u8, h). rank p h)"
  have "\<exists>r. loop (pipe_wait_turn D) (p, USB_STREAM_TIMEOUT_MS, h1) = Some r"
  proof (rule loop_returns_wf [where R = ?R and I = "\<lambda>_. True"])
    show "wf ?R" by (intro wf_mlex wf_measure)
  next
    fix s :: "u16 \<times> u8 \<times> 'h"
    obtain p k h where s: "s = (p, k, h)" by (cases s)
    have "unat (k - 1) < unat k" if "k \<noteq> 0" using that by (simp add: measure_unat)
    with pipe_wait_turn_cases [of D p k h] assms [of p k h]
    show "(\<exists>r. pipe_wait_turn D s = Some (Inl r)) \<or> (\<exists>s'. pipe_wait_turn D s = Some (Inr s') \<and> True \<and> (s', s) \<in> ?R)"
      by (auto simp: s mlex_prod_def)
  qed simp
  then obtain e h' where l: "loop (pipe_wait_turn D) (p, USB_STREAM_TIMEOUT_MS, h1) = Some (e, h')" by auto
  then have "fst (e, h') \<le> 3"
    by (rule loop_invariant [where I = "\<lambda>_. True"]) (auto dest: pipe_wait_turn_code)
  with l p show ?thesis by (simp add: Pipe_WaitUntilReady_def)
qed

text \<open>The size mask of a pipe exists for every size, in contrast to that of an endpoint.\<close>

lemma pipe_size_mask: "\<exists>m. Pipe_BytesToEPSizeMask Bytes = Some m"
proof -
  let ?b = "\<lambda>(MaskVal :: u8, CheckBytes :: u16).
        if CheckBytes < Bytes \<and> CheckBytes < PIPE_MAX_SIZE then Some (Inr (MaskVal + 1, push_bit 1 CheckBytes))
        else Some (Inl (push_bit EPSIZE0 MaskVal))"
  have "\<exists>r. loop ?b (m, 256) = Some r" for m by (rule exI, rule loop_turn(1)) simp
  moreover have "\<exists>r. loop ?b (m, c) = Some r" if "\<forall>m. \<exists>r. loop ?b (m, push_bit 1 c) = Some r" for m c
  proof (cases "c < Bytes \<and> c < PIPE_MAX_SIZE")
    case True
    then have "loop ?b (m, c) = loop ?b (m + 1, push_bit 1 c)" by (intro loop_turn(2)) simp
    with that show ?thesis by simp
  next
    case False
    then show ?thesis by (intro exI [of _ "push_bit EPSIZE0 m"] loop_turn(1)) auto
  qed
  note up = this
  ultimately have "\<forall>m. \<exists>r. loop ?b (m, 128) = Some r" using up [of 128] by simp
  then have "\<forall>m. \<exists>r. loop ?b (m, 64) = Some r" using up [of 64] by simp
  then have "\<forall>m. \<exists>r. loop ?b (m, 32) = Some r" using up [of 32] by simp
  then have "\<forall>m. \<exists>r. loop ?b (m, 16) = Some r" using up [of 16] by simp
  then have "\<forall>m. \<exists>r. loop ?b (m, 8) = Some r" using up [of 8] by simp
  then show ?thesis by (simp add: Pipe_BytesToEPSizeMask_def)
qed

end
