(* ===== verification/Config_Parser.thy ===== *)
theory Config_Parser
  imports Descriptors
begin

text \<open>
  The configuration descriptor parser of the USB host side, \<open>LUFA/Drivers/USB/Core/ConfigDescriptors.c\<close>
  and \<open>.h\<close>: a cursor (bytes remaining, location) that walks over the block of descriptors a
  device has sent. The memory is a function from addresses to bytes, so that the code can read
  behind the block, as it does. \<open>USB_Host_GetDeviceConfigDescriptor\<close>, which fetches the block, is
  in \<open>Usb_Host\<close>. The searches are proved against list functions on chains of descriptors.
\<close>

type_synonym memory = "nat \<Rightarrow> u8"
type_synonym cursor = "u16 \<times> nat"

abbreviation (input) "DTYPE_Configuration \<equiv> 0x02 :: u8"
abbreviation (input) "DTYPE_Interface \<equiv> 0x04 :: u8"
abbreviation (input) "DTYPE_Endpoint \<equiv> 0x05 :: u8"

abbreviation (input) "DESCRIPTOR_SEARCH_Found \<equiv> 0 :: u8"
abbreviation (input) "DESCRIPTOR_SEARCH_Fail \<equiv> 1 :: u8"
abbreviation (input) "DESCRIPTOR_SEARCH_NotFound \<equiv> 2 :: u8"
abbreviation (input) "DESCRIPTOR_SEARCH_COMP_Found \<equiv> 0 :: u8"
abbreviation (input) "DESCRIPTOR_SEARCH_COMP_Fail \<equiv> 1 :: u8"
abbreviation (input) "DESCRIPTOR_SEARCH_COMP_EndOfDescriptor \<equiv> 2 :: u8"

definition DESCRIPTOR_SIZE :: "memory \<Rightarrow> nat \<Rightarrow> u8" where "DESCRIPTOR_SIZE mem p = mem p"
definition DESCRIPTOR_TYPE :: "memory \<Rightarrow> nat \<Rightarrow> u8" where "DESCRIPTOR_TYPE mem p = mem (p + 1)"

definition USB_GetNextDescriptor :: "memory \<Rightarrow> cursor \<Rightarrow> cursor" where
  "USB_GetNextDescriptor mem = (\<lambda>(BytesRem, CurrConfigLoc).
     let CurrDescriptorSize = (ucast (DESCRIPTOR_SIZE mem CurrConfigLoc) :: u16);
         CurrDescriptorSize = (if BytesRem < CurrDescriptorSize then BytesRem else CurrDescriptorSize)
     in (BytesRem - CurrDescriptorSize, CurrConfigLoc + unat CurrDescriptorSize))"

definition next_of_type_turn :: "memory \<Rightarrow> u8 \<Rightarrow> cursor \<Rightarrow> (cursor + cursor) option" where
  "next_of_type_turn mem Type c =
     (if fst c = 0 then Some (Inl c)
      else let c = USB_GetNextDescriptor mem c in
        if DESCRIPTOR_TYPE mem (snd c) = Type then Some (Inl c) else Some (Inr c))"

definition USB_GetNextDescriptorOfType :: "memory \<Rightarrow> u8 \<Rightarrow> cursor \<Rightarrow> cursor option" where
  "USB_GetNextDescriptorOfType mem Type = loop (next_of_type_turn mem Type)"

definition next_before_turn :: "memory \<Rightarrow> u8 \<Rightarrow> u8 \<Rightarrow> cursor \<Rightarrow> (cursor + cursor) option" where
  "next_before_turn mem Type BeforeType c =
     (if fst c = 0 then Some (Inl c)
      else let c = USB_GetNextDescriptor mem c in
        if DESCRIPTOR_TYPE mem (snd c) = Type then Some (Inl c)
        else if DESCRIPTOR_TYPE mem (snd c) = BeforeType then Some (Inl (0, snd c))
        else Some (Inr c))"

definition USB_GetNextDescriptorOfTypeBefore :: "memory \<Rightarrow> u8 \<Rightarrow> u8 \<Rightarrow> cursor \<Rightarrow> cursor option" where
  "USB_GetNextDescriptorOfTypeBefore mem Type BeforeType = loop (next_before_turn mem Type BeforeType)"

definition USB_GetNextDescriptorOfTypeAfter :: "memory \<Rightarrow> u8 \<Rightarrow> u8 \<Rightarrow> cursor \<Rightarrow> cursor option" where
  "USB_GetNextDescriptorOfTypeAfter mem Type AfterType c =
     do { c \<leftarrow> USB_GetNextDescriptorOfType mem AfterType c;
          if fst c \<noteq> 0 then USB_GetNextDescriptorOfType mem Type c else Some c }"

text \<open>A comparator gets the location of a descriptor and may look at the hardware.\<close>

type_synonym 'h comparator = "nat \<Rightarrow> 'h \<Rightarrow> u8 \<times> 'h"

definition next_comp_turn :: "memory \<Rightarrow> 'h comparator \<Rightarrow> cursor \<times> 'h \<Rightarrow> ((u8 \<times> cursor \<times> 'h) + (cursor \<times> 'h)) option" where
  "next_comp_turn mem ComparatorRoutine = (\<lambda>(c, h).
     if fst c = 0 then Some (Inl (DESCRIPTOR_SEARCH_COMP_EndOfDescriptor, c, h))
     else let Prev = c;
              c = USB_GetNextDescriptor mem c;
              (ErrorCode, h) = ComparatorRoutine (snd c) h
          in if ErrorCode \<noteq> DESCRIPTOR_SEARCH_NotFound then
               Some (Inl (ErrorCode, if ErrorCode = DESCRIPTOR_SEARCH_Fail then Prev else c, h))
             else Some (Inr (c, h)))"

definition USB_GetNextDescriptorComp :: "memory \<Rightarrow> 'h comparator \<Rightarrow> cursor \<Rightarrow> 'h \<Rightarrow> (u8 \<times> cursor \<times> 'h) option" where
  "USB_GetNextDescriptorComp mem ComparatorRoutine c h = loop (next_comp_turn mem ComparatorRoutine) (c, h)"

section \<open>Any block of bytes\<close>

text \<open>However the bytes of the device look, a cursor moves forward and stays inside the block.\<close>

definition cursor_end :: "cursor \<Rightarrow> nat" where
  "cursor_end c = snd c + unat (fst c)"

lemma next_inside [simp]: "cursor_end (USB_GetNextDescriptor mem c) = cursor_end c"
  by (cases c) (auto simp: USB_GetNextDescriptor_def cursor_end_def DESCRIPTOR_SIZE_def Let_def not_less unat_sub word_le_nat_alt)

lemma next_insideD: "USB_GetNextDescriptor mem c = c' \<Longrightarrow> cursor_end c' = cursor_end c"
  using next_inside by blast

lemma next_forward: "snd c \<le> snd (USB_GetNextDescriptor mem c)"
  by (simp add: USB_GetNextDescriptor_def split_beta Let_def)

lemma next_progress:
  assumes "fst c \<noteq> 0" "mem (snd c) \<noteq> 0"
  shows "unat (fst (USB_GetNextDescriptor mem c)) < unat (fst c)"
proof -
  obtain r l where c: "c = (r, l)" by (cases c)
  have "0 < unat r" "0 < unat (mem l)" using assms c by (simp_all add: unat_gt_0)
  then show ?thesis
    by (auto simp: c USB_GetNextDescriptor_def DESCRIPTOR_SIZE_def Let_def unat_sub word_le_nat_alt word_less_nat_alt not_less
        unat_ucast_u16)
qed

lemma of_type_inside:
  assumes "USB_GetNextDescriptorOfType mem Type c = Some c'"
  shows "cursor_end c' = cursor_end c \<and> (fst c' = 0 \<or> DESCRIPTOR_TYPE mem (snd c') = Type)"
  using assms unfolding USB_GetNextDescriptorOfType_def
  by (rule loop_invariant [where I = "\<lambda>c'. cursor_end c' = cursor_end c"])
     (auto simp: next_of_type_turn_def Let_def dest: next_insideD split: if_splits)

lemma comp_inside:
  assumes "USB_GetNextDescriptorComp mem f c h = Some (e, c', h')"
  shows "cursor_end c' = cursor_end c"
proof -
  have "(\<lambda>(e, c', h'). cursor_end c' = cursor_end c) (e, c', h')"
    using assms unfolding USB_GetNextDescriptorComp_def
    by (rule loop_invariant [where I = "\<lambda>(c', h). cursor_end c' = cursor_end c"])
       (auto simp: next_comp_turn_def Let_def split_beta dest: next_insideD split: if_splits)
  then show ?thesis by simp
qed

text \<open>A descriptor of length 0 that is not the one looked for stops the walk for ever.\<close>

lemma next_stuck: "mem (snd c) = 0 \<Longrightarrow> USB_GetNextDescriptor mem c = c"
  by (simp add: USB_GetNextDescriptor_def DESCRIPTOR_SIZE_def split_beta Let_def)

lemma of_type_hangs:
  assumes "fst c \<noteq> 0" "mem (snd c) = 0" "DESCRIPTOR_TYPE mem (snd c) \<noteq> Type"
  shows "USB_GetNextDescriptorOfType mem Type c = None"
  unfolding USB_GetNextDescriptorOfType_def
  by (rule loop_forever [where I = "\<lambda>c'. c' = c"]) (use assms in \<open>auto simp: next_of_type_turn_def next_stuck\<close>)

section \<open>A chain of descriptors\<close>

text \<open>The bytes at an address, the descriptors that follow one another there, and a cursor in front of them.\<close>

definition bytes_at :: "memory \<Rightarrow> nat \<Rightarrow> nat \<Rightarrow> u8 list" where
  "bytes_at mem p n = map (\<lambda>i. mem (p + i)) [0..<n]"

definition is_descriptor :: "u8 list \<Rightarrow> bool" where
  "is_descriptor d \<longleftrightarrow> 2 \<le> length d \<and> unat (d ! 0) = length d"

definition cursor_at :: "memory \<Rightarrow> cursor \<Rightarrow> u8 list list \<Rightarrow> bool" where
  "cursor_at mem c ds \<longleftrightarrow> list_all is_descriptor ds \<and> unat (fst c) = length (concat ds)
     \<and> bytes_at mem (snd c) (length (concat ds)) = concat ds"

lemma bytes_at_add: "bytes_at mem p (m + n) = bytes_at mem p m @ bytes_at mem (p + m) n"
  by (rule nth_equalityI) (auto simp: bytes_at_def nth_append)

lemma bytes_at_nth [simp]: "i < n \<Longrightarrow> bytes_at mem p n ! i = mem (p + i)"
  by (simp add: bytes_at_def)

lemma length_bytes_at [simp]: "length (bytes_at mem p n) = n"
  by (simp add: bytes_at_def)

lemma cursor_at_Nil [simp]: "cursor_at mem c [] \<longleftrightarrow> fst c = 0"
  by (auto simp: cursor_at_def unat_eq_zero bytes_at_def)

lemma cursor_at_byte:
  assumes "cursor_at mem c (d # ds)" "i < length d"
  shows "mem (snd c + i) = d ! i"
proof -
  have b: "bytes_at mem (snd c) (length d + length (concat ds)) = d @ concat ds"
    using assms by (simp add: cursor_at_def)
  from arg_cong [OF b, of "\<lambda>l. l ! i"] show ?thesis using assms(2) by (simp add: nth_append)
qed

lemma cursor_at_Cons:
  assumes "cursor_at mem c (d # ds)"
  shows "fst c \<noteq> 0" "mem (snd c) = d ! 0" "DESCRIPTOR_TYPE mem (snd c) = d ! 1" "unat (d ! 0) = length d" "is_descriptor d"
proof -
  have d: "is_descriptor d" "unat (fst c) = length d + length (concat ds)" using assms by (simp_all add: cursor_at_def)
  then have "0 < length d" "1 < length d" by (auto simp: is_descriptor_def)
  with d cursor_at_byte [OF assms, of 0] cursor_at_byte [OF assms, of 1]
  show "fst c \<noteq> 0" "mem (snd c) = d ! 0" "DESCRIPTOR_TYPE mem (snd c) = d ! 1" "unat (d ! 0) = length d" "is_descriptor d"
    by (auto simp: is_descriptor_def DESCRIPTOR_TYPE_def)
qed

lemma cursor_at_next:
  assumes "cursor_at mem c (d # ds)"
  shows "cursor_at mem (USB_GetNextDescriptor mem c) ds"
proof -
  obtain r l where c: "c = (r, l)" by (cases c)
  note h = cursor_at_Cons [OF assms, unfolded c, simplified]
  let ?n = "unat (d ! 0)"
  have r: "unat r = ?n + length (concat ds)" "bytes_at mem l (?n + length (concat ds)) = d @ concat ds" "list_all is_descriptor ds"
    using assms c h(4) by (auto simp: cursor_at_def)
  have "bytes_at mem l ?n = d \<and> bytes_at mem (l + ?n) (length (concat ds)) = concat ds"
    using r(2) h(4) by (simp add: bytes_at_add append_eq_append_conv)
  moreover have "unat (ucast (d ! 0) :: u16) = ?n" by (rule unat_ucast_u16)
  ultimately show ?thesis
    using r h by (simp add: c cursor_at_def USB_GetNextDescriptor_def DESCRIPTOR_SIZE_def word_less_nat_alt word_le_nat_alt unat_sub)
qed

text \<open>What the three searches by type do on a chain, as list functions.\<close>

lemma of_type_on_chain:
  assumes "cursor_at mem c (d # ds)"
  shows "\<exists>c'. USB_GetNextDescriptorOfType mem Type c = Some c' \<and> cursor_at mem c' (dropWhile (\<lambda>d. d ! 1 \<noteq> Type) ds)"
  using assms
proof (induction ds arbitrary: c d)
  case (Nil c d)
  let ?c = "USB_GetNextDescriptor mem c"
  have stop: "fst ?c = 0" using cursor_at_next [OF Nil] by simp
  then have "loop (next_of_type_turn mem Type) ?c = Some ?c"
    by (intro loop_turn(1)) (simp add: next_of_type_turn_def)
  then have "USB_GetNextDescriptorOfType mem Type c = Some ?c"
    using cursor_at_Cons(1) [OF Nil] unfolding USB_GetNextDescriptorOfType_def
    by (subst loop.simps) (simp add: next_of_type_turn_def Let_def)
  with stop show ?case by simp
next
  case (Cons e ds c d)
  let ?c = "USB_GetNextDescriptor mem c"
  have at: "cursor_at mem ?c (e # ds)" by (rule cursor_at_next [OF Cons.prems])
  have turn: "next_of_type_turn mem Type c = Some (if e ! 1 = Type then Inl ?c else Inr ?c)"
    using cursor_at_Cons(1) [OF Cons.prems] cursor_at_Cons(3) [OF at] by (simp add: next_of_type_turn_def Let_def)
  show ?case
  proof (cases "e ! 1 = Type")
    case True
    then have "USB_GetNextDescriptorOfType mem Type c = Some ?c"
      unfolding USB_GetNextDescriptorOfType_def using turn by (intro loop_turn(1)) simp
    with True at show ?thesis by simp
  next
    case False
    then have "USB_GetNextDescriptorOfType mem Type c = USB_GetNextDescriptorOfType mem Type ?c"
      unfolding USB_GetNextDescriptorOfType_def using turn by (intro loop_turn(2)) simp
    with False Cons.IH [OF at] show ?thesis by simp
  qed
qed

lemma before_on_chain:
  assumes "cursor_at mem c (d # ds)"
  shows "\<exists>c'. USB_GetNextDescriptorOfTypeBefore mem Type BeforeType c = Some c'
     \<and> cursor_at mem c' (case dropWhile (\<lambda>d. d ! 1 \<notin> {Type, BeforeType}) ds of
          [] \<Rightarrow> [] | e # es \<Rightarrow> if e ! 1 = Type then e # es else [])"
  using assms
proof (induction ds arbitrary: c d)
  case (Nil c d)
  let ?c = "USB_GetNextDescriptor mem c"
  have stop: "fst ?c = 0" using cursor_at_next [OF Nil] by simp
  then have "loop (next_before_turn mem Type BeforeType) ?c = Some ?c"
    by (intro loop_turn(1)) (simp add: next_before_turn_def)
  then have "\<exists>c'. USB_GetNextDescriptorOfTypeBefore mem Type BeforeType c = Some c' \<and> fst c' = 0"
    using cursor_at_Cons(1) [OF Nil] stop unfolding USB_GetNextDescriptorOfTypeBefore_def
    by (subst loop.simps) (cases ?c, simp add: next_before_turn_def Let_def)
  then show ?case by simp
next
  case (Cons e ds c d)
  let ?c = "USB_GetNextDescriptor mem c"
  have at: "cursor_at mem ?c (e # ds)" by (rule cursor_at_next [OF Cons.prems])
  have turn: "next_before_turn mem Type BeforeType c =
      Some (if e ! 1 = Type then Inl ?c else if e ! 1 = BeforeType then Inl (0, snd ?c) else Inr ?c)"
    using cursor_at_Cons(1) [OF Cons.prems] cursor_at_Cons(3) [OF at] by (simp add: next_before_turn_def Let_def)
  show ?case
  proof (cases "e ! 1 \<in> {Type, BeforeType}")
    case True
    then have "USB_GetNextDescriptorOfTypeBefore mem Type BeforeType c = Some (if e ! 1 = Type then ?c else (0, snd ?c))"
      unfolding USB_GetNextDescriptorOfTypeBefore_def using turn by (intro loop_turn(1)) auto
    with True at show ?thesis by auto
  next
    case False
    then have "USB_GetNextDescriptorOfTypeBefore mem Type BeforeType c = USB_GetNextDescriptorOfTypeBefore mem Type BeforeType ?c"
      unfolding USB_GetNextDescriptorOfTypeBefore_def using turn by (intro loop_turn(2)) simp
    with False Cons.IH [OF at] show ?thesis by simp
  qed
qed

lemma after_on_chain:
  assumes "cursor_at mem c (d # ds)"
  shows "\<exists>c'. USB_GetNextDescriptorOfTypeAfter mem Type AfterType c = Some c'
     \<and> cursor_at mem c' (dropWhile (\<lambda>d. d ! 1 \<noteq> Type) (tl (dropWhile (\<lambda>d. d ! 1 \<noteq> AfterType) ds)))"
proof -
  from of_type_on_chain [OF assms] obtain u
    where u: "USB_GetNextDescriptorOfType mem AfterType c = Some u" "cursor_at mem u (dropWhile (\<lambda>d. d ! 1 \<noteq> AfterType) ds)"
    by blast
  show ?thesis
  proof (cases "dropWhile (\<lambda>d. d ! 1 \<noteq> AfterType) ds")
    case Nil
    then have "fst u = 0" using u(2) by (simp only: cursor_at_Nil)
    then show ?thesis unfolding Nil using u(1) by (cases u) (simp add: USB_GetNextDescriptorOfTypeAfter_def)
  next
    case (Cons e es)
    with u have "cursor_at mem u (e # es)" by simp
    from of_type_on_chain [OF this] cursor_at_Cons(1) [OF this] u(1) show ?thesis unfolding Cons
      by (simp add: USB_GetNextDescriptorOfTypeAfter_def)
  qed
qed

text \<open>
  The search with a comparator, which looks at a descriptor and may change the hardware state. The
  comparator is also called once behind the last descriptor; the law is for a memory where it
  finds nothing there.
\<close>

fun search_list :: "(u8 list \<Rightarrow> 'h \<Rightarrow> u8 \<times> 'h) \<Rightarrow> u8 list list \<Rightarrow> 'h \<Rightarrow> u8 \<times> u8 list list \<times> 'h" where
  "search_list f (d # e # es) h =
     (let (r, h) = f e h in
      if r = DESCRIPTOR_SEARCH_NotFound then search_list f (e # es) h
      else (r, if r = DESCRIPTOR_SEARCH_Fail then d # e # es else e # es, h))"
| "search_list f ds h = (DESCRIPTOR_SEARCH_COMP_EndOfDescriptor, [], h)"

lemma comp_on_chain:
  assumes "cursor_at mem c (d # ds)"
    and "\<And>p e h. e \<in> set ds \<Longrightarrow> bytes_at mem p (length e) = e \<Longrightarrow> cmp p h = f e h"
    and "\<And>h. cmp (cursor_end c) h = (DESCRIPTOR_SEARCH_NotFound, h)"
  shows "\<exists>c'. USB_GetNextDescriptorComp mem cmp c h = Some (fst (search_list f (d # ds) h), c', snd (snd (search_list f (d # ds) h)))
     \<and> cursor_at mem c' (fst (snd (search_list f (d # ds) h)))"
  using assms
proof (induction ds arbitrary: c d h)
  case (Nil c d)
  let ?c = "USB_GetNextDescriptor mem c"
  have stop: "fst ?c = 0" using cursor_at_next [OF Nil(1)] by simp
  then have "snd ?c = cursor_end c" using next_inside [of mem c] by (simp add: cursor_end_def)
  then have "next_comp_turn mem cmp (c, h) = Some (Inr (?c, h))"
    using cursor_at_Cons(1) [OF Nil(1)] Nil(3) by (simp add: next_comp_turn_def)
  then have "USB_GetNextDescriptorComp mem cmp c h = loop (next_comp_turn mem cmp) (?c, h)"
    unfolding USB_GetNextDescriptorComp_def by (rule loop_turn(2))
  also have "\<dots> = Some (DESCRIPTOR_SEARCH_COMP_EndOfDescriptor, ?c, h)"
    using stop by (intro loop_turn(1)) (simp add: next_comp_turn_def)
  finally show ?case using stop by simp
next
  case (Cons e ds c d)
  let ?c = "USB_GetNextDescriptor mem c"
  have at: "cursor_at mem ?c (e # ds)" by (rule cursor_at_next [OF Cons.prems(1)])
  have "bytes_at mem (snd ?c) (length e) = e"
    using at by (intro nth_equalityI) (auto simp: cursor_at_byte)
  then have f: "cmp (snd ?c) h = f e h" by (intro Cons.prems(2)) simp_all
  obtain r h' where r: "f e h = (r, h')" by (cases "f e h")
  note turn = cursor_at_Cons(1) [OF Cons.prems(1)] f r
  show ?case
  proof (cases "r = DESCRIPTOR_SEARCH_NotFound")
    case True
    with turn have "next_comp_turn mem cmp (c, h) = Some (Inr (?c, h'))" by (simp add: next_comp_turn_def)
    then have "USB_GetNextDescriptorComp mem cmp c h = USB_GetNextDescriptorComp mem cmp ?c h'"
      unfolding USB_GetNextDescriptorComp_def by (rule loop_turn(2))
    with True Cons.IH [OF at] Cons.prems(2,3) r show ?thesis by simp
  next
    case False
    with turn have "next_comp_turn mem cmp (c, h) = Some (Inl (r, if r = DESCRIPTOR_SEARCH_Fail then c else ?c, h'))"
      by (simp add: next_comp_turn_def)
    then have "USB_GetNextDescriptorComp mem cmp c h = Some (r, if r = DESCRIPTOR_SEARCH_Fail then c else ?c, h')"
      unfolding USB_GetNextDescriptorComp_def by (rule loop_turn(1))
    with False r at Cons.prems(1) show ?thesis by simp
  qed
qed

section \<open>Properties\<close>

text \<open>C29. The three searches by descriptor type, on a block that is a chain of well-formed descriptors
  with the cursor in front of one of them: the search for a type stops in front of the next
  descriptor of that type behind the current one; the search that must not pass another type stops
  there only if that other type does not come first; the search after another type skips to the
  first descriptor of that other type before it starts. A search that finds nothing leaves no bytes
  remaining, which is how its callers recognise it.\<close>

theorem searches_by_type:
  assumes "cursor_at mem c (d # ds)"
  shows "(\<exists>c'. USB_GetNextDescriptorOfType mem Type c = Some c' \<and> cursor_at mem c' (dropWhile (\<lambda>d. d ! 1 \<noteq> Type) ds))
     \<and> (\<exists>c'. USB_GetNextDescriptorOfTypeBefore mem Type Other c = Some c'
         \<and> cursor_at mem c' (case dropWhile (\<lambda>d. d ! 1 \<notin> {Type, Other}) ds of
              [] \<Rightarrow> [] | e # es \<Rightarrow> if e ! 1 = Type then e # es else []))
     \<and> (\<exists>c'. USB_GetNextDescriptorOfTypeAfter mem Type Other c = Some c'
         \<and> cursor_at mem c' (dropWhile (\<lambda>d. d ! 1 \<noteq> Type) (tl (dropWhile (\<lambda>d. d ! 1 \<noteq> Other) ds))))"
  using of_type_on_chain [OF assms] before_on_chain [OF assms] after_on_chain [OF assms] by blast

text \<open>A memory that holds a block of bytes at address 0 and zeros behind it.\<close>

definition mem_of :: "u8 list \<Rightarrow> memory" where
  "mem_of bs i = (if i < length bs then bs ! i else 0)"

lemma bytes_at_mem_of: "bytes_at (mem_of bs) 0 (length bs) = bs"
  by (rule nth_equalityI) (auto simp: mem_of_def)

lemma cursor_at_mem_of:
  "list_all is_descriptor ds \<Longrightarrow> length (concat ds) < 65536 \<Longrightarrow> cursor_at (mem_of (concat ds)) (of_nat (length (concat ds)), 0) ds"
  by (simp add: cursor_at_def bytes_at_mem_of del: length_concat) (simp add: unat_of_nat)

definition firmware_descriptors :: "u8 list list" where
  "firmware_descriptors = [[9, 2, 62, 0, 2, 1, 0, 0xC0, 50],
     [9, 4, 0, 0, 1, 2, 2, 1, 0], [5, 0x24, 0, 0x10, 1], [4, 0x24, 2, 6], [5, 0x24, 6, 0, 1], [7, 5, 0x82, 3, 8, 0, 0xFF],
     [9, 4, 1, 0, 2, 0x0A, 0, 0, 0], [7, 5, 4, 2, 16, 0, 5], [7, 5, 0x83, 2, 16, 0, 5]]"

lemma firmware_chain: "cursor_at (mem_of ConfigurationDescriptor) (62, 0) firmware_descriptors"
proof -
  have c: "concat firmware_descriptors = ConfigurationDescriptor"
    by (simp add: firmware_descriptors_def ConfigurationDescriptor_bytes)
  have d: "list_all is_descriptor firmware_descriptors" by (simp add: firmware_descriptors_def is_descriptor_def)
  have "length (concat firmware_descriptors) = 62" by (simp add: firmware_descriptors_def)
  with cursor_at_mem_of [OF d] show ?thesis unfolding c by simp
qed

theorem searches_by_type_witness:
  "\<exists>c. USB_GetNextDescriptorOfTypeAfter (mem_of ConfigurationDescriptor) 5 4 (62, 0) = Some c
     \<and> cursor_at (mem_of ConfigurationDescriptor) c
         [[7, 5, 0x82, 3, 8, 0, 0xFF], [9, 4, 1, 0, 2, 0x0A, 0, 0, 0], [7, 5, 4, 2, 16, 0, 5], [7, 5, 0x83, 2, 16, 0, 5]]"
proof -
  have ds: "dropWhile (\<lambda>d. d ! 1 \<noteq> 5) (tl (dropWhile (\<lambda>d. d ! 1 \<noteq> 4) (tl firmware_descriptors))) =
      [[7, 5, 0x82, 3, 8, 0, 0xFF], [9, 4, 1, 0, 2, 0x0A, 0, 0, 0], [7, 5, 4, 2, 16, 0, 5], [7, 5, 0x83, 2, 16, 0, 5]]"
    by (simp add: firmware_descriptors_def)
  have "firmware_descriptors = hd firmware_descriptors # tl firmware_descriptors" by (simp add: firmware_descriptors_def)
  then have "cursor_at (mem_of ConfigurationDescriptor) (62, 0) (hd firmware_descriptors # tl firmware_descriptors)"
    using firmware_chain by (rule subst)
  from searches_by_type [OF this, of 5 4, THEN conjunct2, THEN conjunct2] show ?thesis unfolding ds .
qed

lemma next_at_end: "fst c = 0 \<Longrightarrow> USB_GetNextDescriptor mem c = c"
  by (cases c) (auto simp: USB_GetNextDescriptor_def Let_def word_neq_0_conv [symmetric])

lemma of_type_step:
  assumes "fst c \<noteq> 0" "DESCRIPTOR_TYPE mem (snd (USB_GetNextDescriptor mem c)) \<noteq> Type"
  shows "USB_GetNextDescriptorOfType mem Type c = USB_GetNextDescriptorOfType mem Type (USB_GetNextDescriptor mem c)"
  unfolding USB_GetNextDescriptorOfType_def
  by (rule loop_turn(2)) (use assms in \<open>simp add: next_of_type_turn_def Let_def\<close>)

lemma of_type_stop:
  assumes "fst c = 0 \<or> DESCRIPTOR_TYPE mem (snd (USB_GetNextDescriptor mem c)) = Type"
  shows "\<exists>c'. USB_GetNextDescriptorOfType mem Type c = Some c'"
proof -
  have "USB_GetNextDescriptorOfType mem Type c = Some (if fst c = 0 then c else USB_GetNextDescriptor mem c)"
    unfolding USB_GetNextDescriptorOfType_def
    by (rule loop_turn(1)) (use assms in \<open>auto simp: next_of_type_turn_def Let_def\<close>)
  then show ?thesis by blast
qed

lemma of_type_stuck:
  assumes "fst ((USB_GetNextDescriptor mem ^^ k) c) \<noteq> 0" "mem (snd ((USB_GetNextDescriptor mem ^^ k) c)) = 0"
    and "Type \<notin> set (map (\<lambda>j. DESCRIPTOR_TYPE mem (snd ((USB_GetNextDescriptor mem ^^ j) c))) [1..<k + 2])"
  shows "USB_GetNextDescriptorOfType mem Type c = None"
  using assms
proof (induction k arbitrary: c)
  case 0
  then show ?case by (intro of_type_hangs) (auto simp: next_stuck numeral_2_eq_2)
next
  case (Suc k)
  let ?N = "USB_GetNextDescriptor mem" and ?c = "USB_GetNextDescriptor mem c"
  have shift: "(?N ^^ j) ?c = (?N ^^ Suc j) c" for j by (simp add: funpow_swap1)
  have c: "fst c \<noteq> 0"
  proof
    assume "fst c = 0"
    then have "(?N ^^ j) c = c" for j by (induction j) (simp_all add: next_at_end)
    with Suc.prems(1) \<open>fst c = 0\<close> show False by (simp add: next_at_end)
  qed
  have T: "Type \<noteq> DESCRIPTOR_TYPE mem (snd ((?N ^^ j) c))" if "1 \<le> j" "j < Suc k + 2" for j
    using Suc.prems(3) that by (auto simp del: upt_Suc)
  have "Type \<noteq> DESCRIPTOR_TYPE mem (snd ((?N ^^ j) ?c))" if "j \<in> set [1..<k + 2]" for j
    using T [of "Suc j"] that by (simp add: shift del: funpow.simps upt_Suc)
  then have "Type \<notin> set (map (\<lambda>j. DESCRIPTOR_TYPE mem (snd ((?N ^^ j) ?c))) [1..<k + 2])"
    unfolding set_map by blast
  then have "USB_GetNextDescriptorOfType mem Type ?c = None"
    using Suc.prems(1,2) by (intro Suc.IH) (simp_all only: shift not_False_eq_True)
  moreover have "DESCRIPTOR_TYPE mem (snd ?c) \<noteq> Type" using T [of 1] by simp
  ultimately show ?case using of_type_step [OF c] by simp
qed

text \<open>C30. The search for a descriptor type runs for ever exactly if the walk comes to a descriptor with length
  byte 0 before it has met the type: such a block, which a device is free to send, hangs the host.
  For every other block, however malformed, the search returns.\<close>

theorem search_hangs_iff:
  "USB_GetNextDescriptorOfType mem Type c = None \<longleftrightarrow>
     (\<exists>k. fst ((USB_GetNextDescriptor mem ^^ k) c) \<noteq> 0 \<and> mem (snd ((USB_GetNextDescriptor mem ^^ k) c)) = 0
        \<and> Type \<notin> set (map (\<lambda>j. DESCRIPTOR_TYPE mem (snd ((USB_GetNextDescriptor mem ^^ j) c))) [1..<k + 2]))"
proof
  let ?N = "USB_GetNextDescriptor mem"
  assume "USB_GetNextDescriptorOfType mem Type c = None"
  then show "\<exists>k. fst ((?N ^^ k) c) \<noteq> 0 \<and> mem (snd ((?N ^^ k) c)) = 0
        \<and> Type \<notin> set (map (\<lambda>j. DESCRIPTOR_TYPE mem (snd ((?N ^^ j) c))) [1..<k + 2])"
  proof (induction "unat (fst c)" arbitrary: c rule: less_induct)
    case (less c)
    let ?c = "?N c"
    have c: "fst c \<noteq> 0" "DESCRIPTOR_TYPE mem (snd ?c) \<noteq> Type" using of_type_stop [of c mem Type] less.prems by auto
    show ?case
    proof (cases "mem (snd c) = 0")
      case True
      with c show ?thesis by (intro exI [of _ 0]) (auto simp: next_stuck numeral_2_eq_2)
    next
      case False
      have "USB_GetNextDescriptorOfType mem Type ?c = None" using of_type_step [OF c] less.prems by simp
      with less.hyps [of ?c] next_progress [of c mem] c(1) False obtain k
        where k: "fst ((?N ^^ k) ?c) \<noteq> 0" "mem (snd ((?N ^^ k) ?c)) = 0"
          "Type \<notin> set (map (\<lambda>j. DESCRIPTOR_TYPE mem (snd ((?N ^^ j) ?c))) [1..<k + 2])" by blast
      have shift: "(?N ^^ j) ?c = (?N ^^ Suc j) c" for j by (simp add: funpow_swap1)
      have "Type \<noteq> DESCRIPTOR_TYPE mem (snd ((?N ^^ j) c))" if "j \<in> set [1..<Suc k + 2]" for j
      proof (cases "j = 1")
        case True
        then show ?thesis using c(2) by auto
      next
        case False
        then have "j = Suc (j - 1)" "j - 1 \<in> set [1..<k + 2]" using that unfolding set_upt by auto
        then obtain i where j: "j = Suc i" "i \<in> set [1..<k + 2]" by blast
        then have "Type \<noteq> DESCRIPTOR_TYPE mem (snd ((?N ^^ i) ?c))" using k(3) unfolding set_map by blast
        then show ?thesis by (simp only: shift j(1) not_False_eq_True)
      qed
      then have "Type \<notin> set (map (\<lambda>j. DESCRIPTOR_TYPE mem (snd ((?N ^^ j) c))) [1..<Suc k + 2])"
        unfolding set_map by blast
      with k(1,2) show ?thesis unfolding shift by blast
    qed
  qed
qed (blast intro: of_type_stuck)

end
