(* ===== verification/Usb_Host.thy ===== *)
theory Usb_Host
  imports Usb_Pipe Config_Parser
begin

text \<open>
  The host mode of the USB stack for the AT90USB1287, in the configuration of the host project
  \<open>Projects/MissileLauncher\<close> (\<open>USB_HOST_ONLY\<close>, static options, automatic VBUS management, default
  timeouts): \<open>Core/AVR8/Host_AVR8.h\<close> and \<open>.c\<close>, \<open>Core/HostStandardReq.c\<close> and \<open>.h\<close>, the host
  branches of \<open>USBController_AVR8.c\<close>, \<open>USBInterrupt_AVR8.h\<close> and \<open>.c\<close> and \<open>USBTask.c\<close>, and
  \<open>USB_Host_GetDeviceConfigDescriptor\<close> of \<open>ConfigDescriptors.c\<close>. Functions that exist in both modes
  with different bodies have the prefix \<open>H_\<close> here. Pointers are addresses in a memory, a null pointer
  is \<open>None\<close>. The interrupt enable bits of a register have the numbers of its flags.
\<close>

section \<open>Interrupt registers\<close>

datatype USB_HostInterrupts_t = USB_INT_HSOFI | USB_INT_DCONNI | USB_INT_DDISCI | USB_INT_RSTI
  | USB_INT_BCERRI | USB_INT_VBERRI | USB_INT_SRPI

definition H_USB_INT_Enable :: "'h io \<Rightarrow> USB_HostInterrupts_t \<Rightarrow> 'h \<Rightarrow> 'h" where
  "H_USB_INT_Enable D Interrupt h = (case Interrupt of
       USB_INT_HSOFI \<Rightarrow> io_or D UHIEN (BV HSOFI) h
     | USB_INT_DCONNI \<Rightarrow> io_or D UHIEN (BV DCONNI) h
     | USB_INT_DDISCI \<Rightarrow> io_or D UHIEN (BV DDISCI) h
     | USB_INT_RSTI \<Rightarrow> io_or D UHIEN (BV RSTI) h
     | USB_INT_BCERRI \<Rightarrow> io_or D OTGIEN (BV BCERRI) h
     | USB_INT_VBERRI \<Rightarrow> io_or D OTGIEN (BV VBERRI) h
     | USB_INT_SRPI \<Rightarrow> io_or D OTGIEN (BV SRPI) h)"

definition H_USB_INT_Disable :: "'h io \<Rightarrow> USB_HostInterrupts_t \<Rightarrow> 'h \<Rightarrow> 'h" where
  "H_USB_INT_Disable D Interrupt h = (case Interrupt of
       USB_INT_HSOFI \<Rightarrow> io_and D UHIEN (NOT (BV HSOFI)) h
     | USB_INT_DCONNI \<Rightarrow> io_and D UHIEN (NOT (BV DCONNI)) h
     | USB_INT_DDISCI \<Rightarrow> io_and D UHIEN (NOT (BV DDISCI)) h
     | USB_INT_RSTI \<Rightarrow> io_and D UHIEN (NOT (BV RSTI)) h
     | USB_INT_BCERRI \<Rightarrow> io_and D OTGIEN (NOT (BV BCERRI)) h
     | USB_INT_VBERRI \<Rightarrow> io_and D OTGIEN (NOT (BV VBERRI)) h
     | USB_INT_SRPI \<Rightarrow> io_and D OTGIEN (NOT (BV SRPI)) h)"

definition H_USB_INT_Clear :: "'h io \<Rightarrow> USB_HostInterrupts_t \<Rightarrow> 'h \<Rightarrow> 'h" where
  "H_USB_INT_Clear D Interrupt h = (case Interrupt of
       USB_INT_HSOFI \<Rightarrow> io_and D UHINT (NOT (BV HSOFI)) h
     | USB_INT_DCONNI \<Rightarrow> io_and D UHINT (NOT (BV DCONNI)) h
     | USB_INT_DDISCI \<Rightarrow> io_and D UHINT (NOT (BV DDISCI)) h
     | USB_INT_RSTI \<Rightarrow> io_and D UHINT (NOT (BV RSTI)) h
     | USB_INT_BCERRI \<Rightarrow> io_and D OTGINT (NOT (BV BCERRI)) h
     | USB_INT_VBERRI \<Rightarrow> io_and D OTGINT (NOT (BV VBERRI)) h
     | USB_INT_SRPI \<Rightarrow> io_and D OTGINT (NOT (BV SRPI)) h)"

definition H_USB_INT_IsEnabled :: "'h io \<Rightarrow> USB_HostInterrupts_t \<Rightarrow> 'h \<Rightarrow> bool \<times> 'h" where
  "H_USB_INT_IsEnabled D Interrupt h = (case Interrupt of
       USB_INT_HSOFI \<Rightarrow> io_test D UHIEN HSOFI h
     | USB_INT_DCONNI \<Rightarrow> io_test D UHIEN DCONNI h
     | USB_INT_DDISCI \<Rightarrow> io_test D UHIEN DDISCI h
     | USB_INT_RSTI \<Rightarrow> io_test D UHIEN RSTI h
     | USB_INT_BCERRI \<Rightarrow> io_test D OTGIEN BCERRI h
     | USB_INT_VBERRI \<Rightarrow> io_test D OTGIEN VBERRI h
     | USB_INT_SRPI \<Rightarrow> io_test D OTGIEN SRPI h)"

definition H_USB_INT_HasOccurred :: "'h io \<Rightarrow> USB_HostInterrupts_t \<Rightarrow> 'h \<Rightarrow> bool \<times> 'h" where
  "H_USB_INT_HasOccurred D Interrupt h = (case Interrupt of
       USB_INT_HSOFI \<Rightarrow> io_test D UHINT HSOFI h
     | USB_INT_DCONNI \<Rightarrow> io_test D UHINT DCONNI h
     | USB_INT_DDISCI \<Rightarrow> io_test D UHINT DDISCI h
     | USB_INT_RSTI \<Rightarrow> io_test D UHINT RSTI h
     | USB_INT_BCERRI \<Rightarrow> io_test D OTGINT BCERRI h
     | USB_INT_VBERRI \<Rightarrow> io_test D OTGINT VBERRI h
     | USB_INT_SRPI \<Rightarrow> io_test D OTGINT SRPI h)"

definition H_int_pending :: "'h io \<Rightarrow> USB_HostInterrupts_t \<Rightarrow> 'h \<Rightarrow> bool \<times> 'h" where
  "H_int_pending D i h =
     (let (occurred, h) = H_USB_INT_HasOccurred D i h in
      if occurred then H_USB_INT_IsEnabled D i h else (False, h))"

definition H_USB_INT_DisableAllInterrupts :: "'h io \<Rightarrow> 'h \<Rightarrow> 'h" where
  "H_USB_INT_DisableAllInterrupts D h =
     (let h = io_and D USBCON (NOT (BV VBUSTE OR BV IDTE)) h in io_wr D UHIEN 0 h)"

definition H_USB_INT_ClearAllInterrupts :: "'h io \<Rightarrow> 'h \<Rightarrow> 'h" where
  "H_USB_INT_ClearAllInterrupts D h = (let h = io_wr D USBINT 0 h in io_wr D UHINT 0 h)"

section \<open>Host\_AVR8.h and the controller functions of this device\<close>

definition USB_Host_EnableSOFEvents :: "'h io \<Rightarrow> 'h \<Rightarrow> 'h" where
  "USB_Host_EnableSOFEvents D h = H_USB_INT_Enable D USB_INT_HSOFI h"

definition USB_Host_DisableSOFEvents :: "'h io \<Rightarrow> 'h \<Rightarrow> 'h" where
  "USB_Host_DisableSOFEvents D h = H_USB_INT_Disable D USB_INT_HSOFI h"

definition USB_Host_ResetBus :: "'h io \<Rightarrow> 'h \<Rightarrow> 'h" where
  "USB_Host_ResetBus D h = io_or D UHCON (BV RESET) h"

definition USB_Host_IsBusResetComplete :: "'h io \<Rightarrow> 'h \<Rightarrow> bool \<times> 'h" where
  "USB_Host_IsBusResetComplete D h = (let (b, h) = io_test D UHCON RESET h in (\<not> b, h))"

definition USB_Host_ResumeBus :: "'h io \<Rightarrow> 'h \<Rightarrow> 'h" where
  "USB_Host_ResumeBus D h = io_or D UHCON (BV SOFEN) h"

definition USB_Host_SuspendBus :: "'h io \<Rightarrow> 'h \<Rightarrow> 'h" where
  "USB_Host_SuspendBus D h = io_and D UHCON (NOT (BV SOFEN)) h"

definition USB_Host_IsBusSuspended :: "'h io \<Rightarrow> 'h \<Rightarrow> bool \<times> 'h" where
  "USB_Host_IsBusSuspended D h = (let (b, h) = io_test D UHCON SOFEN h in (\<not> b, h))"

definition USB_Host_IsDeviceFullSpeed :: "'h io \<Rightarrow> 'h \<Rightarrow> bool \<times> 'h" where
  "USB_Host_IsDeviceFullSpeed D h = io_test D USBSTA SPEED h"

definition USB_Host_IsRemoteWakeupSent :: "'h io \<Rightarrow> 'h \<Rightarrow> bool \<times> 'h" where
  "USB_Host_IsRemoteWakeupSent D h = io_test D UHINT RXRSMI h"

definition USB_Host_ClearRemoteWakeupSent :: "'h io \<Rightarrow> 'h \<Rightarrow> 'h" where
  "USB_Host_ClearRemoteWakeupSent D h = io_and D UHINT (NOT (BV RXRSMI)) h"

definition USB_Host_ResumeFromWakeupRequest :: "'h io \<Rightarrow> 'h \<Rightarrow> 'h" where
  "USB_Host_ResumeFromWakeupRequest D h = io_or D UHCON (BV RESUME) h"

definition USB_Host_IsResumeFromWakeupRequestSent :: "'h io \<Rightarrow> 'h \<Rightarrow> bool \<times> 'h" where
  "USB_Host_IsResumeFromWakeupRequestSent D h = (let (b, h) = io_test D UHCON RESUME h in (\<not> b, h))"

definition USB_Host_HostMode_On :: "'h io \<Rightarrow> 'h \<Rightarrow> 'h" where
  "USB_Host_HostMode_On D h = io_or D USBCON (BV HOST) h"

definition USB_Host_HostMode_Off :: "'h io \<Rightarrow> 'h \<Rightarrow> 'h" where
  "USB_Host_HostMode_Off D h = io_and D USBCON (NOT (BV HOST)) h"

definition USB_Host_VBUS_Auto_Enable :: "'h io \<Rightarrow> 'h \<Rightarrow> 'h" where
  "USB_Host_VBUS_Auto_Enable D h =
     (let h = io_and D OTGCON (NOT (BV VBUSHWC)) h in io_or D UHWCON (BV UVCONE) h)"

definition USB_Host_VBUS_Manual_Enable :: "'h io \<Rightarrow> 'h \<Rightarrow> 'h" where
  "USB_Host_VBUS_Manual_Enable D h =
     (let h = io_or D OTGCON (BV VBUSHWC) h;
          h = io_and D UHWCON (NOT (BV UVCONE)) h
      in io_or D DDRE (BV 7) h)"

definition USB_Host_VBUS_Auto_On :: "'h io \<Rightarrow> 'h \<Rightarrow> 'h" where
  "USB_Host_VBUS_Auto_On D h = io_or D OTGCON (BV VBUSREQ) h"

definition USB_Host_VBUS_Manual_On :: "'h io \<Rightarrow> 'h \<Rightarrow> 'h" where
  "USB_Host_VBUS_Manual_On D h = io_or D PORTE (BV 7) h"

definition USB_Host_VBUS_Auto_Off :: "'h io \<Rightarrow> 'h \<Rightarrow> 'h" where
  "USB_Host_VBUS_Auto_Off D h = io_or D OTGCON (BV VBUSRQC) h"

definition USB_Host_VBUS_Manual_Off :: "'h io \<Rightarrow> 'h \<Rightarrow> 'h" where
  "USB_Host_VBUS_Manual_Off D h = io_and D PORTE (NOT (BV 7)) h"

definition USB_Host_SetDeviceAddress :: "'h io \<Rightarrow> u8 \<Rightarrow> 'h \<Rightarrow> 'h" where
  "USB_Host_SetDeviceAddress D Address h = io_wr D UHADDR (Address AND 0x7F) h"

text \<open>Where \<open>USBController_AVR8.h\<close> distinguishes the processors: regulator, pads and PLL of the AT90USB1287.\<close>

definition H_USB_PLL_PSC :: u8 where "H_USB_PLL_PSC = BV 3 OR BV 2"

definition H_USB_PLL_On :: "'h io \<Rightarrow> 'h \<Rightarrow> 'h" where
  "H_USB_PLL_On D h = (let h = io_wr D PLLCSR H_USB_PLL_PSC h in io_wr D PLLCSR (H_USB_PLL_PSC OR BV PLLE) h)"

definition H_USB_REG_On :: "'h io \<Rightarrow> 'h \<Rightarrow> 'h" where
  "H_USB_REG_On D h = io_or D UHWCON (BV UVREGE) h"

definition H_USB_REG_Off :: "'h io \<Rightarrow> 'h \<Rightarrow> 'h" where
  "H_USB_REG_Off D h = io_and D UHWCON (NOT (BV UVREGE)) h"

definition USB_OTGPAD_On :: "'h io \<Rightarrow> 'h \<Rightarrow> 'h" where
  "USB_OTGPAD_On D h = io_or D USBCON (BV OTGPADE) h"

definition USB_OTGPAD_Off :: "'h io \<Rightarrow> 'h \<Rightarrow> 'h" where
  "USB_OTGPAD_Off D h = io_and D USBCON (NOT (BV OTGPADE)) h"

section \<open>Waiting\<close>

abbreviation (input) "HOST_WAITERROR_Successful \<equiv> 0 :: u8"
abbreviation (input) "HOST_WAITERROR_DeviceDisconnect \<equiv> 1 :: u8"
abbreviation (input) "HOST_WAITERROR_PipeError \<equiv> 2 :: u8"
abbreviation (input) "HOST_WAITERROR_SetupStalled \<equiv> 3 :: u8"
abbreviation (input) "HOST_SENDCONTROL_Successful \<equiv> 0 :: u8"
abbreviation (input) "HOST_SENDCONTROL_SoftwareTimeOut \<equiv> 4 :: u8"
abbreviation (input) "USB_HOST_TIMEOUT_MS \<equiv> 1000 :: u16"

definition wait_ms_turn :: "'h io \<Rightarrow> u8 \<times> 'h \<Rightarrow> ((u8 \<times> 'h) + (u8 \<times> 'h)) option" where
  "wait_ms_turn D = (\<lambda>(MS, h).
     if MS = 0 then Some (Inl (HOST_WAITERROR_Successful, h))
     else
       let (sof, h) = H_USB_INT_HasOccurred D USB_INT_HSOFI h;
           (MS, h) = (if sof then (MS - 1, H_USB_INT_Clear D USB_INT_HSOFI h) else (MS, h));
           (st, h) = USB_HostState D h
       in if st = HOST_STATE_Unattached then Some (Inl (HOST_WAITERROR_DeviceDisconnect, h))
       else let (err, h) = Pipe_IsError D h in
         if err then Some (Inl (HOST_WAITERROR_PipeError, Pipe_ClearError D h))
         else let (stalled, h) = Pipe_IsStalled D h in
           if stalled then Some (Inl (HOST_WAITERROR_SetupStalled, Pipe_ClearStall D h))
           else Some (Inr (MS, h)))"

definition USB_Host_WaitMS :: "'h io \<Rightarrow> u8 \<Rightarrow> 'h \<Rightarrow> (u8 \<times> 'h) option" where
  "USB_Host_WaitMS D MS h =
     do {
       let (BusSuspended, h) = USB_Host_IsBusSuspended D h;
       let (HSOFIEnabled, h) = H_USB_INT_IsEnabled D USB_INT_HSOFI h;
       let h = H_USB_INT_Disable D USB_INT_HSOFI h;
       let h = H_USB_INT_Clear D USB_INT_HSOFI h;
       let h = USB_Host_ResumeBus D h;
       (ErrorCode, h) \<leftarrow> loop (wait_ms_turn D) (MS, h);
       let h = (if BusSuspended then USB_Host_SuspendBus D h else h);
       let h = (if HSOFIEnabled then H_USB_INT_Enable D USB_INT_HSOFI h else h);
       Some (ErrorCode, h)
     }"

datatype USB_WaitForTypes_t = USB_HOST_WAITFOR_SetupSent | USB_HOST_WAITFOR_InReceived | USB_HOST_WAITFOR_OutReady

definition wait_ios_turn :: "'h io \<Rightarrow> USB_WaitForTypes_t \<Rightarrow> u16 \<times> 'h \<Rightarrow> ((u8 \<times> 'h) + (u16 \<times> 'h)) option" where
  "wait_ios_turn D WaitType = (\<lambda>(TimeoutCounter, h).
     let (ready, h) = (case WaitType of
            USB_HOST_WAITFOR_SetupSent \<Rightarrow> Pipe_IsSETUPSent D h
          | USB_HOST_WAITFOR_InReceived \<Rightarrow> Pipe_IsINReceived D h
          | USB_HOST_WAITFOR_OutReady \<Rightarrow> Pipe_IsOUTReady D h)
     in if ready then Some (Inl (HOST_SENDCONTROL_Successful, h))
     else do {
       (ErrorCode, h) \<leftarrow> USB_Host_WaitMS D 1 h;
       if ErrorCode \<noteq> HOST_WAITERROR_Successful then Some (Inl (ErrorCode, h))
       else if TimeoutCounter = 0 then Some (Inl (HOST_SENDCONTROL_SoftwareTimeOut, h))
       else Some (Inr (TimeoutCounter - 1, h)) })"

definition USB_Host_WaitForIOS :: "'h io \<Rightarrow> USB_WaitForTypes_t \<Rightarrow> 'h \<Rightarrow> (u8 \<times> 'h) option" where
  "USB_Host_WaitForIOS D WaitType h = loop (wait_ios_turn D WaitType) (USB_HOST_TIMEOUT_MS, h)"

section \<open>Control requests\<close>

definition header_bytes :: "USB_Request_Header_t \<Rightarrow> u8 list" where
  "header_bytes rq = [bmRequestType rq, bRequest rq]
     @ bytes_of_u16 (wValue rq) @ bytes_of_u16 (wIndex rq) @ bytes_of_u16 (wLength rq)"

text \<open>\<open>while (Pipe_BytesInPipe() && DataLen)\<close>: one packet into the buffer.\<close>

definition read_packet_turn :: "'h io \<Rightarrow> u16 \<times> nat \<times> memory \<times> 'h
    \<Rightarrow> ((u16 \<times> nat \<times> memory \<times> 'h) + (u16 \<times> nat \<times> memory \<times> 'h)) option" where
  "read_packet_turn D = (\<lambda>(DataLen, DataStream, m, h).
     let (n, h) = Pipe_BytesInPipe D h in
     if n \<noteq> 0 \<and> DataLen \<noteq> 0 then
       let (v, h) = Pipe_Read_8 D h in Some (Inr (DataLen - 1, Suc DataStream, m(DataStream := v), h))
     else Some (Inl (DataLen, DataStream, m, h)))"

definition control_read_turn :: "'h io \<Rightarrow> u16 \<times> nat \<times> memory \<times> 'h
    \<Rightarrow> ((u8 \<times> memory \<times> 'h) + (u16 \<times> nat \<times> memory \<times> 'h)) option" where
  "control_read_turn D = (\<lambda>(DataLen, DataStream, m, h).
     if DataLen = 0 then Some (Inl (HOST_SENDCONTROL_Successful, m, h))
     else do {
       let h = Pipe_Unfreeze D h;
       (e, h) \<leftarrow> USB_Host_WaitForIOS D USB_HOST_WAITFOR_InReceived h;
       if e \<noteq> HOST_SENDCONTROL_Successful then Some (Inl (e, m, h))
       else do {
         let (n, h) = Pipe_BytesInPipe D h;
         let DataLen = (if n = 0 then 0 else DataLen);
         (DataLen, DataStream, m, h) \<leftarrow> loop (read_packet_turn D) (DataLen, DataStream, m, h);
         let h = Pipe_Freeze D h;
         let h = Pipe_ClearIN D h;
         Some (Inr (DataLen, DataStream, m, h)) } })"

text \<open>\<open>while (DataLen && (Pipe_BytesInPipe() < USB_Host_ControlPipeSize))\<close>: one packet out of it.\<close>

definition write_packet_turn :: "'h io \<Rightarrow> u8 \<Rightarrow> memory \<Rightarrow> u16 \<times> nat \<times> 'h
    \<Rightarrow> ((u16 \<times> nat \<times> 'h) + (u16 \<times> nat \<times> 'h)) option" where
  "write_packet_turn D ControlPipeSize m = (\<lambda>(DataLen, DataStream, h).
     if DataLen = 0 then Some (Inl (DataLen, DataStream, h))
     else let (n, h) = Pipe_BytesInPipe D h in
       if n < ucast ControlPipeSize then
         Some (Inr (DataLen - 1, Suc DataStream, Pipe_Write_8 D (m DataStream) h))
       else Some (Inl (DataLen, DataStream, h)))"

definition control_write_turn :: "'h io \<Rightarrow> u8 \<Rightarrow> memory \<Rightarrow> u16 \<times> nat \<times> 'h
    \<Rightarrow> ((u8 \<times> 'h) + (u16 \<times> nat \<times> 'h)) option" where
  "control_write_turn D ControlPipeSize m = (\<lambda>(DataLen, DataStream, h).
     if DataLen = 0 then Some (Inl (HOST_SENDCONTROL_Successful, h))
     else do {
       (e, h) \<leftarrow> USB_Host_WaitForIOS D USB_HOST_WAITFOR_OutReady h;
       if e \<noteq> HOST_SENDCONTROL_Successful then Some (Inl (e, h))
       else do {
         (DataLen, DataStream, h) \<leftarrow> loop (write_packet_turn D ControlPipeSize m) (DataLen, DataStream, h);
         Some (Inr (DataLen, DataStream, Pipe_ClearOUT D h)) } })"

text \<open>The part of the request behind the setup stage, device to host and host to device.\<close>

definition control_in :: "'h io \<Rightarrow> u16 \<Rightarrow> nat option \<Rightarrow> memory \<Rightarrow> 'h \<Rightarrow> (u8 \<times> memory \<times> 'h) option" where
  "control_in D Len BufferPtr m h =
     do {
       let h = Pipe_SetPipeToken D PIPE_TOKEN_IN h;
       (e, m, h) \<leftarrow> (case BufferPtr of None \<Rightarrow> Some (HOST_SENDCONTROL_Successful, m, h)
          | Some p \<Rightarrow> loop (control_read_turn D) (Len, p, m, h));
       if e \<noteq> HOST_SENDCONTROL_Successful then Some (e, m, h)
       else do {
         let h = Pipe_SetPipeToken D PIPE_TOKEN_OUT h;
         let h = Pipe_Unfreeze D h;
         (e, h) \<leftarrow> USB_Host_WaitForIOS D USB_HOST_WAITFOR_OutReady h;
         if e \<noteq> HOST_SENDCONTROL_Successful then Some (e, m, h)
         else do {
           (e, h) \<leftarrow> USB_Host_WaitForIOS D USB_HOST_WAITFOR_OutReady (Pipe_ClearOUT D h);
           Some (e, m, h) } } }"

definition control_out :: "'h io \<Rightarrow> u8 \<Rightarrow> u16 \<Rightarrow> nat option \<Rightarrow> memory \<Rightarrow> 'h \<Rightarrow> (u8 \<times> 'h) option" where
  "control_out D ControlPipeSize Len BufferPtr m h =
     do {
       (e, h) \<leftarrow> (case BufferPtr of None \<Rightarrow> Some (HOST_SENDCONTROL_Successful, h)
          | Some p \<Rightarrow> do {
              let h = Pipe_SetPipeToken D PIPE_TOKEN_OUT h;
              let h = Pipe_Unfreeze D h;
              (e, h) \<leftarrow> loop (control_write_turn D ControlPipeSize m) (Len, p, h);
              if e \<noteq> HOST_SENDCONTROL_Successful then Some (e, h)
              else do {
                (e, h) \<leftarrow> USB_Host_WaitForIOS D USB_HOST_WAITFOR_OutReady h;
                if e \<noteq> HOST_SENDCONTROL_Successful then Some (e, h)
                else Some (e, Pipe_Freeze D h) } });
       if e \<noteq> HOST_SENDCONTROL_Successful then Some (e, h)
       else do {
         let h = Pipe_SetPipeToken D PIPE_TOKEN_IN h;
         let h = Pipe_Unfreeze D h;
         (e, h) \<leftarrow> USB_Host_WaitForIOS D USB_HOST_WAITFOR_InReceived h;
         if e \<noteq> HOST_SENDCONTROL_Successful then Some (e, h)
         else Some (e, Pipe_ClearIN D h) } }"

definition USB_Host_SendControlRequest_PRV :: "'h io \<Rightarrow> USB_Request_Header_t \<Rightarrow> u8 \<Rightarrow> nat option \<Rightarrow> memory \<Rightarrow> 'h
    \<Rightarrow> (u8 \<times> memory \<times> 'h) option" where
  "USB_Host_SendControlRequest_PRV D rq ControlPipeSize BufferPtr m h =
     do {
       let h = USB_Host_ResumeBus D h;
       (e, h) \<leftarrow> USB_Host_WaitMS D 1 h;
       if e \<noteq> HOST_WAITERROR_Successful then Some (e, m, h)
       else do {
         let h = Pipe_SetPipeToken D PIPE_TOKEN_SETUP h;
         let h = Pipe_ClearError D h;
         let h = Pipe_Unfreeze D h;
         let h = put_bytes (\<lambda>h b. Pipe_Write_8 D b h) (header_bytes rq) h;
         let h = Pipe_ClearSETUP D h;
         (e, h) \<leftarrow> USB_Host_WaitForIOS D USB_HOST_WAITFOR_SetupSent h;
         if e \<noteq> HOST_SENDCONTROL_Successful then Some (e, m, h)
         else do {
           (e, h) \<leftarrow> USB_Host_WaitMS D 1 (Pipe_Freeze D h);
           if e \<noteq> HOST_WAITERROR_Successful then Some (e, m, h)
           else if bmRequestType rq AND 0x80 = REQDIR_DEVICETOHOST then control_in D (wLength rq) BufferPtr m h
           else map_option (\<lambda>(e, h). (e, m, h)) (control_out D ControlPipeSize (wLength rq) BufferPtr m h) } } }"

section \<open>The state of the host stack\<close>

text \<open>
  The variables the host side adds to those of the stack. \<open>WaitMSRemaining\<close> and \<open>PostWaitState\<close> are
  the static variables of the state machine. \<open>stack_mem\<close> is what an uninitialised local array holds.
  The events are the functions the application defines, or empty ones.
\<close>

record 'h host_core = "'h usb_core" +
  USB_Host_ConfigurationNumber :: u8
  USB_Host_ControlPipeSize :: u8
  WaitMSRemaining :: u16
  PostWaitState :: u8
  stack_mem :: memory

record 's host_app =
  EVENT_DeviceAttached :: "'s \<Rightarrow> 's option"
  EVENT_DeviceUnattached :: "'s \<Rightarrow> 's option"
  EVENT_DeviceEnumerationComplete :: "'s \<Rightarrow> 's option"
  EVENT_DeviceEnumerationFailed :: "u8 \<Rightarrow> u8 \<Rightarrow> 's \<Rightarrow> 's option"
  EVENT_HostError :: "u8 \<Rightarrow> 's \<Rightarrow> 's option"
  EVENT_HostStartOfFrame :: "'s \<Rightarrow> 's option"

section \<open>HostStandardReq.c\<close>

abbreviation (input) "REQ_GetInterface \<equiv> 10 :: u8"
abbreviation (input) "REQ_SetInterface \<equiv> 11 :: u8"

definition USB_Host_SendControlRequest :: "'h io \<Rightarrow> nat option \<Rightarrow> memory \<Rightarrow> ('h, 'm) host_core_scheme
    \<Rightarrow> (u8 \<times> memory \<times> ('h, 'm) host_core_scheme) option" where
  "USB_Host_SendControlRequest D BufferPtr m s =
     do {
       let (BusSuspended, h) = USB_Host_IsBusSuspended D (hw s);
       (ReturnStatus, m, h) \<leftarrow>
         USB_Host_SendControlRequest_PRV D (USB_ControlRequest s) (USB_Host_ControlPipeSize s) BufferPtr m h;
       let h = Pipe_Freeze D h;
       let h = (if BusSuspended then USB_Host_SuspendBus D h else h);
       let h = Pipe_ResetPipe D PIPE_CONTROLPIPE h;
       Some (ReturnStatus, m, s\<lparr>hw := h\<rparr>)
     }"

text \<open>\<open>USB_ControlRequest = (USB_Request_Header_t){...}; Pipe_SelectPipe(PIPE_CONTROLPIPE);\<close> and the request.\<close>

definition control_request :: "'h io \<Rightarrow> USB_Request_Header_t \<Rightarrow> nat option \<Rightarrow> memory \<Rightarrow> ('h, 'm) host_core_scheme
    \<Rightarrow> (u8 \<times> memory \<times> ('h, 'm) host_core_scheme) option" where
  "control_request D rq BufferPtr m s =
     USB_Host_SendControlRequest D BufferPtr m (hw_do (Pipe_SelectPipe D PIPE_CONTROLPIPE) (s\<lparr>USB_ControlRequest := rq\<rparr>))"

definition request :: "u8 \<Rightarrow> u8 \<Rightarrow> u16 \<Rightarrow> u16 \<Rightarrow> u16 \<Rightarrow> USB_Request_Header_t" where
  "request t r v i l = \<lparr>bmRequestType = t, bRequest = r, wValue = v, wIndex = i, wLength = l\<rparr>"

definition USB_Host_SetDeviceConfiguration :: "'h io \<Rightarrow> u8 \<Rightarrow> memory \<Rightarrow> ('h, 'm) host_core_scheme
    \<Rightarrow> (u8 \<times> memory \<times> ('h, 'm) host_core_scheme) option" where
  "USB_Host_SetDeviceConfiguration D ConfigNumber m s =
     do {
       (ErrorCode, m, s) \<leftarrow> control_request D
          (request (REQDIR_HOSTTODEVICE OR REQTYPE_STANDARD OR REQREC_DEVICE) REQ_SetConfiguration (ucast ConfigNumber) 0 0) None m s;
       if ErrorCode = HOST_SENDCONTROL_Successful then
         Some (ErrorCode, m, hw_do (set_USB_HostState D
           (if ConfigNumber \<noteq> 0 then HOST_STATE_Configured else HOST_STATE_Addressed))
           (s\<lparr>USB_Host_ConfigurationNumber := ConfigNumber\<rparr>))
       else Some (ErrorCode, m, s)
     }"

definition USB_Host_GetDeviceConfiguration :: "'h io \<Rightarrow> nat \<Rightarrow> memory \<Rightarrow> ('h, 'm) host_core_scheme
    \<Rightarrow> (u8 \<times> memory \<times> ('h, 'm) host_core_scheme) option" where
  "USB_Host_GetDeviceConfiguration D ConfigNumber m s =
     control_request D (request (REQDIR_DEVICETOHOST OR REQTYPE_STANDARD OR REQREC_DEVICE) REQ_GetConfiguration 0 0 1)
       (Some ConfigNumber) m s"

definition USB_Host_GetDescriptor :: "'h io \<Rightarrow> u8 \<Rightarrow> u8 \<Rightarrow> nat \<Rightarrow> u8 \<Rightarrow> memory \<Rightarrow> ('h, 'm) host_core_scheme
    \<Rightarrow> (u8 \<times> memory \<times> ('h, 'm) host_core_scheme) option" where
  "USB_Host_GetDescriptor D Type Index Buffer BufferLength m s =
     control_request D (request (REQDIR_DEVICETOHOST OR REQTYPE_STANDARD OR REQREC_DEVICE) REQ_GetDescriptor
       (push_bit 8 (ucast Type) OR ucast Index) 0 (ucast BufferLength)) (Some Buffer) m s"

definition USB_Host_GetDeviceDescriptor :: "'h io \<Rightarrow> nat \<Rightarrow> memory \<Rightarrow> ('h, 'm) host_core_scheme
    \<Rightarrow> (u8 \<times> memory \<times> ('h, 'm) host_core_scheme) option" where
  "USB_Host_GetDeviceDescriptor D DeviceDescriptorPtr m s = USB_Host_GetDescriptor D 0x01 0 DeviceDescriptorPtr 18 m s"

definition USB_Host_GetDeviceStringDescriptor :: "'h io \<Rightarrow> u8 \<Rightarrow> nat \<Rightarrow> u8 \<Rightarrow> memory \<Rightarrow> ('h, 'm) host_core_scheme
    \<Rightarrow> (u8 \<times> memory \<times> ('h, 'm) host_core_scheme) option" where
  "USB_Host_GetDeviceStringDescriptor D Index Buffer BufferLength m s =
     USB_Host_GetDescriptor D 0x03 Index Buffer BufferLength m s"

definition USB_Host_GetDeviceStatus :: "'h io \<Rightarrow> nat \<Rightarrow> memory \<Rightarrow> ('h, 'm) host_core_scheme
    \<Rightarrow> (u8 \<times> memory \<times> ('h, 'm) host_core_scheme) option" where
  "USB_Host_GetDeviceStatus D FeatureStatus m s =
     control_request D (request (REQDIR_DEVICETOHOST OR REQTYPE_STANDARD OR REQREC_DEVICE) REQ_GetStatus 0 0 0)
       (Some FeatureStatus) m s"

definition USB_Host_ClearEndpointStall :: "'h io \<Rightarrow> u8 \<Rightarrow> memory \<Rightarrow> ('h, 'm) host_core_scheme
    \<Rightarrow> (u8 \<times> memory \<times> ('h, 'm) host_core_scheme) option" where
  "USB_Host_ClearEndpointStall D EndpointAddress m s =
     control_request D (request (REQDIR_HOSTTODEVICE OR REQTYPE_STANDARD OR REQREC_ENDPOINT) REQ_ClearFeature
       (ucast FEATURE_SEL_EndpointHalt) (ucast EndpointAddress) 0) None m s"

definition USB_Host_SetInterfaceAltSetting :: "'h io \<Rightarrow> u8 \<Rightarrow> u8 \<Rightarrow> memory \<Rightarrow> ('h, 'm) host_core_scheme
    \<Rightarrow> (u8 \<times> memory \<times> ('h, 'm) host_core_scheme) option" where
  "USB_Host_SetInterfaceAltSetting D InterfaceIndex AltSetting m s =
     control_request D (request (REQDIR_HOSTTODEVICE OR REQTYPE_STANDARD OR REQREC_INTERFACE) REQ_SetInterface
       (ucast AltSetting) (ucast InterfaceIndex) 0) None m s"

definition USB_Host_GetInterfaceAltSetting :: "'h io \<Rightarrow> u8 \<Rightarrow> nat \<Rightarrow> memory \<Rightarrow> ('h, 'm) host_core_scheme
    \<Rightarrow> (u8 \<times> memory \<times> ('h, 'm) host_core_scheme) option" where
  "USB_Host_GetInterfaceAltSetting D InterfaceIndex AltSetting m s =
     control_request D (request (REQDIR_DEVICETOHOST OR REQTYPE_STANDARD OR REQREC_INTERFACE) REQ_GetInterface
       0 (ucast InterfaceIndex) 1) (Some AltSetting) m s"

section \<open>ConfigDescriptors.c: fetching the configuration descriptor\<close>

abbreviation (input) "HOST_GETCONFIG_Successful \<equiv> 0 :: u8"
abbreviation (input) "HOST_GETCONFIG_BuffOverflow \<equiv> 5 :: u8"
abbreviation (input) "HOST_GETCONFIG_InvalidData \<equiv> 6 :: u8"

text \<open>
  \<open>ConfigHeader\<close> is a local array of nine bytes, apart from the memory of the caller; its total-size
  field is at offset 2. The result has the value stored through \<open>ConfigSizePtr\<close>, if any.
\<close>

definition USB_Host_GetDeviceConfigDescriptor :: "'h io \<Rightarrow> u8 \<Rightarrow> nat \<Rightarrow> u16 \<Rightarrow> memory \<Rightarrow> ('h, 'm) host_core_scheme
    \<Rightarrow> (u8 \<times> u16 option \<times> memory \<times> ('h, 'm) host_core_scheme) option" where
  "USB_Host_GetDeviceConfigDescriptor D ConfigNumber BufferPtr BufferSize m s =
     do {
       (ErrorCode, ConfigHeader, s) \<leftarrow> control_request D
          (request (REQDIR_DEVICETOHOST OR REQTYPE_STANDARD OR REQREC_DEVICE) REQ_GetDescriptor
            (push_bit 8 (ucast DTYPE_Configuration) OR (ucast ConfigNumber - 1)) 0 9) (Some 0) (stack_mem s) s;
       if ErrorCode \<noteq> HOST_SENDCONTROL_Successful then Some (ErrorCode, None, m, s)
       else
         let ConfigSize = u16_of_bytes [ConfigHeader 2, ConfigHeader 3] in
         if ConfigSize > BufferSize then Some (HOST_GETCONFIG_BuffOverflow, Some ConfigSize, m, s)
         else do {
           let s = s\<lparr>USB_ControlRequest := (USB_ControlRequest s)\<lparr>wLength := ConfigSize\<rparr>\<rparr>;
           (ErrorCode, m, s) \<leftarrow> USB_Host_SendControlRequest D (Some BufferPtr) m s;
           if ErrorCode \<noteq> HOST_SENDCONTROL_Successful then Some (ErrorCode, Some ConfigSize, m, s)
           else if DESCRIPTOR_TYPE m BufferPtr \<noteq> DTYPE_Configuration then Some (HOST_GETCONFIG_InvalidData, Some ConfigSize, m, s)
           else Some (HOST_GETCONFIG_Successful, Some ConfigSize, m, s) }
     }"

section \<open>USBController\_AVR8.c in host mode\<close>

definition USB_Init_Host :: "'h io \<Rightarrow> ('h, 'm) host_core_scheme \<Rightarrow> ('h, 'm) host_core_scheme" where
  "USB_Init_Host D s =
     (let s = hw_do (set_USB_HostState D HOST_STATE_Unattached) s;
          s = s\<lparr>USB_Host_ConfigurationNumber := 0, USB_Host_ControlPipeSize := PIPE_CONTROLPIPE_DEFAULT_SIZE\<rparr>;
          s = hw_do (USB_Host_HostMode_On D) s;
          s = hw_do (USB_Host_VBUS_Auto_Off D) s;
          s = hw_do (USB_Host_VBUS_Manual_Enable D) s;
          s = hw_do (USB_Host_VBUS_Manual_On D) s;
          s = hw_do (H_USB_INT_Enable D USB_INT_SRPI) s;
          s = hw_do (H_USB_INT_Enable D USB_INT_BCERRI) s
      in hw_do (USB_Attach D) s)"

definition H_USB_ResetInterface :: "'h io \<Rightarrow> ('h, 'm) host_core_scheme \<Rightarrow> ('h, 'm) host_core_scheme option" where
  "H_USB_ResetInterface D s =
     do {
       let s = hw_do (H_USB_INT_DisableAllInterrupts D) s;
       let s = hw_do (H_USB_INT_ClearAllInterrupts D) s;
       let s = hw_do (USB_Controller_Reset D) s;
       let s = hw_do (USB_CLK_Unfreeze D) s;
       let s = hw_do (io_and D UHWCON (NOT (BV UIMOD))) s;
       s \<leftarrow> (if USB_Options AND USB_OPT_MANUAL_PLL = 0
             then hw_try (USB_PLL_wait D) (hw_do (H_USB_PLL_On D) s) else Some s);
       let s = USB_Init_Host D s;
       Some (hw_do (USB_OTGPAD_On D) s)
     }"

definition H_USB_Init :: "'h io \<Rightarrow> ('h, 'm) host_core_scheme \<Rightarrow> ('h, 'm) host_core_scheme option" where
  "H_USB_Init D s =
     (let s = (if USB_Options AND USB_OPT_REG_DISABLED = 0 then hw_do (H_USB_REG_On D) s
               else hw_do (H_USB_REG_Off D) s)
      in H_USB_ResetInterface D (s\<lparr>USB_IsInitialized := True\<rparr>))"

definition H_USB_Disable :: "'h io \<Rightarrow> ('h, 'm) host_core_scheme \<Rightarrow> ('h, 'm) host_core_scheme" where
  "H_USB_Disable D s =
     (let s = hw_do (H_USB_INT_DisableAllInterrupts D) s;
          s = hw_do (H_USB_INT_ClearAllInterrupts D) s;
          s = hw_do (USB_Detach D) s;
          s = hw_do (USB_Controller_Disable D) s;
          s = (if USB_Options AND USB_OPT_MANUAL_PLL = 0 then hw_do (USB_PLL_Off D) s else s);
          s = hw_do (H_USB_REG_Off D) s;
          s = hw_do (USB_OTGPAD_Off D) s
      in s\<lparr>USB_IsInitialized := False\<rparr>)"

section \<open>Host\_AVR8.c: enumeration\<close>

abbreviation (input) "HOST_ENUMERROR_NoError \<equiv> 0 :: u8"
abbreviation (input) "HOST_ENUMERROR_WaitStage \<equiv> 1 :: u8"
abbreviation (input) "HOST_ENUMERROR_NoDeviceDetected \<equiv> 2 :: u8"
abbreviation (input) "HOST_ENUMERROR_ControlError \<equiv> 3 :: u8"
abbreviation (input) "HOST_ENUMERROR_PipeConfigError \<equiv> 4 :: u8"
abbreviation (input) "HOST_ERROR_VBusVoltageDip \<equiv> 0 :: u8"
abbreviation (input) "HOST_DEVICE_SETTLE_DELAY_MS \<equiv> 1000 :: u16"
abbreviation (input) "USB_HOST_DEVICEADDRESS \<equiv> 1 :: u8"

text \<open>\<open>for (uint8_t MSRem = 10; MSRem != 0; MSRem--)\<close>; the delay only lets time pass.\<close>

primrec reset_frames :: "'h io \<Rightarrow> nat \<Rightarrow> 'h \<Rightarrow> 'h" where
  "reset_frames D 0 h = h"
| "reset_frames D (Suc MSRem) h =
     (let (sof, h) = H_USB_INT_HasOccurred D USB_INT_HSOFI h in
      if sof then H_USB_INT_Clear D USB_INT_DDISCI (H_USB_INT_Clear D USB_INT_HSOFI h)
      else reset_frames D MSRem h)"

definition USB_Host_ResetDevice :: "'h io \<Rightarrow> ('h, 'm) host_core_scheme \<Rightarrow> ('h, 'm) host_core_scheme option" where
  "USB_Host_ResetDevice D s =
     do {
       let (BusSuspended, s) = hw_get (USB_Host_IsBusSuspended D) s;
       let s = hw_do (H_USB_INT_Disable D USB_INT_DDISCI) s;
       let s = hw_do (USB_Host_ResetBus D) s;
       s \<leftarrow> hw_try (loop (\<lambda>h. let (b, h) = USB_Host_IsBusResetComplete D h in
              if b then Some (Inl h) else Some (Inr h))) s;
       let s = hw_do (USB_Host_ResumeBus D) s;
       let s = s\<lparr>USB_Host_ConfigurationNumber := 0\<rparr>;
       let (HSOFIEnabled, s) = hw_get (H_USB_INT_IsEnabled D USB_INT_HSOFI) s;
       let s = hw_do (H_USB_INT_Disable D USB_INT_HSOFI) s;
       let s = hw_do (H_USB_INT_Clear D USB_INT_HSOFI) s;
       let s = hw_do (reset_frames D 10) s;
       let s = (if HSOFIEnabled then hw_do (H_USB_INT_Enable D USB_INT_HSOFI) s else s);
       let s = (if BusSuspended then hw_do (USB_Host_SuspendBus D) s else s);
       Some (hw_do (H_USB_INT_Enable D USB_INT_DDISCI) s)
     }"

definition HOST_TASK_NONBLOCK_WAIT :: "'h io \<Rightarrow> u16 \<Rightarrow> u8 \<Rightarrow> ('h, 'm) host_core_scheme \<Rightarrow> ('h, 'm) host_core_scheme" where
  "HOST_TASK_NONBLOCK_WAIT D Duration NextState s =
     (hw_do (set_USB_HostState D HOST_STATE_WaitForDevice) s)\<lparr>WaitMSRemaining := Duration, PostWaitState := NextState\<rparr>"

text \<open>The branches of the switch; each returns \<open>ErrorCode\<close> and \<open>SubErrorCode\<close>.\<close>

definition host_wait_for_device :: "'h io \<Rightarrow> ('h, 'm) host_core_scheme \<Rightarrow> (u8 \<times> u8 \<times> ('h, 'm) host_core_scheme) option" where
  "host_wait_for_device D s =
     (if WaitMSRemaining s = 0 then Some (HOST_ENUMERROR_NoError, 0, s)
      else do {
        (SubErrorCode, s) \<leftarrow> hw_tryget (USB_Host_WaitMS D 1) s;
        if SubErrorCode \<noteq> HOST_WAITERROR_Successful then
          Some (HOST_ENUMERROR_WaitStage, SubErrorCode, hw_do (set_USB_HostState D (PostWaitState s)) s)
        else
          let s = s\<lparr>WaitMSRemaining := WaitMSRemaining s - 1\<rparr> in
          Some (HOST_ENUMERROR_NoError, SubErrorCode,
            if WaitMSRemaining s = 0 then hw_do (set_USB_HostState D (PostWaitState s)) s else s) })"

definition host_settle :: "'h io \<Rightarrow> ('h, 'm) host_core_scheme \<Rightarrow> ('h, 'm) host_core_scheme" where
  "host_settle D s =
     (let Remaining = WaitMSRemaining s;
          s = s\<lparr>WaitMSRemaining := Remaining - 1\<rparr>
      in if Remaining \<noteq> 0 then s
      else let s = hw_do (USB_Host_VBUS_Manual_Off D) s;
               s = hw_do (USB_OTGPAD_On D) s;
               s = hw_do (USB_Host_VBUS_Auto_Enable D) s;
               s = hw_do (USB_Host_VBUS_Auto_On D) s
           in hw_do (set_USB_HostState D HOST_STATE_Powered_WaitForConnect) s)"

definition host_wait_connect :: "'h io \<Rightarrow> ('h, 'm) host_core_scheme \<Rightarrow> ('h, 'm) host_core_scheme" where
  "host_wait_connect D s =
     (let (connected, s) = hw_get (H_USB_INT_HasOccurred D USB_INT_DCONNI) s in
      if connected then
        let s = hw_do (H_USB_INT_Clear D USB_INT_DCONNI) s;
            s = hw_do (H_USB_INT_Clear D USB_INT_DDISCI) s;
            s = hw_do (H_USB_INT_Clear D USB_INT_VBERRI) s;
            s = hw_do (H_USB_INT_Enable D USB_INT_VBERRI) s;
            s = hw_do (USB_Host_ResumeBus D) s;
            s = hw_do (Pipe_ClearPipes D) s
        in HOST_TASK_NONBLOCK_WAIT D 100 HOST_STATE_Powered_DoReset s
      else s)"

definition host_config_pipe :: "'h io \<Rightarrow> ('h, 'm) host_core_scheme \<Rightarrow> (u8 \<times> u8 \<times> ('h, 'm) host_core_scheme) option" where
  "host_config_pipe D s =
     do {
       (ok, s) \<leftarrow> hw_tryget (Pipe_ConfigurePipe D PIPE_CONTROLPIPE EP_TYPE_CONTROL ENDPOINT_CONTROLEP
                     (ucast PIPE_CONTROLPIPE_DEFAULT_SIZE) 1) s;
       if \<not> ok then Some (HOST_ENUMERROR_PipeConfigError, 0, s)
       else Some (HOST_ENUMERROR_NoError, 0, hw_do (set_USB_HostState D HOST_STATE_Default) s)
     }"

text \<open>\<open>offsetof(USB_Descriptor_Device_t, Endpoint0Size)\<close> is 7.\<close>

definition host_default :: "'h io \<Rightarrow> ('h, 'm) host_core_scheme \<Rightarrow> (u8 \<times> u8 \<times> ('h, 'm) host_core_scheme) option" where
  "host_default D s =
     do {
       (SubErrorCode, DataBuffer, s) \<leftarrow> control_request D
          (request (REQDIR_DEVICETOHOST OR REQTYPE_STANDARD OR REQREC_DEVICE) REQ_GetDescriptor (push_bit 8 0x01) 0 8)
          (Some 0) (stack_mem s) s;
       if SubErrorCode \<noteq> HOST_SENDCONTROL_Successful then Some (HOST_ENUMERROR_ControlError, SubErrorCode, s)
       else do {
         s \<leftarrow> USB_Host_ResetDevice D (s\<lparr>USB_Host_ControlPipeSize := DataBuffer 7\<rparr>);
         Some (HOST_ENUMERROR_NoError, SubErrorCode, HOST_TASK_NONBLOCK_WAIT D 200 HOST_STATE_Default_PostReset s) }
     }"

definition host_post_reset :: "'h io \<Rightarrow> ('h, 'm) host_core_scheme \<Rightarrow> (u8 \<times> u8 \<times> ('h, 'm) host_core_scheme) option" where
  "host_post_reset D s =
     do {
       (ok, s) \<leftarrow> hw_tryget (Pipe_ConfigurePipe D PIPE_CONTROLPIPE EP_TYPE_CONTROL ENDPOINT_CONTROLEP
                     (ucast (USB_Host_ControlPipeSize s)) 1) s;
       if \<not> ok then Some (HOST_ENUMERROR_PipeConfigError, 0, s)
       else do {
         let s = s\<lparr>USB_ControlRequest :=
           request (REQDIR_HOSTTODEVICE OR REQTYPE_STANDARD OR REQREC_DEVICE) REQ_SetAddress (ucast USB_HOST_DEVICEADDRESS) 0 0\<rparr>;
         (SubErrorCode, _, s) \<leftarrow> USB_Host_SendControlRequest D None (stack_mem s) s;
         if SubErrorCode \<noteq> HOST_SENDCONTROL_Successful then Some (HOST_ENUMERROR_ControlError, SubErrorCode, s)
         else Some (HOST_ENUMERROR_NoError, SubErrorCode, HOST_TASK_NONBLOCK_WAIT D 100 HOST_STATE_Default_PostAddressSet s) }
     }"

definition host_switch :: "'h io \<Rightarrow> ('h, 'm) host_core_scheme host_app \<Rightarrow> u8 \<Rightarrow> ('h, 'm) host_core_scheme
    \<Rightarrow> (u8 \<times> u8 \<times> ('h, 'm) host_core_scheme) option" where
  "host_switch D A state s =
     (let ok = (\<lambda>s. (HOST_ENUMERROR_NoError, 0, s)) in
      if state = HOST_STATE_WaitForDevice then host_wait_for_device D s
      else if state = HOST_STATE_Powered then
        Some (ok (hw_do (set_USB_HostState D HOST_STATE_Powered_WaitForDeviceSettle)
          (s\<lparr>WaitMSRemaining := HOST_DEVICE_SETTLE_DELAY_MS\<rparr>)))
      else if state = HOST_STATE_Powered_WaitForDeviceSettle then Some (ok (host_settle D s))
      else if state = HOST_STATE_Powered_WaitForConnect then Some (ok (host_wait_connect D s))
      else if state = HOST_STATE_Powered_DoReset then
        map_option (\<lambda>s. ok (HOST_TASK_NONBLOCK_WAIT D 200 HOST_STATE_Powered_ConfigPipe s)) (USB_Host_ResetDevice D s)
      else if state = HOST_STATE_Powered_ConfigPipe then host_config_pipe D s
      else if state = HOST_STATE_Default then host_default D s
      else if state = HOST_STATE_Default_PostReset then host_post_reset D s
      else if state = HOST_STATE_Default_PostAddressSet then
        map_option ok (EVENT_DeviceEnumerationComplete A
          (hw_do (set_USB_HostState D HOST_STATE_Addressed) (hw_do (USB_Host_SetDeviceAddress D USB_HOST_DEVICEADDRESS) s)))
      else Some (ok s))"

definition USB_Host_ProcessNextHostState :: "'h io \<Rightarrow> ('h, 'm) host_core_scheme host_app \<Rightarrow> ('h, 'm) host_core_scheme
    \<Rightarrow> ('h, 'm) host_core_scheme option" where
  "USB_Host_ProcessNextHostState D A s =
     do {
       let (state, s) = hw_get (USB_HostState D) s;
       (ErrorCode, SubErrorCode, s) \<leftarrow> host_switch D A state s;
       if ErrorCode = HOST_ENUMERROR_NoError then Some s
       else let (state, s) = hw_get (USB_HostState D) s in
         if state = HOST_STATE_Unattached then Some s
         else do {
           s \<leftarrow> EVENT_DeviceEnumerationFailed A ErrorCode SubErrorCode s;
           let s = hw_do (USB_Host_VBUS_Auto_Off D) s;
           s \<leftarrow> EVENT_DeviceUnattached A s;
           H_USB_ResetInterface D s }
     }"

text \<open>\<open>USBTask.c\<close> with \<open>USB_HOST_ONLY\<close>.\<close>

definition USB_HostTask :: "'h io \<Rightarrow> ('h, 'm) host_core_scheme host_app \<Rightarrow> ('h, 'm) host_core_scheme
    \<Rightarrow> ('h, 'm) host_core_scheme option" where
  "USB_HostTask D A s =
     do {
       let (PrevPipe, s) = hw_get (Pipe_GetCurrentPipe D) s;
       let s = hw_do (Pipe_SelectPipe D PIPE_CONTROLPIPE) s;
       s \<leftarrow> USB_Host_ProcessNextHostState D A s;
       Some (hw_do (Pipe_SelectPipe D PrevPipe) s)
     }"

definition H_USB_USBTask :: "'h io \<Rightarrow> ('h, 'm) host_core_scheme host_app \<Rightarrow> ('h, 'm) host_core_scheme
    \<Rightarrow> ('h, 'm) host_core_scheme option" where
  "H_USB_USBTask D A s = USB_HostTask D A s"

section \<open>USBInterrupt\_AVR8.c in host mode\<close>

definition H_USB_GEN_vect :: "'h io \<Rightarrow> ('h, 'm) host_core_scheme host_app \<Rightarrow> ('h, 'm) host_core_scheme
    \<Rightarrow> ('h, 'm) host_core_scheme option" where
  "H_USB_GEN_vect D A s =
     do {
       let (p, s) = hw_get (H_int_pending D USB_INT_HSOFI) s;
       s \<leftarrow> (if p then EVENT_HostStartOfFrame A (hw_do (H_USB_INT_Clear D USB_INT_HSOFI) s) else Some s);
       let (p, s) = hw_get (H_int_pending D USB_INT_DDISCI) s;
       s \<leftarrow> (if p then do {
               let s = hw_do (H_USB_INT_Clear D USB_INT_DDISCI) s;
               let s = hw_do (H_USB_INT_Clear D USB_INT_DCONNI) s;
               let s = hw_do (H_USB_INT_Disable D USB_INT_DDISCI) s;
               s \<leftarrow> EVENT_DeviceUnattached A s;
               H_USB_ResetInterface D s }
             else Some s);
       let (p, s) = hw_get (H_int_pending D USB_INT_VBERRI) s;
       s \<leftarrow> (if p then do {
               let s = hw_do (H_USB_INT_Clear D USB_INT_VBERRI) s;
               let s = hw_do (USB_Host_VBUS_Manual_Off D) s;
               let s = hw_do (USB_Host_VBUS_Auto_Off D) s;
               s \<leftarrow> EVENT_HostError A HOST_ERROR_VBusVoltageDip s;
               s \<leftarrow> EVENT_DeviceUnattached A s;
               Some (hw_do (set_USB_HostState D HOST_STATE_Unattached) s) }
             else Some s);
       let (p, s) = hw_get (H_int_pending D USB_INT_SRPI) s;
       s \<leftarrow> (if p then do {
               let s = hw_do (H_USB_INT_Clear D USB_INT_SRPI) s;
               let s = hw_do (H_USB_INT_Disable D USB_INT_SRPI) s;
               s \<leftarrow> EVENT_DeviceAttached A s;
               let s = hw_do (H_USB_INT_Enable D USB_INT_DDISCI) s;
               Some (hw_do (set_USB_HostState D HOST_STATE_Powered) s) }
             else Some s);
       let (p, s) = hw_get (H_int_pending D USB_INT_BCERRI) s;
       (if p then do {
          let s = hw_do (H_USB_INT_Clear D USB_INT_BCERRI) s;
          s \<leftarrow> EVENT_DeviceEnumerationFailed A HOST_ENUMERROR_NoDeviceDetected 0 s;
          s \<leftarrow> EVENT_DeviceUnattached A s;
          H_USB_ResetInterface D s }
        else Some s)
     }"

end
