(* ===== verification/Pipe_Stream.thy ===== *)
theory Pipe_Stream
  imports Usb_Host Byte_Stream
begin

text \<open>
  Multi-byte transfers of the host: \<open>LUFA/Drivers/USB/Core/AVR8/PipeStream_AVR8.c\<close> and the function
  template it instantiates, \<open>Template_Pipe_RW.c\<close>, modelled like the endpoint streams in \<open>Usb_Stream\<close>: the
  template macros are parameters, the buffer is a list of bytes, \<open>DataStream\<close> an index into it, and
  \<open>BytesProcessed\<close> is \<open>None\<close> for a null pointer.
\<close>

abbreviation (input) "PIPE_RWSTREAM_NoError \<equiv> 0 :: u8"
abbreviation (input) "PIPE_RWSTREAM_IncompleteTransfer \<equiv> 5 :: u8"

text \<open>\<open>TEMPLATE_TRANSFER_BYTE\<close> of the writing and of the reading instances.\<close>

definition pipe_write_byte :: "'h io \<Rightarrow> 'h xfer" where
  "pipe_write_byte D p Buf h = (Buf, Pipe_Write_8 D (Buf ! nat p) h)"

definition pipe_read_byte :: "'h io \<Rightarrow> 'h xfer" where
  "pipe_read_byte D p Buf h = (let (v, h) = Pipe_Read_8 D h in (Buf[nat p := v], h))"

section \<open>Template\_Pipe\_RW.c\<close>

definition pipe_rw_turn :: "'h io \<Rightarrow> ('h \<Rightarrow> 'h) \<Rightarrow> int \<Rightarrow> 'h xfer \<Rightarrow> u16 option
    \<Rightarrow> u16 \<times> int \<times> u16 \<times> u8 list \<times> 'h
    \<Rightarrow> ((u8 \<times> u16 option \<times> u8 list \<times> 'h) + (u16 \<times> int \<times> u16 \<times> u8 list \<times> 'h)) option" where
  "pipe_rw_turn D clear move xfer BytesProcessed = (\<lambda>(Length, DataStream, BytesInTransfer, Buf, h).
     if Length = 0 then Some (Inl (PIPE_RWSTREAM_NoError, BytesProcessed, Buf, h))
     else let (allowed, h) = Pipe_IsReadWriteAllowed D h in
       if \<not> allowed then
         let h = clear h in
         (case BytesProcessed of
            Some n \<Rightarrow> Some (Inl (PIPE_RWSTREAM_IncompleteTransfer, Some (n + BytesInTransfer), Buf, h))
          | None \<Rightarrow> do {
              (ErrorCode, h) \<leftarrow> Pipe_WaitUntilReady D h;
              if ErrorCode \<noteq> 0 then Some (Inl (ErrorCode, BytesProcessed, Buf, h))
              else Some (Inr (Length, DataStream, BytesInTransfer, Buf, h)) })
       else
         let (Buf, h) = xfer DataStream Buf h
         in Some (Inr (Length - 1, DataStream + move, BytesInTransfer + 1, Buf, h)))"

definition Template_Pipe_RW :: "'h io \<Rightarrow> u8 \<Rightarrow> ('h \<Rightarrow> 'h) \<Rightarrow> (u16 \<Rightarrow> int) \<Rightarrow> int \<Rightarrow> 'h xfer
    \<Rightarrow> u8 list \<Rightarrow> u16 \<Rightarrow> u16 option \<Rightarrow> 'h \<Rightarrow> (u8 \<times> u16 option \<times> u8 list \<times> 'h) option" where
  "Template_Pipe_RW D token clear offset move xfer Buf Length BytesProcessed h =
     do {
       let DataStream = offset Length;
       let h = Pipe_SetPipeToken D token h;
       (ErrorCode, h) \<leftarrow> Pipe_WaitUntilReady D h;
       if ErrorCode \<noteq> 0 then Some (ErrorCode, BytesProcessed, Buf, h)
       else
         (case BytesProcessed of
            None \<Rightarrow> loop (pipe_rw_turn D clear move xfer BytesProcessed) (Length, DataStream, 0, Buf, h)
          | Some n \<Rightarrow> loop (pipe_rw_turn D clear move xfer BytesProcessed)
              (Length - n, DataStream + move * uint n, 0, Buf, h))
     }"

definition Pipe_Write_Stream_LE :: "'h io \<Rightarrow> u8 list \<Rightarrow> u16 \<Rightarrow> u16 option \<Rightarrow> 'h \<Rightarrow> (u8 \<times> u16 option \<times> u8 list \<times> 'h) option" where
  "Pipe_Write_Stream_LE D = Template_Pipe_RW D PIPE_TOKEN_OUT (Pipe_ClearOUT D) offset_LE 1 (pipe_write_byte D)"

definition Pipe_Write_Stream_BE :: "'h io \<Rightarrow> u8 list \<Rightarrow> u16 \<Rightarrow> u16 option \<Rightarrow> 'h \<Rightarrow> (u8 \<times> u16 option \<times> u8 list \<times> 'h) option" where
  "Pipe_Write_Stream_BE D = Template_Pipe_RW D PIPE_TOKEN_OUT (Pipe_ClearOUT D) offset_BE (-1) (pipe_write_byte D)"

definition Pipe_Read_Stream_LE :: "'h io \<Rightarrow> u8 list \<Rightarrow> u16 \<Rightarrow> u16 option \<Rightarrow> 'h \<Rightarrow> (u8 \<times> u16 option \<times> u8 list \<times> 'h) option" where
  "Pipe_Read_Stream_LE D = Template_Pipe_RW D PIPE_TOKEN_IN (Pipe_ClearIN D) offset_LE 1 (pipe_read_byte D)"

definition Pipe_Read_Stream_BE :: "'h io \<Rightarrow> u8 list \<Rightarrow> u16 \<Rightarrow> u16 option \<Rightarrow> 'h \<Rightarrow> (u8 \<times> u16 option \<times> u8 list \<times> 'h) option" where
  "Pipe_Read_Stream_BE D = Template_Pipe_RW D PIPE_TOKEN_IN (Pipe_ClearIN D) offset_BE (-1) (pipe_read_byte D)"

text \<open>The flash (P) and EEPROM (E) instances differ in where the buffer lies.\<close>

definition Pipe_Write_PStream_LE :: "'h io \<Rightarrow> u8 list \<Rightarrow> u16 \<Rightarrow> u16 option \<Rightarrow> 'h \<Rightarrow> (u8 \<times> u16 option \<times> u8 list \<times> 'h) option" where
  "Pipe_Write_PStream_LE D = Template_Pipe_RW D PIPE_TOKEN_OUT (Pipe_ClearOUT D) offset_LE 1 (pipe_write_byte D)"

definition Pipe_Write_PStream_BE :: "'h io \<Rightarrow> u8 list \<Rightarrow> u16 \<Rightarrow> u16 option \<Rightarrow> 'h \<Rightarrow> (u8 \<times> u16 option \<times> u8 list \<times> 'h) option" where
  "Pipe_Write_PStream_BE D = Template_Pipe_RW D PIPE_TOKEN_OUT (Pipe_ClearOUT D) offset_BE (-1) (pipe_write_byte D)"

definition Pipe_Write_EStream_LE :: "'h io \<Rightarrow> u8 list \<Rightarrow> u16 \<Rightarrow> u16 option \<Rightarrow> 'h \<Rightarrow> (u8 \<times> u16 option \<times> u8 list \<times> 'h) option" where
  "Pipe_Write_EStream_LE D = Template_Pipe_RW D PIPE_TOKEN_OUT (Pipe_ClearOUT D) offset_LE 1 (pipe_write_byte D)"

definition Pipe_Write_EStream_BE :: "'h io \<Rightarrow> u8 list \<Rightarrow> u16 \<Rightarrow> u16 option \<Rightarrow> 'h \<Rightarrow> (u8 \<times> u16 option \<times> u8 list \<times> 'h) option" where
  "Pipe_Write_EStream_BE D = Template_Pipe_RW D PIPE_TOKEN_OUT (Pipe_ClearOUT D) offset_BE (-1) (pipe_write_byte D)"

definition Pipe_Read_EStream_LE :: "'h io \<Rightarrow> u8 list \<Rightarrow> u16 \<Rightarrow> u16 option \<Rightarrow> 'h \<Rightarrow> (u8 \<times> u16 option \<times> u8 list \<times> 'h) option" where
  "Pipe_Read_EStream_LE D = Template_Pipe_RW D PIPE_TOKEN_IN (Pipe_ClearIN D) offset_LE 1 (pipe_read_byte D)"

definition Pipe_Read_EStream_BE :: "'h io \<Rightarrow> u8 list \<Rightarrow> u16 \<Rightarrow> u16 option \<Rightarrow> 'h \<Rightarrow> (u8 \<times> u16 option \<times> u8 list \<times> 'h) option" where
  "Pipe_Read_EStream_BE D = Template_Pipe_RW D PIPE_TOKEN_IN (Pipe_ClearIN D) offset_BE (-1) (pipe_read_byte D)"

section \<open>PipeStream\_AVR8.c\<close>

definition Pipe_Discard_Stream :: "'h io \<Rightarrow> u16 \<Rightarrow> u16 option \<Rightarrow> 'h \<Rightarrow> (u8 \<times> u16 option \<times> u8 list \<times> 'h) option" where
  "Pipe_Discard_Stream D Length BytesProcessed h =
     Template_Pipe_RW D PIPE_TOKEN_IN (Pipe_ClearIN D) offset_LE 1
       (\<lambda>_ Buf h. (Buf, Pipe_Discard_8 D h)) [] Length BytesProcessed h"

text \<open>\<open>Pipe_Null_Stream\<close> runs the USB task before it waits for the next bank, so it works on the whole state.\<close>

definition pipe_null_turn :: "'h io \<Rightarrow> ('h, 'm) host_core_scheme host_app \<Rightarrow> u16 option
    \<Rightarrow> u16 \<times> u16 \<times> ('h, 'm) host_core_scheme
    \<Rightarrow> ((u8 \<times> u16 option \<times> ('h, 'm) host_core_scheme) + (u16 \<times> u16 \<times> ('h, 'm) host_core_scheme)) option" where
  "pipe_null_turn D A BytesProcessed = (\<lambda>(Length, BytesInTransfer, s).
     if Length = 0 then Some (Inl (PIPE_RWSTREAM_NoError, BytesProcessed, s))
     else let (allowed, s) = hw_get (Pipe_IsReadWriteAllowed D) s in
       if \<not> allowed then
         let s = hw_do (Pipe_ClearOUT D) s in
         (case BytesProcessed of
            Some n \<Rightarrow> Some (Inl (PIPE_RWSTREAM_IncompleteTransfer, Some (n + BytesInTransfer), s))
          | None \<Rightarrow> do {
              s \<leftarrow> H_USB_USBTask D A s;
              (ErrorCode, s) \<leftarrow> hw_tryget (Pipe_WaitUntilReady D) s;
              if ErrorCode \<noteq> 0 then Some (Inl (ErrorCode, BytesProcessed, s))
              else Some (Inr (Length, BytesInTransfer, s)) })
       else Some (Inr (Length - 1, BytesInTransfer + 1, hw_do (Pipe_Write_8 D 0) s)))"

definition Pipe_Null_Stream :: "'h io \<Rightarrow> ('h, 'm) host_core_scheme host_app \<Rightarrow> u16 \<Rightarrow> u16 option
    \<Rightarrow> ('h, 'm) host_core_scheme \<Rightarrow> (u8 \<times> u16 option \<times> ('h, 'm) host_core_scheme) option" where
  "Pipe_Null_Stream D A Length BytesProcessed s =
     do {
       let s = hw_do (Pipe_SetPipeToken D PIPE_TOKEN_OUT) s;
       (ErrorCode, s) \<leftarrow> hw_tryget (Pipe_WaitUntilReady D) s;
       if ErrorCode \<noteq> 0 then Some (ErrorCode, BytesProcessed, s)
       else loop (pipe_null_turn D A BytesProcessed)
         (case BytesProcessed of None \<Rightarrow> Length | Some n \<Rightarrow> Length - n, 0, s)
     }"

section \<open>Bytes on a pipe\<close>

text \<open>The device \<open>D\<close> with a record of every byte written to the data register of a pipe.\<close>

definition pipe_tap :: "'h io \<Rightarrow> ('h \<times> u8 list) io" where
  "pipe_tap D = \<lparr>io_rd = (\<lambda>r (h, w). let (v, h) = io_rd D r h in (v, h, w)),
     io_wr = (\<lambda>r v (h, w). (io_wr D r v h, if r = UPDATX then w @ [v] else w)), io_sig = io_sig D\<rparr>"

lemma pipe_tap_io [simp]:
  "snd (snd (io_rd (pipe_tap D) r t)) = snd t" "snd (io_wr (pipe_tap D) r v t) = (if r = UPDATX then snd t @ [v] else snd t)"
  "snd (snd (io_test (pipe_tap D) r n t)) = snd t" "r \<noteq> UPDATX \<Longrightarrow> snd (io_and (pipe_tap D) r m t) = snd t"
  by (simp_all add: pipe_tap_def io_test_def io_and_def Let_def split_beta)

lemma pipe_wait_turn_tap:
  "pipe_wait_turn (pipe_tap D) (p, k, t) = Some (Inr (p', k', t')) \<Longrightarrow> snd t' = snd t"
  "pipe_wait_turn (pipe_tap D) (p, k, t) = Some (Inl (e, t')) \<Longrightarrow> snd t' = snd t"
  by (auto simp: pipe_wait_turn_def Pipe_GetPipeToken_def Pipe_IsINReceived_def Pipe_IsOUTReady_def Pipe_IsStalled_def
      USB_HostState_def USB_Host_GetFrameNumber_def Let_def split_beta split: if_splits)

lemma pipe_wait_tap:
  assumes "Pipe_WaitUntilReady (pipe_tap D) t = Some (e, t')"
  shows "snd t' = snd t"
proof -
  let ?g = "USB_Host_GetFrameNumber (pipe_tap D) t"
  have "loop (pipe_wait_turn (pipe_tap D)) (fst ?g, USB_STREAM_TIMEOUT_MS, snd ?g) = Some (e, t')"
    using assms by (simp add: Pipe_WaitUntilReady_def split_beta)
  then have "snd (snd (e, t')) = snd (snd ?g)"
    by (rule loop_invariant [where I = "\<lambda>(p, k, u). snd u = snd (snd ?g)"]) (auto dest: pipe_wait_turn_tap)
  then show ?thesis by (simp add: USB_Host_GetFrameNumber_def Let_def split_beta)
qed

lemma pipe_turn_steps:
  "pipe_rw_turn D clear move xfer bp (0, p, n, Buf, h) = Some (Inl (PIPE_RWSTREAM_NoError, bp, Buf, h))"
  "L \<noteq> 0 \<Longrightarrow> \<not> fst (Pipe_IsReadWriteAllowed D h) \<Longrightarrow> pipe_rw_turn D clear move xfer (Some b) (L, p, n, Buf, h)
     = Some (Inl (PIPE_RWSTREAM_IncompleteTransfer, Some (b + n), Buf, clear (snd (Pipe_IsReadWriteAllowed D h))))"
  "L \<noteq> 0 \<Longrightarrow> fst (Pipe_IsReadWriteAllowed D h) \<Longrightarrow> pipe_rw_turn D clear move (pipe_write_byte D) bp (L, p, n, Buf, h)
     = Some (Inr (L - 1, p + move, n + 1, Buf, Pipe_Write_8 D (Buf ! nat p) (snd (Pipe_IsReadWriteAllowed D h))))"
  by (simp_all add: pipe_rw_turn_def pipe_write_byte_def split_beta)

interpretation pipe_stream: byte_stream "\<lambda>move. pipe_rw_turn (pipe_tap D) (Pipe_ClearOUT (pipe_tap D)) move (pipe_write_byte (pipe_tap D))"
    "Pipe_IsReadWriteAllowed (pipe_tap D)" "Pipe_ClearOUT (pipe_tap D)" "Pipe_Write_8 (pipe_tap D)" snd for D
  by unfold_locales (simp_all add: pipe_turn_steps Pipe_IsReadWriteAllowed_def Pipe_ClearOUT_def Pipe_Write_8_def)

text \<open>C25. The write streams of the host keep the promise of those of the device: given a byte counter, and once the
  wait for the pipe that a call begins with has succeeded, the call returns however the pipe fills up, has written the piece of the buffer that begins where the counter
  says (backwards from the end for the big-endian variant), and ends either with everything sent, or
  with an incomplete transfer and the counter moved past exactly the bytes written.\<close>

theorem pipe_stream_resumes:
  assumes "Pipe_WaitUntilReady (pipe_tap D) (Pipe_SetPipeToken (pipe_tap D) PIPE_TOKEN_OUT t) = Some (0, u)"
    and "n \<le> Length" "unat Length \<le> length Buf"
  shows "\<exists>k e m t'. (if be then Pipe_Write_Stream_BE else Pipe_Write_Stream_LE) (pipe_tap D) Buf Length (Some n) t
       = Some (e, Some m, Buf, t')
     \<and> snd t' = snd t @ take k (drop (unat n) ((if be then rev else id) (take (unat Length) Buf)))
     \<and> (e = PIPE_RWSTREAM_NoError \<and> k = unat Length - unat n
        \<or> e = PIPE_RWSTREAM_IncompleteTransfer \<and> k < unat Length - unat n \<and> m = n + of_nat k)"
proof -
  have "snd u = snd t"
    using pipe_wait_tap [OF assms(1)] by (simp add: Pipe_SetPipeToken_def Let_def split_beta)
  then show ?thesis using pipe_stream.resume_piece [OF assms(2,3), of D be u] assms(1)
    by (cases be) (auto simp: Pipe_Write_Stream_BE_def Pipe_Write_Stream_LE_def Template_Pipe_RW_def Let_def)
qed

text \<open>A controller whose bank has room for as many bytes as its state says.\<close>

definition roomy :: "nat io" where
  "roomy = \<lparr>io_rd = (\<lambda>r n. (if r = UPINTX then if n = 0 then 0x05 else 0x25 else 0, n)),
     io_wr = (\<lambda>r v n. if r = UPDATX then n - 1 else n), io_sig = (\<lambda>_. 0)\<rparr>"

theorem pipe_stream_resumes_witness:
  "\<exists>k e m t'. Pipe_Write_Stream_LE (pipe_tap roomy) [1, 2, 3] 3 (Some 1) (1, []) = Some (e, Some m, [1, 2, 3], t')
     \<and> snd t' = take k [2, 3] \<and> (e = 0 \<and> k = 2 \<or> e = 5 \<and> k < 2 \<and> m = 1 + of_nat k)"
proof -
  have "pipe_wait_turn (pipe_tap roomy) (f, k, 1, []) = Some (Inl (0, 1, []))" for f k
    by (simp add: pipe_wait_turn_def Pipe_GetPipeToken_def Pipe_IsINReceived_def Pipe_IsOUTReady_def io_test_bit pipe_tap_def roomy_def Let_def
        PIPE_TOKEN_IN_def)
  then have "loop (pipe_wait_turn (pipe_tap roomy)) (f, k, 1, []) = Some (0, 1, [])" for f k
    by (rule loop_turn(1))
  moreover have "Pipe_SetPipeToken (pipe_tap roomy) PIPE_TOKEN_OUT (1, []) = (1, [])"
    "snd (USB_Host_GetFrameNumber (pipe_tap roomy) (1, [])) = (1, [])"
    by (simp_all add: Pipe_SetPipeToken_def USB_Host_GetFrameNumber_def pipe_tap_def roomy_def Let_def)
  ultimately have "Pipe_WaitUntilReady (pipe_tap roomy) (Pipe_SetPipeToken (pipe_tap roomy) PIPE_TOKEN_OUT (1, [])) = Some (0, 1, [])"
    by (simp add: Pipe_WaitUntilReady_def split_beta)
  from pipe_stream_resumes [OF this, of 1 3 "[1, 2, 3]" False] show ?thesis by simp
qed

end
