(* ===== verification/Pipe_Registers.thy ===== *)
theory Pipe_Registers
  imports Usb_Pipe
begin

text \<open>
  The registers the pipe functions of \<open>Usb_Pipe\<close> work on, as the data sheet of the controller describes them
  (\<open>pipe_unit\<close>, for any controller \<open>D\<close> and a view \<open>v\<close> of its pipe registers), what configuring a pipe
  leaves in them, and when an endpoint counts as bound.
\<close>

section \<open>The registers behind the pipes\<close>

text \<open>
  The number of the selected pipe, and for every pipe its type, token and endpoint (\<open>UPCFG0X\<close>) and its
  size, banks and allocation (\<open>UPCFG1X\<close>).
\<close>

record pipe_regs =
  p_num :: u8
  p_cfg0 :: "u8 \<Rightarrow> u8"
  p_cfg1 :: "u8 \<Rightarrow> u8"

text \<open>
  What the data sheet says of the registers the pipe functions use, for a controller \<open>D\<close> whose pipe registers
  are \<open>v h\<close> in state \<open>h\<close>: \<open>UPNUM\<close> selects the pipe whose \<open>UPCFG0X\<close> and \<open>UPCFG1X\<close> are read and written,
  \<open>CFGOK\<close> says whether the pipe is allocated (the pipe memory suffices for every pipe that is), and no other
  register of a pipe's set-up changes them.
\<close>

definition pipe_unit :: "'h io \<Rightarrow> ('h \<Rightarrow> 'm pipe_regs_scheme) \<Rightarrow> bool" where
  "pipe_unit D v \<longleftrightarrow>
     (\<forall>w h. v (io_wr D UPNUM w h) = (v h)\<lparr>p_num := w\<rparr>)
     \<and> (\<forall>w h. v (io_wr D UPCFG0X w h) = (v h)\<lparr>p_cfg0 := (p_cfg0 (v h))(p_num (v h) := w)\<rparr>)
     \<and> (\<forall>w h. v (io_wr D UPCFG1X w h) = (v h)\<lparr>p_cfg1 := (p_cfg1 (v h))(p_num (v h) := w)\<rparr>)
     \<and> (\<forall>h. fst (io_rd D UPNUM h) = p_num (v h) \<and> fst (io_rd D UPCFG0X h) = p_cfg0 (v h) (p_num (v h))
          \<and> fst (io_rd D UPCFG1X h) = p_cfg1 (v h) (p_num (v h)))
     \<and> (\<forall>h. bit (fst (io_rd D UPSTAX h)) CFGOK = bit (p_cfg1 (v h) (p_num (v h))) ALLOC)
     \<and> (\<forall>r\<in>{UPCONX, UPCFG2X, UPIENX}. \<forall>w h. v (io_wr D r w h) = v h)
     \<and> (\<forall>r\<in>{UPNUM, UPCFG0X, UPCFG1X, UPSTAX, UPCONX, UPCFG2X, UPIENX}. \<forall>h. v (snd (io_rd D r h)) = v h)"

lemma pipe_unit_regs:
  assumes "pipe_unit D v"
  shows "v (io_wr D UPNUM w h) = (v h)\<lparr>p_num := w\<rparr>"
    "v (io_wr D UPCFG0X w h) = (v h)\<lparr>p_cfg0 := (p_cfg0 (v h))(p_num (v h) := w)\<rparr>"
    "v (io_wr D UPCFG1X w h) = (v h)\<lparr>p_cfg1 := (p_cfg1 (v h))(p_num (v h) := w)\<rparr>"
    "fst (io_rd D UPNUM h) = p_num (v h)" "fst (io_rd D UPCFG0X h) = p_cfg0 (v h) (p_num (v h))"
    "fst (io_rd D UPCFG1X h) = p_cfg1 (v h) (p_num (v h))"
    "bit (fst (io_rd D UPSTAX h)) CFGOK = bit (p_cfg1 (v h) (p_num (v h))) ALLOC"
    "v (io_wr D UPCONX w h) = v h" "v (io_wr D UPCFG2X w h) = v h" "v (io_wr D UPIENX w h) = v h"
    "v (snd (io_rd D UPNUM h)) = v h" "v (snd (io_rd D UPCFG0X h)) = v h" "v (snd (io_rd D UPCFG1X h)) = v h"
    "v (snd (io_rd D UPSTAX h)) = v h" "v (snd (io_rd D UPCONX h)) = v h" "v (snd (io_rd D UPCFG2X h)) = v h"
    "v (snd (io_rd D UPIENX h)) = v h"
  using assms unfolding pipe_unit_def by blast+

lemma pipe_unit_ops:
  assumes "pipe_unit D v"
  shows "v (Pipe_SelectPipe D a h) = (v h)\<lparr>p_num := a AND PIPE_PIPENUM_MASK\<rparr>"
    "v (Pipe_DisablePipe D h) = v h" "v (Pipe_EnablePipe D h) = v h" "v (Pipe_SetInfiniteINRequests D h) = v h"
    "v (io_and D UPCFG1X m h) = (v h)\<lparr>p_cfg1 := (p_cfg1 (v h))(p_num (v h) := p_cfg1 (v h) (p_num (v h)) AND m)\<rparr>"
    "fst (Pipe_IsConfigured D h) = bit (p_cfg1 (v h) (p_num (v h))) ALLOC" "v (snd (Pipe_IsConfigured D h)) = v h"
  by (simp_all add: Pipe_SelectPipe_def Pipe_DisablePipe_def Pipe_EnablePipe_def Pipe_SetInfiniteINRequests_def Pipe_IsConfigured_def
      io_and_def io_or_def io_test_bit Let_def split_beta pipe_unit_regs [OF assms])

section \<open>Configuring a pipe\<close>

lemma small_pipe: "p AND 0x0F = p" if "p < 7" for p :: u8
proof -
  have "unat p < 2 ^ 4" using that by (simp add: word_less_nat_alt)
  then have "unat (take_bit 4 p) = unat p" by (simp add: unsigned_take_bit_eq take_bit_nat_eq_self)
  moreover have "take_bit 4 p = p AND 0x0F" by (simp add: take_bit_eq_mask mask_eq_exp_minus_1)
  ultimately show ?thesis by (metis unsigned_word_eqI)
qed

lemma next_pipe: "p < (7 :: u8) \<Longrightarrow> p + 1 \<le> q \<longleftrightarrow> p < q"
  by (simp add: word_le_nat_alt word_less_nat_alt unat_word_ariths Suc_le_eq)

text \<open>One turn of the loop sets up the pipe it is for and writes every other one back as it was.\<close>

lemma configure_turn:
  assumes "pipe_unit D v" "bit c1 ALLOC" "PNum < PIPE_TOTAL_PIPES"
  obtains h' where "v h' = (if PNum = Number then (v h)\<lparr>p_num := PNum, p_cfg0 := (p_cfg0 (v h))(PNum := c0), p_cfg1 := (p_cfg1 (v h))(PNum := c1)\<rparr>
      else (v h)\<lparr>p_num := PNum\<rparr>)"
    "Pipe_ConfigurePipe_loop D Number c0 c1 PNum h = Pipe_ConfigurePipe_loop D Number c0 c1 (PNum + 1) h'"
proof -
  note r = pipe_unit_regs [OF assms(1)] pipe_unit_ops [OF assms(1)]
  note p = small_pipe [OF assms(3)]
  let ?h = "Pipe_SelectPipe D PNum h"
  let ?r = "snd (io_rd D UPIENX (snd (io_rd D UPCFG2X (snd (io_rd D UPCFG1X (snd (io_rd D UPCFG0X ?h)))))))"
  let ?cfg = "\<lambda>a b c d h. io_wr D UPIENX d (io_wr D UPCFG2X c (io_wr D UPCFG1X b (io_wr D UPCFG0X a
     (Pipe_EnablePipe D (io_and D UPCFG1X (NOT (BV ALLOC)) (Pipe_DisablePipe D h))))))"
  let ?fin = "\<lambda>h. snd (Pipe_IsConfigured D (Pipe_SetInfiniteINRequests D h))"
  show thesis
  proof (cases "PNum = Number")
    case True
    show thesis
    proof (rule that [of "?fin (?cfg c0 c1 0 0 ?h)"])
      show "v (?fin (?cfg c0 c1 0 0 ?h)) = (if PNum = Number
          then (v h)\<lparr>p_num := PNum, p_cfg0 := (p_cfg0 (v h))(PNum := c0), p_cfg1 := (p_cfg1 (v h))(PNum := c1)\<rparr> else (v h)\<lparr>p_num := PNum\<rparr>)"
        using True p by (simp add: r)
      show "Pipe_ConfigurePipe_loop D Number c0 c1 PNum h = Pipe_ConfigurePipe_loop D Number c0 c1 (PNum + 1) (?fin (?cfg c0 c1 0 0 ?h))"
        using True p assms(2,3) by (subst Pipe_ConfigurePipe_loop.simps) (simp add: r and_BV_eq_0 Let_def split_beta)
    qed
  next
    case False
    let ?a = "p_cfg0 (v h) PNum" and ?b = "p_cfg1 (v h) PNum"
    let ?h' = "if bit ?b ALLOC then ?fin (?cfg ?a ?b (fst (io_rd D UPCFG2X (snd (io_rd D UPCFG1X (snd (io_rd D UPCFG0X ?h))))))
        (fst (io_rd D UPIENX (snd (io_rd D UPCFG2X (snd (io_rd D UPCFG1X (snd (io_rd D UPCFG0X ?h)))))))) ?r) else ?r"
    show thesis
    proof (rule that [of ?h'])
      show "v ?h' = (if PNum = Number
          then (v h)\<lparr>p_num := PNum, p_cfg0 := (p_cfg0 (v h))(PNum := c0), p_cfg1 := (p_cfg1 (v h))(PNum := c1)\<rparr> else (v h)\<lparr>p_num := PNum\<rparr>)"
        using False p by (simp add: r)
      show "Pipe_ConfigurePipe_loop D Number c0 c1 PNum h = Pipe_ConfigurePipe_loop D Number c0 c1 (PNum + 1) ?h'"
        using False p assms(3) by (subst Pipe_ConfigurePipe_loop.simps) (simp add: r and_BV_eq_0 Let_def split_beta)
    qed
  qed
qed

lemma configure_loop:
  assumes "pipe_unit D v" "bit c1 ALLOC"
  shows "\<exists>h'. Pipe_ConfigurePipe_loop D Number c0 c1 PNum h = (True, h')
     \<and> v h' = (v h)\<lparr>p_num := Number AND PIPE_PIPENUM_MASK,
        p_cfg0 := (if PNum \<le> Number \<and> Number < PIPE_TOTAL_PIPES then (p_cfg0 (v h))(Number := c0) else p_cfg0 (v h)),
        p_cfg1 := (if PNum \<le> Number \<and> Number < PIPE_TOTAL_PIPES then (p_cfg1 (v h))(Number := c1) else p_cfg1 (v h))\<rparr>"
proof (induction "7 - unat PNum" arbitrary: PNum h)
  case 0
  then have "\<not> PNum < PIPE_TOTAL_PIPES" by (simp add: word_less_nat_alt)
  then have "\<not> (PNum \<le> Number \<and> Number < PIPE_TOTAL_PIPES)" by auto
  with \<open>\<not> PNum < PIPE_TOTAL_PIPES\<close> show ?case
    using pipe_unit_ops(1) [OF assms(1)] by (subst Pipe_ConfigurePipe_loop.simps) auto
next
  case (Suc k)
  have p: "PNum < PIPE_TOTAL_PIPES" using Suc(2) by (simp add: word_less_nat_alt)
  have k: "k = 7 - unat (PNum + 1)" using Suc(2) u8_pipe_less [OF p] by (simp add: unat_word_ariths)
  obtain h1 where h1: "v h1 = (if PNum = Number
        then (v h)\<lparr>p_num := PNum, p_cfg0 := (p_cfg0 (v h))(PNum := c0), p_cfg1 := (p_cfg1 (v h))(PNum := c1)\<rparr> else (v h)\<lparr>p_num := PNum\<rparr>)"
      "Pipe_ConfigurePipe_loop D Number c0 c1 PNum h = Pipe_ConfigurePipe_loop D Number c0 c1 (PNum + 1) h1"
    by (rule configure_turn [OF assms p])
  have le: "PNum \<le> Number \<longleftrightarrow> PNum = Number \<or> PNum + 1 \<le> Number" and lt: "PNum = Number \<Longrightarrow> \<not> PNum + 1 \<le> Number"
    using next_pipe [OF p, of Number] by auto
  from Suc(1) [OF k, of h1] show ?case
    using h1 p lt by (cases "PNum = Number") (auto simp: le)
qed

lemma configure_pipe:
  assumes "pipe_unit D v" "Address AND PIPE_EPNUM_MASK < PIPE_TOTAL_PIPES" "Pipe_BytesToEPSizeMask Size = Some m"
  obtains h' where "Pipe_ConfigurePipe D Address Type EndpointAddress Size Banks h = Some (True, h')"
    "v h' = (v h)\<lparr>p_num := Address AND PIPE_EPNUM_MASK,
       p_cfg0 := (p_cfg0 (v h))(Address AND PIPE_EPNUM_MASK := pipe_cfg0 Type (if Type = EP_TYPE_CONTROL then PIPE_TOKEN_SETUP
          else if Address AND PIPE_DIR_IN \<noteq> 0 then PIPE_TOKEN_IN else PIPE_TOKEN_OUT) EndpointAddress),
       p_cfg1 := (p_cfg1 (v h))(Address AND PIPE_EPNUM_MASK := BV ALLOC OR Banks OR m)\<rparr>"
proof -
  let ?n = "Address AND PIPE_EPNUM_MASK"
  let ?c0 = "pipe_cfg0 Type (if Type = EP_TYPE_CONTROL then PIPE_TOKEN_SETUP
          else if Address AND PIPE_DIR_IN \<noteq> 0 then PIPE_TOKEN_IN else PIPE_TOKEN_OUT) EndpointAddress"
  have c1: "bit (BV ALLOC OR Banks OR m) ALLOC" by (simp add: bit_or_iff bit_BV)
  obtain h' where "Pipe_ConfigurePipe_loop D ?n ?c0 (BV ALLOC OR Banks OR m) ?n h = (True, h')"
    "v h' = (v h)\<lparr>p_num := ?n, p_cfg0 := (p_cfg0 (v h))(?n := ?c0), p_cfg1 := (p_cfg1 (v h))(?n := BV ALLOC OR Banks OR m)\<rparr>"
    using configure_loop [OF assms(1) c1, of ?n ?c0 ?n h] assms(2) by (auto simp: and.assoc)
  then show thesis
    using assms(2,3) by (intro that [of h']) (simp_all add: Pipe_ConfigurePipe_def pipe_cfg0_def not_le [symmetric] Let_def)
qed

section \<open>Endpoints in use\<close>

text \<open>Only the control pipe is in use: whatever is allocated belongs to endpoint 0.\<close>

definition free_pipes :: "'m pipe_regs_scheme \<Rightarrow> bool" where
  "free_pipes r \<longleftrightarrow> (\<forall>q\<in>{0, 1, 2, 3, 4, 5, 6}. bit (p_cfg1 r q) ALLOC \<longrightarrow> p_cfg0 r q AND 0x0F = 0)"

lemma free_pipes_cong: "p_cfg0 r' = p_cfg0 r \<Longrightarrow> p_cfg1 r' = p_cfg1 r \<Longrightarrow> free_pipes r' = free_pipes r"
  by (simp add: free_pipes_def)

lemma not_bound_loop:
  assumes u: "pipe_unit D v" and "a AND 0x0F \<noteq> 0" "set ps \<subseteq> {0, 1, 2, 3, 4, 5, 6}" "free_pipes (v h)"
  shows "\<exists>h'. bound_loop D a q ps h = (False, h') \<and> v h' = (v h)\<lparr>p_num := q AND 0x0F\<rparr>"
  using assms(3,4)
proof (induction ps arbitrary: h)
  case Nil
  then show ?case by (simp add: pipe_unit_ops(1) [OF u])
next
  case (Cons p ps)
  note r = pipe_unit_regs [OF u] pipe_unit_ops [OF u]
  have p: "p AND 0x0F = p" using Cons.prems(1) by auto
  let ?h = "snd (Pipe_IsConfigured D (Pipe_SelectPipe D p h))"
  have ep0: "p_cfg0 (v h) p AND 0x0F = 0" if "bit (p_cfg1 (v h) p) ALLOC" using Cons.prems that by (auto simp: free_pipes_def)
  have a: "a \<noteq> 0" "a \<noteq> 0x80" using assms(2) by auto
  have v: "v ?h = (v h)\<lparr>p_num := p\<rparr>" using p by (simp add: r)
  have rest: "\<exists>h'. bound_loop D a q ps g = (False, h') \<and> v h' = (v h)\<lparr>p_num := q AND 0x0F\<rparr>" if "v g = (v h)\<lparr>p_num := p\<rparr>" for g
    using Cons.IH [of g] Cons.prems that by (simp add: free_pipes_def)
  have "fst (Pipe_GetBoundEndpointAddress D ?h) \<noteq> a" "v (snd (Pipe_GetBoundEndpointAddress D ?h)) = (v h)\<lparr>p_num := p\<rparr>"
    if "bit (p_cfg1 (v h) p) ALLOC"
    using ep0 [OF that] a v by (auto simp: Pipe_GetBoundEndpointAddress_def Let_def split_beta r p)
  then show ?case
    using rest [of ?h] rest [of "snd (Pipe_GetBoundEndpointAddress D ?h)"] v by (simp add: r p Let_def split_beta)
qed

lemma not_bound:
  assumes u: "pipe_unit D v" and "a AND 0x0F \<noteq> 0" "free_pipes (v h)" "p_num (v h) = 0"
  shows "\<exists>h'. Pipe_IsEndpointBound D a h = (False, h') \<and> v h' = v h"
proof -
  let ?c = "Pipe_GetCurrentPipe D h"
  have c: "fst ?c AND 0x0F = 0" "v (snd ?c) = v h"
    using assms(4) by (simp_all add: Pipe_GetCurrentPipe_def Pipe_GetPipeDirection_def io_test_def Let_def split_beta pipe_unit_regs [OF u])
  obtain h' where "bound_loop D a (fst ?c) [0, 1, 2, 3, 4, 5, 6] (snd ?c) = (False, h')" "v h' = (v h)\<lparr>p_num := 0\<rparr>"
    using not_bound_loop [OF u assms(2), of "[0, 1, 2, 3, 4, 5, 6]" "snd ?c" "fst ?c"] c assms(3) by auto
  moreover have "(v h)\<lparr>p_num := 0\<rparr> = v h" using assms(4) by simp
  ultimately show ?thesis by (simp add: Pipe_IsEndpointBound_def split_beta)
qed

section \<open>Properties\<close>

text \<open>C40. Which endpoint a pipe is bound to is answered wrongly for half of the endpoints: the code tests the
  lowest bit of the endpoint number where the direction is meant. After a pipe has been configured, on every
  controller whose pipe registers work as documented, \<open>Pipe_GetBoundEndpointAddress\<close> returns the address of
  the endpoint it was configured with exactly if the endpoint number is even and the direction IN, or odd and
  OUT; otherwise it returns the address with the direction reversed.\<close>

theorem bound_endpoint_direction:
  fixes D :: "'h io" and v :: "'h \<Rightarrow> 'r pipe_regs_scheme"
  assumes "pipe_unit D v" "Address AND PIPE_EPNUM_MASK < PIPE_TOTAL_PIPES" "EndpointAddress AND 0x70 = 0"
  shows "\<exists>h'. Pipe_ConfigurePipe D Address Type EndpointAddress Size Banks h = Some (True, h')
     \<and> fst (Pipe_GetBoundEndpointAddress D h') =
         (if bit EndpointAddress 0 \<longleftrightarrow> bit EndpointAddress 7 then EndpointAddress XOR 0x80 else EndpointAddress)"
proof -
  let ?n = "Address AND PIPE_EPNUM_MASK"
  let ?tok = "if Type = EP_TYPE_CONTROL then PIPE_TOKEN_SETUP else if Address AND PIPE_DIR_IN \<noteq> 0 then PIPE_TOKEN_IN else PIPE_TOKEN_OUT"
  obtain m where m: "Pipe_BytesToEPSizeMask Size = Some m" using pipe_size_mask by blast
  obtain h' where c: "Pipe_ConfigurePipe D Address Type EndpointAddress Size Banks h = Some (True, h')"
    and "v h' = (v h)\<lparr>p_num := ?n, p_cfg0 := (p_cfg0 (v h))(?n := pipe_cfg0 Type ?tok EndpointAddress),
       p_cfg1 := (p_cfg1 (v h))(?n := BV ALLOC OR Banks OR m)\<rparr>"
    by (rule configure_pipe [OF assms(1,2) m])
  then have "fst (io_rd D UPCFG0X h') = pipe_cfg0 Type ?tok EndpointAddress" using pipe_unit_regs(5) [OF assms(1), of h'] by simp
  then have "io_rd D UPCFG0X h' = (pipe_cfg0 Type ?tok EndpointAddress, snd (io_rd D UPCFG0X h'))" by (metis prod.collapse)
  from bound_direction_value [OF this _ assms(3)] c show ?thesis by auto
qed

text \<open>A controller with nothing but the pipe registers.\<close>

definition pipe_file :: "pipe_regs io" where
  "pipe_file = \<lparr>
     io_rd = (\<lambda>r h. (case r of UPNUM \<Rightarrow> p_num h | UPCFG0X \<Rightarrow> p_cfg0 h (p_num h) | UPCFG1X \<Rightarrow> p_cfg1 h (p_num h)
       | UPSTAX \<Rightarrow> (if bit (p_cfg1 h (p_num h)) ALLOC then BV CFGOK else 0) | _ \<Rightarrow> 0, h)),
     io_wr = (\<lambda>r w h. case r of UPNUM \<Rightarrow> h\<lparr>p_num := w\<rparr> | UPCFG0X \<Rightarrow> h\<lparr>p_cfg0 := (p_cfg0 h)(p_num h := w)\<rparr>
       | UPCFG1X \<Rightarrow> h\<lparr>p_cfg1 := (p_cfg1 h)(p_num h := w)\<rparr> | _ \<Rightarrow> h),
     io_sig = (\<lambda>_. 0)\<rparr>"

lemma pipe_file_unit: "pipe_unit pipe_file (\<lambda>h. h)"
  by (simp add: pipe_unit_def pipe_file_def bit_BV)

theorem bound_endpoint_direction_witness:
  "\<exists>h'. Pipe_ConfigurePipe pipe_file 0x81 EP_TYPE_BULK 0x83 16 1 \<lparr>p_num = 0, p_cfg0 = \<lambda>_. 0, p_cfg1 = \<lambda>_. 0\<rparr> = Some (True, h')
     \<and> fst (Pipe_GetBoundEndpointAddress pipe_file h') = 0x03"
  using bound_endpoint_direction [OF pipe_file_unit, of "0x81" "0x83" EP_TYPE_BULK 16 1 "\<lparr>p_num = 0, p_cfg0 = \<lambda>_. 0, p_cfg1 = \<lambda>_. 0\<rparr>"]
  by simp

end
