(* ===== verification/Usb_Enumeration.thy ===== *)
theory Usb_Enumeration
  imports Usb_Host Pipe_Registers
begin

text \<open>
  Requests of the host and the enumeration of a device. First, what holds against every device: a
  control request writes only into the caller's buffer. Then a concrete bus, a controller whose device
  answers at once with the packets of a reply function: it instantiates the hardware parameter in
  witnesses, and in an example run in which the state machine of \<open>Host_AVR8.c\<close> gives the firmware of
  this repository an address. The locale \<open>bus_loop\<close> is what a main loop has to do for that; \<open>Virtual_Serial_Host\<close>
  interprets it with a program of the repository.
\<close>

section \<open>What a control request may write\<close>

definition agree_outside :: "nat \<Rightarrow> nat \<Rightarrow> memory \<Rightarrow> memory \<Rightarrow> bool" where
  "agree_outside p n m m' \<longleftrightarrow> (\<forall>a. a < p \<or> p + n \<le> a \<longrightarrow> m' a = m a)"

lemma agree_outside_refl [simp]: "agree_outside p n m m"
  by (simp add: agree_outside_def)

lemma agree_outside_0 [simp]: "agree_outside p 0 m m' \<longleftrightarrow> m' = m"
  by (auto simp: agree_outside_def fun_eq_iff not_le [symmetric])

lemma agree_outside_mono: "agree_outside p n m m' \<Longrightarrow> n \<le> k \<Longrightarrow> agree_outside p k m m'"
  by (simp add: agree_outside_def)

text \<open>The writing position and the bytes still wanted stay inside the buffer.\<close>

definition inside :: "nat \<Rightarrow> nat \<Rightarrow> memory \<Rightarrow> u16 \<times> nat \<times> memory \<times> 'h \<Rightarrow> bool" where
  "inside p n m = (\<lambda>(DataLen, DataStream, m', h). p \<le> DataStream \<and> DataStream + unat DataLen \<le> p + n \<and> agree_outside p n m m')"

lemma read_packet_inside:
  assumes "loop (read_packet_turn D) t = Some u" "inside p n m t"
  shows "inside p n m u"
  using assms
proof (rule loop_invariant [where I = "inside p n m"])
  fix s s' assume I: "inside p n m s" and t: "read_packet_turn D s = Some (Inr s')"
  obtain L a m' h where s: "s = (L, a, m', h)" by (cases s)
  have "L \<noteq> 0" using t by (auto simp: s read_packet_turn_def Let_def split_beta split: if_splits)
  moreover obtain v h' where "s' = (L - 1, Suc a, m'(a := v), h')"
    using t by (auto simp: s read_packet_turn_def Let_def split_beta split: if_splits)
  moreover have "0 < unat L" using \<open>L \<noteq> 0\<close> by (simp add: unat_gt_0)
  ultimately show "inside p n m s'" using I by (auto simp: s inside_def agree_outside_def unat_minus_one)
next
  fix s r assume "inside p n m s" "read_packet_turn D s = Some (Inl r)"
  then show "inside p n m r" by (cases s) (auto simp: inside_def read_packet_turn_def Let_def split_beta split: if_splits)
qed

lemma control_read_inside:
  assumes "loop (control_read_turn D) (L, p, m, h) = Some (e, m', h')" "unat L \<le> n"
  shows "agree_outside p n m m'"
proof -
  have "(\<lambda>(e, m', h'). agree_outside p n m m') (e, m', h')"
    using assms(1)
  proof (rule loop_invariant [where I = "inside p n m"])
    show "inside p n m (L, p, m, h)" using assms(2) by (simp add: inside_def)
  next
    fix s s' assume I: "inside p n m s" and t: "control_read_turn D s = Some (Inr s')"
    obtain L a m' h where s: "s = (L, a, m', h)" by (cases s)
    from t obtain L0 h2 L' a' m2 h3 where l: "loop (read_packet_turn D) (L0, a, m', h2) = Some (L', a', m2, h3)"
      and s': "s' = (L', a', m2, Pipe_ClearIN D (Pipe_Freeze D h3))" and "L0 = 0 \<or> L0 = L"
      by (auto simp: s control_read_turn_def Let_def split_beta split: if_splits bind_splits)
    then have "inside p n m (L0, a, m', h2)" using I by (auto simp: s inside_def)
    from read_packet_inside [OF l this] show "inside p n m s'" by (simp add: s' inside_def)
  next
    fix s r assume "inside p n m s" "control_read_turn D s = Some (Inl r)"
    then show "case r of (e, m', h') \<Rightarrow> agree_outside p n m m'"
      by (cases s) (auto simp: inside_def control_read_turn_def Let_def split_beta split: if_splits bind_splits)
  qed
  then show ?thesis by simp
qed

lemma control_in_inside:
  assumes "control_in D L ptr m h = Some (e, m', h')"
  shows "case ptr of None \<Rightarrow> m' = m | Some p \<Rightarrow> agree_outside p (unat L) m m'"
  using assms
  by (cases ptr) (auto simp: control_in_def Let_def split_beta dest!: control_read_inside [where n = "unat L"] split: if_splits bind_splits)

text \<open>Whatever the device does, a control request changes at most the \<open>wLength\<close> bytes of its buffer.\<close>

lemma send_control_inside:
  assumes "USB_Host_SendControlRequest D ptr m s = Some (e, m', s')"
  shows "case ptr of None \<Rightarrow> m' = m | Some p \<Rightarrow> agree_outside p (unat (wLength (USB_ControlRequest s))) m m'"
proof -
  from assms obtain c h h' where
    prv: "USB_Host_SendControlRequest_PRV D (USB_ControlRequest s) c ptr m h = Some (e, m', h')"
    by (auto simp: USB_Host_SendControlRequest_def Let_def split_beta split: bind_splits)
  from prv have "m' = m \<or> (\<exists>h e h'. control_in D (wLength (USB_ControlRequest s)) ptr m h = Some (e, m', h'))"
    by (auto simp: USB_Host_SendControlRequest_PRV_def Let_def split_beta split: if_splits bind_splits)
  then show ?thesis
  proof
    assume "m' = m" then show ?thesis by (simp split: option.split)
  next
    assume "\<exists>h e h'. control_in D (wLength (USB_ControlRequest s)) ptr m h = Some (e, m', h')"
    then show ?thesis by (elim exE) (rule control_in_inside)
  qed
qed

lemma send_control_keeps:
  assumes "USB_Host_SendControlRequest D ptr m s = Some (e, m', s')"
  shows "USB_ControlRequest s' = USB_ControlRequest s"
  using assms by (auto simp: USB_Host_SendControlRequest_def Let_def split_beta split: bind_splits)

lemma control_request_inside:
  assumes "control_request D rq ptr m s = Some (e, m', s')"
  shows "case ptr of None \<Rightarrow> m' = m | Some p \<Rightarrow> agree_outside p (unat (wLength rq)) m m'"
  using send_control_inside [OF assms [unfolded control_request_def]] by (simp add: hw_do_def split: option.splits)

section \<open>A device on the bus\<close>

text \<open>
  A host controller with a device behind it: the device answers every request with the bytes
  \<open>reply\<close> gives for its eight setup bytes, in packets of at most \<open>n\<close> bytes; every packet is accepted at
  once and a frame starts at every poll. Pipes work as soon as they are allocated. \<open>b_setup\<close> is what the
  host has written into the bank, \<open>b_out\<close> the packets it has sent after the setup packets.
\<close>

record bus = pipe_regs +
  b_setup :: "u8 list"
  b_bank :: "u8 list"
  b_rest :: "u8 list"
  b_out :: "u8 list list"
  b_state :: u8

definition bus_next :: "nat \<Rightarrow> u8 list \<Rightarrow> bus \<Rightarrow> bus" where
  "bus_next n bs h = h\<lparr>b_bank := take n bs, b_rest := drop n bs\<rparr>"

definition bus_rd :: "ioreg \<Rightarrow> bus \<Rightarrow> u8 \<times> bus" where
  "bus_rd r h = (case r of
       UHINT \<Rightarrow> (0x21, h)
     | UHCON \<Rightarrow> (0x01, h)
     | UPINTX \<Rightarrow> (0x0D, h)
     | UPBCLX \<Rightarrow> (of_nat (length (if b_setup h = [] then b_bank h else b_setup h)), h)
     | UPDATX \<Rightarrow> (hd (b_bank h), h\<lparr>b_bank := tl (b_bank h)\<rparr>)
     | GPIOR0 \<Rightarrow> (b_state h, h)
     | PLLCSR \<Rightarrow> (1, h)
     | UPNUM \<Rightarrow> (p_num h, h)
     | UPCFG0X \<Rightarrow> (p_cfg0 h (p_num h), h)
     | UPCFG1X \<Rightarrow> (p_cfg1 h (p_num h), h)
     | UPSTAX \<Rightarrow> (if bit (p_cfg1 h (p_num h)) ALLOC then 0x80 else 0, h)
     | _ \<Rightarrow> (0, h))"

definition bus_wr :: "(u8 list \<Rightarrow> u8 list) \<Rightarrow> nat \<Rightarrow> ioreg \<Rightarrow> u8 \<Rightarrow> bus \<Rightarrow> bus" where
  "bus_wr reply n r v h = (case r of
       UPDATX \<Rightarrow> h\<lparr>b_setup := b_setup h @ [v]\<rparr>
     | UPINTX \<Rightarrow> (if \<not> bit v TXSTPI then bus_next n (reply (b_setup h)) (h\<lparr>b_setup := []\<rparr>)
                 else if \<not> bit v TXOUTI then h\<lparr>b_setup := [], b_out := b_out h @ [b_setup h]\<rparr>
                 else if \<not> bit v RXINI then bus_next n (b_rest h) h else h)
     | GPIOR0 \<Rightarrow> h\<lparr>b_state := v\<rparr>
     | UPNUM \<Rightarrow> h\<lparr>p_num := v\<rparr>
     | UPCFG0X \<Rightarrow> h\<lparr>p_cfg0 := (p_cfg0 h)(p_num h := v)\<rparr>
     | UPCFG1X \<Rightarrow> h\<lparr>p_cfg1 := (p_cfg1 h)(p_num h := v)\<rparr>
     | _ \<Rightarrow> h)"

definition bus_io :: "(u8 list \<Rightarrow> u8 list) \<Rightarrow> nat \<Rightarrow> bus io" where
  "bus_io reply n = \<lparr>io_rd = bus_rd, io_wr = bus_wr reply n, io_sig = (\<lambda>_. 0)\<rparr>"

lemma bus_io_rd [simp]:
  "io_rd (bus_io reply n) UHINT h = (0x21, h)" "io_rd (bus_io reply n) UHCON h = (0x01, h)"
  "io_rd (bus_io reply n) UPINTX h = (0x0D, h)" "io_rd (bus_io reply n) UPBCLX h = (of_nat (length (if b_setup h = [] then b_bank h else b_setup h)), h)"
  "io_rd (bus_io reply n) UPBCHX h = (0, h)"
  "io_rd (bus_io reply n) UPDATX h = (hd (b_bank h), h\<lparr>b_bank := tl (b_bank h)\<rparr>)"
  "io_rd (bus_io reply n) GPIOR0 h = (b_state h, h)" "io_rd (bus_io reply n) PLLCSR h = (1, h)"
  "io_rd (bus_io reply n) UPNUM h = (p_num h, h)" "io_rd (bus_io reply n) UPCFG0X h = (p_cfg0 h (p_num h), h)"
  "io_rd (bus_io reply n) UPCFG1X h = (p_cfg1 h (p_num h), h)"
  "io_rd (bus_io reply n) UPSTAX h = (if bit (p_cfg1 h (p_num h)) ALLOC then 0x80 else 0, h)"
  "io_rd (bus_io reply n) UPCFG2X h = (0, h)" "io_rd (bus_io reply n) UPIENX h = (0, h)"
  "io_rd (bus_io reply n) UHIEN h = (0, h)" "io_rd (bus_io reply n) OTGIEN h = (0, h)" "io_rd (bus_io reply n) OTGINT h = (0, h)"
  by (simp_all add: bus_io_def bus_rd_def)

lemma bus_io_wr [simp]:
  "io_wr (bus_io reply n) UPDATX v h = h\<lparr>b_setup := b_setup h @ [v]\<rparr>"
  "io_wr (bus_io reply n) UPINTX v h = (if \<not> bit v TXSTPI then bus_next n (reply (b_setup h)) (h\<lparr>b_setup := []\<rparr>)
      else if \<not> bit v TXOUTI then h\<lparr>b_setup := [], b_out := b_out h @ [b_setup h]\<rparr>
      else if \<not> bit v RXINI then bus_next n (b_rest h) h else h)"
  "io_wr (bus_io reply n) GPIOR0 v h = h\<lparr>b_state := v\<rparr>" "io_wr (bus_io reply n) UPNUM v h = h\<lparr>p_num := v\<rparr>"
  "io_wr (bus_io reply n) UPCFG0X v h = h\<lparr>p_cfg0 := (p_cfg0 h)(p_num h := v)\<rparr>"
  "io_wr (bus_io reply n) UPCFG1X v h = h\<lparr>p_cfg1 := (p_cfg1 h)(p_num h := v)\<rparr>"
  by (simp_all add: bus_io_def bus_wr_def)

text \<open>The registers without an effect here.\<close>

fun inert :: "ioreg \<Rightarrow> bool" where
  "inert UPDATX = False" | "inert UPINTX = False" | "inert GPIOR0 = False" | "inert UPNUM = False"
| "inert UPCFG0X = False" | "inert UPCFG1X = False" | "inert _ = True"

lemma bus_passive:
  assumes "inert r"
  shows "io_wr (bus_io reply n) r v h = h" "io_or (bus_io reply n) r v h = h" "io_and (bus_io reply n) r v h = h"
  using assms by (cases r; simp add: bus_io_def bus_rd_def bus_wr_def io_or_def io_and_def)+

lemmas bus_quiet [simp] = bus_passive [of UHINT, simplified] bus_passive [of UHCON, simplified] bus_passive [of UHIEN, simplified]
  bus_passive [of OTGCON, simplified] bus_passive [of OTGINT, simplified] bus_passive [of OTGIEN, simplified]
  bus_passive [of UHWCON, simplified] bus_passive [of USBCON, simplified] bus_passive [of PORTE, simplified]
  bus_passive [of DDRE, simplified] bus_passive [of UDCON, simplified] bus_passive [of UPCONX, simplified]
  bus_passive [of UPERRX, simplified] bus_passive [of UPRST, simplified] bus_passive [of UPIENX, simplified]
  bus_passive [of UPINT, simplified] bus_passive [of UPCFG2X, simplified] bus_passive [of UHADDR, simplified]
  bus_passive [of PLLCSR, simplified] bus_passive [of USBINT, simplified]

lemma bus_and_UPINTX [simp]: "io_and (bus_io reply n) UPINTX m h = io_wr (bus_io reply n) UPINTX (0x0D AND m) h"
  by (simp add: io_and_def)

lemma bus_ops [simp]:
  "Pipe_Freeze (bus_io reply n) h = h" "Pipe_Unfreeze (bus_io reply n) h = h" "Pipe_ClearOUT (bus_io reply n) h = h\<lparr>b_setup := [], b_out := b_out h @ [b_setup h]\<rparr>"
  "Pipe_ClearIN (bus_io reply n) h = bus_next n (b_rest h) h"
  "Pipe_ClearSETUP (bus_io reply n) h = bus_next n (reply (b_setup h)) (h\<lparr>b_setup := []\<rparr>)"
  "Pipe_ClearError (bus_io reply n) h = h" "Pipe_ResetPipe (bus_io reply n) a h = h"
  "Pipe_SetPipeToken (bus_io reply n) tok h =
     h\<lparr>p_cfg0 := (p_cfg0 h)(p_num h := (p_cfg0 h (p_num h) AND NOT (push_bit PTOKEN0 0x03)) OR tok)\<rparr>"
  "Pipe_BytesInPipe (bus_io reply n) h = (u16_of_bytes [of_nat (length (if b_setup h = [] then b_bank h else b_setup h)), 0], h)"
  "Pipe_IsINReceived (bus_io reply n) h = (True, h)" "Pipe_IsOUTReady (bus_io reply n) h = (True, h)"
  "Pipe_IsSETUPSent (bus_io reply n) h = (True, h)" "Pipe_IsError (bus_io reply n) h = (False, h)"
  "Pipe_IsStalled (bus_io reply n) h = (False, h)"
  "USB_Host_ResumeBus (bus_io reply n) h = h" "USB_Host_SuspendBus (bus_io reply n) h = h"
  "USB_Host_IsBusSuspended (bus_io reply n) h = (False, h)" "USB_Host_IsBusResetComplete (bus_io reply n) h = (True, h)"
  "USB_Host_ResetBus (bus_io reply n) h = h"
  "USB_HostState (bus_io reply n) h = (b_state h, h)" "set_USB_HostState (bus_io reply n) v h = h\<lparr>b_state := v\<rparr>"
  by (simp_all add: Pipe_Freeze_def Pipe_Unfreeze_def Pipe_ClearOUT_def Pipe_ClearIN_def Pipe_ClearSETUP_def Pipe_ClearError_def
      Pipe_ResetPipe_def Pipe_SetPipeToken_def Pipe_BytesInPipe_def Pipe_IsINReceived_def Pipe_IsOUTReady_def Pipe_IsSETUPSent_def
      Pipe_IsError_def Pipe_IsStalled_def USB_Host_ResumeBus_def USB_Host_SuspendBus_def USB_Host_IsBusSuspended_def
      USB_Host_IsBusResetComplete_def USB_Host_ResetBus_def USB_HostState_def set_USB_HostState_def io_test_def BV_def)

lemma bus_int [simp]:
  "H_USB_INT_Enable (bus_io reply n) i h = h" "H_USB_INT_Disable (bus_io reply n) i h = h" "H_USB_INT_Clear (bus_io reply n) i h = h"
  "H_USB_INT_IsEnabled (bus_io reply n) i h = (False, h)"
  "H_USB_INT_HasOccurred (bus_io reply n) USB_INT_HSOFI h = (True, h)"
  "H_USB_INT_HasOccurred (bus_io reply n) USB_INT_DCONNI h = (True, h)"
  by (simp_all add: H_USB_INT_Enable_def H_USB_INT_Disable_def H_USB_INT_Clear_def H_USB_INT_IsEnabled_def H_USB_INT_HasOccurred_def
      io_test_def BV_def split: USB_HostInterrupts_t.split)

lemma bus_WaitMS [simp]:
  assumes "b_state h \<noteq> HOST_STATE_Unattached"
  shows "USB_Host_WaitMS (bus_io reply n) 1 h = Some (HOST_WAITERROR_Successful, h)"
proof -
  have "loop (wait_ms_turn (bus_io reply n)) (1, h) = loop (wait_ms_turn (bus_io reply n)) (0, h)"
    by (rule loop_turn(2)) (use assms in \<open>simp add: wait_ms_turn_def\<close>)
  also have "\<dots> = Some (0, h)" by (rule loop_turn(1)) (simp add: wait_ms_turn_def)
  finally show ?thesis by (simp add: USB_Host_WaitMS_def)
qed

lemma bus_WaitForIOS [simp]: "USB_Host_WaitForIOS (bus_io reply n) t h = Some (HOST_SENDCONTROL_Successful, h)"
  unfolding USB_Host_WaitForIOS_def
  by (rule loop_turn(1)) (simp add: wait_ios_turn_def split: USB_WaitForTypes_t.split)

text \<open>Bytes stored in memory.\<close>

definition mem_put :: "memory \<Rightarrow> nat \<Rightarrow> u8 list \<Rightarrow> memory" where
  "mem_put m p bs = (\<lambda>a. if p \<le> a \<and> a < p + length bs then bs ! (a - p) else m a)"

lemma mem_put_Nil [simp]: "mem_put m p [] = m"
  by (auto simp: mem_put_def fun_eq_iff)

lemma mem_put_Cons: "mem_put (m(p := b)) (Suc p) bs = mem_put m p (b # bs)"
  by (auto simp: mem_put_def fun_eq_iff nth_Cons split: nat.split) (metis Suc_diff_le diff_Suc_Suc nat.inject)+

lemma mem_put_append: "mem_put (mem_put m p bs) (p + length bs) cs = mem_put m p (bs @ cs)"
  by (auto simp: mem_put_def fun_eq_iff nth_append)

lemma bytes_at_mem_put: "bytes_at (mem_put m p bs) p (length bs) = bs"
  by (rule nth_equalityI) (auto simp: mem_put_def)

lemma u16_of_length: "length bs < 256 \<Longrightarrow> u16_of_bytes [of_nat (length bs), 0] = 0 \<longleftrightarrow> bs = []"
proof -
  assume l: "length bs < 256"
  then have "unat (of_nat (length bs) :: u8) = length bs" by (simp add: unat_of_nat take_bit_nat_eq_self)
  then have "unat (u16_of_bytes [of_nat (length bs), 0]) = length bs"
    by (simp add: u16_of_bytes_def unat_ucast_u16)
  then show ?thesis by (metis length_0_conv unat_0 unat_eq_0)
qed

lemma bus_read_packet:
  assumes "length (b_bank h) < 256" "b_setup h = []"
  shows "loop (read_packet_turn (bus_io reply n)) (L, p, m, h) =
     (let k = min (unat L) (length (b_bank h)) in
      Some (L - of_nat k, p + k, mem_put m p (take k (b_bank h)), h\<lparr>b_bank := drop k (b_bank h)\<rparr>))"
  using assms
proof (induction "b_bank h" arbitrary: L p m h)
  case Nil
  then have "loop (read_packet_turn (bus_io reply n)) (L, p, m, h) = Some (L, p, m, h)"
    by (intro loop_turn(1)) (simp add: read_packet_turn_def u16_of_bytes_def)
  then show ?case using Nil(1) [symmetric] by simp
next
  case (Cons x xs)
  show ?case
  proof (cases "L = 0")
    case True
    then have "loop (read_packet_turn (bus_io reply n)) (L, p, m, h) = Some (L, p, m, h)"
      by (intro loop_turn(1)) (simp add: read_packet_turn_def)
    then show ?thesis using True by simp
  next
    case False
    let ?h = "h\<lparr>b_bank := xs\<rparr>"
    have b: "b_bank h = x # xs" using Cons(2) by simp
    have "u16_of_bytes [of_nat (length (b_bank h)), 0] \<noteq> 0" using u16_of_length [OF Cons(3)] b by simp
    then have "loop (read_packet_turn (bus_io reply n)) (L, p, m, h) =
        loop (read_packet_turn (bus_io reply n)) (L - 1, Suc p, m(p := x), ?h)"
      using False b Cons(4) by (intro loop_turn(2)) (simp add: read_packet_turn_def Pipe_Read_8_def)
    also have "\<dots> = (let k = min (unat (L - 1)) (length xs) in
        Some (L - 1 - of_nat k, Suc p + k, mem_put (m(p := x)) (Suc p) (take k xs), ?h\<lparr>b_bank := drop k xs\<rparr>))"
      using Cons(1) [of ?h "L - 1" "Suc p" "m(p := x)"] Cons(3,4) b by simp
    also have "\<dots> = (let k = min (unat L) (length (b_bank h)) in
        Some (L - of_nat k, p + k, mem_put m p (take k (b_bank h)), h\<lparr>b_bank := drop k (b_bank h)\<rparr>))"
    proof -
      obtain j where j: "unat L = Suc j" using False by (cases "unat L") (auto simp: unat_eq_zero)
      then have "unat (L - 1) = j" using False by (simp add: unat_minus_one)
      with j b show ?thesis by (simp add: Let_def mem_put_Cons algebra_simps)
    qed
    finally show ?thesis .
  qed
qed

text \<open>The same device state, up to the data that is under way.\<close>

definition same_bus :: "bus \<Rightarrow> bus \<Rightarrow> bool" where
  "same_bus h h' \<longleftrightarrow> b_setup h' = b_setup h \<and> b_state h' = b_state h \<and> p_num h' = p_num h \<and> p_cfg0 h' = p_cfg0 h \<and> p_cfg1 h' = p_cfg1 h"

lemma same_bus_refl [simp]: "same_bus h h"
  by (simp add: same_bus_def)

lemma same_bus_trans: "same_bus h h1 \<Longrightarrow> same_bus h1 h2 \<Longrightarrow> same_bus h h2"
  by (simp add: same_bus_def)

lemma bus_control_read:
  assumes "0 < n" "n < 256" "b_bank h = take n bs" "b_rest h = drop n bs" "b_setup h = []"
  shows "\<exists>h'. loop (control_read_turn (bus_io reply n)) (L, p, m, h) = Some (HOST_SENDCONTROL_Successful, mem_put m p (take (unat L) bs), h')
     \<and> same_bus h h'"
  using assms
proof (induction "length bs" arbitrary: bs L p m h rule: less_induct)
  case less
  let ?D = "bus_io reply n" and ?bank = "take n bs"
  have stop: "loop (control_read_turn ?D) (0, p, m, h) = Some (0, m, h)" for p m h
    by (rule loop_turn(1)) (simp add: control_read_turn_def)
  show ?case
  proof (cases "L = 0")
    case True
    then show ?thesis using stop by simp
  next
    case L: False
    define k where "k = min (unat L) (length ?bank)"
    define h1 where "h1 = bus_next n (b_rest h) (h\<lparr>b_bank := drop k ?bank\<rparr>)"
    have bank: "length (b_bank h) < 256" using less.prems by simp
    have turn: "control_read_turn ?D (L, p, m, h) =
        Some (Inr (if bs = [] then 0 else L - of_nat k, p + k, mem_put m p (take k ?bank), h1))"
      using L less.prems bus_read_packet [OF bank less.prems(5), of reply n _ p m] u16_of_length [OF bank]
      by (auto simp: control_read_turn_def k_def h1_def Let_def)
    have same: "same_bus h h1" by (auto simp: same_bus_def h1_def bus_next_def)
    show ?thesis
    proof (cases "bs = [] \<or> unat L \<le> length ?bank")
      case True
      then have "loop (control_read_turn ?D) (L, p, m, h) = Some (0, mem_put m p (take k ?bank), h1)"
        using turn stop by (subst loop_turn(2)) (auto simp: k_def min_def)
      moreover have "take k ?bank = take (unat L) bs" using True by (auto simp: k_def min_def)
      ultimately show ?thesis using same by auto
    next
      case False
      then have k: "k = length ?bank" "k \<noteq> 0" "unat (of_nat k :: u16) = k" "k \<le> unat L"
        using less.prems(1,2) by (auto simp: k_def unat_of_nat take_bit_nat_eq_self)
      have "length (drop n bs) < length bs" using False less.prems(1) by auto
      from less.hyps [OF this less.prems(1,2), of h1 "L - of_nat k" "p + k" "mem_put m p ?bank"]
      obtain h' where "loop (control_read_turn ?D) (L - of_nat k, p + k, mem_put m p ?bank, h1)
          = Some (0, mem_put (mem_put m p ?bank) (p + k) (take (unat (L - of_nat k)) (drop n bs)), h')" "same_bus h1 h'"
        using less.prems(4,5) by (auto simp: h1_def bus_next_def)
      moreover have "loop (control_read_turn ?D) (L, p, m, h) = loop (control_read_turn ?D) (L - of_nat k, p + k, mem_put m p ?bank, h1)"
      proof (rule loop_turn(2))
        have "take k ?bank = ?bank" by (simp only: k(1) take_all)
        with turn False show "control_read_turn ?D (L, p, m, h) = Some (Inr (L - of_nat k, p + k, mem_put m p ?bank, h1))" by simp
      qed
      moreover have "unat (L - of_nat k) = unat L - k" using k by (simp add: unat_sub word_le_nat_alt)
      moreover have "?bank @ take (unat L - k) (drop n bs) = take (unat L) bs"
        using k False by (cases "n \<le> length bs") (auto simp: take_add [symmetric])
      moreover have "mem_put (mem_put m p ?bank) (p + k) cs = mem_put m p (?bank @ cs)" for cs
        using mem_put_append [of m p ?bank cs] by (simp only: k(1))
      ultimately have "loop (control_read_turn ?D) (L, p, m, h) = Some (0, mem_put m p (take (unat L) bs), h')" "same_bus h h'"
        using same same_bus_trans by (simp_all only:)
      then show ?thesis by blast
    qed
  qed
qed

text \<open>What a request leaves behind: the registers of the pipes but for the token of the selected one, and no setup bytes.\<close>

definition after_request :: "bus \<Rightarrow> bus \<Rightarrow> bool" where
  "after_request h h' \<longleftrightarrow> b_state h' = b_state h \<and> p_num h' = p_num h \<and> p_cfg1 h' = p_cfg1 h \<and> b_setup h' = []
     \<and> (\<forall>q. p_cfg0 h' q AND 0x0F = p_cfg0 h q AND 0x0F \<and> (q \<noteq> p_num h \<longrightarrow> p_cfg0 h' q = p_cfg0 h q))"

lemma bus_put_bytes:
  "put_bytes (\<lambda>h b. Pipe_Write_8 (bus_io reply n) b h) bs h = h\<lparr>b_setup := b_setup h @ bs\<rparr>"
  by (induction bs arbitrary: h) (simp_all add: Pipe_Write_8_def)

lemma token_low: "((v AND NOT (push_bit PTOKEN0 0x03)) OR tok) AND 0x0F = v AND 0x0F"
  if "tok \<in> {PIPE_TOKEN_SETUP, PIPE_TOKEN_IN, PIPE_TOKEN_OUT}" for v :: u8
  by (rule u8_eq_bits) (use that in \<open>auto simp: PIPE_TOKEN_SETUP_def PIPE_TOKEN_IN_def PIPE_TOKEN_OUT_def
      bit_or_iff bit_and_iff bit_not_iff\<close>)

lemma after_token:
  "after_request h (h'\<lparr>p_cfg0 := (p_cfg0 h')(p_num h' := (p_cfg0 h' (p_num h') AND NOT (push_bit PTOKEN0 0x03)) OR tok)\<rparr>)"
  if "after_request h h'" "tok \<in> {PIPE_TOKEN_SETUP, PIPE_TOKEN_IN, PIPE_TOKEN_OUT}"
  using that(1) token_low [OF that(2)] by (simp add: after_request_def)

lemma after_same: "after_request h h' \<Longrightarrow> same_bus h' h'' \<Longrightarrow> after_request h h''"
  by (simp add: after_request_def same_bus_def)

lemma after_out: "after_request h h' \<Longrightarrow> after_request h (Pipe_ClearOUT (bus_io reply n) h')"
  by (simp add: after_request_def)

lemma bus_control_in:
  assumes "0 < n" "n < 256" "b_bank h = take n bs" "b_rest h = drop n bs" "b_setup h = []"
  shows "\<exists>h'. control_in (bus_io reply n) L (Some p) m h = Some (HOST_SENDCONTROL_Successful, mem_put m p (take (unat L) bs), h')
     \<and> after_request h h'"
proof -
  let ?D = "bus_io reply n" and ?h = "Pipe_SetPipeToken (bus_io reply n) PIPE_TOKEN_IN h"
  have h: "after_request h h" using assms(5) by (simp add: after_request_def)
  have tok: "after_request h ?h" unfolding bus_ops by (rule after_token [OF h]) simp
  obtain h' where l: "loop (control_read_turn ?D) (L, p, m, ?h) = Some (0, mem_put m p (take (unat L) bs), h')" and "same_bus ?h h'"
    using bus_control_read [OF assms(1,2), of ?h bs reply L p m] assms(3-5) by auto
  with tok have "after_request h h'" by (blast intro: after_same)
  then have "after_request h (Pipe_SetPipeToken ?D PIPE_TOKEN_OUT h')" unfolding bus_ops by (rule after_token) simp
  then have "after_request h (Pipe_ClearOUT ?D (Pipe_SetPipeToken ?D PIPE_TOKEN_OUT h'))" by (rule after_out)
  with l show ?thesis by (simp add: control_in_def Let_def del: bus_ops(3,8))
qed

lemma bus_control_out:
  assumes "b_setup h = []"
  shows "\<exists>h'. control_out (bus_io reply n) sz L None m h = Some (HOST_SENDCONTROL_Successful, h') \<and> after_request h h'"
proof -
  let ?h = "Pipe_SetPipeToken (bus_io reply n) PIPE_TOKEN_IN h"
  have "after_request h ?h" unfolding bus_ops by (rule after_token) (use assms in \<open>simp_all add: after_request_def\<close>)
  then have "after_request h (bus_next n (b_rest ?h) ?h)" by (auto simp: bus_next_def same_bus_def intro: after_same)
  then show ?thesis by (simp add: control_out_def Let_def del: bus_ops(8))
qed

text \<open>Writing out a buffer that fits into one packet.\<close>

lemma bus_write_packet:
  assumes "b_bank h = []" "length (b_setup h) + unat L \<le> unat sz"
  shows "loop (write_packet_turn (bus_io reply n) sz m) (L, p, h) =
     Some (0, p + unat L, h\<lparr>b_setup := b_setup h @ bytes_at m p (unat L)\<rparr>)"
  using assms
proof (induction "unat L" arbitrary: L p h)
  case 0
  then have L: "L = 0" by (simp add: unat_eq_zero)
  have "loop (write_packet_turn (bus_io reply n) sz m) (0, p, h) = Some (0, p, h)"
    by (rule loop_turn(1)) (simp add: write_packet_turn_def)
  then show ?case by (simp add: L bytes_at_def)
next
  case (Suc k)
  let ?h = "h\<lparr>b_setup := b_setup h @ [m p]\<rparr>"
  have L: "L \<noteq> 0" using Suc.hyps(2) by auto
  then have L1: "unat (L - 1) = k" using Suc.hyps(2) by (simp add: unat_minus_one)
  have sz: "length (b_setup h) < unat sz" "unat sz < 256" using Suc.prems(2) Suc.hyps(2) unsigned_less [of sz] by auto
  then have "unat (of_nat (length (b_setup h)) :: u8) = length (b_setup h)" by (simp add: unat_of_nat take_bit_nat_eq_self)
  then have "u16_of_bytes [of_nat (length (b_setup h)), 0] < ucast sz"
    using sz by (simp add: u16_of_bytes_def word_less_nat_alt unat_ucast_u16)
  moreover have "(if b_setup h = [] then b_bank h else b_setup h) = b_setup h" using Suc.prems(1) by simp
  ultimately have "loop (write_packet_turn (bus_io reply n) sz m) (L, p, h) = loop (write_packet_turn (bus_io reply n) sz m) (L - 1, Suc p, ?h)"
    using L by (intro loop_turn(2)) (simp add: write_packet_turn_def Pipe_Write_8_def del: if_split)
  also have "\<dots> = Some (0, Suc p + k, ?h\<lparr>b_setup := b_setup ?h @ bytes_at m (Suc p) k\<rparr>)"
    using Suc.hyps(1) [of "L - 1" ?h "Suc p"] L1 Suc.prems Suc.hyps(2) by simp
  also have "\<dots> = Some (0, p + unat L, h\<lparr>b_setup := b_setup h @ bytes_at m p (unat L)\<rparr>)"
    using bytes_at_add [of m p 1 k] by (simp add: Suc.hyps(2) [symmetric] bytes_at_def)
  finally show ?case .
qed

lemma bus_control_write:
  assumes "b_setup h = []" "b_bank h = []" "L \<noteq> 0" "unat L \<le> unat sz"
  shows "\<exists>h'. control_out (bus_io reply n) sz L (Some p) m h = Some (HOST_SENDCONTROL_Successful, h') \<and> after_request h h'
     \<and> b_out h' = b_out h @ [bytes_at m p (unat L)]"
proof -
  let ?D = "bus_io reply n" and ?h = "Pipe_SetPipeToken (bus_io reply n) PIPE_TOKEN_OUT h"
  let ?h1 = "?h\<lparr>b_out := b_out h @ [bytes_at m p (unat L)]\<rparr>" let ?h2 = "Pipe_SetPipeToken ?D PIPE_TOKEN_IN ?h1"
  have "loop (control_write_turn ?D sz m) (L, p, ?h) = loop (control_write_turn ?D sz m) (0, p + unat L, ?h1)"
    using bus_write_packet [of ?h L sz reply n m p] assms by (intro loop_turn(2)) (simp add: control_write_turn_def)
  also have "\<dots> = Some (0, ?h1)" by (rule loop_turn(1)) (simp add: control_write_turn_def)
  finally have l: "loop (control_write_turn ?D sz m) (L, p, ?h) = Some (0, ?h1)" .
  have "after_request h ?h" unfolding bus_ops by (rule after_token) (use assms in \<open>simp_all add: after_request_def\<close>)
  then have "after_request h ?h1" by (rule after_same) (simp add: same_bus_def)
  then have "after_request h ?h2" unfolding bus_ops(8) by (rule after_token) simp
  then have "after_request h (bus_next n (b_rest ?h2) ?h2)" by (rule after_same) (simp add: bus_next_def same_bus_def)
  moreover have "b_out (bus_next n (b_rest ?h2) ?h2) = b_out h @ [bytes_at m p (unat L)]" by (simp add: bus_next_def)
  ultimately show ?thesis using l by (simp add: control_out_def Let_def del: bus_ops(8))
qed

lemma bus_setup_stage:
  assumes "b_state h \<noteq> HOST_STATE_Unattached" "b_setup h = []"
  obtains h' where "after_request h h'" "b_bank h' = take n (reply (header_bytes rq))" "b_rest h' = drop n (reply (header_bytes rq))"
    "USB_Host_SendControlRequest_PRV (bus_io reply n) rq sz ptr m h =
       (if bmRequestType rq AND 0x80 = REQDIR_DEVICETOHOST then control_in (bus_io reply n) (wLength rq) ptr m h'
        else map_option (\<lambda>(e, h). (e, m, h)) (control_out (bus_io reply n) sz (wLength rq) ptr m h'))"
proof
  let ?h = "Pipe_SetPipeToken (bus_io reply n) PIPE_TOKEN_SETUP h"
  let ?h' = "bus_next n (reply (header_bytes rq)) ?h"
  have "after_request h ?h" unfolding bus_ops by (rule after_token) (use assms in \<open>simp_all add: after_request_def\<close>)
  then show a: "after_request h ?h'" by (auto simp: bus_next_def same_bus_def intro: after_same)
  show "b_bank ?h' = take n (reply (header_bytes rq))" "b_rest ?h' = drop n (reply (header_bytes rq))"
    by (simp_all add: bus_next_def)
  have st: "b_state ?h' \<noteq> HOST_STATE_Unattached" using assms a by (simp add: after_request_def)
  have "Pipe_ClearSETUP (bus_io reply n) (put_bytes (\<lambda>h b. Pipe_Write_8 (bus_io reply n) b h) (header_bytes rq) ?h) = ?h'"
    using assms by (simp add: bus_put_bytes bus_next_def)
  then show "USB_Host_SendControlRequest_PRV (bus_io reply n) rq sz ptr m h =
       (if bmRequestType rq AND 0x80 = REQDIR_DEVICETOHOST then control_in (bus_io reply n) (wLength rq) ptr m ?h'
        else map_option (\<lambda>(e, h). (e, m, h)) (control_out (bus_io reply n) sz (wLength rq) ptr m ?h'))"
    using assms(1) st by (simp add: USB_Host_SendControlRequest_PRV_def Let_def del: bus_ops(8))
qed

lemma after_request_trans: "after_request h h1 \<Longrightarrow> after_request h1 h2 \<Longrightarrow> after_request h h2"
  by (simp add: after_request_def)

text \<open>A read request stores the first \<open>wLength\<close> bytes of the answer; a request without data only returns.\<close>

lemma bus_request_in:
  assumes "0 < n" "n < 256" "b_state (hw s) \<noteq> HOST_STATE_Unattached" "b_setup (hw s) = []"
    and "bmRequestType (USB_ControlRequest s) AND 0x80 = REQDIR_DEVICETOHOST"
  obtains h' where "after_request (hw s) h'"
    "USB_Host_SendControlRequest (bus_io reply n) (Some p) m s = Some (HOST_SENDCONTROL_Successful,
       mem_put m p (take (unat (wLength (USB_ControlRequest s))) (reply (header_bytes (USB_ControlRequest s)))), s\<lparr>hw := h'\<rparr>)"
proof -
  let ?rq = "USB_ControlRequest s"
  obtain h1 where h1: "after_request (hw s) h1" "b_bank h1 = take n (reply (header_bytes ?rq))" "b_rest h1 = drop n (reply (header_bytes ?rq))"
    and prv: "USB_Host_SendControlRequest_PRV (bus_io reply n) ?rq (USB_Host_ControlPipeSize s) (Some p) m (hw s) =
      (if bmRequestType ?rq AND 0x80 = REQDIR_DEVICETOHOST then control_in (bus_io reply n) (wLength ?rq) (Some p) m h1
       else map_option (\<lambda>(e, h). (e, m, h)) (control_out (bus_io reply n) (USB_Host_ControlPipeSize s) (wLength ?rq) (Some p) m h1))"
    by (rule bus_setup_stage [OF assms(3,4)])
  have "b_setup h1 = []" using h1(1) by (simp add: after_request_def)
  from bus_control_in [OF assms(1,2) h1(2,3) this] obtain h2 where
    c: "control_in (bus_io reply n) (wLength ?rq) (Some p) m h1 =
      Some (0, mem_put m p (take (unat (wLength ?rq)) (reply (header_bytes ?rq))), h2)" and h2: "after_request h1 h2" by blast
  have "USB_Host_SendControlRequest (bus_io reply n) (Some p) m s = Some (HOST_SENDCONTROL_Successful,
       mem_put m p (take (unat (wLength ?rq)) (reply (header_bytes ?rq))), s\<lparr>hw := h2\<rparr>)"
    using prv c assms(5) by (simp add: USB_Host_SendControlRequest_def)
  with after_request_trans [OF h1(1) h2] show thesis by (rule that)
qed

lemma bus_request_none:
  assumes "b_state (hw s) \<noteq> HOST_STATE_Unattached" "b_setup (hw s) = []"
    and "bmRequestType (USB_ControlRequest s) AND 0x80 \<noteq> REQDIR_DEVICETOHOST"
  obtains h' where "after_request (hw s) h'"
    "USB_Host_SendControlRequest (bus_io reply n) None m s = Some (HOST_SENDCONTROL_Successful, m, s\<lparr>hw := h'\<rparr>)"
proof -
  let ?rq = "USB_ControlRequest s"
  obtain h1 where h1: "after_request (hw s) h1"
    and prv: "USB_Host_SendControlRequest_PRV (bus_io reply n) ?rq (USB_Host_ControlPipeSize s) None m (hw s) =
      (if bmRequestType ?rq AND 0x80 = REQDIR_DEVICETOHOST then control_in (bus_io reply n) (wLength ?rq) None m h1
       else map_option (\<lambda>(e, h). (e, m, h)) (control_out (bus_io reply n) (USB_Host_ControlPipeSize s) (wLength ?rq) None m h1))"
    by (rule bus_setup_stage [OF assms(1,2)])
  have "b_setup h1 = []" using h1(1) by (simp add: after_request_def)
  from bus_control_out [OF this] obtain h2 where
    c: "control_out (bus_io reply n) (USB_Host_ControlPipeSize s) (wLength ?rq) None m h1 = Some (0, h2)" and h2: "after_request h1 h2"
    by blast
  have "USB_Host_SendControlRequest (bus_io reply n) None m s = Some (HOST_SENDCONTROL_Successful, m, s\<lparr>hw := h2\<rparr>)"
    using prv c assms(3) by (simp add: USB_Host_SendControlRequest_def)
  with after_request_trans [OF h1 h2] show thesis by (rule that)
qed

lemma bus_request_out:
  assumes "b_state (hw s) \<noteq> HOST_STATE_Unattached" "b_setup (hw s) = []" "reply (header_bytes (USB_ControlRequest s)) = []"
    and "bmRequestType (USB_ControlRequest s) AND 0x80 \<noteq> REQDIR_DEVICETOHOST" "wLength (USB_ControlRequest s) \<noteq> 0"
      "unat (wLength (USB_ControlRequest s)) \<le> unat (USB_Host_ControlPipeSize s)"
  obtains h' where "after_request (hw s) h'" "bytes_at m p (unat (wLength (USB_ControlRequest s))) \<in> set (b_out h')"
    "USB_Host_SendControlRequest (bus_io reply n) (Some p) m s = Some (HOST_SENDCONTROL_Successful, m, s\<lparr>hw := h'\<rparr>)"
proof -
  let ?rq = "USB_ControlRequest s"
  obtain h1 where h1: "after_request (hw s) h1" "b_bank h1 = []"
    and prv: "USB_Host_SendControlRequest_PRV (bus_io reply n) ?rq (USB_Host_ControlPipeSize s) (Some p) m (hw s) =
      (if bmRequestType ?rq AND 0x80 = REQDIR_DEVICETOHOST then control_in (bus_io reply n) (wLength ?rq) (Some p) m h1
       else map_option (\<lambda>(e, h). (e, m, h)) (control_out (bus_io reply n) (USB_Host_ControlPipeSize s) (wLength ?rq) (Some p) m h1))"
    by (rule bus_setup_stage [OF assms(1,2), of n reply ?rq]) (use assms(3) in auto)
  have "b_setup h1 = []" using h1(1) by (simp add: after_request_def)
  from bus_control_write [OF this h1(2) assms(5,6), of reply n p m] obtain h2 where
    c: "control_out (bus_io reply n) (USB_Host_ControlPipeSize s) (wLength ?rq) (Some p) m h1 = Some (0, h2)" and h2: "after_request h1 h2"
    "bytes_at m p (unat (wLength ?rq)) \<in> set (b_out h2)"
    by auto
  have "USB_Host_SendControlRequest (bus_io reply n) (Some p) m s = Some (HOST_SENDCONTROL_Successful, m, s\<lparr>hw := h2\<rparr>)"
    using prv c assms(4) by (simp add: USB_Host_SendControlRequest_def)
  with after_request_trans [OF h1(1) h2(1)] h2(2) show thesis by (rule that)
qed

text \<open>An idle host with a device attached.\<close>

definition idle_host :: "bus host_core" where
  "idle_host = \<lparr>hw = \<lparr>p_num = 0, p_cfg0 = \<lambda>_. 0, p_cfg1 = \<lambda>_. 0, b_setup = [], b_bank = [], b_rest = [], b_out = [], b_state = HOST_STATE_Powered\<rparr>,
     USB_IsInitialized = True, USB_ControlRequest = request 0 0 0 0 0, USB_Device_ConfigurationNumber = 0,
     USB_Device_CurrentlySelfPowered = False, USB_Device_RemoteWakeupEnabled = False, SREG_I = True,
     USB_Host_ConfigurationNumber = 0, USB_Host_ControlPipeSize = 64, WaitMSRemaining = 0, PostWaitState = 0, stack_mem = \<lambda>_. 0\<rparr>"

text \<open>A request on the control pipe.\<close>

lemma bus_control_request:
  assumes "0 < n" "n < 256" "b_state (hw s) \<noteq> HOST_STATE_Unattached" "b_setup (hw s) = []"
    and "bmRequestType rq AND 0x80 = REQDIR_DEVICETOHOST"
  obtains h' where "after_request ((hw s)\<lparr>p_num := 0\<rparr>) h'"
    "control_request (bus_io reply n) rq (Some p) m s = Some (HOST_SENDCONTROL_Successful,
       mem_put m p (take (unat (wLength rq)) (reply (header_bytes rq))), s\<lparr>USB_ControlRequest := rq, hw := h'\<rparr>)"
  by (rule bus_request_in [OF assms(1,2), of "hw_do (Pipe_SelectPipe (bus_io reply n) PIPE_CONTROLPIPE) (s\<lparr>USB_ControlRequest := rq\<rparr>)" reply p m])
    (use assms in \<open>auto simp: hw_do_def Pipe_SelectPipe_def control_request_def\<close>)

text \<open>
  Fetching a configuration descriptor from a device that answers requests for it as the USB
  specification says, with the first \<open>wLength\<close> bytes of the descriptor.
\<close>

definition get_configuration :: "u16 \<Rightarrow> USB_Request_Header_t" where
  "get_configuration L = request (REQDIR_DEVICETOHOST OR REQTYPE_STANDARD OR REQREC_DEVICE) REQ_GetDescriptor 0x0200 0 L"

lemma bus_fetch:
  assumes "0 < n" "n < 256" "b_state (hw s) \<noteq> HOST_STATE_Unattached" "b_setup (hw s) = []"
    and reply: "\<And>L. reply (header_bytes (get_configuration L)) = take (unat L) desc"
    and desc: "9 \<le> length desc" "desc ! 1 = DTYPE_Configuration" "unat (u16_of_bytes [desc ! 2, desc ! 3]) = length desc"
    and room: "length desc \<le> unat BufferSize"
  obtains h' where "after_request ((hw s)\<lparr>p_num := 0\<rparr>) h'"
    "USB_Host_GetDeviceConfigDescriptor (bus_io reply n) 1 p BufferSize m s =
       Some (HOST_GETCONFIG_Successful, Some (of_nat (length desc)), mem_put m p desc,
         s\<lparr>USB_ControlRequest := get_configuration (of_nat (length desc)), hw := h'\<rparr>)"
proof -
  let ?D = "bus_io reply n" and ?N = "of_nat (length desc) :: u16"
  let ?hdr = "mem_put (stack_mem s) 0 (take 9 desc)"
  have rq: "bmRequestType (get_configuration L) AND 0x80 = REQDIR_DEVICETOHOST" "wLength (get_configuration L) = L" for L
    by (simp_all add: get_configuration_def request_def)
  have N: "u16_of_bytes [desc ! 2, desc ! 3] = ?N" unfolding desc(3) [symmetric] by simp
  have uN: "unat ?N = length desc" using desc(3) N by simp
  obtain h1 where h1: "after_request ((hw s)\<lparr>p_num := 0\<rparr>) h1"
    and c1: "control_request ?D (get_configuration 9) (Some 0) (stack_mem s) s = Some (0, ?hdr, s\<lparr>USB_ControlRequest := get_configuration 9, hw := h1\<rparr>)"
    using bus_control_request [OF assms(1-4), of "get_configuration 9" reply 0 "stack_mem s"] reply [of 9] rq by auto
  have hdr: "?hdr 2 = desc ! 2" "?hdr 3 = desc ! 3" using desc(1) by (simp_all add: mem_put_def)
  let ?s = "s\<lparr>hw := h1, USB_ControlRequest := get_configuration ?N\<rparr>"
  have "b_state (hw ?s) \<noteq> HOST_STATE_Unattached" "b_setup (hw ?s) = []" using h1 assms(3) by (simp_all add: after_request_def)
  from bus_request_in [OF assms(1,2) this, of reply p m] obtain h2 where h2: "after_request h1 h2"
    and c2: "USB_Host_SendControlRequest ?D (Some p) m ?s = Some (0, mem_put m p desc, ?s\<lparr>hw := h2\<rparr>)"
    using reply [of ?N] rq uN by auto
  have "DESCRIPTOR_TYPE (mem_put m p desc) p = DTYPE_Configuration"
    using desc(1,2) by (simp add: DESCRIPTOR_TYPE_def mem_put_def)
  moreover have "(get_configuration 9)\<lparr>wLength := ?N\<rparr> = get_configuration ?N" by (simp add: get_configuration_def request_def)
  moreover have "\<not> ?N > BufferSize" using room uN by (simp add: word_less_nat_alt)
  moreover have "request 0x80 6 0x200 0 9 = get_configuration 9" by (simp add: get_configuration_def)
  ultimately have "USB_Host_GetDeviceConfigDescriptor ?D 1 p BufferSize m s =
       Some (HOST_GETCONFIG_Successful, Some ?N, mem_put m p desc, s\<lparr>USB_ControlRequest := get_configuration ?N, hw := h2\<rparr>)"
    using c1 c2 hdr N by (simp add: USB_Host_GetDeviceConfigDescriptor_def Let_def)
  with after_request_trans [OF h1 h2] show thesis by (rule that)
qed

section \<open>Properties of the requests\<close>

text \<open>C23. Fetching a configuration descriptor is safe against every device: whatever it answers, only the
  caller's buffer is written, and if the call succeeds the size it reports fits into the buffer and the
  buffer starts with a configuration descriptor.\<close>

theorem config_descriptor_in_bounds:
  assumes "USB_Host_GetDeviceConfigDescriptor D ConfigNumber BufferPtr BufferSize m s = Some (e, n, m', s')"
  shows "agree_outside BufferPtr (unat BufferSize) m m'
     \<and> (e = HOST_GETCONFIG_Successful \<longrightarrow> (\<exists>k \<le> BufferSize. n = Some k) \<and> DESCRIPTOR_TYPE m' BufferPtr = DTYPE_Configuration)"
proof -
  have send: "agree_outside BufferPtr (unat BufferSize) m m1"
    if "USB_Host_SendControlRequest D (Some BufferPtr) m s1 = Some (e1, m1, s2)" "wLength (USB_ControlRequest s1) \<le> BufferSize"
    for m1 s1 e1 s2
    using send_control_inside [OF that(1)] that(2) by (auto intro: agree_outside_mono simp: word_le_nat_alt)
  from assms show ?thesis
    by (auto simp: USB_Host_GetDeviceConfigDescriptor_def Let_def split_beta not_less dest!: send split: if_splits bind_splits)
qed

text \<open>C38. The device status is never read: the request asks for no bytes, so the variable the caller passes
  keeps its value, for every device and also if the call reports success.\<close>

theorem device_status_not_read:
  assumes "USB_Host_GetDeviceStatus D FeatureStatus m s = Some (e, m', s')"
  shows "m' = m"
  using control_request_inside [OF assms [unfolded USB_Host_GetDeviceStatus_def]] by (simp add: request_def)

theorem device_status_not_read_witness:
  "\<exists>s'. USB_Host_GetDeviceStatus (bus_io (\<lambda>_. [1, 0]) 8) 100 (\<lambda>_. 7) idle_host = Some (HOST_SENDCONTROL_Successful, \<lambda>_. 7, s')"
proof -
  let ?s = "hw_do (Pipe_SelectPipe (bus_io (\<lambda>_. [1, 0]) 8) PIPE_CONTROLPIPE)
     (idle_host\<lparr>USB_ControlRequest := request (REQDIR_DEVICETOHOST OR REQTYPE_STANDARD OR REQREC_DEVICE) REQ_GetStatus 0 0 0\<rparr>)"
  have "\<exists>m' s'. USB_Host_SendControlRequest (bus_io (\<lambda>_. [1, 0]) 8) (Some 100) (\<lambda>_. 7) ?s = Some (HOST_SENDCONTROL_Successful, m', s')"
    by (rule bus_request_in [of 8 ?s "\<lambda>_. [1, 0]" 100 "\<lambda>_. 7"]) (auto simp: hw_do_def idle_host_def request_def Pipe_SelectPipe_def)
  then obtain m' s' where r: "USB_Host_GetDeviceStatus (bus_io (\<lambda>_. [1, 0]) 8) 100 (\<lambda>_. 7) idle_host = Some (HOST_SENDCONTROL_Successful, m', s')"
    by (auto simp: USB_Host_GetDeviceStatus_def control_request_def)
  with device_status_not_read [OF r] show ?thesis by blast
qed

section \<open>Enumerating the firmware\<close>

text \<open>
  The answers of a firmware of this repository: to a request for a descriptor the first \<open>wLength\<close>
  bytes of what its callback selects (\<open>Usb_Transfers\<close> shows that these are the bytes it sends), to any
  other request nothing.
\<close>

definition firmware_reply :: "u8 list \<Rightarrow> u8 list" where
  "firmware_reply hdr =
     (if hdr ! 0 = 0x80 \<and> hdr ! 1 = REQ_GetDescriptor then
        let (DescriptorSize, Descriptor) = CALLBACK_USB_GetDescriptor (u16_of_bytes [hdr ! 2, hdr ! 3]) (hdr ! 4)
        in take (unat (u16_of_bytes [hdr ! 6, hdr ! 7])) (take (unat DescriptorSize) Descriptor)
      else [])"

lemma header_u16 [simp]: "u16_of_bytes [header_bytes rq ! 2, header_bytes rq ! 3] = wValue rq"
  "u16_of_bytes [header_bytes rq ! 6, header_bytes rq ! 7] = wLength rq"
  using u16_bytes_roundtrip [of "wValue rq"] u16_bytes_roundtrip [of "wLength rq"]
  by (simp_all add: header_bytes_def bytes_of_u16_def)

lemma firmware_configuration: "firmware_reply (header_bytes (get_configuration L)) = take (unat L) ConfigurationDescriptor"
proof -
  have "length ConfigurationDescriptor = 62" by (simp add: ConfigurationDescriptor_bytes)
  then have "CALLBACK_USB_GetDescriptor 0x200 i = (62, ConfigurationDescriptor)" for i
    by (simp add: CALLBACK_USB_GetDescriptor_def)
  moreover have "header_bytes (get_configuration L) ! 0 = 0x80" "header_bytes (get_configuration L) ! 1 = 6"
    "wValue (get_configuration L) = 0x200" "wLength (get_configuration L) = L"
    by (simp_all add: header_bytes_def get_configuration_def request_def)
  moreover have "take (unat L) (take 62 ConfigurationDescriptor) = take (unat L) ConfigurationDescriptor"
    using \<open>length ConfigurationDescriptor = 62\<close> by (metis take_all_iff order_refl)
  ultimately show ?thesis by (simp add: firmware_reply_def del: take_take)
qed

lemma firmware_fetch:
  assumes "b_state (hw s) \<noteq> HOST_STATE_Unattached" "b_setup (hw s) = []" "62 \<le> BufferSize"
  obtains h' where "after_request ((hw s)\<lparr>p_num := 0\<rparr>) h'"
    "USB_Host_GetDeviceConfigDescriptor (bus_io firmware_reply 8) 1 p BufferSize m s =
       Some (HOST_GETCONFIG_Successful, Some 62, mem_put m p ConfigurationDescriptor,
         s\<lparr>USB_ControlRequest := get_configuration 62, hw := h'\<rparr>)"
proof -
  have l: "length ConfigurationDescriptor = 62" by (simp add: ConfigurationDescriptor_bytes)
  have d: "ConfigurationDescriptor ! 1 = DTYPE_Configuration" "unat (u16_of_bytes [ConfigurationDescriptor ! 2, ConfigurationDescriptor ! 3]) = 62"
    by (simp_all add: ConfigurationDescriptor_bytes u16_of_bytes_def)
  show thesis
    by (rule bus_fetch [of 8 s firmware_reply ConfigurationDescriptor BufferSize p m])
      (use assms firmware_configuration l d that in \<open>auto simp: word_le_nat_alt\<close>)
qed

theorem config_descriptor_in_bounds_witness:
  "\<exists>e n m' s'. USB_Host_GetDeviceConfigDescriptor (bus_io firmware_reply 8) 1 100 64 (\<lambda>_. 7) idle_host = Some (e, n, m', s')
     \<and> e = HOST_GETCONFIG_Successful \<and> agree_outside 100 64 (\<lambda>_. 7) m'"
proof -
  have "\<exists>n m' s'. USB_Host_GetDeviceConfigDescriptor (bus_io firmware_reply 8) 1 100 64 (\<lambda>_. 7) idle_host
      = Some (HOST_GETCONFIG_Successful, n, m', s')"
    by (rule firmware_fetch [of idle_host 64 100 "\<lambda>_. 7"]) (auto simp: idle_host_def)
  then obtain n m' s' where r: "USB_Host_GetDeviceConfigDescriptor (bus_io firmware_reply 8) 1 100 64 (\<lambda>_. 7) idle_host
      = Some (HOST_GETCONFIG_Successful, n, m', s')" by blast
  from config_descriptor_in_bounds [OF r] r show ?thesis by auto
qed

section \<open>Enumeration\<close>

text \<open>The states a main loop comes to whose body is \<open>T\<close>.\<close>

inductive reaches :: "('s \<Rightarrow> 's option) \<Rightarrow> 's \<Rightarrow> 's \<Rightarrow> bool" for T where
  reaches_refl: "reaches T s s"
| reaches_step: "T s = Some t \<Longrightarrow> reaches T t u \<Longrightarrow> reaches T s u"

declare reaches_refl [simp, intro]

lemma reaches_trans: "reaches T s t \<Longrightarrow> reaches T t u \<Longrightarrow> reaches T s u"
  by (induction rule: reaches.induct) (auto intro: reaches_step)

lemma bus_and_UPCFG1X [simp]:
  "io_and (bus_io reply n) UPCFG1X m h = h\<lparr>p_cfg1 := (p_cfg1 h)(p_num h := p_cfg1 h (p_num h) AND m)\<rparr>"
  by (simp add: io_and_def)

text \<open>The pipe registers of the bus are those of \<open>Pipe_Registers\<close>.\<close>

lemma bus_pipe_unit: "pipe_unit (bus_io reply n) (\<lambda>h. h)"
  by (simp add: pipe_unit_def) (simp add: bus_io_def bus_rd_def)

text \<open>
  The state of a host between two runs of the task: the control pipe is selected and nothing of a
  request is left over. \<open>at st x s\<close>: it is at step \<open>st\<close> of the enumeration, and the variables of the
  application are \<open>x\<close>.
\<close>

definition at :: "u8 \<Rightarrow> 'm \<Rightarrow> (bus, 'm) host_core_scheme \<Rightarrow> bool" where
  "at st x s \<longleftrightarrow> b_state (hw s) = st \<and> p_num (hw s) = 0 \<and> b_setup (hw s) = [] \<and> host_core.more s = x"

lemma at_more: "at st x s \<Longrightarrow> host_core.more s = x"
  by (simp add: at_def)

lemma host_more [simp]:
  "host_core.more (s\<lparr>hw := h\<rparr>) = host_core.more s" "host_core.more (s\<lparr>USB_ControlRequest := rq\<rparr>) = host_core.more s"
  by (cases s; simp)+

lemma bus_task:
  assumes "p_num (hw s) = 0"
  shows "H_USB_USBTask (bus_io reply n) A s =
     map_option (hw_do (\<lambda>h. h\<lparr>p_num := 0\<rparr>)) (USB_Host_ProcessNextHostState (bus_io reply n) A s)"
proof -
  have hw: "(hw s)\<lparr>p_num := 0\<rparr> = hw s" using assms by simp
  have same: "s\<lparr>hw := (hw s)\<lparr>p_num := 0\<rparr>\<rparr> = s" unfolding hw by simp
  have "(if b then 0x80 else 0) AND (0x0F :: u8) = 0" for b by simp
  then have "H_USB_USBTask (bus_io reply n) A s = do {
      s \<leftarrow> USB_Host_ProcessNextHostState (bus_io reply n) A (s\<lparr>hw := (hw s)\<lparr>p_num := 0\<rparr>\<rparr>);
      Some (hw_do (\<lambda>h. h\<lparr>p_num := 0\<rparr>) s) }"
    using assms
    by (simp add: H_USB_USBTask_def USB_HostTask_def hw_do_def hw_get_def Pipe_GetCurrentPipe_def Pipe_GetPipeDirection_def
        Pipe_SelectPipe_def io_test_bit Let_def)
  then show ?thesis unfolding same by (cases "USB_Host_ProcessNextHostState (bus_io reply n) A s") simp_all
qed

lemma bus_process:
  assumes "host_switch (bus_io reply n) A (b_state (hw s)) s = Some (HOST_ENUMERROR_NoError, e, t)"
  shows "USB_Host_ProcessNextHostState (bus_io reply n) A s = Some t"
  using assms by (simp add: USB_Host_ProcessNextHostState_def hw_get_def)

lemma free_pipes_update [simp]:
  "free_pipes (h\<lparr>p_num := v\<rparr>) = free_pipes h" "free_pipes (h\<lparr>b_state := v\<rparr>) = free_pipes h" "free_pipes (h\<lparr>b_setup := x\<rparr>) = free_pipes h"
  by (simp_all add: free_pipes_def)

lemma free_after_request: "after_request h h' \<Longrightarrow> free_pipes h' = free_pipes h"
  by (simp add: free_pipes_def after_request_def)

lemma bus_reset [simp]: "USB_Host_ResetDevice (bus_io reply n) s = Some (s\<lparr>USB_Host_ConfigurationNumber := 0\<rparr>)"
proof -
  have "loop (\<lambda>h. let (b, h) = USB_Host_IsBusResetComplete (bus_io reply n) h in if b then Some (Inl h) else Some (Inr h)) h = Some h" for h
    by (rule loop_turn(1)) simp
  moreover have "reset_frames (bus_io reply n) 10 h = h" for h by (simp add: eval_nat_numeral)
  ultimately show ?thesis by (simp add: USB_Host_ResetDevice_def hw_do_def hw_get_def hw_try_def Let_def)
qed

lemma bus_clear_pipes: "b_setup (Pipe_ClearPipes (bus_io reply n) h) = []" "free_pipes (Pipe_ClearPipes (bus_io reply n) h)"
  by (simp_all add: free_pipes_def Pipe_ClearPipes_def Pipe_SelectPipe_def Pipe_DisablePipe_def bus_next_def)

text \<open>Configuring the control pipe.\<close>

lemma bus_control_pipe:
  assumes "p_num (hw s) = 0"
  obtains h' where "b_state h' = b_state (hw s)" "p_num h' = 0" "b_setup h' = b_setup (hw s)" "free_pipes (hw s) \<longrightarrow> free_pipes h'"
    "hw_tryget (Pipe_ConfigurePipe (bus_io reply n) PIPE_CONTROLPIPE EP_TYPE_CONTROL ENDPOINT_CONTROLEP Size 1) s = Some (True, s\<lparr>hw := h'\<rparr>)"
proof -
  obtain m where m: "Pipe_BytesToEPSizeMask Size = Some m" using pipe_size_mask by blast
  obtain h' where c: "Pipe_ConfigurePipe (bus_io reply n) PIPE_CONTROLPIPE EP_TYPE_CONTROL ENDPOINT_CONTROLEP Size 1 (hw s) = Some (True, h')"
    and h': "h' = (hw s)\<lparr>p_num := 0, p_cfg0 := (p_cfg0 (hw s))(0 := 0), p_cfg1 := (p_cfg1 (hw s))(0 := BV ALLOC OR 1 OR m)\<rparr>"
    by (rule configure_pipe [OF bus_pipe_unit, of PIPE_CONTROLPIPE Size m reply n EP_TYPE_CONTROL ENDPOINT_CONTROLEP 1 "hw s"])
      (use m in \<open>auto simp: pipe_cfg0_def PIPE_TOKEN_SETUP_def\<close>)
  show thesis using c by (intro that [of h']) (auto simp: hw_tryget_def free_pipes_def h')
qed

text \<open>The first request reads the size of endpoint 0 out of the device descriptor of the firmware.\<close>

lemma firmware_device: "take 8 (firmware_reply (header_bytes (request 0x80 REQ_GetDescriptor 0x100 0 8))) = take 8 DeviceDescriptor"
proof -
  have "CALLBACK_USB_GetDescriptor 0x100 i = (18, DeviceDescriptor)" for i by (simp add: CALLBACK_USB_GetDescriptor_def)
  then show ?thesis by (simp add: firmware_reply_def) (simp add: header_bytes_def request_def)
qed

text \<open>
  A main loop that does nothing but run the USB task as long as no device is configured, with any event
  handlers, on the bus.
\<close>

locale bus_loop =
  fixes T :: "(bus, 'm) host_core_scheme \<Rightarrow> (bus, 'm) host_core_scheme option"
    and A :: "(bus, 'm) host_core_scheme host_app" and reply :: "u8 list \<Rightarrow> u8 list" and n :: nat
  assumes body: "b_state (hw s) \<noteq> HOST_STATE_Configured \<Longrightarrow> T s = H_USB_USBTask (bus_io reply n) A s"
begin

lemma bus_step:
  assumes "at st x s" "st \<noteq> HOST_STATE_Configured" "host_switch (bus_io reply n) A st s = Some (HOST_ENUMERROR_NoError, e, t)"
    and "reaches T (t\<lparr>hw := (hw t)\<lparr>p_num := 0\<rparr>\<rparr>) u"
  shows "reaches T s u"
proof -
  have "b_state (hw s) = st" "p_num (hw s) = 0" using assms(1) by (simp_all add: at_def)
  then have "T s = Some (t\<lparr>hw := (hw t)\<lparr>p_num := 0\<rparr>\<rparr>)"
    using bus_task [of s reply n A] bus_process [of reply n A s] assms(2,3) by (simp add: body hw_do_def)
  then show ?thesis using assms(4) by (rule reaches_step)
qed

lemma bus_next_state:
  assumes "at st x s" "st \<noteq> HOST_STATE_Configured" "host_switch (bus_io reply n) A st s = Some (HOST_ENUMERROR_NoError, e, t)"
  shows "reaches T s (t\<lparr>hw := (hw t)\<lparr>p_num := 0\<rparr>\<rparr>)"
  by (rule bus_step [OF assms]) simp

text \<open>The two delays of the state machine.\<close>

lemma bus_waited:
  assumes "at HOST_STATE_WaitForDevice x s" "0 < WaitMSRemaining s"
  shows "\<exists>t. reaches T s t \<and> at (PostWaitState s) x t \<and> USB_Host_ControlPipeSize t = USB_Host_ControlPipeSize s
     \<and> free_pipes (hw t) = free_pipes (hw s)"
  using assms
proof (induction "unat (WaitMSRemaining s)" arbitrary: s)
  case 0
  then show ?case by (simp add: unat_eq_zero)
next
  case (Suc k)
  let ?t = "s\<lparr>WaitMSRemaining := WaitMSRemaining s - 1\<rparr>"
  let ?u = "if WaitMSRemaining s - 1 = 0 then ?t\<lparr>hw := (hw s)\<lparr>b_state := PostWaitState s\<rparr>\<rparr> else ?t"
  have hw: "b_state (hw s) = HOST_STATE_WaitForDevice" "p_num (hw s) = 0" "b_setup (hw s) = []" "host_core.more s = x" using Suc.prems(1) by (simp_all add: at_def)
  then have "host_switch (bus_io reply n) A HOST_STATE_WaitForDevice s = Some (HOST_ENUMERROR_NoError, 0, ?u)"
    using Suc.prems(2) by (simp add: host_switch_def host_wait_for_device_def hw_tryget_def hw_do_def Let_def)
  then have r: "reaches T s (?u\<lparr>hw := (hw ?u)\<lparr>p_num := 0\<rparr>\<rparr>)" (is "reaches _ _ ?v")
    by (rule bus_next_state [OF Suc.prems(1), rotated]) simp
  show ?case
  proof (cases "WaitMSRemaining s - 1 = 0")
    case True
    then have "at (PostWaitState s) x ?v \<and> USB_Host_ControlPipeSize ?v = USB_Host_ControlPipeSize s
      \<and> free_pipes (hw ?v) = free_pipes (hw s)" using hw by (simp add: at_def)
    with r show ?thesis by blast
  next
    case False
    then have w: "WaitMSRemaining ?v = WaitMSRemaining s - 1" "PostWaitState ?v = PostWaitState s"
      "USB_Host_ControlPipeSize ?v = USB_Host_ControlPipeSize s" "at HOST_STATE_WaitForDevice x ?v"
      "free_pipes (hw ?v) = free_pipes (hw s)" using hw by (simp_all add: at_def)
    have "unat (WaitMSRemaining s - 1) = unat (WaitMSRemaining s) - 1"
      using Suc.prems(2) by (simp add: unat_sub word_le_nat_alt unat_gt_0 Suc_le_eq)
    then have "k = unat (WaitMSRemaining ?v)" using Suc.hyps(2) w(1) by simp
    moreover have "0 < WaitMSRemaining ?v" using False w(1) by (simp add: word_neq_0_conv [symmetric])
    ultimately obtain t where "reaches T ?v t" "at (PostWaitState ?v) x t"
      "USB_Host_ControlPipeSize t = USB_Host_ControlPipeSize ?v" "free_pipes (hw t) = free_pipes (hw ?v)" using Suc.hyps(1) [of ?v] w(4) by blast
    with reaches_trans [OF r] w(2,3,5) show ?thesis by auto
  qed
qed

lemma bus_settled:
  assumes "at HOST_STATE_Powered_WaitForDeviceSettle x s"
  shows "\<exists>t. reaches T s t \<and> at HOST_STATE_Powered_WaitForConnect x t"
  using assms
proof (induction "unat (WaitMSRemaining s)" arbitrary: s)
  case 0
  have hw: "p_num (hw s) = 0" "b_setup (hw s) = []" "WaitMSRemaining s = 0" "host_core.more s = x" using 0 by (simp_all add: at_def unat_eq_zero)
  let ?t = "s\<lparr>WaitMSRemaining := WaitMSRemaining s - 1, hw := (hw s)\<lparr>b_state := HOST_STATE_Powered_WaitForConnect\<rparr>\<rparr>"
  have "host_switch (bus_io reply n) A HOST_STATE_Powered_WaitForDeviceSettle s = Some (HOST_ENUMERROR_NoError, 0, ?t)"
    using hw by (simp add: host_switch_def host_settle_def hw_do_def Let_def USB_Host_VBUS_Manual_Off_def USB_OTGPAD_On_def
        USB_Host_VBUS_Auto_Enable_def USB_Host_VBUS_Auto_On_def)
  from bus_next_state [OF 0(2) _ this] have "reaches T s (?t\<lparr>hw := (hw ?t)\<lparr>p_num := 0\<rparr>\<rparr>)" by simp
  moreover have "at HOST_STATE_Powered_WaitForConnect x (?t\<lparr>hw := (hw ?t)\<lparr>p_num := 0\<rparr>\<rparr>)" using hw by (simp add: at_def)
  ultimately show ?case by blast
next
  case (Suc k)
  let ?t = "s\<lparr>WaitMSRemaining := WaitMSRemaining s - 1\<rparr>"
  let ?v = "?t\<lparr>hw := (hw ?t)\<lparr>p_num := 0\<rparr>\<rparr>"
  have pos: "WaitMSRemaining s \<noteq> 0" using Suc.hyps(2) by auto
  then have "host_switch (bus_io reply n) A HOST_STATE_Powered_WaitForDeviceSettle s = Some (HOST_ENUMERROR_NoError, 0, ?t)"
    by (simp add: host_switch_def host_settle_def Let_def)
  then have r: "reaches T s ?v" by (rule bus_next_state [OF Suc.prems, rotated]) simp
  have "unat (WaitMSRemaining s - 1) = unat (WaitMSRemaining s) - 1" using pos by (rule unat_minus_one)
  then have "k = unat (WaitMSRemaining ?v)" using Suc.hyps(2) by simp
  moreover have "at HOST_STATE_Powered_WaitForDeviceSettle x ?v" using Suc.prems by (simp add: at_def)
  ultimately obtain t where "reaches T ?v t" "at HOST_STATE_Powered_WaitForConnect x t" using Suc.hyps(1) by blast
  with reaches_trans [OF r] show ?case by blast
qed

lemma bus_delayed:
  assumes "at st x s" "st \<noteq> HOST_STATE_Configured" "host_switch (bus_io reply n) A st s = Some (HOST_ENUMERROR_NoError, e, HOST_TASK_NONBLOCK_WAIT (bus_io reply n) ms st' t)"
    and "0 < ms" "b_setup (hw t) = []" "host_core.more t = x"
  shows "\<exists>u. reaches T s u \<and> at st' x u \<and> USB_Host_ControlPipeSize u = USB_Host_ControlPipeSize t
     \<and> free_pipes (hw u) = free_pipes (hw t)"
proof -
  let ?w = "HOST_TASK_NONBLOCK_WAIT (bus_io reply n) ms st' t"
  let ?v = "?w\<lparr>hw := (hw ?w)\<lparr>p_num := 0\<rparr>\<rparr>"
  have r: "reaches T s ?v" by (rule bus_next_state [OF assms(1-3)])
  have "at HOST_STATE_WaitForDevice x ?v" "0 < WaitMSRemaining ?v" "PostWaitState ?v = st'"
    "USB_Host_ControlPipeSize ?v = USB_Host_ControlPipeSize t" "free_pipes (hw ?v) = free_pipes (hw t)"
    using assms(4-6) by (simp_all add: at_def HOST_TASK_NONBLOCK_WAIT_def hw_do_def)
  with bus_waited [of x ?v] reaches_trans [OF r] show ?thesis by metis
qed

text \<open>The steps between the delays.\<close>

lemma bus_connected:
  assumes "at HOST_STATE_Powered_WaitForConnect x s"
  shows "\<exists>t. reaches T s t \<and> at HOST_STATE_Powered_DoReset x t \<and> free_pipes (hw t)"
proof -
  have "host_switch (bus_io reply n) A HOST_STATE_Powered_WaitForConnect s = Some (HOST_ENUMERROR_NoError, 0,
      HOST_TASK_NONBLOCK_WAIT (bus_io reply n) 100 HOST_STATE_Powered_DoReset (s\<lparr>hw := Pipe_ClearPipes (bus_io reply n) (hw s)\<rparr>))"
    by (simp add: host_switch_def host_wait_connect_def hw_do_def hw_get_def Let_def)
  from bus_delayed [OF assms(1) _ this] at_more [OF assms(1)] show ?thesis by (auto simp: bus_clear_pipes)
qed

lemma bus_was_reset:
  assumes "at HOST_STATE_Powered_DoReset x s" "free_pipes (hw s)"
  shows "\<exists>t. reaches T s t \<and> at HOST_STATE_Powered_ConfigPipe x t \<and> free_pipes (hw t)"
proof -
  have "host_switch (bus_io reply n) A HOST_STATE_Powered_DoReset s = Some (HOST_ENUMERROR_NoError, 0,
      HOST_TASK_NONBLOCK_WAIT (bus_io reply n) 200 HOST_STATE_Powered_ConfigPipe (s\<lparr>USB_Host_ConfigurationNumber := 0\<rparr>))"
    by (simp add: host_switch_def Let_def)
  from bus_delayed [OF assms(1) _ this] at_more [OF assms(1)] assms show ?thesis by (auto simp: at_def)
qed

lemma bus_pipe_configured:
  assumes "at HOST_STATE_Powered_ConfigPipe x s" "free_pipes (hw s)"
  shows "\<exists>t. reaches T s t \<and> at HOST_STATE_Default x t \<and> free_pipes (hw t)"
proof -
  have hw: "p_num (hw s) = 0" "b_setup (hw s) = []" "host_core.more s = x" using assms by (simp_all add: at_def)
  obtain h' where h': "p_num h' = 0" "b_setup h' = []" "free_pipes h'"
    and c: "hw_tryget (Pipe_ConfigurePipe (bus_io reply n) PIPE_CONTROLPIPE EP_TYPE_CONTROL ENDPOINT_CONTROLEP
       (ucast PIPE_CONTROLPIPE_DEFAULT_SIZE) 1) s = Some (True, s\<lparr>hw := h'\<rparr>)"
    using bus_control_pipe [OF hw(1), of reply n] hw(2) assms(2) by metis
  have "host_switch (bus_io reply n) A HOST_STATE_Powered_ConfigPipe s = Some (HOST_ENUMERROR_NoError, 0,
     s\<lparr>hw := h'\<lparr>b_state := HOST_STATE_Default\<rparr>\<rparr>)"
    using c by (simp add: host_switch_def host_config_pipe_def hw_do_def Let_def)
  from bus_next_state [OF assms(1) _ this] at_more [OF assms(1)] h' show ?thesis by (intro exI conjI) (erule meta_mp, simp_all add: at_def)
qed

lemma bus_addressed:
  assumes "at HOST_STATE_Default_PostReset x s" "free_pipes (hw s)"
  shows "\<exists>t. reaches T s t \<and> at HOST_STATE_Default_PostAddressSet x t \<and> free_pipes (hw t)
     \<and> USB_Host_ControlPipeSize t = USB_Host_ControlPipeSize s"
proof -
  let ?rq = "request (REQDIR_HOSTTODEVICE OR REQTYPE_STANDARD OR REQREC_DEVICE) REQ_SetAddress (ucast USB_HOST_DEVICEADDRESS) 0 0"
  have hw: "b_state (hw s) = HOST_STATE_Default_PostReset" "p_num (hw s) = 0" "b_setup (hw s) = []" "host_core.more s = x" using assms by (simp_all add: at_def)
  obtain h1 where h1: "b_state h1 = HOST_STATE_Default_PostReset" "p_num h1 = 0" "b_setup h1 = []" "free_pipes h1"
    and c1: "hw_tryget (Pipe_ConfigurePipe (bus_io reply n) PIPE_CONTROLPIPE EP_TYPE_CONTROL ENDPOINT_CONTROLEP
       (ucast (USB_Host_ControlPipeSize s)) 1) s = Some (True, s\<lparr>hw := h1\<rparr>)"
    using bus_control_pipe [OF hw(2), of reply n] hw assms(2) by metis
  let ?s = "s\<lparr>hw := h1, USB_ControlRequest := ?rq\<rparr>"
  obtain h2 where h2: "after_request h1 h2"
    and c2: "USB_Host_SendControlRequest (bus_io reply n) None (stack_mem s) ?s = Some (HOST_SENDCONTROL_Successful, stack_mem s, ?s\<lparr>hw := h2\<rparr>)"
    using bus_request_none [of ?s reply n "stack_mem s"] h1 by (auto simp: request_def)
  have "host_switch (bus_io reply n) A HOST_STATE_Default_PostReset s = Some (HOST_ENUMERROR_NoError, 0,
      HOST_TASK_NONBLOCK_WAIT (bus_io reply n) 100 HOST_STATE_Default_PostAddressSet (?s\<lparr>hw := h2\<rparr>))"
    using c1 c2 by (simp add: host_switch_def host_post_reset_def Let_def)
  from bus_delayed [OF assms(1) _ this] at_more [OF assms(1)] h2 free_after_request [OF h2] h1(4) show ?thesis by (auto simp: after_request_def)
qed

lemma bus_powered:
  assumes "at HOST_STATE_Powered x s"
  shows "\<exists>t. reaches T s t \<and> at HOST_STATE_Powered_WaitForDeviceSettle x t"
proof -
  have "host_switch (bus_io reply n) A HOST_STATE_Powered s = Some (HOST_ENUMERROR_NoError, 0,
     s\<lparr>WaitMSRemaining := HOST_DEVICE_SETTLE_DELAY_MS, hw := (hw s)\<lparr>b_state := HOST_STATE_Powered_WaitForDeviceSettle\<rparr>\<rparr>)"
    by (simp add: host_switch_def hw_do_def Let_def)
  from bus_next_state [OF assms _ this] assms show ?thesis by (intro exI conjI) (erule meta_mp, simp_all add: at_def)
qed


end

text \<open>With the firmware behind the bus the device gets its address.\<close>

locale firmware_loop = bus_loop T A firmware_reply 8 for T A
begin

lemma bus_addressing:
  assumes "at HOST_STATE_Default x s" "free_pipes (hw s)"
  shows "\<exists>t. reaches T s t \<and> at HOST_STATE_Default_PostReset x t \<and> free_pipes (hw t) \<and> USB_Host_ControlPipeSize t = 8"
proof -
  let ?rq = "request (REQDIR_DEVICETOHOST OR REQTYPE_STANDARD OR REQREC_DEVICE) REQ_GetDescriptor (push_bit 8 0x01) 0 8"
  have hw: "b_state (hw s) \<noteq> HOST_STATE_Unattached" "b_setup (hw s) = []" "host_core.more s = x" using assms by (simp_all add: at_def)
  obtain h' where h': "after_request ((hw s)\<lparr>p_num := 0\<rparr>) h'"
    and c: "control_request (bus_io firmware_reply 8) ?rq (Some 0) (stack_mem s) s = Some (HOST_SENDCONTROL_Successful,
       mem_put (stack_mem s) 0 (take 8 (firmware_reply (header_bytes ?rq))), s\<lparr>USB_ControlRequest := ?rq, hw := h'\<rparr>)"
    using bus_control_request [OF _ _ hw(1,2), of 8 ?rq firmware_reply 0 "stack_mem s"] by (auto simp: request_def)
  have "mem_put (stack_mem s) 0 (take 8 (firmware_reply (header_bytes ?rq))) 7 = 8"
    using firmware_device by (simp add: mem_put_def DeviceDescriptor_def descriptor_def bytes_of_u16_def)
  then have "host_switch (bus_io firmware_reply 8) A HOST_STATE_Default s = Some (HOST_ENUMERROR_NoError, 0,
      HOST_TASK_NONBLOCK_WAIT (bus_io firmware_reply 8) 200 HOST_STATE_Default_PostReset
        (s\<lparr>USB_ControlRequest := ?rq, hw := h', USB_Host_ControlPipeSize := 8, USB_Host_ConfigurationNumber := 0\<rparr>))"
    using c by (simp add: host_switch_def host_default_def Let_def)
  from bus_delayed [OF assms(1) _ this] at_more [OF assms(1)] h' free_after_request [OF h'] assms(2) show ?thesis by (auto simp: after_request_def)
qed

lemma firmware_addressed:
  assumes "at HOST_STATE_Powered x s"
  shows "\<exists>t. reaches T s t \<and> at HOST_STATE_Default_PostAddressSet x t \<and> free_pipes (hw t) \<and> USB_Host_ControlPipeSize t = 8"
proof -
  obtain s1 where "reaches T s s1" "at HOST_STATE_Powered_WaitForDeviceSettle x s1"
    using bus_powered [OF assms] by blast
  moreover from this obtain s2 where "reaches T s1 s2" "at HOST_STATE_Powered_WaitForConnect x s2"
    using bus_settled by blast
  moreover from this obtain s3 where "reaches T s2 s3" "at HOST_STATE_Powered_DoReset x s3" "free_pipes (hw s3)"
    using bus_connected by blast
  moreover from this obtain s4 where "reaches T s3 s4" "at HOST_STATE_Powered_ConfigPipe x s4" "free_pipes (hw s4)"
    using bus_was_reset by blast
  moreover from this obtain s5 where "reaches T s4 s5" "at HOST_STATE_Default x s5" "free_pipes (hw s5)"
    using bus_pipe_configured by blast
  moreover from this obtain s6 where "reaches T s5 s6" "at HOST_STATE_Default_PostReset x s6" "free_pipes (hw s6)"
    "USB_Host_ControlPipeSize s6 = 8" using bus_addressing by blast
  moreover from this obtain s7 where "reaches T s6 s7" "at HOST_STATE_Default_PostAddressSet x s7" "free_pipes (hw s7)"
    "USB_Host_ControlPipeSize s7 = 8" using bus_addressed by metis
  ultimately show ?thesis by (meson reaches_trans)
qed

end

end
