(* ===== verification/Cdc_Host.thy ===== *)
theory Cdc_Host
  imports Pipe_Stream Usb_Enumeration Cdc_Class
begin

text \<open>
  The CDC-ACM class driver of the host, \<open>LUFA/Drivers/USB/Class/Host/CDCClassHost.c\<close> and the structure of
  \<open>CDCClassHost.h\<close>: finding the interfaces in a configuration descriptor and configuring the pipes, the
  control requests, data transfer, the class task and the standard streams. The interface structure is
  the field \<open>cdch\<close> that \<open>cdc_host\<close> adds to the globals of the host. At the end, what the search finds in
  the descriptors of the miner's firmware.
\<close>

section \<open>CDCClassHost.h: the interface structure\<close>

record USB_ClassInfo_CDC_Host_t =
  DataINPipe :: USB_Pipe_Table_t
  DataOUTPipe :: USB_Pipe_Table_t
  NotificationPipe :: USB_Pipe_Table_t
  IsActive :: bool
  h_ControlInterfaceNumber :: u8
  h_HostToDevice :: u16
  h_DeviceToHost :: u16
  h_LineEncoding :: CDC_LineEncoding_t

record 'h cdc_host = "'h host_core" +
  cdch :: USB_ClassInfo_CDC_Host_t

abbreviation (input) "CDC_ENUMERROR_NoError \<equiv> 0 :: u8"
abbreviation (input) "CDC_ENUMERROR_InvalidConfigDescriptor \<equiv> 1 :: u8"
abbreviation (input) "CDC_ENUMERROR_NoCompatibleInterfaceFound \<equiv> 2 :: u8"
abbreviation (input) "CDC_ENUMERROR_PipeConfigurationFailed \<equiv> 3 :: u8"

abbreviation (input) "CDC_CSCP_CDCClass \<equiv> 0x02 :: u8"
abbreviation (input) "CDC_CSCP_ACMSubclass \<equiv> 0x02 :: u8"
abbreviation (input) "CDC_CSCP_ATCommandProtocol \<equiv> 0x01 :: u8"
abbreviation (input) "CDC_CSCP_CDCDataClass \<equiv> 0x0A :: u8"
abbreviation (input) "CDC_CSCP_NoDataSubclass \<equiv> 0x00 :: u8"
abbreviation (input) "CDC_CSCP_NoDataProtocol \<equiv> 0x00 :: u8"
abbreviation (input) "EP_TYPE_MASK \<equiv> 0x03 :: u8"
abbreviation (input) "ENDPOINT_DIR_MASK \<equiv> 0x80 :: u8"
abbreviation (input) "CDC_CONTROL_LINE_OUT_DTR \<equiv> 1 :: u16"
abbreviation (input) "CDC_CONTROL_LINE_OUT_RTS \<equiv> 2 :: u16"
abbreviation (input) "CDC_CONTROL_LINE_IN_DCD \<equiv> 1 :: u16"
abbreviation (input) "CDC_CONTROL_LINE_IN_DSR \<equiv> 2 :: u16"

section \<open>Finding the interfaces\<close>

text \<open>An interface descriptor has its class, subclass and protocol at offsets 5, 6 and 7, an endpoint
  descriptor its address, attributes and size at offsets 2, 3 and 4.\<close>

definition DCOMP_CDC_Host_NextCDCControlInterface :: "memory \<Rightarrow> 'h comparator" where
  "DCOMP_CDC_Host_NextCDCControlInterface mem p h =
     (if DESCRIPTOR_TYPE mem p = DTYPE_Interface \<and> mem (p + 5) = CDC_CSCP_CDCClass \<and> mem (p + 6) = CDC_CSCP_ACMSubclass
         \<and> mem (p + 7) = CDC_CSCP_ATCommandProtocol
      then DESCRIPTOR_SEARCH_Found else DESCRIPTOR_SEARCH_NotFound, h)"

definition DCOMP_CDC_Host_NextCDCDataInterface :: "memory \<Rightarrow> 'h comparator" where
  "DCOMP_CDC_Host_NextCDCDataInterface mem p h =
     (if DESCRIPTOR_TYPE mem p = DTYPE_Interface \<and> mem (p + 5) = CDC_CSCP_CDCDataClass \<and> mem (p + 6) = CDC_CSCP_NoDataSubclass
         \<and> mem (p + 7) = CDC_CSCP_NoDataProtocol
      then DESCRIPTOR_SEARCH_Found else DESCRIPTOR_SEARCH_NotFound, h)"

definition DCOMP_CDC_Host_NextCDCInterfaceEndpoint :: "'h io \<Rightarrow> memory \<Rightarrow> 'h comparator" where
  "DCOMP_CDC_Host_NextCDCInterfaceEndpoint D mem p h =
     (if DESCRIPTOR_TYPE mem p = DTYPE_Endpoint then
        let EndpointType = mem (p + 3) AND EP_TYPE_MASK in
        if EndpointType = EP_TYPE_BULK \<or> EndpointType = EP_TYPE_INTERRUPT then
          let (bound, h) = Pipe_IsEndpointBound D (mem (p + 2)) h in
          if \<not> bound then (DESCRIPTOR_SEARCH_Found, h) else (DESCRIPTOR_SEARCH_NotFound, h)
        else (DESCRIPTOR_SEARCH_NotFound, h)
      else if DESCRIPTOR_TYPE mem p = DTYPE_Interface then (DESCRIPTOR_SEARCH_Fail, h)
      else (DESCRIPTOR_SEARCH_NotFound, h))"

text \<open>The local pointers of \<open>CDC_Host_ConfigurePipes\<close>, \<open>None\<close> for \<open>NULL\<close>, and one turn of its loop, which ends
  with the pointers or, when a search for an interface fails, without.\<close>

record cdc_found =
  f_IN :: "nat option"
  f_OUT :: "nat option"
  f_Notification :: "nat option"
  f_Control :: "nat option"

definition cdc_take_endpoint :: "memory \<Rightarrow> nat \<Rightarrow> cdc_found \<Rightarrow> cdc_found" where
  "cdc_take_endpoint mem p f =
     (if mem (p + 2) AND ENDPOINT_DIR_MASK = ENDPOINT_DIR_IN then
        if mem (p + 3) AND EP_TYPE_MASK = EP_TYPE_INTERRUPT then f\<lparr>f_Notification := Some p\<rparr> else f\<lparr>f_IN := Some p\<rparr>
      else f\<lparr>f_OUT := Some p\<rparr>)"

definition cdc_find_turn :: "'h io \<Rightarrow> memory \<Rightarrow> cdc_found \<times> cursor \<times> 'h
    \<Rightarrow> ((cdc_found option \<times> 'h) + (cdc_found \<times> cursor \<times> 'h)) option" where
  "cdc_find_turn D mem = (\<lambda>(f, c, h).
     if f_IN f \<noteq> None \<and> f_OUT f \<noteq> None \<and> f_Notification f \<noteq> None then Some (Inl (Some f, h))
     else do {
       (found, c, h) \<leftarrow> (if f_Control f = None then Some (False, c, h)
          else do {
            (r, c, h) \<leftarrow> USB_GetNextDescriptorComp mem (DCOMP_CDC_Host_NextCDCInterfaceEndpoint D mem) c h;
            Some (r = DESCRIPTOR_SEARCH_COMP_Found, c, h) });
       if \<not> found then
         (if f_Notification f \<noteq> None then do {
            (r, c, h) \<leftarrow> USB_GetNextDescriptorComp mem (DCOMP_CDC_Host_NextCDCDataInterface mem) c h;
            if r \<noteq> DESCRIPTOR_SEARCH_COMP_Found then Some (Inl (None, h))
            else Some (Inr (f\<lparr>f_IN := None, f_OUT := None\<rparr>, c, h)) }
          else do {
            (r, c, h) \<leftarrow> USB_GetNextDescriptorComp mem (DCOMP_CDC_Host_NextCDCControlInterface mem) c h;
            if r \<noteq> DESCRIPTOR_SEARCH_COMP_Found then Some (Inl (None, h))
            else Some (Inr (f\<lparr>f_Control := Some (snd c), f_Notification := None\<rparr>, c, h)) })
       else Some (Inr (cdc_take_endpoint mem (snd c) f, c, h)) })"

text \<open>The three pipe table entries, filled in from the endpoint descriptors.\<close>

definition cdc_pipe :: "memory \<Rightarrow> nat \<Rightarrow> u8 \<Rightarrow> USB_Pipe_Table_t \<Rightarrow> USB_Pipe_Table_t" where
  "cdc_pipe mem p type t = t\<lparr>pi_Size := u16_of_bytes [mem (p + 4), mem (p + 5)], pi_EndpointAddress := mem (p + 2), pi_Type := type\<rparr>"

definition CDC_Host_ConfigurePipes :: "'h io \<Rightarrow> u16 \<Rightarrow> memory \<Rightarrow> nat \<Rightarrow> ('h, 'm) cdc_host_scheme
    \<Rightarrow> (u8 \<times> ('h, 'm) cdc_host_scheme) option" where
  "CDC_Host_ConfigurePipes D ConfigDescriptorSize mem ConfigDescriptorData s =
     do {
       let s = s\<lparr>cdch := (cdch s)\<lparr>IsActive := False, h_ControlInterfaceNumber := 0, h_HostToDevice := 0, h_DeviceToHost := 0,
             h_LineEncoding := \<lparr>BaudRateBPS = 0, CharFormat = 0, ParityType = 0, DataBits = 0\<rparr>\<rparr>\<rparr>;
       if DESCRIPTOR_TYPE mem ConfigDescriptorData \<noteq> DTYPE_Configuration then Some (CDC_ENUMERROR_InvalidConfigDescriptor, s)
       else do {
         (found, s) \<leftarrow> hw_tryget (\<lambda>h. loop (cdc_find_turn D mem)
            (\<lparr>f_IN = None, f_OUT = None, f_Notification = None, f_Control = None\<rparr>, (ConfigDescriptorSize, ConfigDescriptorData), h)) s;
         case found of
           None \<Rightarrow> Some (CDC_ENUMERROR_NoCompatibleInterfaceFound, s)
         | Some f \<Rightarrow> do {
             let c = cdch s;
             let c = c\<lparr>DataINPipe := cdc_pipe mem (the (f_IN f)) EP_TYPE_BULK (DataINPipe c),
                 DataOUTPipe := cdc_pipe mem (the (f_OUT f)) EP_TYPE_BULK (DataOUTPipe c),
                 NotificationPipe := cdc_pipe mem (the (f_Notification f)) EP_TYPE_INTERRUPT (NotificationPipe c)\<rparr>;
             let s = s\<lparr>cdch := c\<rparr>;
             (ok, s) \<leftarrow> hw_tryget (Pipe_ConfigurePipeTable D [DataINPipe c]) s;
             if \<not> ok then Some (0, s) else do {
               (ok, s) \<leftarrow> hw_tryget (Pipe_ConfigurePipeTable D [DataOUTPipe c]) s;
               if \<not> ok then Some (0, s) else do {
                 (ok, s) \<leftarrow> hw_tryget (Pipe_ConfigurePipeTable D [NotificationPipe c]) s;
                 if \<not> ok then Some (0, s)
                 else Some (CDC_ENUMERROR_NoError, s\<lparr>cdch := (cdch s)\<lparr>h_ControlInterfaceNumber := mem (the (f_Control f) + 2),
                   h_HostToDevice := CDC_CONTROL_LINE_OUT_RTS OR CDC_CONTROL_LINE_OUT_DTR,
                   h_DeviceToHost := CDC_CONTROL_LINE_IN_DCD OR CDC_CONTROL_LINE_IN_DSR, IsActive := True\<rparr>\<rparr>) } } } } }"

section \<open>Control requests\<close>

definition line_encoding_bytes :: "CDC_LineEncoding_t \<Rightarrow> u8 list" where
  "line_encoding_bytes le = bytes_of_u32 (BaudRateBPS le) @ [CharFormat le, ParityType le, DataBits le]"

text \<open>The common form of the three requests; the buffer, if there is one, is only read.\<close>

definition cdc_host_request :: "'h io \<Rightarrow> u8 \<Rightarrow> u16 \<Rightarrow> u8 list \<Rightarrow> ('h, 'm) cdc_host_scheme
    \<Rightarrow> (u8 \<times> ('h, 'm) cdc_host_scheme) option" where
  "cdc_host_request D rq v buf s =
     map_option (\<lambda>(e, _, s). (e, s))
       (control_request D (request (REQDIR_HOSTTODEVICE OR REQTYPE_CLASS OR REQREC_INTERFACE) rq v
            (ucast (h_ControlInterfaceNumber (cdch s))) (of_nat (length buf)))
          (if buf = [] then None else Some 0) (mem_of buf) s)"

definition CDC_Host_SetLineEncoding :: "'h io \<Rightarrow> ('h, 'm) cdc_host_scheme \<Rightarrow> (u8 \<times> ('h, 'm) cdc_host_scheme) option" where
  "CDC_Host_SetLineEncoding D s = cdc_host_request D CDC_REQ_SetLineEncoding 0 (line_encoding_bytes (h_LineEncoding (cdch s))) s"

definition CDC_Host_SendControlLineStateChange :: "'h io \<Rightarrow> ('h, 'm) cdc_host_scheme \<Rightarrow> (u8 \<times> ('h, 'm) cdc_host_scheme) option" where
  "CDC_Host_SendControlLineStateChange D s = cdc_host_request D CDC_REQ_SetControlLineState (h_HostToDevice (cdch s)) [] s"

definition CDC_Host_SendBreak :: "'h io \<Rightarrow> u8 \<Rightarrow> ('h, 'm) cdc_host_scheme \<Rightarrow> (u8 \<times> ('h, 'm) cdc_host_scheme) option" where
  "CDC_Host_SendBreak D Duration s = cdc_host_request D CDC_REQ_SendBreak (ucast Duration) [] s"

section \<open>Data transfer\<close>

text \<open>The guard of the data functions; C evaluates the first operand first.\<close>

definition cdch_down :: "'h io \<Rightarrow> ('h, 'm) cdc_host_scheme \<Rightarrow> bool \<times> ('h, 'm) cdc_host_scheme" where
  "cdch_down D s =
     (let (st, s) = hw_get (USB_HostState D) s in (st \<noteq> HOST_STATE_Configured \<or> \<not> IsActive (cdch s), s))"

definition CDC_Host_SendData :: "'h io \<Rightarrow> u8 list \<Rightarrow> u16 \<Rightarrow> ('h, 'm) cdc_host_scheme
    \<Rightarrow> (u8 \<times> ('h, 'm) cdc_host_scheme) option" where
  "CDC_Host_SendData D Buf Length s =
     (let (down, s) = cdch_down D s in
      if down then Some (PIPE_READYWAIT_DeviceDisconnected, s)
      else do {
        let s = hw_do (Pipe_SelectPipe D (pi_Address (DataOUTPipe (cdch s)))) s;
        let s = hw_do (Pipe_Unfreeze D) s;
        ((ErrorCode, _, _), s) \<leftarrow> hw_tryget (\<lambda>h. map_option (\<lambda>(e, n, b, h). ((e, n, b), h)) (Pipe_Write_Stream_LE D Buf Length None h)) s;
        Some (ErrorCode, hw_do (Pipe_Freeze D) s) })"

definition CDC_Host_SendString :: "'h io \<Rightarrow> u8 list \<Rightarrow> ('h, 'm) cdc_host_scheme
    \<Rightarrow> (u8 \<times> ('h, 'm) cdc_host_scheme) option" where
  "CDC_Host_SendString D String s =
     (let (down, s) = cdch_down D s in
      if down then Some (PIPE_READYWAIT_DeviceDisconnected, s)
      else do {
        let s = hw_do (Pipe_SelectPipe D (pi_Address (DataOUTPipe (cdch s)))) s;
        let s = hw_do (Pipe_Unfreeze D) s;
        ((ErrorCode, _, _), s) \<leftarrow> hw_tryget (\<lambda>h. map_option (\<lambda>(e, n, b, h). ((e, n, b), h))
            (Pipe_Write_Stream_LE D String (strlen String) None h)) s;
        Some (ErrorCode, hw_do (Pipe_Freeze D) s) })"

text \<open>An error while waiting leaves the function with the pipe running.\<close>

definition CDC_Host_SendByte :: "'h io \<Rightarrow> u8 \<Rightarrow> ('h, 'm) cdc_host_scheme \<Rightarrow> (u8 \<times> ('h, 'm) cdc_host_scheme) option" where
  "CDC_Host_SendByte D Data s =
     (let (down, s) = cdch_down D s in
      if down then Some (PIPE_READYWAIT_DeviceDisconnected, s)
      else do {
        let s = hw_do (Pipe_SelectPipe D (pi_Address (DataOUTPipe (cdch s)))) s;
        let s = hw_do (Pipe_Unfreeze D) s;
        let (rw, s) = hw_get (Pipe_IsReadWriteAllowed D) s;
        (ErrorCode, s) \<leftarrow> (if \<not> rw then hw_tryget (Pipe_WaitUntilReady D) (hw_do (Pipe_ClearOUT D) s)
            else Some (PIPE_READYWAIT_NoError, s));
        if ErrorCode \<noteq> PIPE_READYWAIT_NoError then Some (ErrorCode, s)
        else Some (PIPE_READYWAIT_NoError, hw_do (Pipe_Freeze D) (hw_do (Pipe_Write_8 D Data) s)) })"

definition CDC_Host_BytesReceived :: "'h io \<Rightarrow> ('h, 'm) cdc_host_scheme \<Rightarrow> u16 \<times> ('h, 'm) cdc_host_scheme" where
  "CDC_Host_BytesReceived D s =
     (let (down, s) = cdch_down D s in
      if down then (0, s)
      else
        let s = hw_do (Pipe_SelectPipe D (pi_Address (DataINPipe (cdch s)))) s;
            s = hw_do (Pipe_Unfreeze D) s;
            (rx, s) = hw_get (Pipe_IsINReceived D) s
        in if rx then
             let (n, s) = hw_get (Pipe_BytesInPipe D) s in
             if n = 0 then (0, hw_do (Pipe_Freeze D) (hw_do (Pipe_ClearIN D) s))
             else hw_get (Pipe_BytesInPipe D) (hw_do (Pipe_Freeze D) s)
           else (0, hw_do (Pipe_Freeze D) s))"

text \<open>The \<open>int16_t\<close> result is an \<open>int\<close>: \<open>-1\<close> for nothing, otherwise the byte.\<close>

definition CDC_Host_ReceiveByte :: "'h io \<Rightarrow> ('h, 'm) cdc_host_scheme \<Rightarrow> int \<times> ('h, 'm) cdc_host_scheme" where
  "CDC_Host_ReceiveByte D s =
     (let (down, s) = cdch_down D s in
      if down then (-1, s)
      else
        let s = hw_do (Pipe_SelectPipe D (pi_Address (DataINPipe (cdch s)))) s;
            s = hw_do (Pipe_Unfreeze D) s;
            (rx, s) = hw_get (Pipe_IsINReceived D) s;
            (ReceivedByte, s) =
              (if rx then
                 let (n, s) = hw_get (Pipe_BytesInPipe D) s;
                     (b, s) = (if n \<noteq> 0 then let (b, s) = hw_get (Pipe_Read_8 D) s in (uint b, s) else (-1, s));
                     (n, s) = hw_get (Pipe_BytesInPipe D) s
                 in (b, if n = 0 then hw_do (Pipe_ClearIN D) s else s)
               else (-1, s))
        in (ReceivedByte, hw_do (Pipe_Freeze D) s))"

text \<open>Nothing to send, or an error while waiting, leaves the function with the pipe running.\<close>

definition CDC_Host_Flush :: "'h io \<Rightarrow> ('h, 'm) cdc_host_scheme \<Rightarrow> (u8 \<times> ('h, 'm) cdc_host_scheme) option" where
  "CDC_Host_Flush D s =
     (let (down, s) = cdch_down D s in
      if down then Some (PIPE_READYWAIT_DeviceDisconnected, s)
      else
        let s = hw_do (Pipe_SelectPipe D (pi_Address (DataOUTPipe (cdch s)))) s;
            s = hw_do (Pipe_Unfreeze D) s;
            (n, s) = hw_get (Pipe_BytesInPipe D) s
        in if n = 0 then Some (PIPE_READYWAIT_NoError, s)
        else
          let (rw, s) = hw_get (Pipe_IsReadWriteAllowed D) s;
              BankFull = (\<not> rw);
              s = hw_do (Pipe_ClearOUT D) s
          in if BankFull then do {
               (ErrorCode, s) \<leftarrow> hw_tryget (Pipe_WaitUntilReady D) s;
               if ErrorCode \<noteq> PIPE_READYWAIT_NoError then Some (ErrorCode, s)
               else Some (PIPE_READYWAIT_NoError, hw_do (Pipe_Freeze D) (hw_do (Pipe_ClearOUT D) s)) }
             else Some (PIPE_READYWAIT_NoError, hw_do (Pipe_Freeze D) s))"

text \<open>
  The class task. The notification is read into a local structure, whose bytes are those of the stack
  until they are overwritten; the line state is read into the two bytes of \<open>DeviceToHost\<close>.
\<close>

definition CDC_Host_USBTask :: "'h io \<Rightarrow> (('h, 'm) cdc_host_scheme \<Rightarrow> ('h, 'm) cdc_host_scheme option)
    \<Rightarrow> ('h, 'm) cdc_host_scheme \<Rightarrow> ('h, 'm) cdc_host_scheme option" where
  "CDC_Host_USBTask D LineStateChanged s =
     (let (down, s) = cdch_down D s in
      if down then Some s
      else do {
        let s = hw_do (Pipe_SelectPipe D (pi_Address (NotificationPipe (cdch s)))) s;
        let s = hw_do (Pipe_Unfreeze D) s;
        let (rx, s) = hw_get (Pipe_IsINReceived D) s;
        s \<leftarrow> (if rx then do {
            ((_, _, Notification), s) \<leftarrow> hw_tryget (\<lambda>h. map_option (\<lambda>(e, n, b, h). ((e, n, b), h))
                (Pipe_Read_Stream_LE D (bytes_at (stack_mem s) 0 8) 8 None h)) s;
            if Notification ! 1 = CDC_NOTIF_SerialState
               \<and> Notification ! 0 = REQDIR_DEVICETOHOST OR REQTYPE_CLASS OR REQREC_INTERFACE then do {
              ((_, _, lines), s) \<leftarrow> hw_tryget (\<lambda>h. map_option (\<lambda>(e, n, b, h). ((e, n, b), h))
                  (Pipe_Read_Stream_LE D (bytes_of_u16 (h_DeviceToHost (cdch s))) 2 None h)) s;
              let s = s\<lparr>cdch := (cdch s)\<lparr>h_DeviceToHost := u16_of_bytes lines\<rparr>\<rparr>;
              LineStateChanged (hw_do (Pipe_ClearIN D) s) }
            else Some (hw_do (Pipe_ClearIN D) s) }
          else Some s);
        (_, s) \<leftarrow> CDC_Host_Flush D (hw_do (Pipe_Freeze D) s);
        Some s })"

section \<open>Standard streams\<close>

text \<open>A stream is the pair of its put and get functions; \<open>_FDEV_ERR\<close> is \<open>-1\<close> and \<open>_FDEV_EOF\<close> is \<open>-2\<close>.\<close>

definition CDC_Host_putchar :: "'h io \<Rightarrow> u8 \<Rightarrow> ('h, 'm) cdc_host_scheme \<Rightarrow> (int \<times> ('h, 'm) cdc_host_scheme) option" where
  "CDC_Host_putchar D c s = map_option (\<lambda>(e, s). (if e \<noteq> 0 then -1 else 0, s)) (CDC_Host_SendByte D c s)"

definition CDC_Host_getchar :: "'h io \<Rightarrow> ('h, 'm) cdc_host_scheme \<Rightarrow> int \<times> ('h, 'm) cdc_host_scheme" where
  "CDC_Host_getchar D s = (let (b, s) = CDC_Host_ReceiveByte D s in (if b < 0 then -2 else b, s))"

definition CDC_Host_getchar_Blocking :: "'h io \<Rightarrow> ('h, 'm) cdc_host_scheme host_app
    \<Rightarrow> (('h, 'm) cdc_host_scheme \<Rightarrow> ('h, 'm) cdc_host_scheme option)
    \<Rightarrow> ('h, 'm) cdc_host_scheme \<Rightarrow> (int \<times> ('h, 'm) cdc_host_scheme) option" where
  "CDC_Host_getchar_Blocking D A LineStateChanged s =
     loop (\<lambda>s. let (b, s) = CDC_Host_ReceiveByte D s in
        if b < 0 then
          let (st, s) = hw_get (USB_HostState D) s in
          if st = HOST_STATE_Unattached then Some (Inl (-2, s))
          else do {
            s \<leftarrow> CDC_Host_USBTask D LineStateChanged s;
            s \<leftarrow> H_USB_USBTask D A s;
            Some (Inr s)
          }
        else Some (Inl (b, s))) s"

definition CDC_Host_CreateStream :: "'h io
    \<Rightarrow> (u8 \<Rightarrow> ('h, 'm) cdc_host_scheme \<Rightarrow> (int \<times> ('h, 'm) cdc_host_scheme) option)
     \<times> (('h, 'm) cdc_host_scheme \<Rightarrow> (int \<times> ('h, 'm) cdc_host_scheme) option)" where
  "CDC_Host_CreateStream D = (CDC_Host_putchar D, \<lambda>s. Some (CDC_Host_getchar D s))"

definition CDC_Host_CreateBlockingStream :: "'h io \<Rightarrow> ('h, 'm) cdc_host_scheme host_app
    \<Rightarrow> (('h, 'm) cdc_host_scheme \<Rightarrow> ('h, 'm) cdc_host_scheme option)
    \<Rightarrow> (u8 \<Rightarrow> ('h, 'm) cdc_host_scheme \<Rightarrow> (int \<times> ('h, 'm) cdc_host_scheme) option)
     \<times> (('h, 'm) cdc_host_scheme \<Rightarrow> (int \<times> ('h, 'm) cdc_host_scheme) option)" where
  "CDC_Host_CreateBlockingStream D A LineStateChanged = (CDC_Host_putchar D, CDC_Host_getchar_Blocking D A LineStateChanged)"

section \<open>The firmware as the device\<close>

text \<open>One step of a search with a comparator on a chain: the next descriptor is passed over, or it ends the search.\<close>

lemma comp_skip:
  assumes "cursor_at mem c (d # ds)" "cmp (snd (USB_GetNextDescriptor mem c)) h = (DESCRIPTOR_SEARCH_NotFound, h')"
  shows "USB_GetNextDescriptorComp mem cmp c h = USB_GetNextDescriptorComp mem cmp (USB_GetNextDescriptor mem c) h'"
  unfolding USB_GetNextDescriptorComp_def
  by (rule loop_turn(2)) (use assms cursor_at_Cons(1) [OF assms(1)] in \<open>simp add: next_comp_turn_def\<close>)

lemma comp_hit:
  assumes "cursor_at mem c (d # ds)" "cmp (snd (USB_GetNextDescriptor mem c)) h = (r, h')" "r \<noteq> DESCRIPTOR_SEARCH_NotFound"
  shows "USB_GetNextDescriptorComp mem cmp c h = Some (r, if r = DESCRIPTOR_SEARCH_Fail then c else USB_GetNextDescriptor mem c, h')"
  unfolding USB_GetNextDescriptorComp_def
  by (rule loop_turn(1)) (use assms cursor_at_Cons(1) [OF assms(1)] in \<open>simp add: next_comp_turn_def\<close>)

text \<open>The three comparators on a descriptor of the chain; the last asks the controller which endpoints are in use.\<close>

lemma cdc_comparators:
  assumes "cursor_at mem c (d # ds)"
  shows "8 \<le> length d \<Longrightarrow> DCOMP_CDC_Host_NextCDCControlInterface mem (snd c) h =
      (if d ! 1 = 4 \<and> d ! 5 = 2 \<and> d ! 6 = 2 \<and> d ! 7 = 1 then DESCRIPTOR_SEARCH_Found else DESCRIPTOR_SEARCH_NotFound, h)"
    "8 \<le> length d \<Longrightarrow> DCOMP_CDC_Host_NextCDCDataInterface mem (snd c) h =
      (if d ! 1 = 4 \<and> d ! 5 = 0x0A \<and> d ! 6 = 0 \<and> d ! 7 = 0 then DESCRIPTOR_SEARCH_Found else DESCRIPTOR_SEARCH_NotFound, h)"
    "d ! 1 \<noteq> 5 \<Longrightarrow> DCOMP_CDC_Host_NextCDCInterfaceEndpoint D mem (snd c) h =
      (if d ! 1 = 4 then DESCRIPTOR_SEARCH_Fail else DESCRIPTOR_SEARCH_NotFound, h)"
  using cursor_at_Cons(3) [OF assms] cursor_at_byte [OF assms, of 5] cursor_at_byte [OF assms, of 6] cursor_at_byte [OF assms, of 7]
  by (auto simp: DCOMP_CDC_Host_NextCDCControlInterface_def DCOMP_CDC_Host_NextCDCDataInterface_def
      DCOMP_CDC_Host_NextCDCInterfaceEndpoint_def)

lemma endpoint_found:
  assumes "cursor_at mem c (e # d # ds)" "d ! 1 = 5" "7 \<le> length d" "d ! 3 = 2 \<or> d ! 3 = 3" "d ! 2 AND 0x0F \<noteq> 0"
    and "pipe_unit D v" "free_pipes (v h)" "p_num (v h) = 0"
  obtains h' where "v h' = v h"
    "USB_GetNextDescriptorComp mem (DCOMP_CDC_Host_NextCDCInterfaceEndpoint D mem) c h = Some (DESCRIPTOR_SEARCH_COMP_Found, USB_GetNextDescriptor mem c, h')"
proof -
  note nx = cursor_at_next [OF assms(1)]
  have b: "mem (snd (USB_GetNextDescriptor mem c) + 2) = d ! 2" "mem (snd (USB_GetNextDescriptor mem c) + 3) = d ! 3"
    using cursor_at_byte [OF nx, of 2] cursor_at_byte [OF nx, of 3] assms(3) by simp_all
  obtain h' where h': "Pipe_IsEndpointBound D (d ! 2) h = (False, h')" "v h' = v h"
    using not_bound [OF assms(6,5,7,8)] by blast
  have hit: "DCOMP_CDC_Host_NextCDCInterfaceEndpoint D mem (snd (USB_GetNextDescriptor mem c)) h = (DESCRIPTOR_SEARCH_Found, h')"
    using cursor_at_Cons(3) [OF nx] b h' assms(2,4) by (auto simp: DCOMP_CDC_Host_NextCDCInterfaceEndpoint_def)
  show thesis using h'(2) comp_hit [where cmp = "DCOMP_CDC_Host_NextCDCInterfaceEndpoint D mem", OF assms(1) hit] by (intro that [of h']) simp_all
qed

text \<open>The search through the descriptors of the firmware, with any controller.\<close>

lemma firmware_search:
  assumes at0: "cursor_at mem c firmware_descriptors" and u: "pipe_unit D v" and h: "free_pipes (v h)" "p_num (v h) = 0"
  shows "\<exists>pi po pn pc h'. loop (cdc_find_turn D mem)
        (\<lparr>f_IN = None, f_OUT = None, f_Notification = None, f_Control = None\<rparr>, c, h) =
        Some (Some \<lparr>f_IN = Some pi, f_OUT = Some po, f_Notification = Some pn, f_Control = Some pc\<rparr>, h') \<and> v h' = v h
      \<and> bytes_at mem pi 7 = [7, 5, 0x83, 2, 16, 0, 5] \<and> bytes_at mem po 7 = [7, 5, 4, 2, 16, 0, 5]
      \<and> bytes_at mem pn 7 = [7, 5, 0x82, 3, 8, 0, 0xFF] \<and> mem (pc + 2) = 0"
proof -
  let ?n = "USB_GetNextDescriptor mem"
  let ?ep = "DCOMP_CDC_Host_NextCDCInterfaceEndpoint D mem"
  let ?c1 = "?n c" let ?c2 = "?n ?c1" let ?c3 = "?n ?c2" let ?c4 = "?n ?c3" let ?c5 = "?n ?c4"
  let ?c6 = "?n ?c5" let ?c7 = "?n ?c6" let ?c8 = "?n ?c7"
  note at0 = at0 [unfolded firmware_descriptors_def]
  note at1 = cursor_at_next [OF at0] note at2 = cursor_at_next [OF at1] note at3 = cursor_at_next [OF at2]
  note at4 = cursor_at_next [OF at3] note at5 = cursor_at_next [OF at4] note at6 = cursor_at_next [OF at5]
  note at7 = cursor_at_next [OF at6] note at8 = cursor_at_next [OF at7]
  have s1: "USB_GetNextDescriptorComp mem (DCOMP_CDC_Host_NextCDCControlInterface mem) c h = Some (0, ?c1, h)"
    by (subst comp_hit [OF at0]) (auto simp: cdc_comparators(1) [OF at1])
  obtain h1 where h1: "v h1 = v h" and e1: "USB_GetNextDescriptorComp mem ?ep ?c4 h = Some (0, ?c5, h1)"
    by (rule endpoint_found [OF at4 _ _ _ _ u h]) auto
  have s2: "USB_GetNextDescriptorComp mem ?ep ?c1 h = Some (0, ?c5, h1)"
    by (subst comp_skip [OF at1], simp add: cdc_comparators(3) [OF at2], subst comp_skip [OF at2], simp add: cdc_comparators(3) [OF at3],
        subst comp_skip [OF at3], simp add: cdc_comparators(3) [OF at4], rule e1)
  have s3: "USB_GetNextDescriptorComp mem ?ep ?c5 h1 = Some (1, ?c5, h1)"
    by (subst comp_hit [OF at5]) (auto simp: cdc_comparators(3) [OF at6])
  have s4: "USB_GetNextDescriptorComp mem (DCOMP_CDC_Host_NextCDCDataInterface mem) ?c5 h1 = Some (0, ?c6, h1)"
    by (subst comp_hit [OF at5]) (auto simp: cdc_comparators(2) [OF at6])
  obtain h2 where h2: "v h2 = v h" and s5: "USB_GetNextDescriptorComp mem ?ep ?c6 h1 = Some (0, ?c7, h2)"
    by (rule endpoint_found [OF at6 _ _ _ _ u, of h1]) (use h h1 in auto)
  obtain h3 where h3: "v h3 = v h" and s6: "USB_GetNextDescriptorComp mem ?ep ?c7 h2 = Some (0, ?c8, h3)"
    by (rule endpoint_found [OF at7 _ _ _ _ u, of h2]) (use h h2 in auto)
  note b = cursor_at_byte [OF at5, of 2] cursor_at_byte [OF at5, of 3] cursor_at_byte [OF at7, of 2] cursor_at_byte [OF at7, of 3]
    cursor_at_byte [OF at8, of 2] cursor_at_byte [OF at8, of 3]
  let ?f1 = "\<lparr>f_IN = None, f_OUT = None, f_Notification = None, f_Control = Some (snd ?c1)\<rparr>"
  let ?f2 = "?f1\<lparr>f_Notification := Some (snd ?c5)\<rparr>" let ?f3 = "?f2\<lparr>f_OUT := Some (snd ?c7)\<rparr>" let ?f4 = "?f3\<lparr>f_IN := Some (snd ?c8)\<rparr>"
  let ?l = "loop (cdc_find_turn D mem)"
  have "?l (\<lparr>f_IN = None, f_OUT = None, f_Notification = None, f_Control = None\<rparr>, c, h) = ?l (?f1, ?c1, h)"
    by (rule loop_turn(2)) (simp add: cdc_find_turn_def s1)
  also have "\<dots> = ?l (?f2, ?c5, h1)" using b by (intro loop_turn(2)) (simp add: cdc_find_turn_def s2 cdc_take_endpoint_def)
  also have "\<dots> = ?l (?f2, ?c6, h1)" by (intro loop_turn(2)) (simp add: cdc_find_turn_def s3 s4)
  also have "\<dots> = ?l (?f3, ?c7, h2)" using b by (intro loop_turn(2)) (simp add: cdc_find_turn_def s5 cdc_take_endpoint_def)
  also have "\<dots> = ?l (?f4, ?c8, h3)" using b by (intro loop_turn(2)) (simp add: cdc_find_turn_def s6 cdc_take_endpoint_def)
  also have "\<dots> = Some (Some ?f4, h3)" by (intro loop_turn(1)) (simp add: cdc_find_turn_def)
  finally have l: "?l (\<lparr>f_IN = None, f_OUT = None, f_Notification = None, f_Control = None\<rparr>, c, h) = Some (Some ?f4, h3)" .
  have "bytes_at mem (snd ?c8) 7 = [7, 5, 0x83, 2, 16, 0, 5]" "bytes_at mem (snd ?c7) 7 = [7, 5, 4, 2, 16, 0, 5]"
    "bytes_at mem (snd ?c5) 7 = [7, 5, 0x82, 3, 8, 0, 0xFF]"
    by (rule nth_equalityI, simp, use cursor_at_byte [OF at8] cursor_at_byte [OF at7] cursor_at_byte [OF at5] in simp)+
  moreover have "mem (snd ?c1 + 2) = 0" using cursor_at_byte [OF at1, of 2] by simp
  ultimately show ?thesis using l h3
    by (intro exI [of _ "snd ?c8"] exI [of _ "snd ?c7"] exI [of _ "snd ?c5"] exI [of _ "snd ?c1"] exI [of _ h3]) simp
qed

end
