(* ===== verification/Virtual_Serial_Host.thy ===== *)
theory Virtual_Serial_Host
  imports Cdc_Host
begin

text \<open>
  The program \<open>Demos/Host/ClassDriver/VirtualSerialHost\<close>, the serial port host that comes with the library,
  and its composition with the rest: the state machine of \<open>Usb_Host\<close>, the requests, the descriptor parser,
  the CDC class driver and the descriptors of the miner's firmware. The properties hold for every controller
  whose pipe registers work as documented; a complete run is shown on the bus of \<open>Usb_Enumeration\<close>.
\<close>

section \<open>The program VirtualSerialHost\<close>

text \<open>
  \<open>Demos/Host/ClassDriver/VirtualSerialHost\<close>: its variables are the CDC interface, what it has told the
  LED driver of the board to show, and what it has printed on the serial port. It defines no handler for
  the frame and line state events. The state of the host is in \<open>GPIOR0\<close>, where the host project puts it; this
  program leaves the option out and has it in a variable.
\<close>

datatype led_mask = LEDMASK_USB_NOTREADY | LEDMASK_USB_ENUMERATING | LEDMASK_USB_READY | LEDMASK_USB_ERROR

datatype message = Device_Attached | Device_Unattached | No_Configuration_Descriptor | Not_A_CDC_Device | Configuration_Not_Set
  | Line_Encoding_Not_Set | CDC_Device_Enumerated | Host_Mode_Error u8 | Dev_Enum_Error u8 u8 u8 | Received u8

record 'h vs_host = "'h cdc_host" +
  LEDs :: led_mask
  console :: "message list"

definition announce :: "message \<Rightarrow> led_mask \<Rightarrow> ('h, 'm) vs_host_scheme \<Rightarrow> ('h, 'm) vs_host_scheme" where
  "announce msg led s = s\<lparr>console := console s @ [msg], LEDs := led\<rparr>"

text \<open>The initial value of \<open>VirtualSerial_CDC_Interface\<close>; members that are not mentioned are 0.\<close>

definition VirtualSerial_Host_Interface :: USB_ClassInfo_CDC_Host_t where
  "VirtualSerial_Host_Interface =
     \<lparr>DataINPipe = \<lparr>pi_Address = PIPE_DIR_IN OR 1, pi_Size = 0, pi_EndpointAddress = 0, pi_Type = 0, pi_Banks = 1\<rparr>,
      DataOUTPipe = \<lparr>pi_Address = PIPE_DIR_OUT OR 2, pi_Size = 0, pi_EndpointAddress = 0, pi_Type = 0, pi_Banks = 1\<rparr>,
      NotificationPipe = \<lparr>pi_Address = PIPE_DIR_IN OR 3, pi_Size = 0, pi_EndpointAddress = 0, pi_Type = 0, pi_Banks = 1\<rparr>,
      IsActive = False, h_ControlInterfaceNumber = 0, h_HostToDevice = 0, h_DeviceToHost = 0,
      h_LineEncoding = \<lparr>BaudRateBPS = 0, CharFormat = 0, ParityType = 0, DataBits = 0\<rparr>\<rparr>"

definition CDCHost_Task :: "'h io \<Rightarrow> ('h, 'm) vs_host_scheme \<Rightarrow> ('h, 'm) vs_host_scheme" where
  "CDCHost_Task D s =
     (let (st, s) = hw_get (USB_HostState D) s in
      if st \<noteq> HOST_STATE_Configured then s
      else let (n, s) = CDC_Host_BytesReceived D s in
        if n \<noteq> 0 then
          let (ReceivedByte, s) = CDC_Host_ReceiveByte D s in
          if \<not> ReceivedByte < 0 then s\<lparr>console := console s @ [Received (of_int ReceivedByte)]\<rparr> else s
        else s)"

text \<open>The 512 byte buffer for the descriptor is on the stack, at address 0 of what is there.\<close>

definition EVENT_USB_Host_DeviceEnumerationComplete :: "'h io \<Rightarrow> ('h, 'm) vs_host_scheme \<Rightarrow> ('h, 'm) vs_host_scheme option" where
  "EVENT_USB_Host_DeviceEnumerationComplete D s =
     do {
       let s = s\<lparr>LEDs := LEDMASK_USB_ENUMERATING\<rparr>;
       (e, ConfigDescriptorSize, ConfigDescriptorData, s) \<leftarrow> USB_Host_GetDeviceConfigDescriptor D 1 0 512 (stack_mem s) s;
       if e \<noteq> HOST_GETCONFIG_Successful then Some (announce No_Configuration_Descriptor LEDMASK_USB_ERROR s)
       else do {
         (e, s) \<leftarrow> CDC_Host_ConfigurePipes D (the ConfigDescriptorSize) ConfigDescriptorData 0 s;
         if e \<noteq> CDC_ENUMERROR_NoError then Some (announce Not_A_CDC_Device LEDMASK_USB_ERROR s)
         else do {
           (e, _, s) \<leftarrow> USB_Host_SetDeviceConfiguration D 1 (stack_mem s) s;
           if e \<noteq> HOST_SENDCONTROL_Successful then Some (announce Configuration_Not_Set LEDMASK_USB_ERROR s)
           else do {
             let s = s\<lparr>cdch := (cdch s)\<lparr>h_LineEncoding := \<lparr>BaudRateBPS = 9600, CharFormat = 0, ParityType = 0, DataBits = 8\<rparr>\<rparr>\<rparr>;
             (e, s) \<leftarrow> CDC_Host_SetLineEncoding D s;
             if e \<noteq> 0 then Some (announce Line_Encoding_Not_Set LEDMASK_USB_ERROR s)
             else Some (announce CDC_Device_Enumerated LEDMASK_USB_READY s) } } } }"

definition EVENT_USB_Host_DeviceAttached :: "('h, 'm) vs_host_scheme \<Rightarrow> ('h, 'm) vs_host_scheme" where
  "EVENT_USB_Host_DeviceAttached s = announce Device_Attached LEDMASK_USB_ENUMERATING s"

definition EVENT_USB_Host_DeviceUnattached :: "('h, 'm) vs_host_scheme \<Rightarrow> ('h, 'm) vs_host_scheme" where
  "EVENT_USB_Host_DeviceUnattached s = announce Device_Unattached LEDMASK_USB_NOTREADY s"

text \<open>The handler for a host error ends in an endless loop.\<close>

definition EVENT_USB_Host_HostError :: "'h io \<Rightarrow> u8 \<Rightarrow> ('h, 'm) vs_host_scheme \<Rightarrow> ('h, 'm) vs_host_scheme option" where
  "EVENT_USB_Host_HostError D ErrorCode s =
     (let s = announce (Host_Mode_Error ErrorCode) LEDMASK_USB_ERROR (H_USB_Disable D s)
      in loop (\<lambda>s. Some (Inr s)) s)"

definition EVENT_USB_Host_DeviceEnumerationFailed :: "'h io \<Rightarrow> u8 \<Rightarrow> u8 \<Rightarrow> ('h, 'm) vs_host_scheme \<Rightarrow> ('h, 'm) vs_host_scheme" where
  "EVENT_USB_Host_DeviceEnumerationFailed D ErrorCode SubErrorCode s =
     (let (st, s) = hw_get (USB_HostState D) s in announce (Dev_Enum_Error ErrorCode SubErrorCode st) LEDMASK_USB_ERROR s)"

text \<open>The handlers as the library calls them.\<close>

definition VirtualSerialHost :: "'h io \<Rightarrow> ('h, 'm) vs_host_scheme host_app" where
  "VirtualSerialHost D =
     \<lparr>EVENT_DeviceAttached = \<lambda>s. Some (EVENT_USB_Host_DeviceAttached s),
      EVENT_DeviceUnattached = \<lambda>s. Some (EVENT_USB_Host_DeviceUnattached s),
      EVENT_DeviceEnumerationComplete = EVENT_USB_Host_DeviceEnumerationComplete D,
      EVENT_DeviceEnumerationFailed = \<lambda>e sub s. Some (EVENT_USB_Host_DeviceEnumerationFailed D e sub s),
      EVENT_HostError = EVENT_USB_Host_HostError D,
      EVENT_HostStartOfFrame = Some\<rparr>"

text \<open>The body of the loop in \<open>main\<close>.\<close>

definition main_turn :: "'h io \<Rightarrow> ('h, 'm) vs_host_scheme \<Rightarrow> ('h, 'm) vs_host_scheme option" where
  "main_turn D s =
     do {
       s \<leftarrow> CDC_Host_USBTask D Some (CDCHost_Task D s);
       H_USB_USBTask D (VirtualSerialHost D) s
     }"

section \<open>VirtualSerialHost and the miner\<close>

text \<open>
  The pipe registers once the miner's endpoints are bound: pipe 1 for bulk transfers with IN tokens from
  endpoint 3, pipe 2 for bulk transfers with OUT tokens to endpoint 4, pipe 3 for interrupt transfers with
  IN tokens from endpoint 2; all three allocated, the first two with 16 bytes, the third with 8. The fields
  of \<open>UPCFG0X\<close> are the type in bits 7:6, the token in bits 5:4 and the endpoint number, those of \<open>UPCFG1X\<close>
  the size in bits 6:4 and \<open>ALLOC\<close> in bit 1; bit 0 is the number of banks the program asks for, which
  \<open>Pipe_ConfigurePipe\<close> does not shift to its place.
\<close>

definition miner_registers :: "'m pipe_regs_scheme \<Rightarrow> 'm pipe_regs_scheme" where
  "miner_registers r = r\<lparr>p_num := 3, p_cfg0 := (p_cfg0 r)(1 := 0x93, 2 := 0xA4, 3 := 0xD2), p_cfg1 := (p_cfg1 r)(1 := 0x13, 2 := 0x13, 3 := 0x03)\<rparr>"

definition miner_bound :: "'m pipe_regs_scheme \<Rightarrow> bool" where
  "miner_bound r \<longleftrightarrow> p_cfg0 r 1 = 0x93 \<and> p_cfg0 r 2 = 0xA4 \<and> p_cfg0 r 3 = 0xD2 \<and> p_cfg1 r 1 = 0x13 \<and> p_cfg1 r 2 = 0x13 \<and> p_cfg1 r 3 = 0x03"

lemma miner_bound_update [simp]:
  "miner_bound (r\<lparr>p_num := v\<rparr>) = miner_bound r" "miner_bound (h\<lparr>b_state := v\<rparr>) = miner_bound h" "miner_bound (miner_registers r)"
  by (simp_all add: miner_bound_def miner_registers_def)

lemma bound_after_request: "after_request h h' \<Longrightarrow> p_num h = 0 \<Longrightarrow> miner_bound h \<Longrightarrow> miner_bound h'"
  by (simp add: miner_bound_def after_request_def)

text \<open>The addresses and banks of the three pipes in the program's table, and what the table says once the miner is configured.\<close>

definition vs_pipes :: "USB_ClassInfo_CDC_Host_t \<Rightarrow> bool" where
  "vs_pipes c \<longleftrightarrow> pi_Address (DataINPipe c) = 0x81 \<and> pi_Address (DataOUTPipe c) = 0x02 \<and> pi_Address (NotificationPipe c) = 0x83
     \<and> pi_Banks (DataINPipe c) = 1 \<and> pi_Banks (DataOUTPipe c) = 1 \<and> pi_Banks (NotificationPipe c) = 1"

definition miner_interface :: "USB_ClassInfo_CDC_Host_t \<Rightarrow> USB_ClassInfo_CDC_Host_t" where
  "miner_interface c = c\<lparr>
     DataINPipe := (DataINPipe c)\<lparr>pi_Size := CDC_TXRX_EPSIZE, pi_EndpointAddress := CDC_TX_EPADDR, pi_Type := EP_TYPE_BULK\<rparr>,
     DataOUTPipe := (DataOUTPipe c)\<lparr>pi_Size := CDC_TXRX_EPSIZE, pi_EndpointAddress := CDC_RX_EPADDR, pi_Type := EP_TYPE_BULK\<rparr>,
     NotificationPipe := (NotificationPipe c)\<lparr>pi_Size := CDC_NOTIFICATION_EPSIZE, pi_EndpointAddress := CDC_NOTIFICATION_EPADDR,
       pi_Type := EP_TYPE_INTERRUPT\<rparr>,
     IsActive := True, h_ControlInterfaceNumber := 0, h_HostToDevice := 3, h_DeviceToHost := 3,
     h_LineEncoding := \<lparr>BaudRateBPS = 0, CharFormat = 0, ParityType = 0, DataBits = 0\<rparr>\<rparr>"

lemma pipe_size_masks: "Pipe_BytesToEPSizeMask 8 = Some 0" "Pipe_BytesToEPSizeMask 16 = Some 0x10"
  by (simp_all add: Pipe_BytesToEPSizeMask_def loop.simps)

lemma pipe_table:
  assumes "pipe_unit D v" "pi_Address t \<noteq> 0" "pi_Address t AND 0x0F = q" "q < 7" "Pipe_BytesToEPSizeMask (pi_Size t) = Some m"
  obtains h' where "Pipe_ConfigurePipeTable D [t] h = Some (True, h')"
    "v h' = (v h)\<lparr>p_num := q, p_cfg0 := (p_cfg0 (v h))(q := pipe_cfg0 (pi_Type t) (if pi_Type t = EP_TYPE_CONTROL then PIPE_TOKEN_SETUP
        else if pi_Address t AND PIPE_DIR_IN \<noteq> 0 then PIPE_TOKEN_IN else PIPE_TOKEN_OUT) (pi_EndpointAddress t)),
      p_cfg1 := (p_cfg1 (v h))(q := BV ALLOC OR pi_Banks t OR m)\<rparr>"
  by (rule configure_pipe [OF assms(1) _ assms(5), of "pi_Address t" "pi_Type t" "pi_EndpointAddress t" "pi_Banks t" h])
    (use assms that in auto)

lemma miner_pipe_values:
  "pipe_cfg0 EP_TYPE_BULK PIPE_TOKEN_IN 0x83 = 0x93" "pipe_cfg0 EP_TYPE_BULK PIPE_TOKEN_OUT 4 = 0xA4"
  "pipe_cfg0 EP_TYPE_INTERRUPT PIPE_TOKEN_IN 0x82 = 0xD2"
  by (simp_all add: pipe_cfg0_def PIPE_TOKEN_IN_def PIPE_TOKEN_OUT_def)

lemma miner_pipes:
  assumes at: "cursor_at mem (62, p) firmware_descriptors" and u: "pipe_unit D v"
    and hw: "free_pipes (v (hw s))" "p_num (v (hw s)) = 0" and c: "vs_pipes (cdch s)"
  obtains h' where "v h' = miner_registers (v (hw s))"
    "CDC_Host_ConfigurePipes D 62 mem p s = Some (CDC_ENUMERROR_NoError, s\<lparr>hw := h', cdch := miner_interface (cdch s)\<rparr>)"
proof -
  obtain pi po pn pc h0 where f: "loop (cdc_find_turn D mem)
        (\<lparr>f_IN = None, f_OUT = None, f_Notification = None, f_Control = None\<rparr>, (62, p), hw s) =
        Some (Some \<lparr>f_IN = Some pi, f_OUT = Some po, f_Notification = Some pn, f_Control = Some pc\<rparr>, h0)" "v h0 = v (hw s)"
    and b: "bytes_at mem pi 7 = [7, 5, 0x83, 2, 16, 0, 5]" "bytes_at mem po 7 = [7, 5, 4, 2, 16, 0, 5]"
      "bytes_at mem pn 7 = [7, 5, 0x82, 3, 8, 0, 0xFF]" "mem (pc + 2) = 0"
    using firmware_search [OF at u hw] by blast
  have byte: "mem (q + i) = ds ! i" if "bytes_at mem q 7 = ds" "i < 7" for q i ds using that bytes_at_nth [of i 7 mem q] by simp
  let ?ti = "cdc_pipe mem pi EP_TYPE_BULK (DataINPipe (cdch s))" and ?to = "cdc_pipe mem po EP_TYPE_BULK (DataOUTPipe (cdch s))"
    and ?tn = "cdc_pipe mem pn EP_TYPE_INTERRUPT (NotificationPipe (cdch s))"
  note bytes = byte [OF b(1), of 2] byte [OF b(1), of 4] byte [OF b(1), of 5] byte [OF b(2), of 2] byte [OF b(2), of 4] byte [OF b(2), of 5]
    byte [OF b(3), of 2] byte [OF b(3), of 4] byte [OF b(3), of 5]
  have t: "?ti = DataINPipe (miner_interface (cdch s))" "?to = DataOUTPipe (miner_interface (cdch s))"
    "?tn = NotificationPipe (miner_interface (cdch s))"
    using bytes by (simp_all add: cdc_pipe_def miner_interface_def u16_of_bytes_def CDC_TXRX_EPSIZE_def CDC_TX_EPADDR_def CDC_RX_EPADDR_def
        CDC_NOTIFICATION_EPADDR_def CDC_NOTIFICATION_EPSIZE_def)
  have ep: "pi_EndpointAddress ?ti = 0x83" "pi_EndpointAddress ?to = 4" "pi_EndpointAddress ?tn = 0x82"
    "pi_Address ?ti = 0x81" "pi_Address ?to = 2" "pi_Address ?tn = 0x83" "pi_Banks ?ti = 1" "pi_Banks ?to = 1" "pi_Banks ?tn = 1"
    "pi_Type ?ti = EP_TYPE_BULK" "pi_Type ?to = EP_TYPE_BULK" "pi_Type ?tn = EP_TYPE_INTERRUPT"
    "pi_Size ?ti = 16" "pi_Size ?to = 16" "pi_Size ?tn = 8"
    using bytes c by (simp_all add: cdc_pipe_def vs_pipes_def u16_of_bytes_def)
  obtain h1 where c1: "Pipe_ConfigurePipeTable D [?ti] h0 = Some (True, h1)"
    and h1: "v h1 = (v h0)\<lparr>p_num := 1, p_cfg0 := (p_cfg0 (v h0))(1 := 0x93), p_cfg1 := (p_cfg1 (v h0))(1 := 0x13)\<rparr>"
    by (rule pipe_table [OF u, of ?ti 1 "0x10" h0]) (use ep in \<open>auto simp: pipe_size_masks miner_pipe_values BV_def\<close>)
  obtain h2 where c2: "Pipe_ConfigurePipeTable D [?to] h1 = Some (True, h2)"
    and h2: "v h2 = (v h1)\<lparr>p_num := 2, p_cfg0 := (p_cfg0 (v h1))(2 := 0xA4), p_cfg1 := (p_cfg1 (v h1))(2 := 0x13)\<rparr>"
    by (rule pipe_table [OF u, of ?to 2 "0x10" h1]) (use ep in \<open>auto simp: pipe_size_masks miner_pipe_values BV_def\<close>)
  obtain h3 where c3: "Pipe_ConfigurePipeTable D [?tn] h2 = Some (True, h3)"
    and h3: "v h3 = (v h2)\<lparr>p_num := 3, p_cfg0 := (p_cfg0 (v h2))(3 := 0xD2), p_cfg1 := (p_cfg1 (v h2))(3 := 0x03)\<rparr>"
    by (rule pipe_table [OF u, of ?tn 3 0 h2]) (use ep in \<open>auto simp: pipe_size_masks miner_pipe_values BV_def\<close>)
  have "DESCRIPTOR_TYPE mem p = DTYPE_Configuration"
    using cursor_at_Cons(3) [OF at [unfolded firmware_descriptors_def]] by simp
  then have "CDC_Host_ConfigurePipes D 62 mem p s = Some (CDC_ENUMERROR_NoError, s\<lparr>hw := h3, cdch := miner_interface (cdch s)\<rparr>)"
    using f(1) c1 c2 c3 b(4) t [unfolded miner_interface_def]
    by (simp add: CDC_Host_ConfigurePipes_def hw_tryget_def Let_def miner_interface_def del: Pipe_ConfigurePipeTable.simps)
  moreover have "v h3 = miner_registers (v (hw s))" using h1 h2 h3 f(2) by (simp add: miner_registers_def)
  ultimately show thesis by (intro that [of h3])
qed

lemma descriptor_chain:
  assumes "bytes_at mem p 62 = ConfigurationDescriptor"
  shows "cursor_at mem (62, p) firmware_descriptors"
proof -
  have "concat firmware_descriptors = ConfigurationDescriptor" "length ConfigurationDescriptor = 62"
    by (simp_all add: firmware_descriptors_def ConfigurationDescriptor_bytes)
  moreover have "list_all is_descriptor firmware_descriptors" by (simp add: firmware_descriptors_def is_descriptor_def)
  ultimately show ?thesis using assms by (simp add: cursor_at_def del: length_concat)
qed

lemma fetched_descriptor: "bytes_at (mem_put m p ConfigurationDescriptor) p 62 = ConfigurationDescriptor"
proof -
  have "length ConfigurationDescriptor = 62" by (simp add: ConfigurationDescriptor_bytes)
  with bytes_at_mem_put [of m p ConfigurationDescriptor] show ?thesis by simp
qed

text \<open>C11. The host's class driver binds the miner's endpoints, whatever controller it runs on whose pipe
  registers work as documented. With the configuration descriptor of the firmware in memory, the interface of
  \<open>VirtualSerialHost\<close> (pipes 1, 2 and 3, one bank each), the control pipe selected and no other pipe in use,
  \<open>CDC_Host_ConfigurePipes\<close> succeeds: it finds the three endpoints, fills in the
  interface structure, marks it active and sets up pipe 1 for bulk IN transfers with endpoint 3 and pipe 2
  for bulk OUT transfers with endpoint 4, of 16 bytes each, and pipe 3 for interrupt IN transfers with
  endpoint 2, of 8 bytes, each with exactly these values of type, token, endpoint number, size and
  allocation in its registers, and leaves the registers of the other pipes as they were.\<close>

theorem miner_pipes_bound:
  fixes D :: "'h io" and v :: "'h \<Rightarrow> 'r pipe_regs_scheme"
  assumes "pipe_unit D v" "bytes_at mem p 62 = ConfigurationDescriptor" "vs_pipes (cdch s)"
    and "free_pipes (v (hw s))" "p_num (v (hw s)) = 0"
  shows "\<exists>h'. CDC_Host_ConfigurePipes D 62 mem p s = Some (CDC_ENUMERROR_NoError, s\<lparr>hw := h', cdch := miner_interface (cdch s)\<rparr>)
     \<and> v h' = (v (hw s))\<lparr>p_num := 3, p_cfg0 := (p_cfg0 (v (hw s)))(1 := 0x93, 2 := 0xA4, 3 := 0xD2),
         p_cfg1 := (p_cfg1 (v (hw s)))(1 := 0x13, 2 := 0x13, 3 := 0x03)\<rparr>"
  using miner_pipes [OF descriptor_chain [OF assms(2)] assms(1,4,5,3)] by (metis miner_registers_def)

text \<open>Selecting a configuration and setting the line encoding on the bus.\<close>

lemma bus_set_configuration:
  assumes "b_state (hw s) \<noteq> HOST_STATE_Unattached" "b_setup (hw s) = []" "v \<noteq> 0" "miner_bound (hw s)"
  obtains h' rq where "b_state h' = HOST_STATE_Configured" "b_setup h' = []" "miner_bound h'"
    "USB_Host_SetDeviceConfiguration (bus_io reply n) v m s =
       Some (HOST_SENDCONTROL_Successful, m, s\<lparr>USB_ControlRequest := rq, hw := h', USB_Host_ConfigurationNumber := v\<rparr>)"
proof -
  let ?rq = "request (REQDIR_HOSTTODEVICE OR REQTYPE_STANDARD OR REQREC_DEVICE) REQ_SetConfiguration (ucast v) 0 0"
  let ?s = "hw_do (Pipe_SelectPipe (bus_io reply n) PIPE_CONTROLPIPE) (s\<lparr>USB_ControlRequest := ?rq\<rparr>)"
  have hw: "hw ?s = (hw s)\<lparr>p_num := 0\<rparr>" "USB_ControlRequest ?s = ?rq" by (simp_all add: hw_do_def Pipe_SelectPipe_def)
  obtain h' where h': "after_request (hw ?s) h'"
    and c: "USB_Host_SendControlRequest (bus_io reply n) None m ?s = Some (HOST_SENDCONTROL_Successful, m, ?s\<lparr>hw := h'\<rparr>)"
    by (rule bus_request_none [of ?s reply n m]) (use assms hw in \<open>auto simp: request_def\<close>)
  have "b_setup h' = []" "miner_bound h'" using h' bound_after_request [OF h'] hw(1) assms(4) by (simp_all add: after_request_def)
  then show thesis using c assms(3)
    by (intro that [of "h'\<lparr>b_state := HOST_STATE_Configured\<rparr>" ?rq])
      (simp_all add: USB_Host_SetDeviceConfiguration_def control_request_def hw_do_def)
qed

lemma bus_set_line_encoding:
  assumes "b_state (hw s) \<noteq> HOST_STATE_Unattached" "b_setup (hw s) = []" "7 \<le> unat (USB_Host_ControlPipeSize s)" "miner_bound (hw s)"
  obtains h' rq where "b_state h' = b_state (hw s)" "miner_bound h'"
    "line_encoding_bytes (h_LineEncoding (cdch s)) \<in> set (b_out h')"
    "CDC_Host_SetLineEncoding (bus_io firmware_reply n) s =
       Some (HOST_SENDCONTROL_Successful, s\<lparr>USB_ControlRequest := rq, hw := h'\<rparr>)"
proof -
  let ?le = "line_encoding_bytes (h_LineEncoding (cdch s))"
  let ?rq = "request (REQDIR_HOSTTODEVICE OR REQTYPE_CLASS OR REQREC_INTERFACE) CDC_REQ_SetLineEncoding 0
      (ucast (h_ControlInterfaceNumber (cdch s))) 7"
  let ?s = "hw_do (Pipe_SelectPipe (bus_io firmware_reply n) PIPE_CONTROLPIPE) (s\<lparr>USB_ControlRequest := ?rq\<rparr>)"
  have hw: "hw ?s = (hw s)\<lparr>p_num := 0\<rparr>" "USB_ControlRequest ?s = ?rq" "USB_Host_ControlPipeSize ?s = USB_Host_ControlPipeSize s"
    by (simp_all add: hw_do_def Pipe_SelectPipe_def)
  have le: "length ?le = 7" by (simp add: line_encoding_bytes_def bytes_of_u32_def)
  have "firmware_reply (header_bytes ?rq) = []" by (simp add: firmware_reply_def header_bytes_def request_def)
  then obtain h' where h': "after_request (hw ?s) h'" "bytes_at (mem_of ?le) 0 7 \<in> set (b_out h')"
    and c: "USB_Host_SendControlRequest (bus_io firmware_reply n) (Some 0) (mem_of ?le) ?s =
      Some (HOST_SENDCONTROL_Successful, mem_of ?le, ?s\<lparr>hw := h'\<rparr>)"
    by (rule_tac bus_request_out [of ?s firmware_reply "mem_of ?le" 0 n]) (use assms hw in \<open>auto simp: request_def\<close>)
  have "?le \<in> set (b_out h')" using h'(2) bytes_at_mem_of [of ?le] le by simp
  moreover have "b_state h' = b_state (hw s)" "miner_bound h'"
    using h' bound_after_request [OF h'(1)] hw(1) assms(4) by (simp_all add: after_request_def)
  moreover have "?le \<noteq> []" using le by auto
  ultimately show thesis using c le
    by (intro that [of h' ?rq]) (simp_all add: CDC_Host_SetLineEncoding_def cdc_host_request_def control_request_def hw_do_def)
qed

text \<open>The event handler of the program, when the miner has its address.\<close>

definition serves_miner :: "USB_ClassInfo_CDC_Host_t \<Rightarrow> (bus, 'm) vs_host_scheme \<Rightarrow> bool" where
  "serves_miner c s \<longleftrightarrow> b_state (hw s) = HOST_STATE_Configured \<and> USB_Host_ConfigurationNumber s = 1
     \<and> miner_bound (hw s)
     \<and> cdch s = (miner_interface c)\<lparr>h_LineEncoding := \<lparr>BaudRateBPS = 9600, CharFormat = 0, ParityType = 0, DataBits = 8\<rparr>\<rparr>
     \<and> [0x80, 0x25, 0, 0, 0, 0, 8] \<in> set (b_out (hw s))
     \<and> LEDs s = LEDMASK_USB_READY \<and> last (console s) = CDC_Device_Enumerated"

lemma miner_event:
  assumes hw: "b_state (hw s) \<noteq> HOST_STATE_Unattached" "b_setup (hw s) = []" "p_num (hw s) = 0" "free_pipes (hw s)"
    and s: "USB_Host_ControlPipeSize s = 8" "vs_pipes (cdch s)"
  shows "\<exists>t. EVENT_USB_Host_DeviceEnumerationComplete (bus_io firmware_reply 8) s = Some t \<and> serves_miner (cdch s) t"
proof -
  let ?D = "bus_io firmware_reply 8"
  let ?s0 = "s\<lparr>LEDs := LEDMASK_USB_ENUMERATING\<rparr>"
  obtain h1 where h1: "after_request ((hw s)\<lparr>p_num := 0\<rparr>) h1"
    and c1: "USB_Host_GetDeviceConfigDescriptor ?D 1 0 512 (stack_mem s) ?s0 =
       Some (HOST_GETCONFIG_Successful, Some 62, mem_put (stack_mem s) 0 ConfigurationDescriptor,
         ?s0\<lparr>USB_ControlRequest := get_configuration 62, hw := h1\<rparr>)"
    by (rule firmware_fetch [of ?s0 512 0 "stack_mem s"]) (use hw in auto)
  let ?s1 = "?s0\<lparr>USB_ControlRequest := get_configuration 62, hw := h1\<rparr>"
  have f1: "free_pipes h1" "p_num h1 = 0" "b_state h1 = b_state (hw s)" "b_setup h1 = []"
    using h1 free_after_request [OF h1] hw by (simp_all add: after_request_def)
  obtain h2 where "h2 = miner_registers h1"
    and c2: "CDC_Host_ConfigurePipes ?D 62 (mem_put (stack_mem s) 0 ConfigurationDescriptor) 0 ?s1 =
       Some (CDC_ENUMERROR_NoError, ?s1\<lparr>hw := h2, cdch := miner_interface (cdch s)\<rparr>)"
    by (rule miner_pipes [OF descriptor_chain [OF fetched_descriptor [of "stack_mem s" 0]] bus_pipe_unit, of ?s1 firmware_reply 8]) (use f1 s in auto)
  then have h2: "b_state h2 = b_state (hw s)" "b_setup h2 = []" "miner_bound h2" using f1 by (simp_all add: miner_registers_def miner_bound_def)
  let ?s2 = "?s1\<lparr>hw := h2, cdch := miner_interface (cdch s)\<rparr>"
  obtain h3 rq where h3: "b_state h3 = HOST_STATE_Configured" "b_setup h3 = []" "miner_bound h3"
    and c3: "USB_Host_SetDeviceConfiguration ?D 1 (stack_mem s) ?s2 =
       Some (HOST_SENDCONTROL_Successful, stack_mem s, ?s2\<lparr>USB_ControlRequest := rq, hw := h3, USB_Host_ConfigurationNumber := 1\<rparr>)"
    by (rule bus_set_configuration [of ?s2 1 firmware_reply 8 "stack_mem s"]) (use h2 hw in auto)
  let ?le = "\<lparr>BaudRateBPS = 9600, CharFormat = 0, ParityType = 0, DataBits = 8\<rparr>"
  let ?c = "(miner_interface (cdch s))\<lparr>h_LineEncoding := ?le\<rparr>"
  let ?s3 = "?s2\<lparr>USB_ControlRequest := rq, hw := h3, USB_Host_ConfigurationNumber := 1, cdch := ?c\<rparr>"
  obtain h4 rq' where h4: "b_state h4 = HOST_STATE_Configured" "miner_bound h4" "line_encoding_bytes ?le \<in> set (b_out h4)"
    and c4: "CDC_Host_SetLineEncoding ?D ?s3 = Some (HOST_SENDCONTROL_Successful, ?s3\<lparr>USB_ControlRequest := rq', hw := h4\<rparr>)"
    by (rule bus_set_line_encoding [of ?s3 8]) (use h3 s in auto)
  have le: "line_encoding_bytes ?le = [0x80, 0x25, 0, 0, 0, 0, 8]" by (simp add: line_encoding_bytes_def bytes_of_u32_def)
  have "EVENT_USB_Host_DeviceEnumerationComplete ?D s =
      Some (announce CDC_Device_Enumerated LEDMASK_USB_READY (?s3\<lparr>USB_ControlRequest := rq', hw := h4\<rparr>))"
    using c1 c2 c3 c4 by (simp add: EVENT_USB_Host_DeviceEnumerationComplete_def Let_def)
  moreover have "serves_miner (cdch s) (announce CDC_Device_Enumerated LEDMASK_USB_READY (?s3\<lparr>USB_ControlRequest := rq', hw := h4\<rparr>))"
    using h3 h4 le by (simp add: serves_miner_def announce_def)
  ultimately show ?thesis by blast
qed

text \<open>As long as no device is configured, the program does nothing but run the USB task.\<close>

lemma main_turn_unconfigured:
  assumes "b_state (hw s) \<noteq> HOST_STATE_Configured"
  shows "main_turn (bus_io reply n) s = H_USB_USBTask (bus_io reply n) (VirtualSerialHost (bus_io reply n)) s"
  using assms by (simp add: main_turn_def CDCHost_Task_def CDC_Host_USBTask_def cdch_down_def hw_get_def)

interpretation vs: firmware_loop "main_turn (bus_io firmware_reply 8)" "VirtualSerialHost (bus_io firmware_reply 8)"
  by unfold_locales (rule main_turn_unconfigured)

lemma more_cdch: "host_core.more s = host_core.more t \<Longrightarrow> cdch s = cdch (t :: ('h, 'm) cdc_host_scheme)"
  by (cases s; cases t) simp

text \<open>
  A complete run, on the bus of \<open>Usb_Enumeration\<close> with the answers \<open>firmware_reply\<close> behind it, an ideal line on
  which every packet is accepted at once. From the moment the controller reports an attached device, whatever
  the delay counters, the pipes and the buffers hold, the main loop of \<open>VirtualSerialHost\<close> goes through the
  delays, the two bus resets and the control requests and comes to the state in which configuration 1 is
  selected, the pipes are bound as above, the line encoding 9600 8N1 has been sent to the device, and the
  program reports success.
\<close>

lemma miner_served:
  assumes "at HOST_STATE_Powered x s" "vs_pipes (cdch s)"
  shows "\<exists>t. reaches (main_turn (bus_io firmware_reply 8)) s t \<and> serves_miner (cdch s) t"
proof -
  let ?D = "bus_io firmware_reply 8"
  obtain u where u: "reaches (main_turn ?D) s u" "at HOST_STATE_Default_PostAddressSet x u" "free_pipes (hw u)" "USB_Host_ControlPipeSize u = 8"
    using vs.firmware_addressed [OF assms(1)] by blast
  have c: "cdch u = cdch s" using at_more [OF u(2)] at_more [OF assms(1)] by (intro more_cdch) simp
  let ?v = "u\<lparr>hw := (hw u)\<lparr>b_state := HOST_STATE_Addressed\<rparr>\<rparr>"
  obtain t where t: "EVENT_USB_Host_DeviceEnumerationComplete ?D ?v = Some t" "serves_miner (cdch s) t"
    using miner_event [of ?v] u assms(2) c by (auto simp: at_def)
  have "host_switch ?D (VirtualSerialHost ?D) HOST_STATE_Default_PostAddressSet u = Some (HOST_ENUMERROR_NoError, 0, t)"
    using t(1) by (simp add: host_switch_def hw_do_def USB_Host_SetDeviceAddress_def VirtualSerialHost_def Let_def)
  from vs.bus_next_state [OF u(2) _ this] have "reaches (main_turn ?D) u (t\<lparr>hw := (hw t)\<lparr>p_num := 0\<rparr>\<rparr>)" by simp
  moreover have "serves_miner (cdch s) (t\<lparr>hw := (hw t)\<lparr>p_num := 0\<rparr>\<rparr>)" using t(2) by (simp add: serves_miner_def)
  ultimately show ?thesis using reaches_trans [OF u(1)] by blast
qed

definition idle_vs :: "bus vs_host" where
  "idle_vs = \<lparr>hw = hw idle_host, USB_IsInitialized = True, USB_ControlRequest = request 0 0 0 0 0, USB_Device_ConfigurationNumber = 0,
     USB_Device_CurrentlySelfPowered = False, USB_Device_RemoteWakeupEnabled = False, SREG_I = True,
     USB_Host_ConfigurationNumber = 0, USB_Host_ControlPipeSize = 64, WaitMSRemaining = 0, PostWaitState = 0, stack_mem = \<lambda>_. 0,
     cdch = VirtualSerial_Host_Interface, LEDs = LEDMASK_USB_NOTREADY, console = []\<rparr>"

theorem miner_pipes_bound_witness:
  "\<exists>h'. CDC_Host_ConfigurePipes (bus_io (\<lambda>_. []) 8) 62 (mem_put (\<lambda>_. 0) 0 ConfigurationDescriptor) 0 idle_vs =
       Some (CDC_ENUMERROR_NoError, idle_vs\<lparr>hw := h', cdch := miner_interface VirtualSerial_Host_Interface\<rparr>)
     \<and> p_cfg0 h' 1 = 0x93 \<and> p_cfg1 h' 1 = 0x13 \<and> p_cfg0 h' 2 = 0xA4 \<and> p_cfg0 h' 3 = 0xD2"
proof -
  have "vs_pipes (cdch idle_vs)" "free_pipes (hw idle_vs)" "p_num (hw idle_vs) = 0"
    by (simp_all add: vs_pipes_def idle_vs_def VirtualSerial_Host_Interface_def idle_host_def free_pipes_def)
  from miner_pipes_bound [OF bus_pipe_unit fetched_descriptor this] show ?thesis by (auto simp: idle_vs_def)
qed

text \<open>C37. A pipe that cannot be configured is not reported: \<open>CDC_Host_ConfigurePipes\<close> returns \<open>false\<close>, which is
  the code for success, instead of the documented \<open>CDC_ENUMERROR_PipeConfigurationFailed\<close>, and leaves the
  interface inactive. With a data pipe number the controller does not have this happens, on every controller
  whose pipe registers work as documented, for a device that is otherwise all right, the miner.\<close>

theorem pipe_failure_unreported:
  fixes D :: "'h io" and v :: "'h \<Rightarrow> 'r pipe_regs_scheme"
  assumes "pipe_unit D v" "bytes_at mem p 62 = ConfigurationDescriptor" "free_pipes (v (hw s))" "p_num (v (hw s)) = 0"
    and "PIPE_TOTAL_PIPES \<le> pi_Address (DataINPipe (cdch s)) AND PIPE_EPNUM_MASK"
  shows "\<exists>s'. CDC_Host_ConfigurePipes D 62 mem p s = Some (CDC_ENUMERROR_NoError, s') \<and> \<not> IsActive (cdch s')"
proof -
  note at = descriptor_chain [OF assms(2)]
  obtain pi po pn pc h' where f: "loop (cdc_find_turn D mem)
        (\<lparr>f_IN = None, f_OUT = None, f_Notification = None, f_Control = None\<rparr>, (62, p), hw s) =
        Some (Some \<lparr>f_IN = Some pi, f_OUT = Some po, f_Notification = Some pn, f_Control = Some pc\<rparr>, h')"
    using firmware_search [OF at assms(1,3,4)] by blast
  have "DESCRIPTOR_TYPE mem p = DTYPE_Configuration"
    using cursor_at_Cons(3) [OF at [unfolded firmware_descriptors_def]] by simp
  moreover have "pi_Address (DataINPipe (cdch s)) \<noteq> 0" using assms(5) by auto
  ultimately show ?thesis using f assms(5)
    by (simp add: CDC_Host_ConfigurePipes_def hw_tryget_def Let_def cdc_pipe_def Pipe_ConfigurePipe_def)
qed

theorem pipe_failure_unreported_witness:
  "\<exists>s'. CDC_Host_ConfigurePipes (bus_io firmware_reply 8) 62 (mem_put (\<lambda>_. 0) 0 ConfigurationDescriptor) 0
       (idle_vs\<lparr>cdch := VirtualSerial_Host_Interface\<lparr>DataINPipe := (DataINPipe VirtualSerial_Host_Interface)\<lparr>pi_Address := 0x87\<rparr>\<rparr>\<rparr>)
     = Some (CDC_ENUMERROR_NoError, s') \<and> \<not> IsActive (cdch s')"
  by (rule pipe_failure_unreported [OF bus_pipe_unit fetched_descriptor]) (auto simp: idle_vs_def idle_host_def free_pipes_def)

end
