(* ===== verification/Spec2Isabelle.thy ===== *)
theory Spec2Isabelle
  imports Host_Link Xilinx_Main Usb_Transfers Ring_Interrupts Virtual_Serial_Host
begin

text \<open>
  \<^bold>\<open>MiniMiner One\<close>: a one-chip Bitcoin miner on a USB stick.

  \<^bold>\<open>The program.\<close> An ATmega32U2 (\<open>src/firmware/LUFA-120730/Projects/AvalonBTC\<close>) appears to the host as a
  USB serial port, takes 45-byte work frames from it, precalculates three SHA-256 rounds, shifts the
  work into an Avalon ASIC over two wires, collects the nonce report from the SPI unit in an
  interrupt, and sends it back as a status message; a 16 s timer ends work without a result. A second
  firmware for the same controller (\<open>Projects/XilinxFpgaProg\<close>) configures an FPGA: it decodes frames
  from the serial port into configuration, SPI and USART traffic and forwards what the USART
  receives. Both are built on the device half of LUFA for AVR8 (\<open>src/firmware/LUFA-120730/LUFA\<close>). On
  the host side a bfgminer driver (\<open>src/bfgminer-driver\<close>) detects the device, sends it work and
  submits the nonces. The library also has a host half, with which a controller enumerates devices and
  talks to them; its program for serial ports, \<open>Demos/Host/ClassDriver/VirtualSerialHost\<close>, is one a
  miner can be plugged into.

  \<^bold>\<open>How the model is built.\<close> Machine integers are words of their width, C structures are records, the
  variables of a C file are a record that its functions take and return. The hardware is a parameter
  \<open>D\<close> of type \<open>'h io\<close>: a state \<open>'h\<close> with functions that read and write a register, about which nothing
  is assumed unless a theorem says so, so that every theorem covers every behaviour of the USB
  controller, the SPI unit and the pins. Port latches the firmware only writes are variables, and
  every write to a port and every delay is recorded in \<open>pins\<close>. Busy-waiting loops are \<open>loop\<close>, a
  partial function whose value is \<open>None\<close> when the code does not return; where a theorem says that a
  loop ends, it says so as an equation with \<open>Some\<close>. Loops bounded by the code are total functions;
  the model has no fuel. bfgminer and the operating system are the parameter record \<open>host\<close>.

  \<^bold>\<open>Theories and sources.\<close>
  \<^item> \<open>Prelude\<close>: words as bytes, lists of bytes through a buffer, the loop combinator and its rules.
  \<^item> \<open>Avr_Registers\<close>: register names, bit numbers, register access and the busy wait.
  \<^item> \<open>Ring_Buffer\<close> (\<open>RingBuffer.h\<close>): the ring buffer; the locale \<open>byte_queue\<close> states what its clients
    rely on and is interpreted on the ring buffer as \<open>ring\<close>. \<open>Ring_Interrupts\<close>: the same operations
    statement by statement, with the interrupt lock and an interrupt between any two statements.
  \<^item> \<open>Clock_Timer\<close> (\<open>clock.c\<close>, \<open>timer.c\<close>), \<open>Ports\<close> (the two \<open>LEDs.h\<close>), \<open>Avalon\<close> (\<open>avalon.c\<close>), \<open>Spi_Usart\<close>
    (\<open>SPI_AVR8.h\<close>, \<open>Serial_AVR8.h\<close>, \<open>Serial_AVR8.c\<close>).
  \<^item> \<open>Usb_Endpoint\<close> (\<open>Endpoint_AVR8.h/.c\<close>), \<open>Usb_Stream\<close> (\<open>EndpointStream_AVR8.c\<close> and its templates),
    \<open>Usb_Core\<close> (\<open>USBController_AVR8.h/.c\<close>, \<open>Device_AVR8.h/.c\<close>, \<open>USBInterrupt_AVR8.h\<close>), \<open>Usb_Request\<close>
    (\<open>DeviceStandardReq.c\<close>, \<open>USBTask.c\<close>, \<open>USBInterrupt_AVR8.c\<close>), \<open>Cdc_Class\<close> (\<open>CDCClassDevice.c\<close>): the
    USB stack. What the stack leaves alone of the application's variables is proved once, in the
    locales \<open>usb_client\<close> and \<open>cdc_client\<close>, which both firmwares interpret.
  \<^item> \<open>Descriptors\<close> (\<open>Descriptors.c/.h\<close>): the tables as bytes and the callback that selects one.
  \<^item> \<open>Endpoint_Tap\<close>: a device with a record of the bytes that cross an endpoint, and the locale
    \<open>usb_sender\<close> of the sending loops of both main programs; \<open>Usb_Transfers\<close>: what streams and
    descriptor requests put on the bus. \<open>Byte_Stream\<close>: the locale \<open>byte_stream\<close> of resumable transfers,
    interpreted on the endpoint and on the pipe streams.
  \<^item> \<open>Application\<close> (\<open>AvalonBTC/application.c\<close>), \<open>Miner_Main\<close> (\<open>AvalonBTC/main.c\<close>): the miner firmware. The
    main loop with an interrupt, a clock tick or a hardware change between any two of its statements
    is the step relation \<open>step\<close>, its states from power-on are \<open>reachable\<close>, its runs with their ticks counted
    are \<open>timed\<close>; the locale \<open>miner_output\<close> lifts a property of the application to all steps but a
    reception and a tick, \<open>miner_operations\<close> to all but a tick, \<open>miner_property\<close> to all.
  \<^item> \<open>Xilinx\<close> (\<open>XilinxProtocol.c\<close>, \<open>serial.c\<close>, \<open>XilinxFpgaProg/application.c\<close>), \<open>Xilinx_Frames\<close> (the theory
    of its frames), \<open>Xilinx_Main\<close> (\<open>XilinxFpgaProg.c\<close>): the FPGA programmer, with \<open>x_step\<close> and
    \<open>x_reachable\<close>.
  \<^item> \<open>Host_Driver\<close> (\<open>driver-miniminer1.c/.h\<close>), \<open>Host_Link\<close>: the driver, alone and with the firmware. What the
    two rely on of the line between them is the hypothesis \<open>serial_line\<close>: bytes arrive in order, at any
    of the driver's waits.
  \<^item> \<open>Config_Parser\<close> (\<open>ConfigDescriptors.c/.h\<close>), \<open>Usb_Pipe\<close> (\<open>Pipe_AVR8.h/.c\<close>), \<open>Pipe_Stream\<close>
    (\<open>PipeStream_AVR8.c\<close>, \<open>Template_Pipe_RW.c\<close>), \<open>Usb_Host\<close> (\<open>Host_AVR8.h/.c\<close>, \<open>HostStandardReq.c\<close> and the host
    branches of the controller, interrupt and task files), \<open>Cdc_Host\<close> (\<open>CDCClassHost.c/.h\<close>): the host half
    of the stack, in the configuration of a host-only project. \<open>Pipe_Registers\<close>: what the data sheet
    says of the pipe registers (\<open>pipe_unit\<close>, a hypothesis on \<open>D\<close>), and what configuring pipes leaves in them.
    \<open>Usb_Enumeration\<close>: requests with any controller; for witnesses and an example run, a concrete bus with
    a device that answers at once, and the locales \<open>bus_loop\<close> and \<open>firmware_loop\<close> of main loops that
    enumerate it; \<open>Virtual_Serial_Host\<close> (\<open>VirtualSerialHost.c\<close>): the program, with which they are
    interpreted.

  \<^bold>\<open>What is shown.\<close>
  \<^item> Memory and state: ring buffers never leave their arrays, whatever is inserted or removed; in every
    reachable state of the miner its buffers and work unit are in order and working implies an armed
    timer; in every reachable state of the programmer its three buffers are in order; descriptor
    requests disclose nothing but the descriptor they name; the interrupt lock of the ring buffer keeps
    it in order with interrupts inside its operations; whatever a device answers, a host that fetches
    its configuration writes only into the buffer it was given.
  \<^item> Function: the ring buffer is a bounded queue; the command interpreter, the service routine and the
    frame decoder implement abstract specifications; the compiled precalculation equals the reference
    rounds kept beside it; what a receiver reads from the two ASIC wires is the work; timers are exact
    to one tick across the wrap-around; bytes cross the USB endpoints in order, none lost or repeated;
    interrupted streams of endpoints and pipes resume where they stopped; searches in a configuration
    descriptor find what a search in the list of descriptors finds.
  \<^item> Termination: waiting for an endpoint, the SPI report, the configuration start and the endpoint size
    computation (for every size a descriptor can ask for); in every run of the firmware a service call more
    than 16 s after a work frame ends that work, unless a later one was executed within the last 16 s; a search in a
    configuration descriptor hangs exactly on a descriptor of length 0.
  \<^item> End to end: the driver recognises the firmware; a report of the ASIC becomes exactly one nonce submitted
    for the work the driver sent, and work without a result is booked as searched, as long as bfgminer
    asks for no new work and the messages, which may come at any poll, come whole; what the USART of the
    programmer receives goes to the host in one frame; the class driver of the host binds the endpoints the
    firmware serves, with the right types, directions and sizes, on every controller whose pipe registers
    work as documented. As an example, not a property, \<open>VirtualSerialHost\<close> is run through the whole
    enumeration on the concrete bus of \<open>Usb_Enumeration\<close>, which accepts every packet at once.
  \<^item> Error paths: overrun of a ring buffer, frames of 254 and 255 bytes, empty select frames, stray
    payloads, lost reports, stale nonces, the status line of an 8-character product, the baud rate
    divisor, the miscounted product string, the state after configuration 0, the second LED; on the host
    side pipes that cannot be configured, the device status that is not read, the direction of a bound
    endpoint.

  \<^bold>\<open>Not modelled.\<close> LUFA's OTG mode, its classes other than CDC and the HID report parser, its other
  processors, its other demos, projects and bootloaders: neither firmware, nor a host that serves the
  miner, contains them. The start-up of \<open>VirtualSerialHost\<close>, which is for another board. The stdio
  streams behind \<open>debug\<close>; the analogue behaviour of the board; log messages of the driver; the bfgminer
  core. Interrupts inside a ring buffer operation are in \<open>Ring_Interrupts\<close> only; in the step relations of
  the two firmwares an operation is one statement, which that theory justifies for a main program on
  one side of a buffer and an interrupt on the other. Reading the count of the output buffer and testing
  it are one step in the main loops; no interrupt handler writes to that buffer.
\<close>

end
